(* ===== verification/Prelude.thy ===== *)
theory Prelude
  imports Main "HOL-Library.Word" "HOL-Library.AList" "HOL-Library.Char_ord"
begin

text \<open>
  What every theory of the development shares: the machine integers of the
  code under their Rust names, the saturating and clamping operations of the
  Rust standard library on them, the integer square root, the map and vector
  operations of the store (a \<^verbatim>\<open>HashMap\<close> is an association list with distinct
  keys, a \<^verbatim>\<open>Vec\<close> a list), and the string operations the code uses on UTF-8
  byte strings.
\<close>

unbundle bit_operations_syntax

section \<open>Machine integers\<close>

type_synonym u8 = "8 word"
type_synonym u16 = "16 word"
type_synonym u32 = "32 word"
type_synonym u64 = "64 word"
type_synonym u128 = "128 word"

text \<open>Facts about the saturating operations, for the proofs on counts.\<close>

named_theorems word_nat "reading a word operation as an operation on nat"

text \<open>\<^verbatim>\<open>saturating_add\<close>, \<^verbatim>\<open>saturating_sub\<close> and \<^verbatim>\<open>saturating_mul\<close> of the
  unsigned integers: the exact result, cut off at the ends of the range.\<close>

definition saturating_add :: "'a::len word \<Rightarrow> 'a word \<Rightarrow> 'a word" where
  "saturating_add a b =
     (if unat a + unat b < 2 ^ LENGTH('a) then a + b else - 1)"

definition saturating_sub :: "'a::len word \<Rightarrow> 'a word \<Rightarrow> 'a word" where
  "saturating_sub a b = (if b \<le> a then a - b else 0)"

definition saturating_mul :: "'a::len word \<Rightarrow> 'a word \<Rightarrow> 'a word" where
  "saturating_mul a b =
     (if unat a * unat b < 2 ^ LENGTH('a) then a * b else - 1)"

text \<open>\<^verbatim>\<open>div_ceil\<close> of the unsigned integers: the quotient, plus one when the
  remainder is not zero.\<close>

definition div_ceil :: "'a::len word \<Rightarrow> 'a word \<Rightarrow> 'a word" where
  "div_ceil a b = (if a mod b = 0 then a div b else a div b + 1)"

definition clamp :: "'a::linorder \<Rightarrow> 'a \<Rightarrow> 'a \<Rightarrow> 'a" where
  "clamp x lo hi = (if x < lo then lo else if hi < x then hi else x)"

lemma clamp_bounds: "lo \<le> hi \<Longrightarrow> lo \<le> clamp x lo hi \<and> clamp x lo hi \<le> hi"
  by (auto simp: clamp_def)

lemma clamp_id [simp]: "lo \<le> x \<Longrightarrow> x \<le> hi \<Longrightarrow> clamp x lo hi = x"
  by (auto simp: clamp_def)

lemma unat_max_word: "unat (- 1 :: 'a::len word) = 2 ^ LENGTH('a) - 1"
  by (simp add: unsigned_minus_1_eq_mask mask_eq_exp_minus_1)

lemma unat_saturating_add [word_nat]:
  "unat (saturating_add a b) = min (unat a + unat b) (2 ^ LENGTH('a) - 1)"
  for a b :: "'a::len word"
  by (auto simp: saturating_add_def unat_max_word unat_word_ariths min_def)

lemma unat_saturating_sub [word_nat]:
  "unat (saturating_sub a b) = unat a - unat b"
  by (auto simp: saturating_sub_def unat_sub word_le_nat_alt)

lemma unat_saturating_mul [word_nat]:
  "unat (saturating_mul a b) = min (unat a * unat b) (2 ^ LENGTH('a) - 1)"
  for a b :: "'a::len word"
proof (cases "unat a * unat b < 2 ^ LENGTH('a)")
  case True
  then show ?thesis by (simp add: saturating_mul_def unat_word_ariths)
next
  case False
  then show ?thesis
    unfolding saturating_mul_def unat_max_word if_not_P [OF False]
    by (subst min_absorb2) linarith+
qed

lemma unat_add_exact:
  "unat a + unat b < 2 ^ LENGTH('a) \<Longrightarrow> unat (a + b) = unat a + unat b"
  for a b :: "'a::len word"
  by (simp add: unat_word_ariths)

lemma unat_mult_exact:
  "unat a * unat b < 2 ^ LENGTH('a) \<Longrightarrow> unat (a * b) = unat a * unat b"
  for a b :: "'a::len word"
  by (simp add: unat_word_ariths)

lemma unat_of_nat_exact: "n < 2 ^ LENGTH('a) \<Longrightarrow> unat (of_nat n :: 'a::len word) = n"
  by (simp add: unat_of_nat)

lemma unat_u64_bound: "unat (a :: u64) < 18446744073709551616"
  using unsigned_less [of a] by simp

lemma unat_u32_bound: "unat (a :: u32) < 4294967296"
  using unsigned_less [of a] by simp

text \<open>\<^verbatim>\<open>isqrt\<close> of the unsigned integers, on the natural number a word reads as:
  two bits of the argument give one bit of the root.\<close>

fun isqrt :: "nat \<Rightarrow> nat" where
  "isqrt n =
     (if n = 0 then 0
      else let r = 2 * isqrt (n div 4) in
        if (r + 1) * (r + 1) \<le> n then r + 1 else r)"

declare isqrt.simps [simp del]

lemma isqrt_bounds: "isqrt n * isqrt n \<le> n \<and> n < (isqrt n + 1) * (isqrt n + 1)"
proof (induction n rule: isqrt.induct)
  case (1 n)
  show ?case
  proof (cases "n = 0")
    case True
    then show ?thesis by (simp add: isqrt.simps)
  next
    case False
    define q where "q = isqrt (n div 4)"
    have ih: "q * q \<le> n div 4" "n div 4 < (q + 1) * (q + 1)"
      using 1 False by (auto simp: q_def)
    have lo: "4 * (q * q) \<le> n" using ih(1) by linarith
    have "n div 4 + 1 \<le> (q + 1) * (q + 1)" using ih(2) by linarith
    hence hi: "n < 4 * ((q + 1) * (q + 1))" by linarith
    have "isqrt n = (if (2 * q + 1) * (2 * q + 1) \<le> n then 2 * q + 1 else 2 * q)"
      using False by (subst isqrt.simps) (simp add: q_def Let_def)
    with lo hi show ?thesis by (auto simp: algebra_simps)
  qed
qed

lemma isqrt_square_le: "isqrt n * isqrt n \<le> n"
  using isqrt_bounds [of n] by blast

lemma isqrt_unique: "r * r \<le> n \<Longrightarrow> n < (r + 1) * (r + 1) \<Longrightarrow> isqrt n = r"
proof -
  assume r: "r * r \<le> n" "n < (r + 1) * (r + 1)"
  let ?q = "isqrt n"
  have q: "?q * ?q \<le> n" "n < (?q + 1) * (?q + 1)" using isqrt_bounds [of n] by auto
  have "r * r < (?q + 1) * (?q + 1)" "?q * ?q < (r + 1) * (r + 1)" using r q by linarith+
  hence "r < ?q + 1" "?q < r + 1"
    by (meson mult_le_mono not_less)+
  then show ?thesis by simp
qed

section \<open>Vectors\<close>

text \<open>\<^verbatim>\<open>sort_by_key\<close> (stable), \<^verbatim>\<open>retain\<close> and \<^verbatim>\<open>truncate\<close> of a \<^verbatim>\<open>Vec\<close> are
  \<open>sort_key\<close>, \<open>filter\<close> and \<open>take\<close>; \<^verbatim>\<open>iter().find\<close> is \<open>find\<close>.\<close>

lemma find_Some_filter: "find P xs = Some x \<Longrightarrow> x \<in> set xs \<and> P x"
  by (auto simp: find_Some_iff)

lemma find_None_all: "find P xs = None \<longleftrightarrow> (\<forall>x\<in>set xs. \<not> P x)"
  by (auto simp: find_None_iff)

text \<open>\<open>unique_by k xs\<close>: no two positions of \<open>xs\<close> have the same key \<open>k\<close>, the
  form the uniqueness invariants of the store take on its vectors.\<close>

definition unique_by :: "('a \<Rightarrow> 'k) \<Rightarrow> 'a list \<Rightarrow> bool" where
  "unique_by k xs = distinct (map k xs)"

lemma unique_by_Nil [simp]: "unique_by k []"
  by (simp add: unique_by_def)

lemma unique_by_append [intro]:
  "unique_by k xs \<Longrightarrow> k x \<notin> k ` set xs \<Longrightarrow> unique_by k (xs @ [x])"
  by (auto simp: unique_by_def)

lemma unique_by_filter [intro]: "unique_by k xs \<Longrightarrow> unique_by k (filter P xs)"
  by (simp add: unique_by_def distinct_map_filter)

lemma unique_by_eq:
  "unique_by k xs \<Longrightarrow> x \<in> set xs \<Longrightarrow> y \<in> set xs \<Longrightarrow> k x = k y \<Longrightarrow> x = y"
  by (auto simp: unique_by_def distinct_map inj_on_def)

section \<open>Hash maps\<close>

text \<open>A \<^verbatim>\<open>HashMap\<close> is an association list with distinct keys. The iteration
  order of a Rust map is unspecified; the order of the list is one choice of
  it, and the results that depend on the order are stated for every list.\<close>

type_synonym ('k, 'v) hashmap = "('k \<times> 'v) list"

definition hm_get :: "('k, 'v) hashmap \<Rightarrow> 'k \<Rightarrow> 'v option" where
  "hm_get m k = map_of m k"

definition hm_insert :: "'k \<Rightarrow> 'v \<Rightarrow> ('k, 'v) hashmap \<Rightarrow> ('k, 'v) hashmap" where
  "hm_insert k v m = AList.update k v m"

definition hm_remove :: "'k \<Rightarrow> ('k, 'v) hashmap \<Rightarrow> ('k, 'v) hashmap" where
  "hm_remove k m = filter (\<lambda>(k', _). k' \<noteq> k) m"

definition hm_retain :: "('k \<Rightarrow> 'v \<Rightarrow> bool) \<Rightarrow> ('k, 'v) hashmap \<Rightarrow> ('k, 'v) hashmap" where
  "hm_retain P m = filter (\<lambda>(k, v). P k v) m"

definition hm_values :: "('k, 'v) hashmap \<Rightarrow> 'v list" where
  "hm_values m = map snd m"

definition hm_ok :: "('k, 'v) hashmap \<Rightarrow> bool" where
  "hm_ok m = distinct (map fst m)"

text \<open>\<open>hm_keyed f m\<close>: a map with distinct keys that files every value under
  its own key \<open>f v\<close>, which is how the store keeps each of its tables.\<close>

definition hm_keyed :: "('v \<Rightarrow> 'k) \<Rightarrow> ('k, 'v) hashmap \<Rightarrow> bool" where
  "hm_keyed f m = (hm_ok m \<and> (\<forall>(k, v)\<in>set m. k = f v))"

lemma hm_get_empty [simp]: "hm_get [] k = None"
  by (simp add: hm_get_def)

lemma hm_get_insert: "hm_get (hm_insert k v m) k' = (if k' = k then Some v else hm_get m k')"
  by (simp add: hm_get_def hm_insert_def update_conv')

lemma hm_get_insert_same [simp]: "hm_get (hm_insert k v m) k = Some v"
  by (simp add: hm_get_insert)

lemma hm_get_remove: "hm_get (hm_remove k m) k' = (if k' = k then None else hm_get m k')"
  by (induction m) (auto simp: hm_get_def hm_remove_def)

lemma hm_get_retain:
  "hm_ok m \<Longrightarrow> hm_get (hm_retain P m) k =
     (case hm_get m k of None \<Rightarrow> None | Some v \<Rightarrow> if P k v then Some v else None)"
  unfolding hm_get_def hm_retain_def hm_ok_def
  by (induction m) (auto split: option.splits simp: map_of_eq_None_iff image_iff
      intro: rev_image_eqI)

lemma hm_ok_Nil [simp]: "hm_ok []"
  by (simp add: hm_ok_def)

lemma hm_ok_insert [intro]: "hm_ok m \<Longrightarrow> hm_ok (hm_insert k v m)"
  by (simp add: hm_ok_def hm_insert_def distinct_update)

lemma hm_ok_filter: "hm_ok m \<Longrightarrow> hm_ok (filter P m)"
  by (simp add: hm_ok_def distinct_map_filter)

lemma hm_ok_remove [intro]: "hm_ok m \<Longrightarrow> hm_ok (hm_remove k m)"
  by (simp add: hm_remove_def hm_ok_filter)

lemma hm_ok_retain [intro]: "hm_ok m \<Longrightarrow> hm_ok (hm_retain P m)"
  by (simp add: hm_retain_def hm_ok_filter)

lemma hm_get_iff: "hm_ok m \<Longrightarrow> hm_get m k = Some v \<longleftrightarrow> (k, v) \<in> set m"
  by (simp add: hm_get_def hm_ok_def map_of_eq_Some_iff)

lemma hm_get_mem: "hm_get m k = Some v \<Longrightarrow> (k, v) \<in> set m"
  by (simp add: hm_get_def map_of_SomeD)

lemma hm_values_get: "hm_ok m \<Longrightarrow> v \<in> set (hm_values m) \<longleftrightarrow> (\<exists>k. hm_get m k = Some v)"
  by (force simp: hm_get_iff hm_values_def image_iff)

lemma hm_keyed_ok: "hm_keyed f m \<Longrightarrow> hm_ok m"
  by (simp add: hm_keyed_def)

lemma hm_keyed_Nil [simp]: "hm_keyed f []"
  by (simp add: hm_keyed_def)

lemma hm_keyed_get: "hm_keyed f m \<Longrightarrow> hm_get m k = Some v \<Longrightarrow> f v = k"
  by (fastforce simp: hm_keyed_def dest: hm_get_mem)

lemma hm_keyed_values:
  "hm_keyed f m \<Longrightarrow> v \<in> set (hm_values m) \<longleftrightarrow> hm_get m (f v) = Some v"
  using hm_keyed_get [of f m] by (auto simp: hm_values_get [OF hm_keyed_ok])

lemma hm_keyed_unique: "hm_keyed f m \<Longrightarrow> unique_by f (hm_values m)"
proof -
  assume k: "hm_keyed f m"
  have "map f (hm_values m) = map fst m"
    using k by (auto simp: hm_values_def hm_keyed_def)
  with k show ?thesis by (simp add: unique_by_def hm_keyed_def hm_ok_def)
qed

lemma set_hm_insert: "hm_ok m \<Longrightarrow>
   set (hm_insert k v m) = {(k', v') \<in> set m. k' \<noteq> k} \<union> {(k, v)}"
proof -
  assume ok: "hm_ok m"
  have ok': "hm_ok (hm_insert k v m)" using ok by blast
  show ?thesis
    by (auto simp: hm_get_iff [OF ok, symmetric] hm_get_iff [OF ok', symmetric] hm_get_insert
        split: if_splits)
qed

lemma hm_keyed_insert [intro]: "hm_keyed f m \<Longrightarrow> f v = k \<Longrightarrow> hm_keyed f (hm_insert k v m)"
  by (auto simp: hm_keyed_def set_hm_insert)

lemma hm_keyed_remove [intro]: "hm_keyed f m \<Longrightarrow> hm_keyed f (hm_remove k m)"
  by (auto simp: hm_keyed_def hm_remove_def hm_ok_filter)

lemma hm_keyed_retain [intro]: "hm_keyed f m \<Longrightarrow> hm_keyed f (hm_retain P m)"
  by (auto simp: hm_keyed_def hm_retain_def hm_ok_filter)

end
