(* ===== verification/Ids_Time.thy ===== *)
theory Ids_Time
  imports Prelude
begin

text \<open>
  The value objects every entity is built from: instants in whole seconds
  (\<^verbatim>\<open>domain/src/time.rs\<close>), the identifier newtypes (\<^verbatim>\<open>domain/src/ids\<close>), and the
  composite-id scheme that splits a 64-bit id into the minting node and its
  local sequence (\<^verbatim>\<open>domain/src/node\<close>).
\<close>

section \<open>Time\<close>

text \<open>An instant is an \<^verbatim>\<open>i64\<close> in the code. It is an unbounded integer here: the
  code adds and subtracts constants of at most thirty days to a clock reading,
  which stays inside the 64-bit range for every date the clock can report.\<close>

datatype timestamp = Timestamp (seconds: int)

instantiation timestamp :: linorder
begin

definition less_eq_timestamp :: "timestamp \<Rightarrow> timestamp \<Rightarrow> bool" where
  "less_eq_timestamp a b = (seconds a \<le> seconds b)"

definition less_timestamp :: "timestamp \<Rightarrow> timestamp \<Rightarrow> bool" where
  "less_timestamp a b = (seconds a < seconds b)"

instance
  by standard (auto simp: less_eq_timestamp_def less_timestamp_def timestamp.expand)

end

definition SECONDS_PER_DAY :: int where
  "SECONDS_PER_DAY = 86400"

text \<open>\<^verbatim>\<open>div_euclid\<close> by a positive divisor is the floored division of \<open>int\<close>.\<close>

definition days_since :: "timestamp \<Rightarrow> timestamp \<Rightarrow> int" where
  "days_since self earlier = (seconds self - seconds earlier) div SECONDS_PER_DAY"

definition plus_days :: "timestamp \<Rightarrow> int \<Rightarrow> timestamp" where
  "plus_days self days = Timestamp (seconds self + days * SECONDS_PER_DAY)"

lemma days_since_plus_days: "days_since (plus_days t d) t = d"
  by (simp add: days_since_def plus_days_def SECONDS_PER_DAY_def)

lemma days_since_ge: "n \<le> days_since now t \<longleftrightarrow> plus_days t n \<le> now"
proof -
  have "n \<le> (x::int) div 86400 \<longleftrightarrow> n * 86400 \<le> x" for x by linarith
  then show ?thesis
    by (simp add: days_since_def plus_days_def less_eq_timestamp_def SECONDS_PER_DAY_def
        algebra_simps)
qed

lemma days_since_mono: "s \<le> t \<Longrightarrow> days_since s e \<le> days_since t e"
  by (simp add: days_since_def less_eq_timestamp_def SECONDS_PER_DAY_def zdiv_mono1)

section \<open>Identifiers\<close>

datatype user_id = UserId (user_id_val: u64)
datatype server_id = ServerId (server_id_val: u64)
datatype channel_id = ChannelId (channel_id_val: u64)
datatype message_id = MessageId (message_id_val: u64)
datatype proposal_id = ProposalId (proposal_id_val: u64)
datatype report_id = ReportId (report_id_val: u64)
datatype rule_id = RuleId (rule_id_val: u64)
datatype trial_id = TrialId (trial_id_val: u64)
datatype dm_id = DmId (dm_id_val: u64)
datatype role_id = RoleId (role_id_val: u64)
datatype emoji_id = EmojiId (emoji_id_val: u64)

section \<open>Composite identifiers\<close>

datatype node_id = NodeId (node_id_val: u16)

definition SEQUENCE_BITS :: nat where
  "SEQUENCE_BITS = 48"

definition SEQUENCE_MASK :: u64 where
  "SEQUENCE_MASK = push_bit SEQUENCE_BITS 1 - 1"

definition MAX_SEQUENCE :: u64 where
  "MAX_SEQUENCE = SEQUENCE_MASK"

definition compose_id :: "node_id \<Rightarrow> u64 \<Rightarrow> u64" where
  "compose_id node sequence =
     (push_bit SEQUENCE_BITS (ucast (node_id_val node))) OR (sequence AND SEQUENCE_MASK)"

definition origin_node :: "u64 \<Rightarrow> node_id" where
  "origin_node i = NodeId (ucast (drop_bit SEQUENCE_BITS i))"

definition local_sequence :: "u64 \<Rightarrow> u64" where
  "local_sequence i = i AND SEQUENCE_MASK"

lemma SEQUENCE_MASK_eq: "SEQUENCE_MASK = mask 48"
  by (simp add: SEQUENCE_MASK_def SEQUENCE_BITS_def mask_eq_exp_minus_1 push_bit_eq_mult)

lemma bit_SEQUENCE_MASK [simp]: "bit SEQUENCE_MASK n \<longleftrightarrow> n < 48"
  by (auto simp: SEQUENCE_MASK_eq bit_mask_iff)

lemma u16_bit_bound: "bit (w :: u16) n \<Longrightarrow> n < 16"
  using bit_imp_le_length [of w n] by simp

lemma u64_bit_bound: "bit (w :: u64) n \<Longrightarrow> n < 64"
  using bit_imp_le_length [of w n] by simp

lemma origin_node_compose: "origin_node (compose_id node s) = node"
proof -
  have "ucast (drop_bit 48 (push_bit 48 (ucast w :: u64) OR (s AND SEQUENCE_MASK))) = w"
    for w :: u16
    by (rule bit_word_eqI) (auto simp: bit_simps dest: u16_bit_bound)
  then show ?thesis
    by (simp add: origin_node_def compose_id_def SEQUENCE_BITS_def)
qed

lemma local_sequence_compose: "local_sequence (compose_id node s) = s AND SEQUENCE_MASK"
  unfolding local_sequence_def compose_id_def SEQUENCE_BITS_def
  by (rule bit_word_eqI) (auto simp: bit_simps)

lemma compose_origin_local: "compose_id (origin_node i) (local_sequence i) = i"
  unfolding compose_id_def origin_node_def local_sequence_def SEQUENCE_BITS_def
  by (rule bit_word_eqI) (auto simp: bit_simps not_less dest: u64_bit_bound)

lemma SEQUENCE_MASK_le: "s \<le> MAX_SEQUENCE \<Longrightarrow> s AND SEQUENCE_MASK = s"
proof -
  assume "s \<le> MAX_SEQUENCE"
  hence "unat s \<le> unat MAX_SEQUENCE" by (simp add: word_le_nat_alt)
  hence "unat s < 2 ^ 48"
    by (simp add: MAX_SEQUENCE_def SEQUENCE_MASK_def SEQUENCE_BITS_def)
  hence "unat (take_bit 48 s) = unat s"
    by (simp add: unsigned_take_bit_eq take_bit_nat_eq_self)
  then show ?thesis
    by (metis SEQUENCE_MASK_eq take_bit_eq_mask word_unat_eq_iff)
qed

lemma unat_compose_id:
  assumes "s \<le> MAX_SEQUENCE"
  shows "unat (compose_id n s) = unat (node_id_val n) * 2 ^ 48 + unat s"
proof -
  let ?n = "ucast (node_id_val n) :: u64"
  have n: "unat (node_id_val n) < 65536" using unsigned_less [of "node_id_val n"] by simp
  have un: "unat ?n = unat (node_id_val n)"
    using n by (simp add: unsigned_ucast_eq take_bit_nat_eq_self)
  have "unat (node_id_val n) * 2 ^ 48 < 2 ^ 64"
    using n by simp
  then have sh: "unat (push_bit SEQUENCE_BITS ?n) = unat (node_id_val n) * 2 ^ 48"
    by (simp add: SEQUENCE_BITS_def push_bit_eq_mult unat_mult_exact un)
  have small: "unat s < 2 ^ 48"
    using assms by (simp add: MAX_SEQUENCE_def SEQUENCE_MASK_def SEQUENCE_BITS_def word_le_nat_alt)
  have "compose_id n s = push_bit SEQUENCE_BITS ?n OR s"
    using assms by (simp add: compose_id_def SEQUENCE_MASK_le)
  also have "\<dots> = push_bit SEQUENCE_BITS ?n + s"
  proof (rule disjunctive_add [symmetric])
    have "bit s k \<Longrightarrow> k < 48" for k
      using SEQUENCE_MASK_le [OF assms] bit_and_iff [of s SEQUENCE_MASK k] by simp
    then show "\<not> bit (push_bit SEQUENCE_BITS ?n) k \<or> \<not> bit s k" for k
      unfolding SEQUENCE_BITS_def bit_push_bit_iff by (meson not_less)
  qed
  finally show ?thesis
    using small n unat_add_exact [of "push_bit SEQUENCE_BITS ?n" s] unfolding sh by simp
qed

lemma compose_id_less:
  "s < s' \<Longrightarrow> s' \<le> MAX_SEQUENCE \<Longrightarrow> compose_id n s < compose_id n s'"
  by (simp add: word_less_nat_alt unat_compose_id order.trans [OF less_imp_le])

lemma compose_id_bootstrap: "s \<le> MAX_SEQUENCE \<Longrightarrow> compose_id (NodeId 0) s = s"
  by (simp add: compose_id_def SEQUENCE_MASK_le)

lemma compose_id_inject:
  "s \<le> MAX_SEQUENCE \<Longrightarrow> s' \<le> MAX_SEQUENCE \<Longrightarrow>
   compose_id n s = compose_id n' s' \<longleftrightarrow> n = n' \<and> s = s'"
  by (metis SEQUENCE_MASK_le local_sequence_compose origin_node_compose)

end
