(* ===== verification/Jury.thy ===== *)
theory Jury
  imports Ids_Time "HOL-Library.Product_Lexorder" "HOL-Library.Multiset"
begin

text \<open>
  Trial by jury (\<^verbatim>\<open>domain/src/jury\<close>): how large a panel a server draws, which
  members it seats, what weight a seated juror's ballot has, and when the
  ballots cast so far decide the verdict.
\<close>

section \<open>Panel size\<close>

datatype content_scale = Post | Comment

datatype jury_sizing =
    Sqrt (post_factor_bp: u32) (comment_factor_bp: u32)
  | Proportion (post_bp: u32) (comment_bp: u32)
  | Fixed (post: u32) (comment: u32)

definition jury_sizing_default :: jury_sizing where
  "jury_sizing_default = Sqrt 10000 5000"

definition DEFAULT_JURY_SIZE :: nat where
  "DEFAULT_JURY_SIZE = 7"

definition jury_target :: "jury_sizing \<Rightarrow> u64 \<Rightarrow> content_scale \<Rightarrow> u64" where
  "jury_target sizing citizens scale =
     (case (sizing, scale) of
        (Sqrt pf _, Post) \<Rightarrow> of_nat (isqrt (unat citizens)) * ucast pf div 10000
      | (Sqrt _ cf, Comment) \<Rightarrow> of_nat (isqrt (unat citizens)) * ucast cf div 10000
      | (Proportion pb _, Post) \<Rightarrow> citizens * ucast pb div 10000
      | (Proportion _ cb, Comment) \<Rightarrow> citizens * ucast cb div 10000
      | (Fixed p _, Post) \<Rightarrow> ucast p
      | (Fixed _ c, Comment) \<Rightarrow> ucast c)"

definition jury_size :: "jury_sizing \<Rightarrow> u64 \<Rightarrow> content_scale \<Rightarrow> nat" where
  "jury_size sizing citizens scale =
     (let cap = saturating_sub citizens 1 div 2 in
      if cap = 0 then 0
      else unat (clamp (jury_target sizing citizens scale) 1 cap))"

lemma unat_jury_cap: "unat (saturating_sub citizens 1 div 2 :: u64) = (unat citizens - 1) div 2"
  by (simp add: unat_div unat_saturating_sub)

lemma jury_size_zero: "jury_size sizing citizens scale = 0 \<longleftrightarrow> unat citizens < 3"
proof -
  let ?cap = "saturating_sub citizens 1 div 2"
  have z: "?cap = 0 \<longleftrightarrow> unat citizens < 3"
  proof -
    have "?cap = 0 \<longleftrightarrow> unat ?cap = 0" by (simp only: unat_eq_zero)
    also have "\<dots> \<longleftrightarrow> unat citizens < 3" unfolding unat_jury_cap by linarith
    finally show ?thesis .
  qed
  show ?thesis
  proof (cases "?cap = 0")
    case False
    hence "1 \<le> ?cap" by (simp add: word_le_nat_alt Suc_le_eq unat_gt_0)
    from clamp_bounds [OF this] have "1 \<le> clamp (jury_target sizing citizens scale) 1 ?cap"
      by blast
    hence "0 < unat (clamp (jury_target sizing citizens scale) 1 ?cap)"
      by (simp add: word_le_nat_alt)
    then show ?thesis using False z by (simp add: jury_size_def Let_def)
  qed (use z in \<open>simp add: jury_size_def\<close>)
qed

lemma jury_size_minority:
  assumes "unat citizens > 0"
  shows "2 * jury_size sizing citizens scale < unat citizens"
proof (cases "saturating_sub citizens 1 div 2 = 0")
  case True
  then show ?thesis using assms by (simp add: jury_size_def)
next
  case False
  let ?cap = "saturating_sub citizens 1 div 2"
  have "1 \<le> ?cap" using False by (simp add: word_le_nat_alt Suc_le_eq unat_gt_0)
  from clamp_bounds [OF this] have "clamp (jury_target sizing citizens scale) 1 ?cap \<le> ?cap"
    by blast
  hence "jury_size sizing citizens scale \<le> unat ?cap"
    using False by (simp add: jury_size_def Let_def word_le_nat_alt)
  then show ?thesis unfolding unat_jury_cap using assms by linarith
qed

section \<open>Selection\<close>

text \<open>The SplitMix64 finaliser.\<close>

definition mix :: "u64 \<Rightarrow> u64" where
  "mix x0 =
     (let x1 = x0 + 0x9E3779B97F4A7C15;
          x2 = (x1 XOR drop_bit 30 x1) * 0xBF58476D1CE4E5B9;
          x3 = (x2 XOR drop_bit 27 x2) * 0x94D049BB133111EB
      in x3 XOR drop_bit 31 x3)"

definition select_jury :: "user_id list \<Rightarrow> user_id \<Rightarrow> nat \<Rightarrow> u64 \<Rightarrow> user_id list" where
  "select_jury candidates accused n seed =
     (let scored = map (\<lambda>c. (mix (seed XOR user_id_val c), c))
                     (filter (\<lambda>c. c \<noteq> accused) candidates);
          ordered = sort_key (\<lambda>(h, c). (h, user_id_val c)) scored
      in map snd (take n ordered))"

lemma insort_key_map: "insort_key f (g x) (map g xs) = map g (insort_key (\<lambda>y. f (g y)) x xs)"
  by (induction xs) auto

lemma sort_key_map: "sort_key f (map g xs) = map g (sort_key (\<lambda>y. f (g y)) xs)"
  by (induction xs) (simp_all add: insort_key_map)

lemma select_jury_sorted:
  "select_jury candidates accused n seed =
     take n (sort_key (\<lambda>c. (mix (seed XOR user_id_val c), user_id_val c))
       (filter (\<lambda>c. c \<noteq> accused) candidates))"
  by (simp add: select_jury_def Let_def sort_key_map take_map comp_def)

lemma select_jury_set:
  "set (select_jury candidates accused n seed) \<subseteq> set candidates - {accused}"
  unfolding select_jury_sorted
  using set_take_subset [of n] by fastforce

lemma select_jury_length:
  "length (select_jury candidates accused n seed) =
     min n (length (filter (\<lambda>c. c \<noteq> accused) candidates))"
  by (simp add: select_jury_sorted)

lemma select_jury_distinct:
  "distinct candidates \<Longrightarrow> distinct (select_jury candidates accused n seed)"
  by (simp add: select_jury_sorted distinct_take)

text \<open>The panel does not depend on the order the candidates are listed in.\<close>

lemma select_jury_order:
  assumes "mset cs = mset ds"
  shows "select_jury cs accused n seed = select_jury ds accused n seed"
proof -
  let ?k = "\<lambda>c. (mix (seed XOR user_id_val c), user_id_val c)"
  let ?P = "\<lambda>c. c \<noteq> accused"
  have "sort_key ?k (filter ?P cs) = sort_key ?k (filter ?P ds)"
  proof (rule properties_for_sort_key)
    show "mset (sort_key ?k (filter ?P ds)) = mset (filter ?P cs)"
      using assms by (simp add: mset_filter)
  next
    fix k assume "k \<in> set (sort_key ?k (filter ?P ds))"
    have one: "c = k" if "?k k = ?k c" for c
      using that by (simp add: user_id.expand)
    have rep: "filter (\<lambda>c. ?k k = ?k c) zs = replicate (count (mset zs) k) k" for zs
    proof -
      have "filter (\<lambda>c. ?k k = ?k c) zs = filter (\<lambda>c. c = k) zs"
        using one by (intro filter_cong) auto
      also have "filter (\<lambda>c. c = k) zs = replicate (count (mset zs) k) k"
        by (induction zs) auto
      finally show ?thesis .
    qed
    show "filter (\<lambda>c. ?k k = ?k c) (sort_key ?k (filter ?P ds)) =
        filter (\<lambda>c. ?k k = ?k c) (filter ?P cs)"
      unfolding rep using assms by (simp add: mset_filter)
  next
    show "sorted (map ?k (sort_key ?k (filter ?P ds)))" by simp
  qed
  then show ?thesis by (simp add: select_jury_sorted)
qed

section \<open>Trials and verdicts\<close>

datatype verdict = Pending | Guilty | NotGuilty

record trial =
  t_id :: trial_id
  t_server_id :: server_id
  t_report_id :: report_id
  t_accused :: user_id
  t_jurors :: "user_id list"
  t_jury_weight :: u64
  t_juror_weights :: "u64 list"
  t_opened_at :: timestamp
  t_closes_at :: timestamp
  t_verdict :: verdict

record jury_ballot =
  jb_trial_id :: trial_id
  jb_juror :: user_id
  jb_guilty :: bool

definition trial_new ::
  "trial_id \<Rightarrow> server_id \<Rightarrow> report_id \<Rightarrow> user_id \<Rightarrow> user_id list \<Rightarrow> u64 \<Rightarrow> u64 list \<Rightarrow>
   timestamp \<Rightarrow> timestamp \<Rightarrow> trial" where
  "trial_new tid sid rid accused jurors jury_weight juror_weights opened_at closes_at =
     \<lparr> t_id = tid, t_server_id = sid, t_report_id = rid, t_accused = accused,
       t_jurors = jurors, t_jury_weight = jury_weight, t_juror_weights = juror_weights,
       t_opened_at = opened_at, t_closes_at = closes_at, t_verdict = Pending \<rparr>"

definition is_juror :: "trial \<Rightarrow> user_id \<Rightarrow> bool" where
  "is_juror t u = (u \<in> set (t_jurors t))"

text \<open>\<^verbatim>\<open>iter().position\<close>.\<close>

fun position :: "('a \<Rightarrow> bool) \<Rightarrow> 'a list \<Rightarrow> nat option" where
  "position P [] = None"
| "position P (x # xs) = (if P x then Some 0 else map_option Suc (position P xs))"

definition juror_weight :: "trial \<Rightarrow> user_id \<Rightarrow> u64" where
  "juror_weight t u =
     (case position (\<lambda>j. j = u) (t_jurors t) of
        None \<Rightarrow> 1
      | Some i \<Rightarrow> (if i < length (t_juror_weights t) then t_juror_weights t ! i else 1))"

definition reach_verdict :: "u64 \<Rightarrow> u64 \<Rightarrow> u64 \<Rightarrow> verdict" where
  "reach_verdict guilty_weight not_guilty_weight jury_weight =
     (if jury_weight = 0 then NotGuilty
      else
        let need_guilty = div_ceil (jury_weight * 2) 3 in
        if guilty_weight \<ge> need_guilty then Guilty
        else if jury_weight - not_guilty_weight < need_guilty then NotGuilty
        else Pending)"

text \<open>The rule over the natural numbers, with the bar at two thirds of the whole
  jury's weight.\<close>

definition verdict_spec :: "nat \<Rightarrow> nat \<Rightarrow> nat \<Rightarrow> verdict" where
  "verdict_spec g n w =
     (if w = 0 then NotGuilty
      else if 2 * w \<le> 3 * g then Guilty
      else if 3 * (w - n) < 2 * w then NotGuilty
      else Pending)"

lemma unat_div_ceil_3: "unat (div_ceil a 3 :: u64) = (unat a + 2) div 3"
proof -
  have m: "unat (a mod 3) = unat a mod 3" "unat (a div 3) = unat a div 3" for a :: u64
    by (simp_all add: unat_mod unat_div)
  have z: "a mod 3 = 0 \<longleftrightarrow> unat a mod 3 = 0"
    by (metis m(1) unat_0 unat_eq_zero)
  have "unat (a div 3 + 1) = unat a div 3 + 1"
    using unat_u64_bound [of a] by (simp add: unat_word_ariths m)
  then show ?thesis
    unfolding div_ceil_def z by (simp add: m) presburger
qed

lemma reach_verdict_spec:
  assumes "unat jury_weight < 2 ^ 63" "unat not_guilty \<le> unat jury_weight"
  shows "reach_verdict guilty not_guilty jury_weight =
     verdict_spec (unat guilty) (unat not_guilty) (unat jury_weight)"
proof -
  let ?w = "unat jury_weight"
  have w2: "unat (jury_weight * 2) = 2 * ?w"
    using assms(1) by (simp add: unat_word_ariths)
  have bar: "unat (div_ceil (jury_weight * 2) 3) = (2 * ?w + 2) div 3"
    by (simp only: unat_div_ceil_3 w2)
  have "unat (jury_weight - not_guilty) = ?w - unat not_guilty"
    using assms(2) by (simp add: unat_sub word_le_nat_alt)
  moreover have "jury_weight = 0 \<longleftrightarrow> ?w = 0" by (simp add: unat_eq_zero)
  moreover have "(2 * ?w + 2) div 3 \<le> x \<longleftrightarrow> 2 * ?w \<le> 3 * x" for x by linarith
  moreover have "x < (2 * ?w + 2) div 3 \<longleftrightarrow> 3 * x < 2 * ?w" for x by linarith
  ultimately show ?thesis
    unfolding reach_verdict_def verdict_spec_def Let_def word_le_nat_alt word_less_nat_alt bar
    by simp
qed

lemma verdict_spec_final:
  assumes "verdict_spec g n w = v" "v \<noteq> Pending" "g \<le> g'" "n \<le> n'" "g' + n' \<le> w"
  shows "verdict_spec g' n' w = v"
  using assms unfolding verdict_spec_def by (auto split: if_splits)

lemma verdict_spec_decided: "g + n = w \<Longrightarrow> verdict_spec g n w \<noteq> Pending"
  unfolding verdict_spec_def by auto

end
