(* ===== verification/Utf8_Text.thy ===== *)
theory Utf8_Text
  imports Prelude
begin

text \<open>
  The operations of the Rust standard library on \<^verbatim>\<open>str\<close> that the code uses. A
  string is the list of its UTF-8 bytes, so \<^verbatim>\<open>len\<close> is \<open>length\<close> and \<^verbatim>\<open>as_bytes\<close>
  the identity; the operations that work on characters decode it. A Rust
  string is always well-formed UTF-8; on a byte sequence that is not, the
  decoder yields U+FFFD for one byte and goes on.
\<close>

section \<open>Characters\<close>

abbreviation byte :: "char \<Rightarrow> nat" where
  "byte c \<equiv> of_char c"

definition is_ascii_alphanumeric :: "nat \<Rightarrow> bool" where
  "is_ascii_alphanumeric c =
     (48 \<le> c \<and> c \<le> 57 \<or> 65 \<le> c \<and> c \<le> 90 \<or> 97 \<le> c \<and> c \<le> 122)"

definition to_ascii_lowercase :: "nat \<Rightarrow> nat" where
  "to_ascii_lowercase c = (if 65 \<le> c \<and> c \<le> 90 then c + 32 else c)"

text \<open>\<^verbatim>\<open>char::is_whitespace\<close>: the code points with the property White_Space.\<close>

definition is_whitespace :: "nat \<Rightarrow> bool" where
  "is_whitespace c =
     (9 \<le> c \<and> c \<le> 13 \<or> c = 32 \<or> c = 133 \<or> c = 160 \<or> c = 5760 \<or>
      8192 \<le> c \<and> c \<le> 8202 \<or> c = 8232 \<or> c = 8233 \<or> c = 8239 \<or> c = 8287 \<or> c = 12288)"

text \<open>\<^verbatim>\<open>char::to_lowercase\<close> as far as the callers can observe it. The ASCII
  letters, and the two code points outside ASCII whose lower case has an ASCII
  letter (U+212A KELVIN SIGN and U+0130 LATIN CAPITAL LETTER I WITH DOT ABOVE),
  are exact. Every other code point is left alone: its lower case is neither
  ASCII nor white space, and the one caller that lower-cases free text
  (\<^verbatim>\<open>normalize_role_name\<close>) drops all such characters.\<close>

definition to_lowercase_char :: "nat \<Rightarrow> nat list" where
  "to_lowercase_char c =
     (if c = 8490 then [107] else if c = 304 then [105, 775] else [to_ascii_lowercase c])"

section \<open>Decoding\<close>

definition is_continuation :: "char \<Rightarrow> bool" where
  "is_continuation c = (128 \<le> byte c \<and> byte c < 192)"

text \<open>The code point that starts at a lead byte, and how many bytes follow it.\<close>

definition utf8_step :: "char \<Rightarrow> string \<Rightarrow> nat \<times> nat" where
  "utf8_step a s =
     (if byte a < 128 then (byte a, 0)
      else if 194 \<le> byte a \<and> byte a < 224 then
        (case s of
           b # _ \<Rightarrow> if is_continuation b
             then ((byte a - 192) * 64 + (byte b - 128), 1) else (65533, 0)
         | _ \<Rightarrow> (65533, 0))
      else if 224 \<le> byte a \<and> byte a < 240 then
        (case s of
           b # c # _ \<Rightarrow> if is_continuation b \<and> is_continuation c
             then ((byte a - 224) * 4096 + (byte b - 128) * 64 + (byte c - 128), 2)
             else (65533, 0)
         | _ \<Rightarrow> (65533, 0))
      else if 240 \<le> byte a \<and> byte a < 245 then
        (case s of
           b # c # d # _ \<Rightarrow> if is_continuation b \<and> is_continuation c \<and> is_continuation d
             then ((byte a - 240) * 262144 + (byte b - 128) * 4096
                   + (byte c - 128) * 64 + (byte d - 128), 3)
             else (65533, 0)
         | _ \<Rightarrow> (65533, 0))
      else (65533, 0))"

text \<open>\<^verbatim>\<open>char_indices\<close>: every code point with the bytes that encode it.\<close>

function utf8_chunks :: "string \<Rightarrow> (nat \<times> string) list" where
  "utf8_chunks [] = []"
| "utf8_chunks (a # s) =
     (let (cp, k) = utf8_step a s in (cp, a # take k s) # utf8_chunks (drop k s))"
  by pat_completeness auto
termination by (relation "measure length") auto

definition chars :: "string \<Rightarrow> nat list" where
  "chars s = map fst (utf8_chunks s)"

definition ascii_string :: "string \<Rightarrow> bool" where
  "ascii_string s = (\<forall>c\<in>set s. byte c < 128)"

text \<open>\<^verbatim>\<open>String::push\<close> of an ASCII character.\<close>

definition ascii_char :: "nat \<Rightarrow> char" where
  "ascii_char c = char_of c"

lemma concat_utf8_chunks: "concat (map snd (utf8_chunks s)) = s"
  by (induction s rule: utf8_chunks.induct) (auto split: prod.splits)

lemma utf8_chunks_ascii:
  "ascii_string s \<Longrightarrow> utf8_chunks s = map (\<lambda>c. (byte c, [c])) s"
  by (induction s) (auto simp: ascii_string_def utf8_step_def)

lemma chars_ascii: "ascii_string s \<Longrightarrow> chars s = map of_char s"
  by (simp add: chars_def utf8_chunks_ascii comp_def)

lemma ascii_string_simps [simp]:
  "ascii_string []"
  "ascii_string (c # s) \<longleftrightarrow> byte c < 128 \<and> ascii_string s"
  "ascii_string (s @ t) \<longleftrightarrow> ascii_string s \<and> ascii_string t"
  by (auto simp: ascii_string_def)

section \<open>Trimming and case\<close>

definition trim_chunks :: "(nat \<times> string) list \<Rightarrow> (nat \<times> string) list" where
  "trim_chunks cs =
     (let ws = \<lambda>(cp, _). is_whitespace cp in
      rev (dropWhile ws (rev (dropWhile ws cs))))"

definition trim :: "string \<Rightarrow> string" where
  "trim s = concat (map snd (trim_chunks (utf8_chunks s)))"

definition make_ascii_lowercase :: "string \<Rightarrow> string" where
  "make_ascii_lowercase s = map (\<lambda>c. ascii_char (to_ascii_lowercase (byte c))) s"

text \<open>The code points of \<^verbatim>\<open>s.trim()\<close>.\<close>

definition trimmed_chars :: "string \<Rightarrow> nat list" where
  "trimmed_chars s = map fst (trim_chunks (utf8_chunks s))"

lemma trim_infix: "\<exists>pre post. s = pre @ trim s @ post"
proof -
  let ?ws = "\<lambda>(cp, _). is_whitespace cp"
  let ?cs = "utf8_chunks s"
  let ?d = "dropWhile ?ws ?cs"
  have "?cs = takeWhile ?ws ?cs @ ?d" by simp
  moreover have "?d = rev (dropWhile ?ws (rev ?d)) @ rev (takeWhile ?ws (rev ?d))"
    by (metis rev_append rev_rev_ident takeWhile_dropWhile_id)
  ultimately have "?cs = takeWhile ?ws ?cs @ trim_chunks ?cs @ rev (takeWhile ?ws (rev ?d))"
    by (simp add: trim_chunks_def Let_def)
  hence "concat (map snd ?cs) =
      concat (map snd (takeWhile ?ws ?cs)) @ trim s
        @ concat (map snd (rev (takeWhile ?ws (rev ?d))))"
    unfolding trim_def by (metis concat_append map_append)
  then show ?thesis unfolding concat_utf8_chunks by blast
qed

lemma length_trim: "length (trim s) \<le> length s"
proof -
  obtain p q where "s = p @ trim s @ q" using trim_infix by blast
  hence "length s = length p + length (trim s) + length q" by (metis add.assoc length_append)
  then show ?thesis by simp
qed

lemma set_trim: "set (trim s) \<subseteq> set s"
proof -
  obtain p q where "s = p @ trim s @ q" using trim_infix by blast
  hence "set s = set p \<union> set (trim s) \<union> set q" by (metis set_append sup_assoc)
  then show ?thesis by blast
qed

text \<open>A string without white space at its ends is its own trimming.\<close>

lemma trim_chunks_id:
  assumes "\<not> is_whitespace (fst (hd cs))" "\<not> is_whitespace (fst (last cs))"
  shows "trim_chunks cs = cs"
proof (cases "cs = []")
  case False
  let ?ws = "\<lambda>(cp, _). is_whitespace cp"
  have "dropWhile ?ws cs = cs"
    using assms by (subst dropWhile_eq_self_iff) (simp add: case_prod_unfold)
  moreover have "dropWhile ?ws (rev cs) = rev cs"
    using assms False by (subst dropWhile_eq_self_iff) (simp add: case_prod_unfold hd_rev)
  ultimately show ?thesis by (simp add: trim_chunks_def)
qed (simp add: trim_chunks_def)

lemma trim_Nil [simp]: "trim [] = []"
  by (simp add: trim_def trim_chunks_def)

lemma trim_chunks_ascii:
  assumes "ascii_string s" "\<forall>c\<in>set s. \<not> is_whitespace (byte c)"
  shows "trim_chunks (utf8_chunks s) = utf8_chunks s"
proof (cases s)
  case Nil
  then show ?thesis by (simp add: trim_chunks_def)
next
  case (Cons a t)
  let ?f = "\<lambda>c. (byte c, [c])"
  have cs: "utf8_chunks s = map ?f s" using assms(1) by (rule utf8_chunks_ascii)
  have "hd (map ?f s) = ?f (hd s)" "last (map ?f s) = ?f (last s)"
    using Cons by (simp_all add: last_map)
  moreover have "hd s \<in> set s" "last s \<in> set s" using Cons by simp_all
  ultimately show ?thesis
    unfolding cs using assms(2) by (intro trim_chunks_id) simp_all
qed

lemma trim_ascii_id:
  "ascii_string s \<Longrightarrow> \<forall>c\<in>set s. \<not> is_whitespace (byte c) \<Longrightarrow> trim s = s"
  by (simp add: trim_def trim_chunks_ascii concat_utf8_chunks)

lemma trimmed_chars_ascii:
  "ascii_string s \<Longrightarrow> \<forall>c\<in>set s. \<not> is_whitespace (byte c) \<Longrightarrow>
   trimmed_chars s = map of_char s"
  using chars_ascii [of s] by (simp add: trimmed_chars_def trim_chunks_ascii chars_def)

lemma byte_ascii_char [simp]: "c < 256 \<Longrightarrow> byte (ascii_char c) = c"
  by (simp add: ascii_char_def)

lemma to_ascii_lowercase_idem [simp]:
  "to_ascii_lowercase (to_ascii_lowercase c) = to_ascii_lowercase c"
  by (simp add: to_ascii_lowercase_def)

lemma to_ascii_lowercase_less: "c < 128 \<Longrightarrow> to_ascii_lowercase c < 128"
  by (simp add: to_ascii_lowercase_def)

lemma is_ascii_alphanumeric_less: "is_ascii_alphanumeric c \<Longrightarrow> c < 128"
  by (auto simp: is_ascii_alphanumeric_def)

lemma is_ascii_alphanumeric_lower [simp]:
  "is_ascii_alphanumeric (to_ascii_lowercase c) = is_ascii_alphanumeric c"
  by (auto simp: is_ascii_alphanumeric_def to_ascii_lowercase_def)

section \<open>Splitting\<close>

text \<open>\<^verbatim>\<open>split(c).next()\<close>: what stands before the first \<^verbatim>\<open>c\<close> (all of it when
  there is none).\<close>

definition before_first :: "char \<Rightarrow> string \<Rightarrow> string" where
  "before_first c s = takeWhile (\<lambda>x. x \<noteq> c) s"

definition split_once :: "char \<Rightarrow> string \<Rightarrow> (string \<times> string) option" where
  "split_once c s =
     (case dropWhile (\<lambda>x. x \<noteq> c) s of
        [] \<Rightarrow> None
      | _ # post \<Rightarrow> Some (takeWhile (\<lambda>x. x \<noteq> c) s, post))"

definition rsplit_once :: "char \<Rightarrow> string \<Rightarrow> (string \<times> string) option" where
  "rsplit_once c s =
     (case split_once c (rev s) of
        None \<Rightarrow> None
      | Some (post, pre) \<Rightarrow> Some (rev pre, rev post))"

lemma split_once_Some:
  "split_once c s = Some (a, b) \<longleftrightarrow> s = a @ c # b \<and> c \<notin> set a"
proof
  assume "split_once c s = Some (a, b)"
  then obtain d where d: "dropWhile (\<lambda>x. x \<noteq> c) s = d # b" "a = takeWhile (\<lambda>x. x \<noteq> c) s"
    by (auto simp: split_once_def split: list.splits)
  have "d = c" using d(1) by (metis (full_types) dropWhile_eq_Cons_conv)
  then show "s = a @ c # b \<and> c \<notin> set a"
    using d takeWhile_dropWhile_id [of "\<lambda>x. x \<noteq> c" s] by (metis (mono_tags) set_takeWhileD)
next
  assume "s = a @ c # b \<and> c \<notin> set a"
  then have "takeWhile (\<lambda>x. x \<noteq> c) s = a" "dropWhile (\<lambda>x. x \<noteq> c) s = c # b"
    by (auto simp: takeWhile_append dropWhile_append)
  then show "split_once c s = Some (a, b)" by (simp add: split_once_def)
qed

lemma split_once_None: "split_once c s = None \<longleftrightarrow> c \<notin> set s"
proof (cases "dropWhile (\<lambda>x. x \<noteq> c) s")
  case Nil
  then have "c \<notin> set s" by (simp only: dropWhile_eq_Nil_conv) blast
  then show ?thesis unfolding split_once_def Nil by simp
next
  case (Cons d t)
  then have "c \<in> set s" using dropWhile_eq_Nil_conv [of "\<lambda>x. x \<noteq> c" s] by auto
  with Cons show ?thesis by (simp add: split_once_def)
qed

lemma rsplit_once_Some:
  "rsplit_once c s = Some (a, b) \<longleftrightarrow> s = a @ c # b \<and> c \<notin> set b"
proof -
  have "rsplit_once c s = Some (a, b) \<longleftrightarrow> split_once c (rev s) = Some (rev b, rev a)"
    unfolding rsplit_once_def
    by (cases "split_once c (rev s)") (auto simp: case_prod_unfold prod_eq_iff rev_swap)
  also have "\<dots> \<longleftrightarrow> rev s = rev b @ c # rev a \<and> c \<notin> set b"
    by (simp only: split_once_Some set_rev)
  also have "rev b @ c # rev a = rev (a @ c # b)"
    by simp
  also have "rev s = rev (a @ c # b) \<longleftrightarrow> s = a @ c # b"
    by (rule rev_is_rev_conv)
  finally show ?thesis .
qed

lemma rsplit_once_None: "rsplit_once c s = None \<longleftrightarrow> c \<notin> set s"
  using split_once_None [of c "rev s"]
  by (cases "split_once c (rev s)") (auto simp: rsplit_once_def)

end
