(* ===== verification/Names_Credentials.thy ===== *)
theory Names_Credentials
  imports Utf8_Text
begin

text \<open>
  The pure text rules of the domain: server slugs and channel names
  (\<^verbatim>\<open>slugify\<close>, \<^verbatim>\<open>normalize_channel_name\<close>), role and emoji names, the mention
  scanner of message bodies, the password and email policies, and the header
  check of uploaded emoji images. For each of them the lemmas give the normal
  form its results are in, and that the normal form is a fixed point.
\<close>

section \<open>Slugs and channel names\<close>

text \<open>One step of the loop over the characters that \<^verbatim>\<open>slugify\<close> and
  \<^verbatim>\<open>normalize_channel_name\<close> share: the output so far and whether a hyphen is
  pending.\<close>

definition hyphenate_step :: "string \<times> bool \<Rightarrow> nat \<Rightarrow> string \<times> bool" where
  "hyphenate_step st ch =
     (let (out, pending) = st in
      if is_ascii_alphanumeric ch then
        ((if pending \<and> out \<noteq> [] then out @ ''-'' else out) @ [ascii_char (to_ascii_lowercase ch)],
         False)
      else (out, True))"

definition slugify :: "string \<Rightarrow> string" where
  "slugify input = fst (foldl hyphenate_step ([], False) (chars input))"

definition normalize_channel_name :: "string \<Rightarrow> string" where
  "normalize_channel_name input = fst (foldl hyphenate_step ([], False) (chars input))"

text \<open>The specification: the maximal runs of ASCII alphanumerics, in lower case,
  joined by single hyphens.\<close>

function alnum_runs :: "nat list \<Rightarrow> nat list list" where
  "alnum_runs [] = []"
| "alnum_runs (c # cs) =
     (if is_ascii_alphanumeric c
      then (c # takeWhile is_ascii_alphanumeric cs)
             # alnum_runs (dropWhile is_ascii_alphanumeric cs)
      else alnum_runs cs)"
  by pat_completeness auto
termination
  by (relation "measure length") (auto simp: le_imp_less_Suc length_dropWhile_le)

fun join_hyphen :: "string list \<Rightarrow> string" where
  "join_hyphen [] = []"
| "join_hyphen [w] = w"
| "join_hyphen (w # v # ws) = w @ CHR ''-'' # join_hyphen (v # ws)"

definition lower_word :: "nat list \<Rightarrow> string" where
  "lower_word w = map (\<lambda>c. ascii_char (to_ascii_lowercase c)) w"

lemma hyphenate_step_simps [simp]:
  "is_ascii_alphanumeric c \<Longrightarrow> hyphenate_step (out, p) c =
     ((if p \<and> out \<noteq> [] then out @ ''-'' else out) @ [ascii_char (to_ascii_lowercase c)], False)"
  "\<not> is_ascii_alphanumeric c \<Longrightarrow> hyphenate_step (out, p) c = (out, True)"
  by (auto simp: hyphenate_step_def)

lemma lower_word_simps [simp]:
  "lower_word [] = []"
  "lower_word (c # w) = ascii_char (to_ascii_lowercase c) # lower_word w"
  "lower_word w = [] \<longleftrightarrow> w = []"
  by (simp_all add: lower_word_def)

lemma hyphenate_foldl:
  "out \<noteq> [] \<Longrightarrow> fst (foldl hyphenate_step (out, False) cs) =
     join_hyphen ((out @ lower_word (takeWhile is_ascii_alphanumeric cs))
       # map lower_word (alnum_runs (dropWhile is_ascii_alphanumeric cs)))"
  "out \<noteq> [] \<Longrightarrow> fst (foldl hyphenate_step (out, True) cs) =
     join_hyphen (out # map lower_word (alnum_runs cs))"
proof (induction cs arbitrary: out)
  case (Cons c cs)
  {
    case 1
    then show ?case
      using Cons.IH(1) [of "out @ [ascii_char (to_ascii_lowercase c)]"] Cons.IH(2) [of out]
      by (cases "is_ascii_alphanumeric c") simp_all
  next
    case 2
    have join: "join_hyphen ((u @ v) # ws) = u @ join_hyphen (v # ws)" for u v ws
      by (cases ws) simp_all
    show ?case
    proof (cases "is_ascii_alphanumeric c")
      case True
      then show ?thesis
        using 2 Cons.IH(1) [of "out @ ''-'' @ [ascii_char (to_ascii_lowercase c)]"]
        by (simp add: join) (simp add: join [of "out @ ''-'' @ [_]", simplified]
            join [of "[_]", simplified, symmetric])
    next
      case False
      then show ?thesis using 2 Cons.IH(2) [of out] by simp
    qed
  }
qed simp_all

lemma hyphenate_runs:
  "fst (foldl hyphenate_step ([], p) cs) = join_hyphen (map lower_word (alnum_runs cs))"
proof (induction cs arbitrary: p)
  case (Cons c cs)
  then show ?case
    by (cases "is_ascii_alphanumeric c")
       (simp_all add: hyphenate_foldl(1))
qed simp

lemma normalize_channel_name_slugify: "normalize_channel_name = slugify"
  by (simp add: fun_eq_iff normalize_channel_name_def slugify_def)

lemma slugify_eq_runs: "slugify s = join_hyphen (map lower_word (alnum_runs (chars s)))"
  by (simp add: slugify_def hyphenate_runs)

text \<open>Words: non-empty, lower-case alphanumerics.\<close>

definition slug_byte :: "char \<Rightarrow> bool" where
  "slug_byte c = (48 \<le> byte c \<and> byte c \<le> 57 \<or> 97 \<le> byte c \<and> byte c \<le> 122)"

definition slug_word :: "string \<Rightarrow> bool" where
  "slug_word w = (w \<noteq> [] \<and> (\<forall>c\<in>set w. slug_byte c))"

lemma alnum_runs_words:
  "\<forall>w\<in>set (alnum_runs cs). w \<noteq> [] \<and> (\<forall>c\<in>set w. is_ascii_alphanumeric c)"
proof (induction cs rule: alnum_runs.induct)
  case (2 c cs)
  have "\<forall>x\<in>set (takeWhile is_ascii_alphanumeric cs). is_ascii_alphanumeric x"
    using set_takeWhileD by fast
  then show ?case using 2 by (cases "is_ascii_alphanumeric c") simp_all
qed simp

lemma slug_byte_lower: "is_ascii_alphanumeric c \<Longrightarrow> slug_byte (ascii_char (to_ascii_lowercase c))"
  by (auto simp: slug_byte_def ascii_char_def is_ascii_alphanumeric_def to_ascii_lowercase_def)

lemma slug_word_lower: "w \<in> set (alnum_runs cs) \<Longrightarrow> slug_word (lower_word w)"
  using alnum_runs_words [of cs]
  by (auto simp: slug_word_def lower_word_def slug_byte_lower)

lemma slug_code_facts:
  assumes "48 \<le> n \<and> n \<le> 57 \<or> 97 \<le> n \<and> n \<le> (122::nat)"
  shows "is_ascii_alphanumeric n" "to_ascii_lowercase n = n" "n < 128" "n \<noteq> 45"
    "\<not> is_whitespace n"
proof -
  have r: "48 \<le> n \<and> n \<le> 122" "n \<le> 57 \<or> 97 \<le> n" using assms by linarith+
  show "is_ascii_alphanumeric n" using r unfolding is_ascii_alphanumeric_def by linarith
  have "\<not> (65 \<le> n \<and> n \<le> 90)" using r by linarith
  then show "to_ascii_lowercase n = n" unfolding to_ascii_lowercase_def by (rule if_not_P)
  show "n < 128" "n \<noteq> 45" using r by linarith+
  show "\<not> is_whitespace n" using r(1) unfolding is_whitespace_def by simp
qed

lemma slug_byte_facts:
  assumes "slug_byte c"
  shows "is_ascii_alphanumeric (byte c)" "ascii_char (to_ascii_lowercase (byte c)) = c"
    "byte c < 128" "c \<noteq> CHR ''-''" "\<not> is_whitespace (byte c)"
proof -
  note r = slug_code_facts [OF assms [unfolded slug_byte_def]]
  show "is_ascii_alphanumeric (byte c)" "byte c < 128" "\<not> is_whitespace (byte c)"
    using r by blast+
  show "ascii_char (to_ascii_lowercase (byte c)) = c"
    unfolding r(2) ascii_char_def by simp
  have "byte c \<noteq> byte (CHR ''-'')" using r(4) by simp
  then show "c \<noteq> CHR ''-''" by metis
qed

lemma ascii_join_hyphen:
  "(\<forall>w\<in>set ws. slug_word w) \<Longrightarrow> ascii_string (join_hyphen ws)"
  by (induction ws rule: join_hyphen.induct)
     (auto simp: slug_word_def ascii_string_def slug_byte_facts(3))

lemma slug_word_runs:
  assumes "slug_word w" "rest = [] \<or> hd rest = 45"
  shows "alnum_runs (map of_char w @ rest) = map of_char w # alnum_runs rest"
proof -
  obtain c t where w: "w = c # t" using assms(1) by (cases w) (auto simp: slug_word_def)
  have al: "\<forall>x\<in>set (map of_char t). is_ascii_alphanumeric x" "is_ascii_alphanumeric (byte c)"
    using assms(1) w by (auto simp: slug_word_def slug_byte_facts(1))
  have na: "\<not> is_ascii_alphanumeric 45" by (simp add: is_ascii_alphanumeric_def)
  have "takeWhile is_ascii_alphanumeric (map of_char t @ rest) = map of_char t"
    using al(1) assms(2) na by (cases rest) (auto simp: takeWhile_append takeWhile_eq_all_conv)
  moreover have "dropWhile is_ascii_alphanumeric (map of_char t @ rest) = rest"
    using al(1) assms(2) na by (cases rest) (auto simp: dropWhile_append dropWhile_eq_Nil_conv)
  ultimately show ?thesis using w al(2) by simp
qed

lemma alnum_runs_join:
  "(\<forall>w\<in>set ws. slug_word w) \<Longrightarrow>
   alnum_runs (map of_char (join_hyphen ws)) = map (map of_char) ws"
proof (induction ws rule: join_hyphen.induct)
  case (2 w)
  then show ?case using slug_word_runs [of w "[]"] by simp
next
  case (3 w v ws)
  have "\<not> is_ascii_alphanumeric 45" by (simp add: is_ascii_alphanumeric_def)
  then show ?case
    using 3 slug_word_runs [of w "45 # map of_char (join_hyphen (v # ws))"] by simp
qed simp

lemma lower_word_slug: "slug_word w \<Longrightarrow> lower_word (map of_char w) = w"
  by (induction w) (auto simp: slug_word_def lower_word_def slug_byte_facts(2))

lemma slugify_join:
  assumes "\<forall>w\<in>set ws. slug_word w"
  shows "slugify (join_hyphen ws) = join_hyphen ws"
proof -
  have "map (lower_word \<circ> map of_char) ws = ws"
    using assms by (intro map_idI) (simp add: lower_word_slug)
  then show ?thesis
    by (simp add: slugify_eq_runs chars_ascii ascii_join_hyphen assms alnum_runs_join)
qed

lemma slugify_words: "\<exists>ws. slugify s = join_hyphen ws \<and> (\<forall>w\<in>set ws. slug_word w)"
  by (rule exI [of _ "map lower_word (alnum_runs (chars s))"])
     (auto simp: slugify_eq_runs slug_word_lower)

section \<open>Role and emoji names\<close>

definition role_step :: "string \<times> bool \<Rightarrow> nat \<Rightarrow> string \<times> bool" where
  "role_step st ch =
     (let (out, prev_dash) = st in
      if is_ascii_alphanumeric ch \<or> ch = 95 then (out @ [ascii_char ch], False)
      else if (is_whitespace ch \<or> ch = 45) \<and> out \<noteq> [] \<and> \<not> prev_dash
        then (out @ ''-'', True)
      else (out, prev_dash))"

text \<open>\<^verbatim>\<open>while out.ends_with('-') { out.pop(); }\<close>\<close>

definition pop_dashes :: "string \<Rightarrow> string" where
  "pop_dashes out = rev (dropWhile (\<lambda>c. c = CHR ''-'') (rev out))"

definition normalize_role_name :: "string \<Rightarrow> string" where
  "normalize_role_name raw =
     pop_dashes (fst (foldl role_step ([], False)
       (concat (map to_lowercase_char (trimmed_chars raw)))))"

definition normalize_emoji_name :: "string \<Rightarrow> string" where
  "normalize_emoji_name input =
     map (\<lambda>c. ascii_char (to_ascii_lowercase c))
       (filter (\<lambda>c. is_ascii_alphanumeric c \<or> c = 45 \<or> c = 95) (chars input))"

text \<open>The bytes of a role, emoji or mention token, and the normal form of role
  names: no hyphen at either end and no two in a row.\<close>

definition token_byte :: "char \<Rightarrow> bool" where
  "token_byte c = (slug_byte c \<or> c = CHR ''_'' \<or> c = CHR ''-'')"

definition no_double_dash :: "string \<Rightarrow> bool" where
  "no_double_dash s = successively (\<lambda>a b. \<not> (a = CHR ''-'' \<and> b = CHR ''-'')) s"

definition role_prefix :: "string \<Rightarrow> bool" where
  "role_prefix s =
     ((\<forall>c\<in>set s. token_byte c) \<and> no_double_dash s \<and> (s \<noteq> [] \<longrightarrow> hd s \<noteq> CHR ''-''))"

definition role_token :: "string \<Rightarrow> bool" where
  "role_token s = (role_prefix s \<and> (s \<noteq> [] \<longrightarrow> last s \<noteq> CHR ''-''))"

definition lower_code :: "nat \<Rightarrow> bool" where
  "lower_code c = (is_ascii_alphanumeric c \<longrightarrow> 48 \<le> c \<and> c \<le> 57 \<or> 97 \<le> c \<and> c \<le> 122)"

lemma lower_code_to_lowercase: "c \<in> set (to_lowercase_char n) \<Longrightarrow> lower_code c"
  unfolding to_lowercase_char_def lower_code_def is_ascii_alphanumeric_def to_ascii_lowercase_def
  by (auto split: if_splits)

lemma no_double_dash_snoc:
  "no_double_dash (s @ [c]) \<longleftrightarrow>
     no_double_dash s \<and> (s = [] \<or> last s \<noteq> CHR ''-'' \<or> c \<noteq> CHR ''-'')"
  by (auto simp: no_double_dash_def successively_append_iff)

lemma role_prefix_snoc:
  "role_prefix (s @ [c]) \<longleftrightarrow>
     role_prefix s \<and> token_byte c \<and> (c = CHR ''-'' \<longrightarrow> s \<noteq> [] \<and> last s \<noteq> CHR ''-'')"
proof (cases "s = []")
  case True
  then show ?thesis by (auto simp: role_prefix_def no_double_dash_def)
next
  case False
  then show ?thesis by (auto simp: role_prefix_def no_double_dash_snoc)
qed

lemma role_prefix_Nil [simp]: "role_prefix []"
  by (simp add: role_prefix_def no_double_dash_def)

lemma role_prefix_single [simp]: "role_prefix [c] \<longleftrightarrow> token_byte c \<and> c \<noteq> CHR ''-''"
  using role_prefix_snoc [of "[]"] by simp

lemma ascii_char_word:
  assumes "is_ascii_alphanumeric c \<or> c = 95" "lower_code c"
  shows "token_byte (ascii_char c) \<and> ascii_char c \<noteq> CHR ''-''"
proof -
  have "c < 256" using assms(1) is_ascii_alphanumeric_less [of c] by auto
  hence b: "byte (ascii_char c) = c" by simp
  have "byte (CHR ''_'') = 95" by simp
  hence "ascii_char c = CHR ''_''" if "c = 95"
    using that unfolding ascii_char_def by (metis char_of_char)
  moreover have "c \<noteq> 45" using assms(1) by (auto simp: is_ascii_alphanumeric_def)
  hence "ascii_char c \<noteq> CHR ''-''" using b by auto
  ultimately show ?thesis
    using assms b by (auto simp: token_byte_def slug_byte_def lower_code_def)
qed

lemma role_step_inv:
  assumes "role_prefix out" "prev \<longleftrightarrow> out \<noteq> [] \<and> last out = CHR ''-''" "lower_code c"
    "role_step (out, prev) c = (out', prev')"
  shows "role_prefix out' \<and> (prev' \<longleftrightarrow> out' \<noteq> [] \<and> last out' = CHR ''-'')"
proof (cases "is_ascii_alphanumeric c \<or> c = 95")
  case True
  then show ?thesis
    using assms ascii_char_word [OF True assms(3)]
    by (auto simp: role_step_def role_prefix_snoc)
next
  case False
  then show ?thesis
    using assms by (auto simp: role_step_def role_prefix_snoc token_byte_def split: if_splits)
qed

lemma role_foldl_inv:
  assumes "\<forall>c\<in>set cs. lower_code c" "role_prefix out"
    "prev \<longleftrightarrow> out \<noteq> [] \<and> last out = CHR ''-''"
  shows "role_prefix (fst (foldl role_step (out, prev) cs))"
  using assms
proof (induction cs arbitrary: out prev)
  case (Cons c cs)
  obtain out' prev' where st: "role_step (out, prev) c = (out', prev')" by fastforce
  have "lower_code c" using Cons.prems(1) by simp
  note inv = role_step_inv [OF Cons.prems(2,3) this st]
  show ?case
    unfolding foldl_Cons st by (rule Cons.IH) (use Cons.prems inv in simp_all)
qed simp

lemma role_prefix_butlast: "role_prefix (s @ t) \<Longrightarrow> role_prefix s"
  by (induction t rule: rev_induct) (auto simp: role_prefix_snoc simp flip: append_assoc)

lemma role_token_pop_dashes: "role_prefix s \<Longrightarrow> role_token (pop_dashes s)"
proof -
  assume p: "role_prefix s"
  let ?d = "dropWhile (\<lambda>c. c = CHR ''-'') (rev s)"
  let ?t = "takeWhile (\<lambda>c. c = CHR ''-'') (rev s)"
  have "s = pop_dashes s @ rev ?t"
    unfolding pop_dashes_def rev_append [symmetric] takeWhile_dropWhile_id by simp
  hence "role_prefix (pop_dashes s)" using p by (metis role_prefix_butlast)
  moreover have "?d \<noteq> [] \<Longrightarrow> hd ?d \<noteq> CHR ''-''"
    by (rule hd_dropWhile)
  ultimately show ?thesis by (auto simp: role_token_def pop_dashes_def last_rev)
qed

lemma role_token_normalize: "role_token (normalize_role_name raw)"
  unfolding normalize_role_name_def
  by (intro role_token_pop_dashes role_foldl_inv) (auto simp: lower_code_to_lowercase)

lemma token_byte_facts:
  assumes "token_byte c"
  shows "byte c < 128" "\<not> is_whitespace (byte c)" "to_ascii_lowercase (byte c) = byte c"
    "c \<noteq> CHR ''-'' \<Longrightarrow> is_ascii_alphanumeric (byte c) \<or> byte c = 95"
proof -
  have "slug_byte c \<or> byte c = 95 \<or> byte c = 45" using assms by (auto simp: token_byte_def)
  then consider "slug_byte c" | "byte c = 95" | "byte c = 45" by blast
  then have "byte c < 128 \<and> \<not> is_whitespace (byte c) \<and> to_ascii_lowercase (byte c) = byte c"
    using slug_code_facts [of "byte c"]
    by cases (auto simp: slug_byte_def is_whitespace_def to_ascii_lowercase_def)
  then show "byte c < 128" "\<not> is_whitespace (byte c)" "to_ascii_lowercase (byte c) = byte c"
    by blast+
  show "c \<noteq> CHR ''-'' \<Longrightarrow> is_ascii_alphanumeric (byte c) \<or> byte c = 95"
    using assms slug_byte_facts(1) [of c] by (auto simp: token_byte_def)
qed

lemma to_lowercase_token: "token_byte c \<Longrightarrow> to_lowercase_char (byte c) = [byte c]"
  using token_byte_facts(1,3) [of c] by (simp add: to_lowercase_char_def)

lemma ascii_token_bytes: "\<forall>c\<in>set s. token_byte c \<Longrightarrow> ascii_string s"
  by (simp add: ascii_string_def token_byte_facts(1))

lemma role_foldl_id:
  "role_prefix s \<Longrightarrow>
   foldl role_step ([], False) (map of_char s) = (s, s \<noteq> [] \<and> last s = CHR ''-'')"
proof (induction s rule: rev_induct)
  case (snoc c s)
  have p: "role_prefix s" "token_byte c" "c = CHR ''-'' \<Longrightarrow> s \<noteq> [] \<and> last s \<noteq> CHR ''-''"
    using snoc.prems by (auto simp: role_prefix_snoc)
  show ?case
  proof (cases "c = CHR ''-''")
    case True
    then show ?thesis
      using p snoc.IH by (simp add: role_step_def is_ascii_alphanumeric_def)
  next
    case False
    have "role_step (s, s \<noteq> [] \<and> last s = CHR ''-'') (byte c) = (s @ [c], False)"
      unfolding role_step_def using token_byte_facts(4) [OF p(2) False]
      by (simp add: ascii_char_def)
    with False snoc.IH [OF p(1)] show ?thesis by simp
  qed
qed simp

lemma normalize_role_token:
  assumes "role_token s"
  shows "normalize_role_name s = s"
proof -
  have t: "\<forall>c\<in>set s. token_byte c" "role_prefix s"
    using assms by (auto simp: role_token_def role_prefix_def)
  have tr: "trimmed_chars s = map of_char s"
    using t(1) by (intro trimmed_chars_ascii ascii_token_bytes) (auto simp: token_byte_facts(2))
  have "concat (map to_lowercase_char (map of_char s)) = map of_char s"
    using t(1) by (induction s) (simp_all add: to_lowercase_token)
  moreover have "pop_dashes s = s"
  proof (cases "s = []")
    case False
    hence "hd (rev s) \<noteq> CHR ''-''" using assms by (simp add: role_token_def hd_rev)
    hence "dropWhile (\<lambda>c. c = CHR ''-'') (rev s) = rev s"
      by (subst dropWhile_eq_self_iff) simp
    then show ?thesis by (simp add: pop_dashes_def)
  qed (simp add: pop_dashes_def)
  ultimately show ?thesis
    by (simp add: normalize_role_name_def tr role_foldl_id [OF t(2)])
qed

lemma normalize_emoji_name_tokens: "\<forall>c\<in>set (normalize_emoji_name s). token_byte c"
proof -
  have "token_byte (ascii_char (to_ascii_lowercase c))"
    if "is_ascii_alphanumeric c \<or> c = 45 \<or> c = 95" for c
  proof -
    have "ascii_char (byte (CHR ''-'')) = CHR ''-''" "ascii_char (byte (CHR ''_'')) = CHR ''_''"
      unfolding ascii_char_def by (rule char_of_char)+
    then show ?thesis
      using that slug_byte_lower [of c] by (auto simp: token_byte_def to_ascii_lowercase_def)
  qed
  then show ?thesis by (auto simp: normalize_emoji_name_def)
qed

lemma normalize_emoji_name_id:
  assumes "\<forall>c\<in>set s. token_byte c"
  shows "normalize_emoji_name s = s"
proof -
  have "filter (\<lambda>c. is_ascii_alphanumeric c \<or> c = 45 \<or> c = 95) (map of_char s)
      = (map of_char s :: nat list)"
    using assms token_byte_facts(4) by (fastforce simp: filter_id_conv)
  moreover have "map (\<lambda>c. ascii_char (to_ascii_lowercase c)) (map of_char s) = s"
    using assms by (simp add: token_byte_facts(3) ascii_char_def map_idI)
  ultimately show ?thesis
    by (simp add: normalize_emoji_name_def chars_ascii ascii_token_bytes assms)
qed

end
