(* ===== verification/Mentions_Credentials.thy ===== *)
theory Mentions_Credentials
  imports Names_Credentials
begin

text \<open>
  The scanner of \<^verbatim>\<open>@mentions\<close> in a message body, the password and email
  policies of a sign-up, the media kinds of an upload, and the header check of
  an emoji image. The scanner is characterised by the splits of the body that
  put a mention at each place; the policies by what they accept.
\<close>

section \<open>Mentions\<close>

definition is_word_byte :: "char \<Rightarrow> bool" where
  "is_word_byte b = (is_ascii_alphanumeric (byte b) \<or> b = CHR ''_'' \<or> b = CHR ''-'')"

text \<open>The scanning loop at some index: the byte before it (none at the start),
  the bytes from it on, and the tokens found so far.\<close>

function mention_loop :: "char option \<Rightarrow> string \<Rightarrow> string list \<Rightarrow> string list" where
  "mention_loop prev [] out = out"
| "mention_loop prev (b # rest) out =
     (if b = CHR ''@'' then
        let preceded_ok = (case prev of None \<Rightarrow> True | Some p \<Rightarrow> \<not> is_word_byte p);
            word = takeWhile is_word_byte rest;
            token = make_ascii_lowercase word;
            out' = (if preceded_ok \<and> word \<noteq> [] \<and> token \<notin> set out then out @ [token] else out)
        in mention_loop (Some (last (b # word))) (dropWhile is_word_byte rest) out'
      else mention_loop (Some b) rest out)"
  by pat_completeness auto
termination
  by (relation "measure (\<lambda>(_, s, _). length s)") (auto simp: le_imp_less_Suc length_dropWhile_le)

definition parse_mentions :: "string \<Rightarrow> string list" where
  "parse_mentions body = mention_loop None body []"

text \<open>The specification: \<open>w\<close> is the word of a mention that starts somewhere in
  \<open>body\<close>, given the byte before \<open>body\<close>.\<close>

definition boundary :: "char option \<Rightarrow> string \<Rightarrow> bool" where
  "boundary prev pre =
     (if pre = [] then (case prev of None \<Rightarrow> True | Some p \<Rightarrow> \<not> is_word_byte p)
      else \<not> is_word_byte (last pre))"

definition mention_in :: "char option \<Rightarrow> string \<Rightarrow> string \<Rightarrow> bool" where
  "mention_in prev body w =
     (\<exists>pre post. body = pre @ CHR ''@'' # w @ post \<and> boundary prev pre \<and> w \<noteq> [] \<and>
        (\<forall>c\<in>set w. is_word_byte c) \<and> (post = [] \<or> \<not> is_word_byte (hd post)))"

lemma at_not_word [simp]: "\<not> is_word_byte (CHR ''@'')"
  by (simp add: is_word_byte_def is_ascii_alphanumeric_def)

lemma word_split_unique:
  assumes "\<forall>c\<in>set w. is_word_byte c" "post = [] \<or> \<not> is_word_byte (hd post)"
  shows "takeWhile is_word_byte (w @ post) = w \<and> dropWhile is_word_byte (w @ post) = post"
  using assms
  by (cases post) (auto simp: takeWhile_append dropWhile_append takeWhile_eq_all_conv
      dropWhile_eq_Nil_conv)

lemma mention_in_Nil [simp]: "\<not> mention_in prev [] w"
  by (simp add: mention_in_def)

lemma mention_in_other:
  assumes "b \<noteq> CHR ''@''"
  shows "mention_in prev (b # rest) w \<longleftrightarrow> mention_in (Some b) rest w"
proof
  assume "mention_in prev (b # rest) w"
  then obtain pre post where s: "b # rest = pre @ CHR ''@'' # w @ post" "boundary prev pre"
      "w \<noteq> []" "\<forall>c\<in>set w. is_word_byte c" "post = [] \<or> \<not> is_word_byte (hd post)"
    by (auto simp: mention_in_def)
  then obtain pre' where "pre = b # pre'" using assms by (cases pre) auto
  then show "mention_in (Some b) rest w"
    using s unfolding mention_in_def
    by (intro exI [of _ pre'] exI [of _ post]) (auto simp: boundary_def split: if_splits)
next
  assume "mention_in (Some b) rest w"
  then obtain pre post where "rest = pre @ CHR ''@'' # w @ post" "boundary (Some b) pre"
      "w \<noteq> []" "\<forall>c\<in>set w. is_word_byte c" "post = [] \<or> \<not> is_word_byte (hd post)"
    by (auto simp: mention_in_def)
  then show "mention_in prev (b # rest) w"
    unfolding mention_in_def
    by (intro exI [of _ "b # pre"] exI [of _ post]) (auto simp: boundary_def split: if_splits)
qed

lemma mention_in_words:
  "\<forall>c\<in>set u. is_word_byte c \<Longrightarrow>
   mention_in prev (u @ rest) w \<longleftrightarrow> mention_in (if u = [] then prev else Some (last u)) rest w"
proof (induction u arbitrary: prev)
  case (Cons c u)
  have "c \<noteq> CHR ''@''" using Cons.prems by auto
  with Cons show ?case by (simp add: mention_in_other)
qed simp

text \<open>At an \<^verbatim>\<open>@\<close>: the mention that starts here, or one that starts later.\<close>

lemma mention_in_at_rest:
  "mention_in prev (CHR ''@'' # rest) w \<longleftrightarrow>
    (boundary prev [] \<and> w \<noteq> [] \<and> w = takeWhile is_word_byte rest)
    \<or> mention_in (Some (CHR ''@'')) rest w"
    (is "?L \<longleftrightarrow> ?R1 \<or> ?R2")
proof
  assume ?L
  then obtain pre post where s: "CHR ''@'' # rest = pre @ CHR ''@'' # w @ post"
      "boundary prev pre" "w \<noteq> []" "\<forall>c\<in>set w. is_word_byte c"
      "post = [] \<or> \<not> is_word_byte (hd post)"
    unfolding mention_in_def by blast
  show "?R1 \<or> ?R2"
  proof (cases pre)
    case Nil
    then have "rest = w @ post" using s(1) by simp
    then have "w = takeWhile is_word_byte rest" using word_split_unique [OF s(4,5)] by simp
    then show ?thesis using s(2,3) Nil by simp
  next
    case (Cons c pre')
    then have "rest = pre' @ CHR ''@'' # w @ post" "c = CHR ''@''" using s(1) by simp_all
    moreover have "boundary (Some (CHR ''@'')) pre'"
      using s(2) Cons by (simp add: boundary_def split: if_splits)
    ultimately have ?R2 unfolding mention_in_def using s(3-5) by blast
    then show ?thesis ..
  qed
next
  assume "?R1 \<or> ?R2"
  then show ?L
  proof
    assume R1: ?R1
    let ?p = "dropWhile is_word_byte rest"
    have uw: "\<forall>c\<in>set w. is_word_byte c" using R1 set_takeWhileD by fast
    have rw: "?p = [] \<or> \<not> is_word_byte (hd ?p)" by (metis hd_dropWhile)
    have "CHR ''@'' # rest = [] @ CHR ''@'' # w @ ?p"
      using R1 takeWhile_dropWhile_id [of is_word_byte rest] by simp
    with R1 uw rw show ?L unfolding mention_in_def by blast
  next
    assume ?R2
    then obtain pre post where s: "rest = pre @ CHR ''@'' # w @ post"
        "boundary (Some (CHR ''@'')) pre" "w \<noteq> []" "\<forall>c\<in>set w. is_word_byte c"
        "post = [] \<or> \<not> is_word_byte (hd post)"
      unfolding mention_in_def by blast
    have "CHR ''@'' # rest = (CHR ''@'' # pre) @ CHR ''@'' # w @ post" using s(1) by simp
    moreover have "boundary prev (CHR ''@'' # pre)"
      using s(2) by (simp add: boundary_def split: if_splits)
    ultimately show ?L unfolding mention_in_def using s(3-5) by blast
  qed
qed

lemma mention_in_at:
  "mention_in prev (CHR ''@'' # rest) w \<longleftrightarrow>
    (boundary prev [] \<and> w \<noteq> [] \<and> w = takeWhile is_word_byte rest) \<or>
    mention_in (Some (last (CHR ''@'' # takeWhile is_word_byte rest)))
      (dropWhile is_word_byte rest) w"
proof -
  let ?u = "takeWhile is_word_byte rest"
  let ?r = "dropWhile is_word_byte rest"
  have uw: "\<forall>c\<in>set ?u. is_word_byte c" using set_takeWhileD by fast
  have "mention_in (Some (CHR ''@'')) rest w \<longleftrightarrow>
      mention_in (Some (CHR ''@'')) (?u @ ?r) w" by simp
  also have "\<dots> \<longleftrightarrow> mention_in (Some (last (CHR ''@'' # ?u))) ?r w"
    by (subst mention_in_words [OF uw]) simp
  finally show ?thesis using mention_in_at_rest [of prev rest w] by blast
qed

lemma mention_loop_set:
  "set (mention_loop prev body out) =
     set out \<union> make_ascii_lowercase ` {w. mention_in prev body w}"
proof (induction prev body out rule: mention_loop.induct)
  case (2 prev b rest out)
  show ?case
  proof (cases "b = CHR ''@''")
    case True
    have bd: "boundary prev [] = (case prev of None \<Rightarrow> True | Some p \<Rightarrow> \<not> is_word_byte p)"
      by (simp add: boundary_def)
    have "{w. mention_in prev (b # rest) w} =
        (if boundary prev [] \<and> takeWhile is_word_byte rest \<noteq> []
         then {takeWhile is_word_byte rest} else {})
        \<union> {w. mention_in (Some (last (b # takeWhile is_word_byte rest)))
              (dropWhile is_word_byte rest) w}"
      unfolding True by (auto simp only: mention_in_at split: if_splits)
    then show ?thesis
      using 2(1) [OF True refl refl refl refl] True
      by (auto simp: Let_def bd [symmetric] simp del: last.simps)
  next
    case False
    then show ?thesis using 2 by (simp add: mention_in_other)
  qed
qed simp

lemma mention_loop_distinct:
  "distinct out \<Longrightarrow> distinct (mention_loop prev body out)"
  by (induction prev body out rule: mention_loop.induct) (auto simp: Let_def)

lemma parse_mentions_set:
  "set (parse_mentions body) = make_ascii_lowercase ` {w. mention_in None body w}"
  by (simp add: parse_mentions_def mention_loop_set)

lemma lower_word_byte:
  assumes "is_word_byte c"
  shows "token_byte (ascii_char (to_ascii_lowercase (byte c)))"
proof -
  have "ascii_char (byte (CHR ''-'')) = CHR ''-''" "ascii_char (byte (CHR ''_'')) = CHR ''_''"
    unfolding ascii_char_def by (rule char_of_char)+
  then show ?thesis
    using assms slug_byte_lower [of "byte c"]
    by (auto simp: is_word_byte_def token_byte_def to_ascii_lowercase_def)
qed

lemma mention_tokens:
  "t \<in> set (parse_mentions body) \<Longrightarrow> t \<noteq> [] \<and> (\<forall>c\<in>set t. token_byte c)"
  by (auto simp: parse_mentions_set mention_in_def make_ascii_lowercase_def lower_word_byte)

section \<open>Password and email policy\<close>

definition MIN_PASSWORD_LEN :: nat where
  "MIN_PASSWORD_LEN = 16"

definition MAX_PASSWORD_LEN :: nat where
  "MAX_PASSWORD_LEN = 256"

definition MAX_EMAIL_LEN :: nat where
  "MAX_EMAIL_LEN = 254"

datatype password_error = TooShort | TooLong

datatype email_error = EmailEmpty | EmailTooLong | EmailMalformed

definition validate_password :: "string \<Rightarrow> password_error + unit" where
  "validate_password password =
     (if length password < MIN_PASSWORD_LEN then Inl TooShort
      else if length password > MAX_PASSWORD_LEN then Inl TooLong
      else Inr ())"

definition validate_email :: "string \<Rightarrow> email_error + unit" where
  "validate_email input =
     (let email = trim input in
      if email = [] then Inl EmailEmpty
      else if length email > MAX_EMAIL_LEN then Inl EmailTooLong
      else if \<exists>c\<in>set (chars email). is_whitespace c then Inl EmailMalformed
      else (case split_once (CHR ''@'') email of
          None \<Rightarrow> Inl EmailMalformed
        | Some (local, domain) \<Rightarrow>
            if local = [] \<or> CHR ''@'' \<in> set domain then Inl EmailMalformed
            else (case rsplit_once (CHR ''.'') domain of
                Some (host, tld) \<Rightarrow> if host \<noteq> [] \<and> tld \<noteq> [] then Inr () else Inl EmailMalformed
              | None \<Rightarrow> Inl EmailMalformed)))"

lemma validate_password_Ok:
  "validate_password p = Inr () \<longleftrightarrow> 16 \<le> length p \<and> length p \<le> 256"
  by (auto simp: validate_password_def MIN_PASSWORD_LEN_def MAX_PASSWORD_LEN_def)

lemma validate_email_Ok:
  "validate_email s = Inr () \<longleftrightarrow>
     length (trim s) \<le> 254 \<and> (\<forall>c\<in>set (chars (trim s)). \<not> is_whitespace c) \<and>
     (\<exists>local host tld. trim s = local @ ''@'' @ host @ ''.'' @ tld \<and>
        local \<noteq> [] \<and> host \<noteq> [] \<and> tld \<noteq> [] \<and>
        CHR ''@'' \<notin> set local \<union> set host \<union> set tld \<and> CHR ''.'' \<notin> set tld)"
    (is "?L \<longleftrightarrow> ?len \<and> ?ws \<and> ?shape")
proof
  assume ?L
  then obtain local domain where *: "?len" "?ws" "split_once (CHR ''@'') (trim s) = Some (local, domain)"
      "local \<noteq> []" "CHR ''@'' \<notin> set domain"
      "(case rsplit_once (CHR ''.'') domain of
          Some (host, tld) \<Rightarrow> if host \<noteq> [] \<and> tld \<noteq> [] then Inr () else Inl EmailMalformed
        | None \<Rightarrow> Inl EmailMalformed) = Inr ()"
    by (auto simp: validate_email_def Let_def MAX_EMAIL_LEN_def not_less
        split: if_splits option.splits)
  then obtain host tld where "rsplit_once (CHR ''.'') domain = Some (host, tld)"
      "host \<noteq> []" "tld \<noteq> []"
    by (auto split: option.splits if_splits)
  with * have ?shape by (auto simp: split_once_Some rsplit_once_Some)
  with * show "?len \<and> ?ws \<and> ?shape" by blast
next
  assume r: "?len \<and> ?ws \<and> ?shape"
  then obtain local host tld where sh: "trim s = local @ ''@'' @ host @ ''.'' @ tld"
      "local \<noteq> []" "host \<noteq> []" "tld \<noteq> []"
      "CHR ''@'' \<notin> set local" "CHR ''@'' \<notin> set host \<union> set tld" "CHR ''.'' \<notin> set tld"
    by blast
  have "split_once (CHR ''@'') (trim s) = Some (local, host @ ''.'' @ tld)"
    using sh by (simp add: split_once_Some)
  moreover have "rsplit_once (CHR ''.'') (host @ ''.'' @ tld) = Some (host, tld)"
    using sh by (simp add: rsplit_once_Some)
  moreover have "CHR ''@'' \<notin> set (host @ ''.'' @ tld)" using sh(6) by simp
  moreover have "trim s \<noteq> []" using sh(1) by simp
  moreover have "\<not> length (trim s) > MAX_EMAIL_LEN" using r by (simp add: MAX_EMAIL_LEN_def)
  ultimately show ?L
    unfolding validate_email_def Let_def using r sh(2-4) by simp
qed

section \<open>Media kinds and emoji images\<close>

datatype media_kind = Image | Video | Audio

definition media_kind_from_content_type :: "string \<Rightarrow> media_kind option" where
  "media_kind_from_content_type content_type =
     (let top = make_ascii_lowercase (trim (before_first (CHR ''/'') content_type)) in
      if top = ''image'' then Some Image
      else if top = ''video'' then Some Video
      else if top = ''audio'' then Some Audio
      else None)"

definition media_kind_as_str :: "media_kind \<Rightarrow> string" where
  "media_kind_as_str k =
     (case k of Image \<Rightarrow> ''image'' | Video \<Rightarrow> ''video'' | Audio \<Rightarrow> ''audio'')"

datatype emoji_image_format = Png | Gif

definition emoji_image_mime :: "emoji_image_format \<Rightarrow> string" where
  "emoji_image_mime f = (case f of Png \<Rightarrow> ''image/png'' | Gif \<Rightarrow> ''image/gif'')"

datatype emoji_image_error =
    ImageEmpty
  | ImageTooLarge nat nat
  | UnsupportedFormat
  | Truncated
  | EmptyDimensions
  | TooBig u32 u32 u32

definition MAX_EMOJI_IMAGE_BYTES :: nat where
  "MAX_EMOJI_IMAGE_BYTES = 256 * 1024"

definition MAX_EMOJI_IMAGE_DIMENSION :: u32 where
  "MAX_EMOJI_IMAGE_DIMENSION = 256"

definition PNG_MAGIC :: "u8 list" where
  "PNG_MAGIC = [0x89, 0x50, 0x4E, 0x47, 0x0D, 0x0A, 0x1A, 0x0A]"

definition GIF87a :: "u8 list" where
  "GIF87a = [0x47, 0x49, 0x46, 0x38, 0x37, 0x61]"

definition GIF89a :: "u8 list" where
  "GIF89a = [0x47, 0x49, 0x46, 0x38, 0x39, 0x61]"

text \<open>\<^verbatim>\<open>u32::from_be_bytes\<close> and \<^verbatim>\<open>u16::from_le_bytes\<close>, and \<^verbatim>\<open>bytes[i..j]\<close>.\<close>

definition u32_from_be_bytes :: "u8 list \<Rightarrow> u32" where
  "u32_from_be_bytes bs = foldl (\<lambda>acc b. push_bit 8 acc OR ucast b) 0 bs"

definition u16_from_le_bytes :: "u8 list \<Rightarrow> u16" where
  "u16_from_le_bytes bs = foldr (\<lambda>b acc. push_bit 8 acc OR ucast b) bs 0"

definition slice :: "nat \<Rightarrow> nat \<Rightarrow> 'a list \<Rightarrow> 'a list" where
  "slice i j xs = take (j - i) (drop i xs)"

definition starts_with :: "'a list \<Rightarrow> 'a list \<Rightarrow> bool" where
  "starts_with xs p = (take (length p) xs = p)"

definition sniff :: "u8 list \<Rightarrow> emoji_image_error + (emoji_image_format \<times> u32 \<times> u32)" where
  "sniff bytes =
     (if starts_with bytes PNG_MAGIC then
        (if length bytes < 24 then Inl Truncated
         else Inr (Png, u32_from_be_bytes (slice 16 20 bytes),
                        u32_from_be_bytes (slice 20 24 bytes)))
      else if starts_with bytes GIF87a \<or> starts_with bytes GIF89a then
        (if length bytes < 10 then Inl Truncated
         else Inr (Gif, ucast (u16_from_le_bytes (slice 6 8 bytes)),
                        ucast (u16_from_le_bytes (slice 8 10 bytes))))
      else Inl UnsupportedFormat)"

definition validate_emoji_image :: "u8 list \<Rightarrow> emoji_image_error + emoji_image_format" where
  "validate_emoji_image bytes =
     (if bytes = [] then Inl ImageEmpty
      else if length bytes > MAX_EMOJI_IMAGE_BYTES
        then Inl (ImageTooLarge (length bytes) MAX_EMOJI_IMAGE_BYTES)
      else (case sniff bytes of
          Inl e \<Rightarrow> Inl e
        | Inr (format, width, height) \<Rightarrow>
            if width = 0 \<or> height = 0 then Inl EmptyDimensions
            else if width > MAX_EMOJI_IMAGE_DIMENSION \<or> height > MAX_EMOJI_IMAGE_DIMENSION
              then Inl (TooBig width height MAX_EMOJI_IMAGE_DIMENSION)
            else Inr format))"

lemma sniff_Ok_length: "sniff bytes = Inr r \<Longrightarrow> 10 \<le> length bytes"
  by (auto simp: sniff_def split: if_splits)

text \<open>An accepted image is exactly one whose header says PNG or GIF and 1 to 256
  pixels on either side, in at most 256 KiB.\<close>

lemma validate_emoji_image_Ok:
  "validate_emoji_image bytes = Inr f \<longleftrightarrow>
     length bytes \<le> 256 * 1024 \<and>
     (\<exists>w h. sniff bytes = Inr (f, w, h) \<and>
        1 \<le> unat w \<and> unat w \<le> 256 \<and> 1 \<le> unat h \<and> unat h \<le> 256)"
proof -
  have w0: "x = 0 \<longleftrightarrow> \<not> 1 \<le> unat x" for x :: u32
    by (simp add: Suc_le_eq unat_eq_zero)
  have w256: "x > MAX_EMOJI_IMAGE_DIMENSION \<longleftrightarrow> \<not> unat x \<le> 256" for x :: u32
    by (simp add: MAX_EMOJI_IMAGE_DIMENSION_def word_less_nat_alt not_le)
  show ?thesis
  proof (cases "sniff bytes")
    case (Inl e)
    then show ?thesis by (simp add: validate_emoji_image_def)
  next
    case (Inr r)
    then have ne: "bytes \<noteq> []" using sniff_Ok_length by fastforce
    obtain g w h where r: "r = (g, w, h)" by (cases r) simp
    have "validate_emoji_image bytes = Inr f \<longleftrightarrow>
        length bytes \<le> 256 * 1024 \<and> \<not> (w = 0 \<or> h = 0) \<and>
        \<not> (w > MAX_EMOJI_IMAGE_DIMENSION \<or> h > MAX_EMOJI_IMAGE_DIMENSION) \<and> g = f"
      unfolding validate_emoji_image_def MAX_EMOJI_IMAGE_BYTES_def Inr r using ne
      by auto
    then show ?thesis unfolding w0 w256 Inr r by auto
  qed
qed

end
