(* ===== verification/Chat_Model.thy ===== *)
theory Chat_Model
  imports Ids_Time Mentions_Credentials "HOL-Library.List_Lexorder" "HOL-Library.Multiset"
begin

text \<open>
  The chat entities (\<^verbatim>\<open>domain/src/chat\<close>): channels, messages and the threads they
  form, attachments, reactions and their summary, sealed channel-key grants;
  and the custom emoji of a server with their continuously voted ranking
  (\<^verbatim>\<open>domain/src/emoji.rs\<close>, \<^verbatim>\<open>emoji_vote.rs\<close>, \<^verbatim>\<open>emoji_ranking\<close>).
\<close>

section \<open>Channels and messages\<close>

datatype history_mode = HistoryOpen | Ephemeral

record channel =
  ch_id :: channel_id
  ch_server_id :: server_id
  ch_name :: string
  ch_topic :: string
  ch_created_at :: timestamp
  ch_is_encrypted :: bool
  ch_history_mode :: history_mode

definition channel_new :: "channel_id \<Rightarrow> server_id \<Rightarrow> string \<Rightarrow> string \<Rightarrow> timestamp \<Rightarrow> channel" where
  "channel_new cid sid name topic created_at =
     \<lparr> ch_id = cid, ch_server_id = sid, ch_name = name, ch_topic = topic,
       ch_created_at = created_at, ch_is_encrypted = False, ch_history_mode = HistoryOpen \<rparr>"

definition enable_encryption :: "history_mode \<Rightarrow> channel \<Rightarrow> channel" where
  "enable_encryption mode c = c\<lparr>ch_is_encrypted := True, ch_history_mode := mode\<rparr>"

record attachment =
  a_key :: string
  a_content_type :: string
  a_kind :: media_kind
  a_caption :: string
  a_is_spoiler :: bool

definition attachment_new :: "string \<Rightarrow> string \<Rightarrow> media_kind \<Rightarrow> string \<Rightarrow> bool \<Rightarrow> attachment" where
  "attachment_new key content_type kind caption is_spoiler =
     \<lparr> a_key = key, a_content_type = content_type, a_kind = kind, a_caption = caption,
       a_is_spoiler = is_spoiler \<rparr>"

record message =
  msg_id :: message_id
  msg_channel_id :: channel_id
  msg_server_id :: server_id
  msg_author :: user_id
  msg_body :: string
  msg_key_epoch :: "u32 option"
  msg_parent :: "message_id option"
  msg_created_at :: timestamp
  msg_edited_at :: "timestamp option"
  msg_is_deleted :: bool
  msg_attachments :: "attachment list"

definition message_new ::
  "message_id \<Rightarrow> channel_id \<Rightarrow> server_id \<Rightarrow> user_id \<Rightarrow> string \<Rightarrow> message_id option \<Rightarrow> timestamp \<Rightarrow>
   message" where
  "message_new mid cid sid author body parent created_at =
     \<lparr> msg_id = mid, msg_channel_id = cid, msg_server_id = sid, msg_author = author,
       msg_body = body, msg_key_epoch = None, msg_parent = parent, msg_created_at = created_at,
       msg_edited_at = None, msg_is_deleted = False, msg_attachments = [] \<rparr>"

definition sealed ::
  "message_id \<Rightarrow> channel_id \<Rightarrow> server_id \<Rightarrow> user_id \<Rightarrow> string \<Rightarrow> u32 \<Rightarrow> message_id option \<Rightarrow>
   timestamp \<Rightarrow> message" where
  "sealed mid cid sid author ciphertext key_epoch parent created_at =
     \<lparr> msg_id = mid, msg_channel_id = cid, msg_server_id = sid, msg_author = author,
       msg_body = ciphertext, msg_key_epoch = Some key_epoch, msg_parent = parent,
       msg_created_at = created_at, msg_edited_at = None, msg_is_deleted = False,
       msg_attachments = [] \<rparr>"

definition edit :: "string \<Rightarrow> timestamp \<Rightarrow> message \<Rightarrow> message" where
  "edit body at m = m\<lparr>msg_body := body, msg_edited_at := Some at\<rparr>"

definition tombstone :: "message \<Rightarrow> message" where
  "tombstone m = m\<lparr>msg_body := [], msg_attachments := [], msg_is_deleted := True\<rparr>"

record channel_key_grant =
  g_server_id :: server_id
  g_channel_id :: channel_id
  g_epoch :: u32
  g_member :: user_id
  g_sealed_key :: string

definition channel_key_grant_new ::
  "server_id \<Rightarrow> channel_id \<Rightarrow> u32 \<Rightarrow> user_id \<Rightarrow> string \<Rightarrow> channel_key_grant" where
  "channel_key_grant_new sid cid epoch mem sealed_key =
     \<lparr> g_server_id = sid, g_channel_id = cid, g_epoch = epoch, g_member = mem,
       g_sealed_key = sealed_key \<rparr>"

section \<open>Threads\<close>

datatype message_node = MessageNode (node_message: message) (replies: "message_node list")

text \<open>The key a message is grouped under: its parent when that message is in the
  list too, none for a root.\<close>

definition tree_key :: "message list \<Rightarrow> message \<Rightarrow> message_id option" where
  "tree_key messages m =
     (case msg_parent m of
        Some p \<Rightarrow> if p \<in> msg_id ` set messages then Some p else None
      | None \<Rightarrow> None)"

definition push_bucket ::
  "'k \<Rightarrow> 'v \<Rightarrow> ('k, 'v list) hashmap \<Rightarrow> ('k, 'v list) hashmap" where
  "push_bucket k v m =
     hm_insert k ((case hm_get m k of None \<Rightarrow> [] | Some b \<Rightarrow> b) @ [v]) m"

definition tree_children :: "message list \<Rightarrow> (message_id option, message list) hashmap" where
  "tree_children messages =
     map (\<lambda>(k, bucket). (k, sort_key (\<lambda>m. message_id_val (msg_id m)) bucket))
       (foldl (\<lambda>ch m. push_bucket (tree_key messages m) m ch) [] messages)"

text \<open>The recursion of the code has no bound of its own; \<open>build_level\<close> takes the
  depth it may still descend and is \<open>None\<close> when that runs out, which
  \<open>build_message_tree_returns\<close> below shows it does not.\<close>

primrec build_level ::
  "nat \<Rightarrow> message_id option \<Rightarrow> (message_id option, message list) hashmap \<Rightarrow>
   message_node list option" where
  "build_level 0 parent children = None"
| "build_level (Suc depth) parent children =
     those (map (\<lambda>m. map_option (MessageNode m)
                 (build_level depth (Some (msg_id m)) children))
       (case hm_get children parent of None \<Rightarrow> [] | Some bucket \<Rightarrow> bucket))"

definition build_message_tree :: "message list \<Rightarrow> message_node list option" where
  "build_message_tree messages =
     build_level (length messages + 1) None (tree_children messages)"

primrec flatten_node :: "message_node \<Rightarrow> message list" where
  "flatten_node (MessageNode m ns) = m # concat (map flatten_node ns)"

definition flatten_forest :: "message_node list \<Rightarrow> message list" where
  "flatten_forest ns = concat (map flatten_node ns)"

definition bucket :: "message list \<Rightarrow> message_id option \<Rightarrow> message list" where
  "bucket messages k =
     sort_key (\<lambda>m. message_id_val (msg_id m)) (filter (\<lambda>m. tree_key messages m = k) messages)"

lemma push_bucket_foldl:
  "(case hm_get (foldl (\<lambda>ch m. push_bucket (f m) m ch) acc ms) k of None \<Rightarrow> [] | Some b \<Rightarrow> b) =
   (case hm_get acc k of None \<Rightarrow> [] | Some b \<Rightarrow> b) @ filter (\<lambda>m. f m = k) ms"
  by (induction ms arbitrary: acc) (simp_all add: push_bucket_def hm_get_insert)

lemma hm_get_map_values:
  "hm_get (map (\<lambda>(k, v). (k, f v)) m) k = map_option f (hm_get m k)"
  by (induction m) (auto simp: hm_get_def)

lemma tree_children_bucket:
  "(case hm_get (tree_children messages) k of None \<Rightarrow> [] | Some b \<Rightarrow> b) = bucket messages k"
  using push_bucket_foldl [of "tree_key messages" "[]" messages k]
  by (cases "hm_get (foldl (\<lambda>ch m. push_bucket (tree_key messages m) m ch) [] messages) k")
     (simp_all add: tree_children_def hm_get_map_values bucket_def)

lemma build_level_Suc:
  "build_level (Suc d) k (tree_children ms) =
     those (map (\<lambda>m. map_option (MessageNode m)
                 (build_level d (Some (msg_id m)) (tree_children ms))) (bucket ms k))"
  by (simp only: build_level.simps tree_children_bucket)

lemma set_bucket: "m \<in> set (bucket ms k) \<longleftrightarrow> m \<in> set ms \<and> tree_key ms m = k"
  by (auto simp: bucket_def)

text \<open>A message with the ancestors it hangs under, up to a root.\<close>

fun thread_chain :: "message list \<Rightarrow> message list \<Rightarrow> bool" where
  "thread_chain ms [] = False"
| "thread_chain ms [m] = (m \<in> set ms \<and> tree_key ms m = None)"
| "thread_chain ms (m # n # p) =
     (m \<in> set ms \<and> tree_key ms m = Some (msg_id n) \<and> thread_chain ms (n # p))"

lemma thread_chain_unique:
  assumes "unique_by msg_id ms"
  shows "thread_chain ms (m # p) \<Longrightarrow> thread_chain ms (m # q) \<Longrightarrow> p = q"
proof (induction p arbitrary: m q)
  case Nil
  then show ?case by (cases q) simp_all
next
  case (Cons n p)
  then obtain n' q' where q: "q = n' # q'" by (cases q) auto
  with Cons.prems have eq: "msg_id n' = msg_id n" "thread_chain ms (n # p)"
      "thread_chain ms (n' # q')"
    by auto
  have mem: "n \<in> set ms" "n' \<in> set ms"
    using eq(2,3) by (cases p; simp; cases q'; simp)+
  have "n' = n" by (rule unique_by_eq [OF assms mem(2,1) eq(1)])
  then show ?case using Cons.IH [of n q'] eq q by simp
qed

lemma thread_chain_suffix: "thread_chain ms (p @ m # q) \<Longrightarrow> thread_chain ms (m # q)"
proof (induction p)
  case (Cons n p)
  then show ?case by (cases "p @ m # q") auto
qed simp

lemma thread_chain_set: "thread_chain ms p \<Longrightarrow> set p \<subseteq> set ms"
  by (induction ms p rule: thread_chain.induct) auto

lemma thread_chain_distinct:
  assumes "unique_by msg_id ms"
  shows "thread_chain ms p \<Longrightarrow> distinct p"
proof (induction p)
  case (Cons m p)
  show ?case
  proof (cases p)
    case (Cons n p')
    have "m \<notin> set p"
    proof
      assume "m \<in> set p"
      then obtain x q where p: "p = x @ m # q" by (meson split_list)
      then have "thread_chain ms (m # q)"
        using thread_chain_suffix [of ms "m # x" m q] Cons.prems by simp
      from thread_chain_unique [OF assms Cons.prems this] p show False by simp
    qed
    then show ?thesis using Cons.IH Cons.prems Cons by simp
  qed simp
qed simp

lemma thread_chain_length:
  assumes "unique_by msg_id ms" "thread_chain ms p"
  shows "length p \<le> length ms"
proof -
  have "length p = card (set p)"
    using thread_chain_distinct [OF assms] by (simp add: distinct_card)
  also have "\<dots> \<le> card (set ms)"
    using thread_chain_set [OF assms(2)] by (simp add: card_mono)
  also have "\<dots> \<le> length ms" by (rule card_length)
  finally show ?thesis .
qed

lemma those_Some: "(\<forall>x\<in>set xs. \<exists>y. f x = Some y) \<Longrightarrow> \<exists>ys. those (map f xs) = Some ys"
  by (induction xs) auto

lemma thread_chain_Cons:
  "m \<in> set (bucket ms (Some (msg_id n))) \<Longrightarrow> thread_chain ms (n # p) \<Longrightarrow>
   thread_chain ms (m # n # p)"
  by (simp add: set_bucket)

lemma build_level_returns:
  assumes "unique_by msg_id ms"
  shows "thread_chain ms (n # p) \<Longrightarrow> length ms + 1 \<le> d + length (n # p) \<Longrightarrow>
    \<exists>ns. build_level d (Some (msg_id n)) (tree_children ms) = Some ns"
proof (induction d arbitrary: n p)
  case 0
  then show ?case using thread_chain_length [OF assms 0(1)] by simp
next
  case (Suc d)
  have "\<exists>y. map_option (MessageNode m)
      (build_level d (Some (msg_id m)) (tree_children ms)) = Some y"
    if "m \<in> set (bucket ms (Some (msg_id n)))" for m
    using Suc.IH [OF thread_chain_Cons [OF that Suc.prems(1)]] Suc.prems(2) by auto
  then show ?case unfolding build_level_Suc by (intro those_Some ballI)
qed

lemma build_message_tree_returns:
  assumes "unique_by msg_id ms"
  shows "\<exists>ns. build_message_tree ms = Some ns"
proof -
  have "\<exists>y. map_option (MessageNode m)
      (build_level (length ms) (Some (msg_id m)) (tree_children ms)) = Some y"
    if "m \<in> set (bucket ms None)" for m
    using build_level_returns [OF assms, of m "[]" "length ms"] that by (auto simp: set_bucket)
  then show ?thesis
    unfolding build_message_tree_def Suc_eq_plus1 [symmetric] build_level_Suc
    by (intro those_Some ballI)
qed

text \<open>The messages of a level and of everything under it.\<close>

lemma set_those: "those (map f xs) = Some ys \<Longrightarrow> set ys = {y. \<exists>x\<in>set xs. f x = Some y}"
proof (induction xs arbitrary: ys)
  case (Cons x xs)
  then obtain y zs where "f x = Some y" "those (map f xs) = Some zs" "ys = y # zs"
    by (auto split: option.splits)
  with Cons.IH show ?case by auto
qed simp

lemma those_None: "those xs = None \<longleftrightarrow> None \<in> set xs"
  by (induction xs) (auto split: option.splits)

lemma flatten_forest_set: "set (flatten_forest ns) = (\<Union>n\<in>set ns. set (flatten_node n))"
  by (simp add: flatten_forest_def)

text \<open>\<open>hangs_under ms k m\<close>: following the buckets down from the key \<open>k\<close> leads to
  the message \<open>m\<close>.\<close>

inductive hangs_under :: "message list \<Rightarrow> message_id option \<Rightarrow> message \<Rightarrow> bool" for ms where
  here: "m \<in> set (bucket ms k) \<Longrightarrow> hangs_under ms k m"
| below: "n \<in> set (bucket ms k) \<Longrightarrow> hangs_under ms (Some (msg_id n)) m \<Longrightarrow> hangs_under ms k m"

lemma hangs_under_step:
  "hangs_under ms k n \<Longrightarrow> m \<in> set (bucket ms (Some (msg_id n))) \<Longrightarrow> hangs_under ms k m"
  by (induction rule: hangs_under.induct) (auto intro: hangs_under.intros)

lemma hangs_under_mem: "hangs_under ms k m \<Longrightarrow> m \<in> set ms"
  by (induction rule: hangs_under.induct) (auto simp: set_bucket)

lemma build_level_set:
  "build_level d k (tree_children ms) = Some ns \<Longrightarrow>
   m \<in> set (flatten_forest ns) \<longleftrightarrow> hangs_under ms k m"
proof (induction d arbitrary: k ns m)
  case (Suc d)
  note lvl = Suc.prems [unfolded build_level_Suc]
  have "m \<in> set (flatten_forest ns) \<longleftrightarrow>
      (\<exists>n\<in>set (bucket ms k). \<exists>zs. build_level d (Some (msg_id n)) (tree_children ms) = Some zs \<and>
         (m = n \<or> m \<in> set (flatten_forest zs)))"
  proof -
    have sn: "set ns = {MessageNode n zs | n zs. n \<in> set (bucket ms k) \<and>
        build_level d (Some (msg_id n)) (tree_children ms) = Some zs}"
      unfolding set_those [OF lvl] by auto
    have fn: "set (flatten_node (MessageNode n zs)) = insert n (set (flatten_forest zs))" for n zs
      by (simp add: flatten_forest_def)
    show ?thesis unfolding flatten_forest_set [of ns] sn using fn by blast
  qed
  also have "\<dots> \<longleftrightarrow> (\<exists>n\<in>set (bucket ms k). m = n \<or> hangs_under ms (Some (msg_id n)) m)"
  proof (rule bex_cong [OF refl])
    fix n assume n: "n \<in> set (bucket ms k)"
    have "\<exists>zs. build_level d (Some (msg_id n)) (tree_children ms) = Some zs"
    proof (rule ccontr)
      assume "\<not> ?thesis"
      hence "None \<in> set (map (\<lambda>m. map_option (MessageNode m)
          (build_level d (Some (msg_id m)) (tree_children ms))) (bucket ms k))"
        using n by force
      hence "those (map (\<lambda>m. map_option (MessageNode m)
          (build_level d (Some (msg_id m)) (tree_children ms))) (bucket ms k)) = None"
        by (simp only: those_None)
      with lvl show False by simp
    qed
    then obtain zs where zs: "build_level d (Some (msg_id n)) (tree_children ms) = Some zs" ..
    from Suc.IH [OF zs] zs
    show "(\<exists>zs. build_level d (Some (msg_id n)) (tree_children ms) = Some zs \<and>
         (m = n \<or> m \<in> set (flatten_forest zs))) \<longleftrightarrow>
        m = n \<or> hangs_under ms (Some (msg_id n)) m" by auto
  qed
  also have "\<dots> \<longleftrightarrow> hangs_under ms k m"
    by (subst (2) hangs_under.simps) (auto intro: hangs_under.intros)
  finally show ?case .
qed simp

text \<open>Parents come before their replies: what the store guarantees, as it hands
  out message ids in increasing order.\<close>

definition parents_first :: "message list \<Rightarrow> bool" where
  "parents_first ms =
     (\<forall>m\<in>set ms. \<forall>p. msg_parent m = Some p \<longrightarrow> message_id_val p < message_id_val (msg_id m))"

lemma hangs_under_root:
  assumes "parents_first ms"
  shows "m \<in> set ms \<Longrightarrow> hangs_under ms None m"
proof (induction "unat (message_id_val (msg_id m))" arbitrary: m rule: less_induct)
  case less
  show ?case
  proof (cases "tree_key ms m")
    case None
    then show ?thesis using less.prems by (auto intro: here simp: set_bucket)
  next
    case (Some k)
    then have k: "msg_parent m = Some k" "k \<in> msg_id ` set ms"
      by (auto simp: tree_key_def split: option.splits if_splits)
    then obtain n where n: "n \<in> set ms" "k = msg_id n" by auto
    have "message_id_val (msg_id n) < message_id_val (msg_id m)"
      using assms less.prems k(1) n(2) by (simp add: parents_first_def)
    then have "hangs_under ms None n" using less.hyps n by (simp add: word_less_nat_alt)
    then show ?thesis
      by (rule hangs_under_step) (use Some n less.prems in \<open>simp add: set_bucket\<close>)
  qed
qed

lemma build_message_tree_complete:
  assumes "unique_by msg_id ms" "parents_first ms"
  shows "\<exists>ns. build_message_tree ms = Some ns \<and> set (flatten_forest ns) = set ms"
proof -
  obtain ns where ns: "build_message_tree ms = Some ns"
    using build_message_tree_returns [OF assms(1)] ..
  have "m \<in> set (flatten_forest ns) \<longleftrightarrow> m \<in> set ms" for m
    using build_level_set [OF ns [unfolded build_message_tree_def]]
      hangs_under_root [OF assms(2)] hangs_under_mem by blast
  with ns show ?thesis by blast
qed

section \<open>Reactions\<close>

record reaction =
  re_message_id :: message_id
  re_user :: user_id
  re_emoji :: string

definition reaction_new :: "message_id \<Rightarrow> user_id \<Rightarrow> string \<Rightarrow> reaction" where
  "reaction_new mid u emoji = \<lparr> re_message_id = mid, re_user = u, re_emoji = emoji \<rparr>"

text \<open>\<^verbatim>\<open>*counts.entry(e).or_insert(0) += 1\<close> on a \<^verbatim>\<open>BTreeMap\<close>, kept as the list of
  its entries in key order.\<close>

fun btree_incr :: "string \<Rightarrow> (string \<times> u64) list \<Rightarrow> (string \<times> u64) list" where
  "btree_incr e [] = [(e, 1)]"
| "btree_incr e ((k, n) # rest) =
     (if e = k then (k, n + 1) # rest
      else if e < k then (e, 1) # (k, n) # rest
      else (k, n) # btree_incr e rest)"

definition summarize_reactions :: "reaction list \<Rightarrow> (string \<times> u64) list" where
  "summarize_reactions reactions =
     foldl (\<lambda>counts r. btree_incr (re_emoji r) counts) [] reactions"

lemma set_btree_incr: "fst ` set (btree_incr e c) = insert e (fst ` set c)"
  by (induction e c rule: btree_incr.induct) (simp_all add: insert_commute)

lemma sorted_btree_incr:
  "sorted_wrt (<) (map fst c) \<Longrightarrow> sorted_wrt (<) (map fst (btree_incr e c))"
proof (induction e c rule: btree_incr.induct)
  case (2 e k n rest)
  have srt: "sorted_wrt (<) (map fst rest)" and lo: "\<forall>x\<in>fst ` set rest. k < x"
    using 2(2) by simp_all
  consider "e = k" | "e < k" | "e \<noteq> k" "\<not> e < k" by blast
  then show ?case
  proof cases
    case 1
    then show ?thesis using 2(2) by simp
  next
    case 2
    then have "\<forall>x\<in>fst ` set rest. e < x" using lo by (meson order_less_trans)
    then show ?thesis using 2 \<open>sorted_wrt (<) (map fst ((k, n) # rest))\<close> by simp
  next
    case 3
    then have "\<forall>x\<in>fst ` set (btree_incr e rest). k < x"
      using lo by (simp add: set_btree_incr not_less order.strict_iff_order)
    then show ?thesis using 3 2(1) [OF 3 srt] by simp
  qed
qed simp

lemma map_of_btree_incr:
  "sorted_wrt (<) (map fst c) \<Longrightarrow>
   map_of (btree_incr e c) k =
     (if k = e then Some (case map_of c e of None \<Rightarrow> 1 | Some n \<Rightarrow> n + 1) else map_of c k)"
proof (induction e c rule: btree_incr.induct)
  case (2 e k' n rest)
  have "map_of rest e = None" if "e < k'"
    using 2(2) that by (fastforce simp: map_of_eq_None_iff)
  with 2 show ?case by auto
qed simp

lemma summarize_snoc:
  "summarize_reactions (rs @ [r]) = btree_incr (re_emoji r) (summarize_reactions rs)"
  by (simp add: summarize_reactions_def)

lemma summarize_sorted: "sorted_wrt (<) (map fst (summarize_reactions rs))"
  by (induction rs rule: rev_induct)
     (simp_all add: summarize_snoc sorted_btree_incr, simp add: summarize_reactions_def)

lemma summarize_counts:
  "map_of (summarize_reactions rs) e =
     (let n = length (filter (\<lambda>r. re_emoji r = e) rs) in
      if n = 0 then None else Some (of_nat n))"
proof (induction rs rule: rev_induct)
  case Nil
  then show ?case by (simp add: summarize_reactions_def)
next
  case (snoc r rs)
  then show ?case
    by (auto simp: summarize_snoc map_of_btree_incr summarize_sorted Let_def)
qed

section \<open>Custom emoji and their ranking\<close>

record emoji =
  e_id :: emoji_id
  e_server_id :: server_id
  e_name :: string
  e_url :: string
  e_added_by :: user_id
  e_added_at :: timestamp

definition emoji_new ::
  "emoji_id \<Rightarrow> server_id \<Rightarrow> string \<Rightarrow> string \<Rightarrow> user_id \<Rightarrow> timestamp \<Rightarrow> emoji" where
  "emoji_new eid sid name url added_by added_at =
     \<lparr> e_id = eid, e_server_id = sid, e_name = name, e_url = url, e_added_by = added_by,
       e_added_at = added_at \<rparr>"

record emoji_vote =
  ev_server_id :: server_id
  ev_emoji_id :: emoji_id
  ev_voter :: user_id
  ev_is_up :: bool

definition emoji_vote_new :: "server_id \<Rightarrow> emoji_id \<Rightarrow> user_id \<Rightarrow> bool \<Rightarrow> emoji_vote" where
  "emoji_vote_new sid eid voter up =
     \<lparr> ev_server_id = sid, ev_emoji_id = eid, ev_voter = voter, ev_is_up = up \<rparr>"

definition ACTIVE_EMOJI_SLOTS :: nat where
  "ACTIVE_EMOJI_SLOTS = 128"

definition CONSIDERED_EMOJI_SLOTS :: nat where
  "CONSIDERED_EMOJI_SLOTS = 128"

datatype emoji_standing = Active | Considered | Archived

definition is_active :: "emoji_standing \<Rightarrow> bool" where
  "is_active s = (s = Active)"

definition is_listed :: "emoji_standing \<Rightarrow> bool" where
  "is_listed s = (s = Active \<or> s = Considered)"

definition standing_of_rank :: "nat \<Rightarrow> emoji_standing" where
  "standing_of_rank rank =
     (if rank < ACTIVE_EMOJI_SLOTS then Active
      else if rank < ACTIVE_EMOJI_SLOTS + CONSIDERED_EMOJI_SLOTS then Considered
      else Archived)"

definition rank_emojis :: "int list \<Rightarrow> emoji_standing list" where
  "rank_emojis scores =
     (let ranked = sort_key (\<lambda>i. - (scores ! i)) [0..<length scores] in
      foldl (\<lambda>standings (rank, i). standings[i := standing_of_rank rank])
        (replicate (length scores) Archived) (enumerate 0 ranked))"

text \<open>The rank of an emoji: how many score higher, or as high and are older.\<close>

definition outranks :: "int list \<Rightarrow> nat \<Rightarrow> nat \<Rightarrow> bool" where
  "outranks scores j i = (scores ! i < scores ! j \<or> scores ! j = scores ! i \<and> j < i)"

definition rank_of :: "int list \<Rightarrow> nat \<Rightarrow> nat" where
  "rank_of scores i = card {j. j < length scores \<and> outranks scores j i}"

lemma insort_key_sorted_wrt:
  assumes "sorted_wrt (\<lambda>a b. f a < f b \<or> f a = f b \<and> a < b) xs" "\<forall>y\<in>set xs. x < y"
  shows "sorted_wrt (\<lambda>a b. f a < f b \<or> f a = f b \<and> a < b) (insort_key f (x::'a::linorder) xs)"
  using assms
proof (induction xs)
  case (Cons y ys)
  show ?case
  proof (cases "f x \<le> f y")
    case True
    then show ?thesis using Cons.prems by (fastforce simp: order.order_iff_strict)
  next
    case False
    then show ?thesis using Cons by (auto simp: set_insort_key)
  qed
qed simp

lemma sort_key_sorted_wrt:
  "sorted_wrt (<) xs \<Longrightarrow>
   sorted_wrt (\<lambda>a b. f a < f b \<or> f a = f b \<and> a < (b::'a::linorder)) (sort_key f xs)"
  by (induction xs) (auto intro!: insort_key_sorted_wrt)

lemma foldl_update_distinct:
  assumes "distinct (map snd ps)" "\<forall>(r, i)\<in>set ps. i < length st"
  shows "length (foldl (\<lambda>st (r, i). st[i := g r]) st ps) = length st"
    "k < length st \<Longrightarrow> foldl (\<lambda>st (r, i). st[i := g r]) st ps ! k =
       (case map_of (map (\<lambda>(r, i). (i, r)) ps) k of None \<Rightarrow> st ! k | Some r \<Rightarrow> g r)"
  using assms
proof (induction ps arbitrary: st)
  case (Cons p ps)
  obtain r i where p: "p = (r, i)" by (cases p)
  {
    case 1
    then show ?case using Cons.IH(1) [of "st[i := g r]"] p by auto
  next
    case 2
    have sw: "dom (map_of (map (\<lambda>(r, i). (i, r)) ps)) = snd ` set ps"
      by (force simp: dom_map_of_conv_image_fst)
    have "i \<notin> snd ` set ps" using 2(2) p by simp
    hence "map_of (map (\<lambda>(r, i). (i, r)) ps) i = None"
      unfolding sw [symmetric] by blast
    then show ?case
      using 2 Cons.IH(2) [of "st[i := g r]"] p
      by (auto split: option.splits simp: nth_list_update)
  }
qed simp_all

lemma sorted_rank:
  assumes "sorted_wrt R xs" "distinct xs" "r < length xs" "\<And>a b. R a b \<Longrightarrow> \<not> R b a"
  shows "card {j \<in> set xs. R j (xs ! r)} = r"
proof -
  have "{j \<in> set xs. R j (xs ! r)} = set (take r xs)"
  proof (intro equalityI subsetI)
    fix j assume "j \<in> {j \<in> set xs. R j (xs ! r)}"
    then obtain q where q: "q < length xs" "j = xs ! q" "R (xs ! q) (xs ! r)"
      by (auto simp: in_set_conv_nth)
    have "q < r"
    proof (rule ccontr)
      assume "\<not> q < r"
      then have "q = r \<or> r < q" by linarith
      then show False
      proof
        assume "q = r" then show False using q(3) assms(4) by blast
      next
        assume "r < q"
        then have "R (xs ! r) (xs ! q)" using sorted_wrt_nth_less [OF assms(1)] q(1) by blast
        then show False using q(3) assms(4) by blast
      qed
    qed
    then show "j \<in> set (take r xs)" using q assms(3) by (auto simp: in_set_conv_nth)
  next
    fix j assume "j \<in> set (take r xs)"
    then obtain q where q: "q < r" "j = xs ! q" using assms(3) by (auto simp: in_set_conv_nth)
    then have "R (xs ! q) (xs ! r)" using sorted_wrt_nth_less [OF assms(1) q(1) assms(3)] by blast
    then show "j \<in> {j \<in> set xs. R j (xs ! r)}" using q assms(3) by auto
  qed
  then show ?thesis using assms(2,3) by (simp add: distinct_card)
qed

lemma rank_emojis_nth:
  assumes "i < length scores"
  shows "rank_emojis scores ! i = standing_of_rank (rank_of scores i)"
proof -
  let ?f = "\<lambda>i. - (scores ! i)"
  let ?n = "length scores"
  let ?xs = "sort_key ?f [0..<?n]"
  let ?R = "\<lambda>a b. ?f a < ?f b \<or> ?f a = ?f b \<and> a < (b::nat)"
  have srt: "sorted_wrt ?R ?xs" by (rule sort_key_sorted_wrt) simp
  have xs: "distinct ?xs" "set ?xs = {0..<?n}" by simp_all
  obtain r where r: "r < length ?xs" "?xs ! r = i"
    using assms xs(2) by (metis atLeastLessThan_iff in_set_conv_nth zero_le)
  have "rank_of scores i = card {j \<in> set ?xs. ?R j (?xs ! r)}"
    unfolding rank_of_def outranks_def xs(2) r(2) by (rule arg_cong [where f = card]) auto
  also have "\<dots> = r" by (rule sorted_rank [OF srt xs(1) r(1)]) auto
  finally have rank: "rank_of scores i = r" .
  let ?ps = "enumerate 0 ?xs"
  have snd: "map snd ?ps = ?xs" by simp
  have inv: "map fst (map (\<lambda>(r, i). (i, r)) ?ps) = ?xs"
    unfolding map_map comp_def case_prod_unfold fst_conv by (rule snd)
  have "(i, r) \<in> set (map (\<lambda>(r, i). (i, r)) ?ps)"
    using r by (force simp: in_set_enumerate_eq)
  then have m: "map_of (map (\<lambda>(r, i). (i, r)) ?ps) i = Some r"
    using xs(1) inv by (simp add: map_of_eq_Some_iff del: map_map)
  have "rank_emojis scores ! i =
      (case map_of (map (\<lambda>(r, i). (i, r)) ?ps) i of None \<Rightarrow> replicate ?n Archived ! i
       | Some r \<Rightarrow> standing_of_rank r)"
    unfolding rank_emojis_def Let_def
  proof (rule foldl_update_distinct(2))
    show "i < length (replicate ?n Archived)" using assms by simp
    show "distinct (map snd ?ps)" unfolding snd by (rule xs(1))
    have "k < ?n" if "(q, k) \<in> set ?ps" for q k
    proof -
      have "k \<in> snd ` set ?ps" using that by force
      then have "k \<in> set ?xs" unfolding set_map [symmetric] snd .
      then show ?thesis using xs(2) by simp
    qed
    then show "\<forall>(r, i)\<in>set ?ps. i < length (replicate ?n Archived)" by auto
  qed
  then show ?thesis unfolding m rank by simp
qed

lemma length_rank_emojis [simp]: "length (rank_emojis scores) = length scores"
proof -
  have "length (foldl (\<lambda>st (r, i). st[i := g r]) st ps) = length st"
    for ps :: "(nat \<times> nat) list" and st :: "emoji_standing list" and g
    by (induction ps arbitrary: st) auto
  then show ?thesis by (simp add: rank_emojis_def Let_def)
qed

text \<open>An emoji keeps its place against an equally scored younger one.\<close>

lemma outranks_trichotomy: "i \<noteq> j \<Longrightarrow> outranks scores i j \<longleftrightarrow> \<not> outranks scores j i"
  by (auto simp: outranks_def)

end
