(* ===== verification/Franchise.thy ===== *)
theory Franchise
  imports Ids_Time
begin

text \<open>
  Accounts and standing: the platform-wide account (\<^verbatim>\<open>domain/src/user\<close>), a
  member's record within one server (\<^verbatim>\<open>domain/src/membership\<close>), the earned
  franchise and its admission rate cap (\<^verbatim>\<open>domain/src/franchise\<close>), and the
  weight of a citizen's vote (\<^verbatim>\<open>domain/src/weighting\<close>).
\<close>

section \<open>Accounts\<close>

datatype dm_policy = Everyone | FriendsOnly

record user =
  u_id :: user_id
  u_handle :: string
  u_created_at :: timestamp
  u_is_franchise_barred :: bool
  u_dm_policy :: dm_policy
  u_password_hash :: string
  u_email_enc :: string
  u_email_verified :: bool

definition user_new :: "user_id \<Rightarrow> string \<Rightarrow> timestamp \<Rightarrow> user" where
  "user_new uid hdl created_at =
     \<lparr> u_id = uid, u_handle = hdl, u_created_at = created_at,
       u_is_franchise_barred = False, u_dm_policy = Everyone,
       u_password_hash = [], u_email_enc = [], u_email_verified = False \<rparr>"

definition has_email :: "user \<Rightarrow> bool" where
  "has_email u = (u_email_enc u \<noteq> [])"

definition is_email_verified :: "user \<Rightarrow> bool" where
  "is_email_verified u = u_email_verified u"

definition has_password :: "user \<Rightarrow> bool" where
  "has_password u = (u_password_hash u \<noteq> [])"

definition is_friends_only_dm :: "user \<Rightarrow> bool" where
  "is_friends_only_dm u = (u_dm_policy u = FriendsOnly)"

definition barred :: "user \<Rightarrow> user" where
  "barred u = u\<lparr>u_is_franchise_barred := True\<rparr>"

definition account_age_days :: "user \<Rightarrow> timestamp \<Rightarrow> int" where
  "account_age_days u now = days_since now (u_created_at u)"

section \<open>Membership\<close>

datatype tier = Guest | Member | Citizen

record membership =
  m_user_id :: user_id
  m_server_id :: server_id
  m_joined_at :: timestamp
  m_tier :: tier
  m_is_sanctioned :: bool
  m_contribution :: int
  m_enfranchised_at :: "timestamp option"
  m_granted_weight :: u32
  m_shares_history_with_newcomers :: bool

definition joined :: "user_id \<Rightarrow> server_id \<Rightarrow> timestamp \<Rightarrow> membership" where
  "joined uid sid at =
     \<lparr> m_user_id = uid, m_server_id = sid, m_joined_at = at, m_tier = Member,
       m_is_sanctioned = False, m_contribution = 0, m_enfranchised_at = None,
       m_granted_weight = 1, m_shares_history_with_newcomers = True \<rparr>"

definition shows_message_to :: "membership \<Rightarrow> timestamp \<Rightarrow> timestamp \<Rightarrow> bool" where
  "shows_message_to m posted_at viewer_joined_at =
     (m_shares_history_with_newcomers m \<or> posted_at \<ge> viewer_joined_at)"

definition is_citizen :: "membership \<Rightarrow> bool" where
  "is_citizen m = (m_tier m = Citizen)"

definition is_franchised :: "membership \<Rightarrow> bool" where
  "is_franchised m = (is_citizen m \<and> \<not> m_is_sanctioned m)"

definition membership_age_days :: "membership \<Rightarrow> timestamp \<Rightarrow> int" where
  "membership_age_days m now = days_since now (m_joined_at m)"

lemma joined_simps [simp]:
  "m_user_id (joined u s t) = u" "m_server_id (joined u s t) = s"
  "m_joined_at (joined u s t) = t" "m_tier (joined u s t) = Member"
  "m_is_sanctioned (joined u s t) = False" "m_contribution (joined u s t) = 0"
  "m_enfranchised_at (joined u s t) = None" "m_granted_weight (joined u s t) = 1"
  by (simp_all add: joined_def)

lemma joined_not_citizen [simp]: "\<not> is_citizen (joined u s t)"
  by (simp add: is_citizen_def)

section \<open>The earned franchise\<close>

record franchise_criteria =
  min_account_age_days :: int
  min_membership_days :: int
  min_contribution :: int

definition platform_default :: franchise_criteria where
  "platform_default =
     \<lparr> min_account_age_days = 30, min_membership_days = 14, min_contribution = 5 \<rparr>"

datatype unmet =
    AccountTooYoung (need_days: int) (have_days: int)
  | MembershipTooShort (need_days: int) (have_days: int)
  | InsufficientContribution int int
  | Sanctioned
  | Barred

record eligibility =
  unmet :: "unmet list"

definition is_eligible :: "eligibility \<Rightarrow> bool" where
  "is_eligible e = (unmet e = [])"

definition evaluate_eligibility ::
  "user \<Rightarrow> membership \<Rightarrow> franchise_criteria \<Rightarrow> timestamp \<Rightarrow> eligibility" where
  "evaluate_eligibility u m criteria now =
     (if u_is_franchise_barred u then \<lparr> unmet = [Barred] \<rparr>
      else
        let un0 = [];
            account_age = account_age_days u now;
            un1 = (if account_age < min_account_age_days criteria
                   then un0 @ [AccountTooYoung (min_account_age_days criteria) account_age]
                   else un0);
            member_age = membership_age_days m now;
            un2 = (if member_age < min_membership_days criteria
                   then un1 @ [MembershipTooShort (min_membership_days criteria) member_age]
                   else un1);
            un3 = (if m_contribution m < min_contribution criteria
                   then un2 @ [InsufficientContribution (min_contribution criteria)
                                 (m_contribution m)]
                   else un2);
            un4 = (if m_is_sanctioned m then un3 @ [Sanctioned] else un3)
        in \<lparr> unmet = un4 \<rparr>)"

text \<open>The bar a member has to clear, as one condition on the clock.\<close>

definition meets_criteria ::
  "user \<Rightarrow> membership \<Rightarrow> franchise_criteria \<Rightarrow> timestamp \<Rightarrow> bool" where
  "meets_criteria u m criteria now =
     (\<not> u_is_franchise_barred u \<and>
      plus_days (u_created_at u) (min_account_age_days criteria) \<le> now \<and>
      plus_days (m_joined_at m) (min_membership_days criteria) \<le> now \<and>
      min_contribution criteria \<le> m_contribution m \<and> \<not> m_is_sanctioned m)"

lemma is_eligible_iff:
  "is_eligible (evaluate_eligibility u m criteria now) \<longleftrightarrow> meets_criteria u m criteria now"
  by (auto simp: is_eligible_def evaluate_eligibility_def meets_criteria_def Let_def
      account_age_days_def membership_age_days_def not_less simp flip: days_since_ge)

lemma meets_criteria_barred [simp]:
  "u_is_franchise_barred u \<Longrightarrow> \<not> meets_criteria u m criteria now"
  by (simp add: meets_criteria_def)

lemma meets_criteria_later:
  "meets_criteria u m criteria now \<Longrightarrow> now \<le> later \<Longrightarrow> meets_criteria u m criteria later"
  by (auto simp: meets_criteria_def)

text \<open>Every unmet entry names a requirement that fails, with the member's own
  figures.\<close>

lemma unmet_sound:
  assumes "x \<in> set (unmet (evaluate_eligibility u m criteria now))"
  shows "case x of
      AccountTooYoung need have \<Rightarrow> need = min_account_age_days criteria \<and>
        have = days_since now (u_created_at u) \<and> have < need
    | MembershipTooShort need have \<Rightarrow> need = min_membership_days criteria \<and>
        have = days_since now (m_joined_at m) \<and> have < need
    | InsufficientContribution need have \<Rightarrow> need = min_contribution criteria \<and>
        have = m_contribution m \<and> have < need
    | Sanctioned \<Rightarrow> m_is_sanctioned m
    | Barred \<Rightarrow> u_is_franchise_barred u"
  using assms
  by (auto simp: evaluate_eligibility_def Let_def account_age_days_def membership_age_days_def
      split: if_splits)

section \<open>The enfranchisement rate cap\<close>

definition enfranchisement_slots :: "u64 \<Rightarrow> u64 \<Rightarrow> u64" where
  "enfranchisement_slots citizen_count admitted_last_30d =
     (let floor = 5;
          ten_percent = saturating_add (saturating_mul citizen_count 10) 99 div 100;
          cap = max ten_percent floor
      in saturating_sub cap admitted_last_30d)"

lemma unat_max: "unat (max a b) = max (unat a) (unat b)"
  by (auto simp: max_def word_le_nat_alt)

lemma unat_enfranchisement_slots:
  assumes "unat c * 10 + 99 < 2 ^ 64"
  shows "unat (enfranchisement_slots c a) = max ((unat c * 10 + 99) div 100) 5 - unat a"
proof -
  have "unat (saturating_add (saturating_mul c 10) 99) = unat c * 10 + 99"
    using assms by (simp add: unat_saturating_add unat_saturating_mul)
  then show ?thesis
    by (simp add: enfranchisement_slots_def Let_def unat_saturating_sub unat_max unat_div)
qed

text \<open>The cap is exactly a tenth of the citizens, rounded up, and at least five.\<close>

lemma ten_percent_ceiling:
  fixes c :: nat
  shows "c \<le> 10 * ((c * 10 + 99) div 100)" "10 * ((c * 10 + 99) div 100) < c + 10"
  by linarith+

section \<open>Vote weight\<close>

definition MAX_VOTE_WEIGHT :: u64 where
  "MAX_VOTE_WEIGHT = 16"

datatype vote_weighting = Equal | ByContribution | ByTenure | ByRole

datatype weighting_scope = Both | JuriesOnly | BallotsOnly | ScopeNone

definition vote_weighting_from_name :: "string \<Rightarrow> vote_weighting option" where
  "vote_weighting_from_name name =
     (if name = ''Equal'' then Some Equal
      else if name = ''ByContribution'' then Some ByContribution
      else if name = ''ByTenure'' then Some ByTenure
      else if name = ''ByRole'' then Some ByRole
      else None)"

definition weighting_scope_from_name :: "string \<Rightarrow> weighting_scope option" where
  "weighting_scope_from_name name =
     (if name = ''Both'' then Some Both
      else if name = ''JuriesOnly'' then Some JuriesOnly
      else if name = ''BallotsOnly'' then Some BallotsOnly
      else if name = ''None'' then Some ScopeNone
      else None)"

definition weight_of :: "vote_weighting \<Rightarrow> membership \<Rightarrow> timestamp \<Rightarrow> u64" where
  "weight_of scheme m now =
     (let raw = (case scheme of
          Equal \<Rightarrow> 1
        | ByContribution \<Rightarrow> 1 + of_nat (isqrt (unat (of_int (max (m_contribution m) 0) :: u64)))
        | ByTenure \<Rightarrow> (case m_enfranchised_at m of
              Some at \<Rightarrow> 1 + of_int (max (days_since now at) 0) div 365
            | None \<Rightarrow> 1)
        | ByRole \<Rightarrow> ucast (m_granted_weight m))
      in clamp raw 1 MAX_VOTE_WEIGHT)"

definition applies_to_juries :: "weighting_scope \<Rightarrow> bool" where
  "applies_to_juries s = (s = Both \<or> s = JuriesOnly)"

definition applies_to_ballots :: "weighting_scope \<Rightarrow> bool" where
  "applies_to_ballots s = (s = Both \<or> s = BallotsOnly)"

lemma weight_of_bounds: "1 \<le> unat (weight_of scheme m now) \<and> unat (weight_of scheme m now) \<le> 16"
proof -
  have "1 \<le> weight_of scheme m now \<and> weight_of scheme m now \<le> MAX_VOTE_WEIGHT"
    unfolding weight_of_def Let_def by (rule clamp_bounds) (simp add: MAX_VOTE_WEIGHT_def)
  then show ?thesis by (simp add: word_le_nat_alt MAX_VOTE_WEIGHT_def)
qed

lemma weight_of_Equal [simp]: "weight_of Equal m now = 1"
  by (simp add: weight_of_def MAX_VOTE_WEIGHT_def)

text \<open>Weight by contribution is one plus the square root of the score, up to
  the ceiling: it never exceeds what the score supports.\<close>

lemma isqrt_less: "n < 2 ^ 64 \<Longrightarrow> isqrt n < 2 ^ 32"
proof (rule ccontr)
  assume n: "n < 2 ^ 64" and "\<not> isqrt n < 2 ^ 32"
  hence "(2 ^ 32) * (2 ^ 32) \<le> isqrt n * isqrt n" by (intro mult_le_mono) simp_all
  also have "\<dots> \<le> n" by (rule isqrt_square_le)
  finally show False using n by simp
qed

lemma unat_clamp: "unat (clamp x lo hi) = clamp (unat x) (unat lo) (unat hi)"
  by (simp add: clamp_def word_less_nat_alt)

lemma weight_ByContribution:
  assumes "0 \<le> m_contribution m" "m_contribution m < 2 ^ 63"
  shows "unat (weight_of ByContribution m now) =
    min (1 + isqrt (nat (m_contribution m))) 16"
proof -
  let ?c = "nat (m_contribution m)"
  have c: "?c < 2 ^ 64" using assms by simp
  have "unat (of_int (max (m_contribution m) 0) :: u64) = ?c"
    using assms by (simp only: unat_eq_nat_uint, simp add: unsigned_of_int take_bit_int_eq_self)
  moreover have "isqrt ?c < 2 ^ 32" using isqrt_less [OF c] .
  hence "unat (1 + of_nat (isqrt ?c) :: u64) = 1 + isqrt ?c"
    by (simp add: unat_word_ariths unat_of_nat)
  ultimately show ?thesis
    by (simp add: weight_of_def unat_clamp MAX_VOTE_WEIGHT_def) (simp add: clamp_def)
qed

end
