(* ===== verification/Social_Model.thy ===== *)
theory Social_Model
  imports Franchise
begin

text \<open>
  The account-to-account layer (\<^verbatim>\<open>domain/src/social\<close>): direct messages, permanent
  blocks, friendships and the one predicate that decides whether a message may
  be sent; and the published device keys (\<^verbatim>\<open>domain/src/keys\<close>).
\<close>

section \<open>Blocks and friendships\<close>

record block =
  b_blocker :: user_id
  b_blocked :: user_id
  b_created_at :: timestamp

definition block_new :: "user_id \<Rightarrow> user_id \<Rightarrow> timestamp \<Rightarrow> block" where
  "block_new blocker blocked at =
     \<lparr> b_blocker = blocker, b_blocked = blocked, b_created_at = at \<rparr>"

definition block_is_between :: "block \<Rightarrow> user_id \<Rightarrow> user_id \<Rightarrow> bool" where
  "block_is_between bl a b =
     (b_blocker bl = a \<and> b_blocked bl = b \<or> b_blocker bl = b \<and> b_blocked bl = a)"

datatype friend_status = FriendPending | FriendAccepted

record friendship =
  f_requester :: user_id
  f_addressee :: user_id
  f_status :: friend_status
  f_created_at :: timestamp

definition friendship_request :: "user_id \<Rightarrow> user_id \<Rightarrow> timestamp \<Rightarrow> friendship" where
  "friendship_request requester addressee at =
     \<lparr> f_requester = requester, f_addressee = addressee, f_status = FriendPending,
       f_created_at = at \<rparr>"

definition accept :: "friendship \<Rightarrow> friendship" where
  "accept f = f\<lparr>f_status := FriendAccepted\<rparr>"

definition are_friends :: "friendship \<Rightarrow> bool" where
  "are_friends f = (f_status f = FriendAccepted)"

definition friendship_is_between :: "friendship \<Rightarrow> user_id \<Rightarrow> user_id \<Rightarrow> bool" where
  "friendship_is_between f a b =
     (f_requester f = a \<and> f_addressee f = b \<or> f_requester f = b \<and> f_addressee f = a)"

lemma block_is_between_sym: "block_is_between bl a b = block_is_between bl b a"
  by (auto simp: block_is_between_def)

lemma friendship_is_between_sym: "friendship_is_between f a b = friendship_is_between f b a"
  by (auto simp: friendship_is_between_def)

section \<open>Direct messages\<close>

record dm_message =
  dm_ident :: dm_id
  dm_sender :: user_id
  dm_recipient :: user_id
  dm_sealed_for_recipient :: string
  dm_sealed_for_sender :: string
  dm_created_at :: timestamp

definition dm_message_new ::
  "dm_id \<Rightarrow> user_id \<Rightarrow> user_id \<Rightarrow> string \<Rightarrow> string \<Rightarrow> timestamp \<Rightarrow> dm_message" where
  "dm_message_new did sender recipient for_recipient for_sender at =
     \<lparr> dm_ident = did, dm_sender = sender, dm_recipient = recipient,
       dm_sealed_for_recipient = for_recipient, dm_sealed_for_sender = for_sender,
       dm_created_at = at \<rparr>"

definition dm_is_between :: "dm_message \<Rightarrow> user_id \<Rightarrow> user_id \<Rightarrow> bool" where
  "dm_is_between m a b =
     (dm_sender m = a \<and> dm_recipient m = b \<or> dm_sender m = b \<and> dm_recipient m = a)"

definition can_dm ::
  "user_id \<Rightarrow> user_id \<Rightarrow> dm_policy \<Rightarrow> block list \<Rightarrow> friendship list \<Rightarrow> bool" where
  "can_dm sender recipient recipient_policy blocks friendships =
     (let is_blocked = (\<exists>b\<in>set blocks. block_is_between b sender recipient) in
      if is_blocked then False
      else (case recipient_policy of
          Everyone \<Rightarrow> True
        | FriendsOnly \<Rightarrow>
            (\<exists>f\<in>set friendships. are_friends f \<and> friendship_is_between f sender recipient)))"

lemma can_dm_iff:
  "can_dm s r pol bs fs \<longleftrightarrow>
     \<not> (\<exists>b\<in>set bs. block_is_between b s r) \<and>
     (pol = FriendsOnly \<longrightarrow> (\<exists>f\<in>set fs. are_friends f \<and> friendship_is_between f s r))"
  by (cases pol) (auto simp: can_dm_def)

section \<open>Device keys\<close>

record wrapped_key =
  wk_salt :: string
  wk_nonce :: string
  wk_ciphertext :: string

record user_keys =
  k_user_id :: user_id
  k_public_key :: string
  k_wrapped_secret :: wrapped_key

definition user_keys_new :: "user_id \<Rightarrow> string \<Rightarrow> wrapped_key \<Rightarrow> user_keys" where
  "user_keys_new uid public_key wrapped_secret =
     \<lparr> k_user_id = uid, k_public_key = public_key, k_wrapped_secret = wrapped_secret \<rparr>"

end
