(* ===== verification/Governance.thy ===== *)
theory Governance
  imports Franchise Jury
begin

text \<open>
  The self-governing server and its ballots: bootstrap phases, the governance
  surface, the server entity and its invites (\<^verbatim>\<open>domain/src/server\<close>), proposals,
  thresholds, tallies and the timelock (\<^verbatim>\<open>domain/src/governance\<close>), the rulebook
  and the mention roles (\<^verbatim>\<open>domain/src/rules.rs\<close>, \<^verbatim>\<open>domain/src/roles\<close>).
\<close>

section \<open>Phases\<close>

datatype phase = Seed | Chartering | Sovereign

definition CHARTERING_AT :: u64 where
  "CHARTERING_AT = 10"

definition SOVEREIGN_AT :: u64 where
  "SOVEREIGN_AT = 25"

definition from_citizen_count :: "u64 \<Rightarrow> phase" where
  "from_citizen_count citizens =
     (if citizens \<ge> SOVEREIGN_AT then Sovereign
      else if citizens \<ge> CHARTERING_AT then Chartering
      else Seed)"

definition founder_may_provision :: "phase \<Rightarrow> bool" where
  "founder_may_provision p = (p = Seed)"

lemma from_citizen_count_Seed: "from_citizen_count c = Seed \<longleftrightarrow> unat c < 10"
  by (auto simp: from_citizen_count_def SOVEREIGN_AT_def CHARTERING_AT_def word_le_nat_alt)

section \<open>The governance surface\<close>

datatype ballot_kind =
    BK_RemoveContent | BK_Ban | BK_Timeout | BK_Recall | BK_CreateChannel | BK_DeleteChannel
  | BK_AddRule | BK_RemoveRule | BK_AmendCriteria | BK_SetJurySizing | BK_SetVoteWeighting
  | BK_SetWeightingScope | BK_GrantVoteWeight | BK_SetGovernanceSurface | BK_ManageRoles
  | BK_SetRehomingPolicy | BK_SetInvitePolicy

definition always_on :: "ballot_kind list" where
  "always_on = [BK_AmendCriteria, BK_SetGovernanceSurface]"

definition all_ballot_kinds :: "ballot_kind list" where
  "all_ballot_kinds =
     [BK_RemoveContent, BK_Ban, BK_Timeout, BK_Recall, BK_CreateChannel, BK_DeleteChannel,
      BK_AddRule, BK_RemoveRule, BK_AmendCriteria, BK_SetJurySizing, BK_SetVoteWeighting,
      BK_SetWeightingScope, BK_GrantVoteWeight, BK_SetGovernanceSurface, BK_ManageRoles,
      BK_SetRehomingPolicy, BK_SetInvitePolicy]"

text \<open>The rendering of the derived \<^verbatim>\<open>Debug\<close>: the name of the variant.\<close>

fun ballot_kind_debug :: "ballot_kind \<Rightarrow> string" where
  "ballot_kind_debug BK_RemoveContent = ''RemoveContent''"
| "ballot_kind_debug BK_Ban = ''Ban''"
| "ballot_kind_debug BK_Timeout = ''Timeout''"
| "ballot_kind_debug BK_Recall = ''Recall''"
| "ballot_kind_debug BK_CreateChannel = ''CreateChannel''"
| "ballot_kind_debug BK_DeleteChannel = ''DeleteChannel''"
| "ballot_kind_debug BK_AddRule = ''AddRule''"
| "ballot_kind_debug BK_RemoveRule = ''RemoveRule''"
| "ballot_kind_debug BK_AmendCriteria = ''AmendCriteria''"
| "ballot_kind_debug BK_SetJurySizing = ''SetJurySizing''"
| "ballot_kind_debug BK_SetVoteWeighting = ''SetVoteWeighting''"
| "ballot_kind_debug BK_SetWeightingScope = ''SetWeightingScope''"
| "ballot_kind_debug BK_GrantVoteWeight = ''GrantVoteWeight''"
| "ballot_kind_debug BK_SetGovernanceSurface = ''SetGovernanceSurface''"
| "ballot_kind_debug BK_ManageRoles = ''ManageRoles''"
| "ballot_kind_debug BK_SetRehomingPolicy = ''SetRehomingPolicy''"
| "ballot_kind_debug BK_SetInvitePolicy = ''SetInvitePolicy''"

definition ballot_kind_from_name :: "string \<Rightarrow> ballot_kind option" where
  "ballot_kind_from_name name = find (\<lambda>k. ballot_kind_debug k = name) all_ballot_kinds"

definition platform_default_surface :: "ballot_kind set" where
  "platform_default_surface =
     set [BK_RemoveContent, BK_Ban, BK_Timeout, BK_Recall, BK_CreateChannel, BK_DeleteChannel,
          BK_AddRule, BK_RemoveRule, BK_SetJurySizing, BK_ManageRoles, BK_SetRehomingPolicy,
          BK_SetInvitePolicy] \<union> set always_on"

lemma all_ballot_kinds_complete: "k \<in> set all_ballot_kinds"
  by (cases k) (simp_all add: all_ballot_kinds_def)

lemma ballot_kind_from_debug: "ballot_kind_from_name (ballot_kind_debug k) = Some k"
  by (cases k) (simp_all add: ballot_kind_from_name_def all_ballot_kinds_def)

lemma ballot_kind_from_name_Some:
  "ballot_kind_from_name name = Some k \<longleftrightarrow> name = ballot_kind_debug k"
proof
  assume "ballot_kind_from_name name = Some k"
  from find_Some_filter [OF this [unfolded ballot_kind_from_name_def]]
  show "name = ballot_kind_debug k" by (rule conjunct2 [THEN sym])
qed (simp add: ballot_kind_from_debug)

section \<open>Servers and invites\<close>

datatype invite_policy = InviteOpen | InviteClosed

definition is_open :: "invite_policy \<Rightarrow> bool" where
  "is_open p = (p = InviteOpen)"

record server =
  s_id :: server_id
  s_slug :: string
  s_name :: string
  s_founder_id :: user_id
  s_created_at :: timestamp
  s_criteria :: franchise_criteria
  s_enabled_ballots :: "ballot_kind set"
  s_jury_sizing :: jury_sizing
  s_vote_weighting :: vote_weighting
  s_weighting_scope :: weighting_scope
  s_is_rehoming_disabled :: bool
  s_is_private :: bool
  s_invite_policy :: invite_policy

definition server_new :: "server_id \<Rightarrow> string \<Rightarrow> string \<Rightarrow> user_id \<Rightarrow> timestamp \<Rightarrow> server" where
  "server_new sid slug name founder_id created_at =
     \<lparr> s_id = sid, s_slug = slug, s_name = name, s_founder_id = founder_id,
       s_created_at = created_at, s_criteria = platform_default,
       s_enabled_ballots = platform_default_surface, s_jury_sizing = jury_sizing_default,
       s_vote_weighting = Equal, s_weighting_scope = Both, s_is_rehoming_disabled = False,
       s_is_private = False, s_invite_policy = InviteOpen \<rparr>"

text \<open>Reading a surface back from a snapshot: \<open>de\<close> is the derived deserialiser of
  one ballot kind, and names it does not know are dropped.\<close>

definition deserialize_surface :: "(string \<Rightarrow> ballot_kind option) \<Rightarrow> string list \<Rightarrow> ballot_kind set" where
  "deserialize_surface de names = set (List.map_filter de names) \<union> set always_on"

definition allows_member_invites :: "server \<Rightarrow> bool" where
  "allows_member_invites s = is_open (s_invite_policy s)"

definition governs :: "server \<Rightarrow> ballot_kind \<Rightarrow> bool" where
  "governs s k = (k \<in> s_enabled_ballots s)"

definition set_governance_surface :: "ballot_kind set \<Rightarrow> server \<Rightarrow> server" where
  "set_governance_surface enabled s = s\<lparr>s_enabled_ballots := enabled \<union> set always_on\<rparr>"

text \<open>A server that can always change who may vote and its own surface.\<close>

definition self_governing :: "server \<Rightarrow> bool" where
  "self_governing s = (set always_on \<subseteq> s_enabled_ballots s)"

lemma self_governing_new [simp]: "self_governing (server_new i sl n f t)"
  by (auto simp: self_governing_def server_new_def platform_default_surface_def)

lemma self_governing_set_surface [simp]: "self_governing (set_governance_surface e s)"
  by (simp add: self_governing_def set_governance_surface_def)

lemma self_governing_deserialize: "set always_on \<subseteq> deserialize_surface de names"
  by (simp add: deserialize_surface_def)

record invite =
  i_code_hash :: string
  i_server_id :: server_id
  i_created_by :: user_id
  i_created_at :: timestamp
  i_is_revoked :: bool

definition invite_new :: "string \<Rightarrow> server_id \<Rightarrow> user_id \<Rightarrow> timestamp \<Rightarrow> invite" where
  "invite_new code_hash sid created_by created_at =
     \<lparr> i_code_hash = code_hash, i_server_id = sid, i_created_by = created_by,
       i_created_at = created_at, i_is_revoked = False \<rparr>"

definition is_live :: "invite \<Rightarrow> bool" where
  "is_live i = (\<not> i_is_revoked i)"

section \<open>Rules and roles\<close>

record rule =
  r_id :: rule_id
  r_server_id :: server_id
  r_text :: string
  r_added_at :: timestamp

definition rule_new :: "rule_id \<Rightarrow> server_id \<Rightarrow> string \<Rightarrow> timestamp \<Rightarrow> rule" where
  "rule_new rid sid txt added_at =
     \<lparr> r_id = rid, r_server_id = sid, r_text = txt, r_added_at = added_at \<rparr>"

record role =
  ro_id :: role_id
  ro_server_id :: server_id
  ro_name :: string
  ro_created_at :: timestamp

definition role_new :: "role_id \<Rightarrow> server_id \<Rightarrow> string \<Rightarrow> timestamp \<Rightarrow> role" where
  "role_new rid sid name created_at =
     \<lparr> ro_id = rid, ro_server_id = sid, ro_name = name, ro_created_at = created_at \<rparr>"

record role_assignment =
  ra_server_id :: server_id
  ra_role_id :: role_id
  ra_user :: user_id

definition role_assignment_new :: "server_id \<Rightarrow> role_id \<Rightarrow> user_id \<Rightarrow> role_assignment" where
  "role_assignment_new sid rid u = \<lparr> ra_server_id = sid, ra_role_id = rid, ra_user = u \<rparr>"

datatype standing_role = SR_Everyone | SR_Members | SR_Citizens

definition all_standing_roles :: "standing_role list" where
  "all_standing_roles = [SR_Everyone, SR_Members, SR_Citizens]"

definition standing_role_name :: "standing_role \<Rightarrow> string" where
  "standing_role_name r =
     (case r of SR_Everyone \<Rightarrow> ''everyone'' | SR_Members \<Rightarrow> ''members''
      | SR_Citizens \<Rightarrow> ''citizens'')"

definition standing_role_from_token :: "string \<Rightarrow> standing_role option" where
  "standing_role_from_token token = find (\<lambda>r. standing_role_name r = token) all_standing_roles"

definition admits :: "standing_role \<Rightarrow> tier \<Rightarrow> bool" where
  "admits r t =
     (case r of
        SR_Everyone \<Rightarrow> t = Member \<or> t = Citizen
      | SR_Members \<Rightarrow> t = Member
      | SR_Citizens \<Rightarrow> t = Citizen)"

lemma standing_role_round: "standing_role_from_token (standing_role_name r) = Some r"
  by (cases r) (simp_all add: standing_role_from_token_def all_standing_roles_def
      standing_role_name_def)

section \<open>Proposals\<close>

datatype proposal_kind =
    RemoveContent string
  | Ban user_id
  | Timeout user_id int
  | Recall user_id
  | CreateChannel string string
  | DeleteChannel string
  | AddRule string
  | RemoveRule rule_id
  | AmendCriteria franchise_criteria
  | SetJurySizing jury_sizing
  | SetVoteWeighting vote_weighting
  | SetWeightingScope weighting_scope
  | GrantVoteWeight user_id u32
  | SetGovernanceSurface "ballot_kind set"
  | CreateRole string
  | DeleteRole role_id
  | AssignRole user_id role_id
  | UnassignRole user_id role_id
  | SetRehomingPolicy bool
  | SetInvitePolicy invite_policy

datatype decision_class = Moderation | RuleChange | BanOrRecall | Constitutional

definition ballot_kind_of :: "proposal_kind \<Rightarrow> ballot_kind" where
  "ballot_kind_of k =
     (case k of
        RemoveContent _ \<Rightarrow> BK_RemoveContent
      | Ban _ \<Rightarrow> BK_Ban
      | Timeout _ _ \<Rightarrow> BK_Timeout
      | Recall _ \<Rightarrow> BK_Recall
      | CreateChannel _ _ \<Rightarrow> BK_CreateChannel
      | DeleteChannel _ \<Rightarrow> BK_DeleteChannel
      | AddRule _ \<Rightarrow> BK_AddRule
      | RemoveRule _ \<Rightarrow> BK_RemoveRule
      | AmendCriteria _ \<Rightarrow> BK_AmendCriteria
      | SetJurySizing _ \<Rightarrow> BK_SetJurySizing
      | SetVoteWeighting _ \<Rightarrow> BK_SetVoteWeighting
      | SetWeightingScope _ \<Rightarrow> BK_SetWeightingScope
      | GrantVoteWeight _ _ \<Rightarrow> BK_GrantVoteWeight
      | SetGovernanceSurface _ \<Rightarrow> BK_SetGovernanceSurface
      | SetRehomingPolicy _ \<Rightarrow> BK_SetRehomingPolicy
      | SetInvitePolicy _ \<Rightarrow> BK_SetInvitePolicy
      | CreateRole _ \<Rightarrow> BK_ManageRoles
      | DeleteRole _ \<Rightarrow> BK_ManageRoles
      | AssignRole _ _ \<Rightarrow> BK_ManageRoles
      | UnassignRole _ _ \<Rightarrow> BK_ManageRoles)"

definition decision_class_of :: "proposal_kind \<Rightarrow> decision_class" where
  "decision_class_of k =
     (case k of
        RemoveContent _ \<Rightarrow> Moderation
      | Ban _ \<Rightarrow> BanOrRecall
      | Timeout _ _ \<Rightarrow> BanOrRecall
      | Recall _ \<Rightarrow> BanOrRecall
      | GrantVoteWeight _ _ \<Rightarrow> BanOrRecall
      | AmendCriteria _ \<Rightarrow> Constitutional
      | SetVoteWeighting _ \<Rightarrow> Constitutional
      | SetWeightingScope _ \<Rightarrow> Constitutional
      | SetRehomingPolicy _ \<Rightarrow> Constitutional
      | CreateChannel _ _ \<Rightarrow> RuleChange
      | DeleteChannel _ \<Rightarrow> RuleChange
      | AddRule _ \<Rightarrow> RuleChange
      | RemoveRule _ \<Rightarrow> RuleChange
      | SetJurySizing _ \<Rightarrow> RuleChange
      | SetGovernanceSurface _ \<Rightarrow> RuleChange
      | SetInvitePolicy _ \<Rightarrow> RuleChange
      | CreateRole _ \<Rightarrow> RuleChange
      | DeleteRole _ \<Rightarrow> RuleChange
      | AssignRole _ _ \<Rightarrow> RuleChange
      | UnassignRole _ _ \<Rightarrow> RuleChange)"

record threshold =
  approval_bp :: u32
  quorum_bp :: u32

definition threshold_for :: "decision_class \<Rightarrow> phase \<Rightarrow> threshold option" where
  "threshold_for class phase =
     (case class of
        Moderation \<Rightarrow> Some \<lparr> approval_bp = 5000, quorum_bp = 1000 \<rparr>
      | RuleChange \<Rightarrow> Some \<lparr> approval_bp = 6000, quorum_bp = 3000 \<rparr>
      | BanOrRecall \<Rightarrow> Some \<lparr> approval_bp = 6000, quorum_bp = 3000 \<rparr>
      | Constitutional \<Rightarrow> (case phase of
            Seed \<Rightarrow> None
          | Chartering \<Rightarrow> Some \<lparr> approval_bp = 7500, quorum_bp = 6000 \<rparr>
          | Sovereign \<Rightarrow> Some \<lparr> approval_bp = 6666, quorum_bp = 5000 \<rparr>))"

lemma threshold_for_None: "threshold_for c p = None \<longleftrightarrow> c = Constitutional \<and> p = Seed"
  by (cases c; cases p) (simp_all add: threshold_for_def)

section \<open>Deciding a ballot\<close>

record tally =
  aye :: u64
  nay :: u64

definition cast :: "tally \<Rightarrow> u64" where
  "cast t = aye t + nay t"

record decision =
  did_pass :: bool
  has_quorum :: bool
  has_approval :: bool

definition decide :: "tally \<Rightarrow> u64 \<Rightarrow> threshold \<Rightarrow> decision" where
  "decide t established_citizens thr =
     (let c = cast t;
          quorum = (established_citizens > 0 \<and>
            (ucast c :: u128) * 10000 \<ge> ucast (quorum_bp thr) * ucast established_citizens);
          approval = (c > 0 \<and>
            (ucast (aye t) :: u128) * 10000 > ucast (approval_bp thr) * ucast c)
      in \<lparr> did_pass = quorum \<and> approval, has_quorum = quorum, has_approval = approval \<rparr>)"

lemma unat_ucast_u128 [simp]: "unat (ucast (w :: u64) :: u128) = unat w"
  using unat_u64_bound [of w] by (simp add: unsigned_ucast_eq take_bit_nat_eq_self)

lemma unat_ucast_u32_u128 [simp]: "unat (ucast (w :: u32) :: u128) = unat w"
  using unat_u32_bound [of w] by (simp add: unsigned_ucast_eq take_bit_nat_eq_self)

text \<open>The 128-bit products of the code never overflow, so the comparisons are the
  arithmetical ones.\<close>

lemma u128_scale: "unat ((ucast (a :: u64) :: u128) * 10000) = unat a * 10000"
  by (rule trans [OF unat_mult_exact]) (use unat_u64_bound [of a] in simp_all)

lemma u128_bp:
  "unat ((ucast (b :: u32) :: u128) * ucast (a :: u64)) = unat b * unat a"
proof -
  have "unat b * unat a \<le> 4294967296 * 18446744073709551616"
    using unat_u64_bound [of a] unat_u32_bound [of b] by (intro mult_le_mono) simp_all
  then show ?thesis by (subst unat_mult_exact) simp_all
qed

lemma decide_exact:
  "has_quorum (decide t n thr) \<longleftrightarrow>
     0 < unat n \<and> unat (quorum_bp thr) * unat n \<le> unat (cast t) * 10000"
  "has_approval (decide t n thr) \<longleftrightarrow>
     0 < unat (cast t) \<and> unat (approval_bp thr) * unat (cast t) < unat (aye t) * 10000"
  "did_pass (decide t n thr) \<longleftrightarrow> has_quorum (decide t n thr) \<and> has_approval (decide t n thr)"
  by (simp_all add: decide_def Let_def word_le_nat_alt word_less_nat_alt u128_scale u128_bp
      unat_gt_0)

lemma unat_cast: "unat (aye t) + unat (nay t) < 2 ^ 64 \<Longrightarrow> unat (cast t) = unat (aye t) + unat (nay t)"
  unfolding cast_def by (rule unat_add_exact) simp

section \<open>The life of a proposal\<close>

definition RECALL_WINDOW_DAYS :: int where
  "RECALL_WINDOW_DAYS = 7"

datatype proposal_status = Open | Passed (effective_at: timestamp) | Failed

record proposal =
  p_id :: proposal_id
  p_server_id :: server_id
  p_proposer :: user_id
  p_kind :: proposal_kind
  p_opened_at :: timestamp
  p_closes_at :: timestamp
  p_status :: proposal_status
  p_is_applied :: bool

definition proposal_new ::
  "proposal_id \<Rightarrow> server_id \<Rightarrow> user_id \<Rightarrow> proposal_kind \<Rightarrow> timestamp \<Rightarrow> timestamp \<Rightarrow> proposal" where
  "proposal_new pid sid proposer kind opened_at closes_at =
     \<lparr> p_id = pid, p_server_id = sid, p_proposer = proposer, p_kind = kind,
       p_opened_at = opened_at, p_closes_at = closes_at, p_status = Open,
       p_is_applied = False \<rparr>"

definition close_status ::
  "proposal_kind \<Rightarrow> tally \<Rightarrow> u64 \<Rightarrow> phase \<Rightarrow> timestamp \<Rightarrow> proposal_status" where
  "close_status kind t established_citizens phase closed_at =
     (let class = decision_class_of kind in
      case threshold_for class phase of
        None \<Rightarrow> Failed
      | Some thr \<Rightarrow>
          if did_pass (decide t established_citizens thr) then
            Passed (if class = Constitutional then plus_days closed_at RECALL_WINDOW_DAYS
                    else closed_at)
          else Failed)"

text \<open>\<^verbatim>\<open>Proposal::close\<close>: the closed proposal (the status it returns is the new
  one).\<close>

definition close :: "proposal \<Rightarrow> tally \<Rightarrow> u64 \<Rightarrow> phase \<Rightarrow> timestamp \<Rightarrow> proposal" where
  "close p t established_citizens phase closed_at =
     p\<lparr>p_status := close_status (p_kind p) t established_citizens phase closed_at\<rparr>"

record vote =
  v_proposal_id :: proposal_id
  v_voter :: user_id
  v_is_aye :: bool

definition vote_new :: "proposal_id \<Rightarrow> user_id \<Rightarrow> bool \<Rightarrow> vote" where
  "vote_new pid voter is_aye = \<lparr> v_proposal_id = pid, v_voter = voter, v_is_aye = is_aye \<rparr>"

lemma close_status_not_Open [simp]: "close_status k t n ph at \<noteq> Open"
  by (simp add: close_status_def Let_def split: option.split)

lemma close_status_Passed:
  "close_status k t n ph at = Passed e \<longleftrightarrow>
     (\<exists>thr. threshold_for (decision_class_of k) ph = Some thr \<and> did_pass (decide t n thr)) \<and>
     e = (if decision_class_of k = Constitutional then plus_days at 7 else at)"
  by (auto simp: close_status_def Let_def RECALL_WINDOW_DAYS_def split: option.splits)

lemma close_simps [simp]:
  "p_id (close p t n ph at) = p_id p" "p_server_id (close p t n ph at) = p_server_id p"
  "p_kind (close p t n ph at) = p_kind p" "p_is_applied (close p t n ph at) = p_is_applied p"
  "p_closes_at (close p t n ph at) = p_closes_at p"
  "p_status (close p t n ph at) = close_status (p_kind p) t n ph at"
  by (simp_all add: close_def)

end
