(* ===== verification/Domain_Properties.thy ===== *)
theory Domain_Properties
  imports Jury Mentions_Credentials Chat_Model Social_Model Governance
begin

text \<open>
  The rules of the domain layer, stated of its pure functions: who is eligible,
  how many may be enfranchised at once, what a vote weighs, when a ballot
  passes, how a jury is drawn and decides, and the names and texts users type.
\<close>

section \<open>Franchise and ballots\<close>

text \<open>Eligibility is exactly the published criteria. The evaluator finds a
  member eligible if and only if the account is not barred, account and
  membership are old enough on the day, the contribution reaches the bar and
  the member is not sanctioned; a barred account is never eligible, and who is
  eligible today still is on any later day.\<close>

theorem eligibility_exact:
  assumes "now \<le> later"
  shows "(is_eligible (evaluate_eligibility u m criteria now) \<longleftrightarrow>
       \<not> u_is_franchise_barred u \<and>
       plus_days (u_created_at u) (min_account_age_days criteria) \<le> now \<and>
       plus_days (m_joined_at m) (min_membership_days criteria) \<le> now \<and>
       min_contribution criteria \<le> m_contribution m \<and> \<not> m_is_sanctioned m) \<and>
     (is_eligible (evaluate_eligibility u m criteria now) \<longrightarrow>
      is_eligible (evaluate_eligibility u m criteria later))"
  using meets_criteria_later [OF _ assms] unfolding is_eligible_iff meets_criteria_def by blast

theorem eligibility_exact_witness:
  "is_eligible (evaluate_eligibility
     (user_new (UserId 2) ''bob'' (Timestamp 0))
     ((joined (UserId 2) (ServerId 1) (Timestamp 0))\<lparr>m_contribution := 5\<rparr>)
     platform_default (Timestamp 2592000))"
  using eligibility_exact [of "Timestamp 2592000" "Timestamp 2592000"
      "user_new (UserId 2) ''bob'' (Timestamp 0)"
      "(joined (UserId 2) (ServerId 1) (Timestamp 0))\<lparr>m_contribution := 5\<rparr>" platform_default]
  by (simp add: user_new_def platform_default_def plus_days_def SECONDS_PER_DAY_def
      less_eq_timestamp_def)

text \<open>The rate cap is a tenth of the citizenry. In a window a server may admit one tenth of its citizens, rounded up, but at least five; the slots
  left are that number less the admissions already made, never below zero.\<close>

theorem rate_cap_is_a_tenth:
  assumes "unat c * 10 + 99 < 2 ^ 64"
  shows "\<exists>k. unat c \<le> 10 * k \<and> 10 * k < unat c + 10 \<and>
     unat (enfranchisement_slots c recent) = max k 5 - unat recent"
  using unat_enfranchisement_slots [OF assms, of recent] ten_percent_ceiling [of "unat c"] by blast

theorem rate_cap_is_a_tenth_witness:
  "unat (101 :: u64) * 10 + 99 < 2 ^ 64 \<and> unat (enfranchisement_slots 101 4) = 7"
  using rate_cap_is_a_tenth [of 101 4] by (auto simp: max_def split: if_splits)

text \<open>No vote weighs nothing and none more than sixteen, whatever the scheme and
  the member; with the equal scheme every vote weighs one.\<close>

theorem vote_weight_bounds:
  "1 \<le> unat (weight_of scheme m now) \<and> unat (weight_of scheme m now) \<le> 16 \<and>
   weight_of Equal m now = 1"
  using weight_of_bounds weight_of_Equal by blast

text \<open>C16. A ballot passes exactly by quorum and majority. Closing a ballot passes it if
  and only if the phase allows a decision of its class, the votes cast reach the
  quorum share of the citizens and the ayes exceed the approval share of the
  votes cast, all in exact arithmetic; a constitutional ballot takes effect seven
  days later, any other at once.\<close>

theorem ballot_passes_iff:
  assumes "unat (aye t) + unat (nay t) < 2 ^ 64"
  shows "p_status (close p t citizens ph now) = Passed e \<longleftrightarrow>
    (\<exists>thr. threshold_for (decision_class_of (p_kind p)) ph = Some thr \<and> 0 < unat citizens \<and>
       unat (quorum_bp thr) * unat citizens \<le> (unat (aye t) + unat (nay t)) * 10000 \<and>
       0 < unat (aye t) + unat (nay t) \<and>
       unat (approval_bp thr) * (unat (aye t) + unat (nay t)) < unat (aye t) * 10000) \<and>
    e = (if decision_class_of (p_kind p) = Constitutional then plus_days now 7 else now)"
  unfolding close_simps close_status_Passed decide_exact unat_cast [OF assms] by blast

theorem ballot_passes_iff_witness:
  "p_status (close (proposal_new (ProposalId 1) (ServerId 1) (UserId 1) (AddRule ''be kind'')
     (Timestamp 0) (Timestamp 259200)) \<lparr> aye = 2, nay = 1 \<rparr> 3 Seed (Timestamp 259200)) =
   Passed (Timestamp 259200)"
  by (rule iffD2 [OF ballot_passes_iff])
    (simp_all add: proposal_new_def decision_class_of_def threshold_for_def)

section \<open>Juries\<close>

text \<open>A jury is a fair minority. It is drawn from the candidates without the
  accused and without repetition, as many as asked for or as there are, is the
  same for any order in which the candidates are listed, and its size is always
  less than half the citizens.\<close>

theorem jury_selection:
  assumes "distinct candidates" "mset candidates = mset others" "0 < unat citizens"
  shows "set (select_jury candidates accused n seed) \<subseteq> set candidates - {accused} \<and>
    distinct (select_jury candidates accused n seed) \<and>
    length (select_jury candidates accused n seed) =
      min n (length (filter (\<lambda>c. c \<noteq> accused) candidates)) \<and>
    select_jury others accused n seed = select_jury candidates accused n seed \<and>
    2 * jury_size sizing citizens scale < unat citizens"
  using select_jury_set select_jury_length select_jury_distinct [OF assms(1)]
    select_jury_order [OF assms(2)] jury_size_minority [OF assms(3)]
  by metis

theorem jury_selection_witness:
  "set (select_jury [UserId 1, UserId 2, UserId 3] (UserId 2) 2 7) \<subseteq> {UserId 1, UserId 3} \<and>
   length (select_jury [UserId 1, UserId 2, UserId 3] (UserId 2) 2 7) = 2"
  using jury_selection [of "[UserId 1, UserId 2, UserId 3]" "[UserId 3, UserId 2, UserId 1]" 9 "UserId 2" 2 7
      jury_sizing_default Post]
  by auto

text \<open>A verdict needs two thirds and is final. For a jury whose weight fits, guilt
  is found exactly when two thirds of the jury's weight say so, the accused is
  acquitted exactly when that has become impossible, a verdict once reached
  never changes as more jurors vote, and when all have voted there is one.\<close>

theorem verdict_two_thirds:
  assumes "unat w < 2 ^ 63" "unat g \<le> unat g'" "unat n \<le> unat n'" "unat g' + unat n' \<le> unat w"
  shows "reach_verdict g n w =
      (if unat w = 0 then NotGuilty else if 2 * unat w \<le> 3 * unat g then Guilty
       else if 3 * (unat w - unat n) < 2 * unat w then NotGuilty else Pending) \<and>
    (reach_verdict g n w \<noteq> Pending \<longrightarrow> reach_verdict g' n' w = reach_verdict g n w) \<and>
    (unat g + unat n = unat w \<longrightarrow> reach_verdict g n w \<noteq> Pending)"
proof -
  have "unat n \<le> unat w" "unat n' \<le> unat w" using assms by linarith+
  then have spec: "reach_verdict g n w = verdict_spec (unat g) (unat n) (unat w)"
      "reach_verdict g' n' w = verdict_spec (unat g') (unat n') (unat w)"
    using reach_verdict_spec [OF assms(1)] by blast+
  have "reach_verdict g n w \<noteq> Pending \<longrightarrow> reach_verdict g' n' w = reach_verdict g n w"
    unfolding spec using verdict_spec_final [OF refl _ assms(2-4)] by blast
  moreover have "unat g + unat n = unat w \<longrightarrow> reach_verdict g n w \<noteq> Pending"
    unfolding spec using verdict_spec_decided by blast
  ultimately show ?thesis unfolding spec(1) [unfolded verdict_spec_def] by blast
qed

theorem verdict_two_thirds_witness:
  "reach_verdict 4 0 6 = Guilty \<and> reach_verdict 4 2 6 = Guilty"
  using verdict_two_thirds [of 6 4 4 0 2] by simp

section \<open>Names and text\<close>

text \<open>Ids carry their node. Composing a node and a local sequence number gives an
  id from which both are read back, every id is such a composition, and ids of
  different nodes or sequence numbers are different.\<close>

theorem composite_ids:
  assumes "s \<le> MAX_SEQUENCE" "s' \<le> MAX_SEQUENCE"
  shows "origin_node (compose_id n s) = n \<and> local_sequence (compose_id n s) = s \<and>
    compose_id (origin_node i) (local_sequence i) = i \<and>
    (compose_id n s = compose_id n' s' \<longleftrightarrow> n = n' \<and> s = s')"
  using origin_node_compose local_sequence_compose [of n s] SEQUENCE_MASK_le [OF assms(1)]
    compose_origin_local compose_id_inject [OF assms] by simp

theorem composite_ids_witness:
  "compose_id (NodeId 3) 5 \<noteq> compose_id (NodeId 4) 5 \<and> origin_node (compose_id (NodeId 3) 5) = NodeId 3"
proof -
  have "(5 :: u64) \<le> MAX_SEQUENCE"
    by (simp add: MAX_SEQUENCE_def SEQUENCE_MASK_def SEQUENCE_BITS_def)
  from composite_ids [OF this this, of "NodeId 3" 0 "NodeId 4"] show ?thesis by simp
qed

text \<open>Names are canonical. A slug is the lower-case runs of letters and digits of the
  name joined by single hyphens: the one-pass loop of the code computes the same
  text as splitting into runs, and slugs are fixed points. A role name has only
  lower-case letters, digits, underscores and single inner hyphens, and
  normalising it again changes nothing.\<close>

theorem names_are_canonical:
  "slugify s = join_hyphen (map lower_word (alnum_runs (chars s))) \<and>
   slugify (slugify s) = slugify s \<and> normalize_channel_name s = slugify s \<and>
   role_token (normalize_role_name raw) \<and>
   normalize_role_name (normalize_role_name raw) = normalize_role_name raw"
proof -
  obtain ws where "slugify s = join_hyphen ws" "\<forall>w\<in>set ws. slug_word w"
    using slugify_words by blast
  then have "slugify (slugify s) = slugify s" using slugify_join [of ws] by simp
  then show ?thesis
    using slugify_eq_runs normalize_channel_name_slugify role_token_normalize normalize_role_token
    by metis
qed

text \<open>Mentions are found exactly. The scanner returns, lower-cased and without
  repetition, the words that follow an at-sign standing at a word boundary, and
  nothing else.\<close>

theorem mentions_exact:
  "set (parse_mentions body) = make_ascii_lowercase ` {w. mention_in None body w} \<and>
   distinct (parse_mentions body)"
  using parse_mentions_set mention_loop_distinct [of "[]"] by (simp add: parse_mentions_def)

text \<open>An e-mail address is accepted exactly when, trimmed, it has at most 254 bytes
  and no white space and reads \<open>local@host.tld\<close> with one at-sign and no part
  empty; a password exactly when it has 16 to 256 bytes.\<close>

theorem credential_policies:
  "(validate_email s = Inr () \<longleftrightarrow>
     length (trim s) \<le> 254 \<and> (\<nexists>c. c \<in> set (chars (trim s)) \<and> is_whitespace c) \<and>
     (\<exists>local host tld. trim s = local @ ''@'' @ host @ ''.'' @ tld \<and>
        local \<noteq> [] \<and> host \<noteq> [] \<and> tld \<noteq> [] \<and>
        CHR ''@'' \<notin> set local \<union> set host \<union> set tld \<and> CHR ''.'' \<notin> set tld)) \<and>
   (validate_password p = Inr () \<longleftrightarrow> 16 \<le> length p \<and> length p \<le> 256)"
  unfolding validate_email_Ok validate_password_Ok by blast

end
