(* ===== verification/Store.thy ===== *)
theory Store
  imports Governance Chat_Model Social_Model
begin

text \<open>
  The in-memory store (\<^verbatim>\<open>adapter-store-memory/src/lib.rs\<close>): its state \<^verbatim>\<open>Inner\<close>, one
  record, and every operation of every persistence port on it. A lock guards
  each call in the code, so a call is one step on the record. A mutation
  appends the row it wrote to the outbox; the row is kept typed here, and its
  JSON form is taken where the outbox meets the replication feed.
\<close>

section \<open>Rows and the outbox\<close>

datatype change_op = Upsert | Delete

datatype row =
    UserRow user
  | ServerRow server
  | InviteRow invite
  | MembershipRow membership
  | ChannelRow channel
  | MessageRow message
  | ReactionRow reaction
  | ReactionKeyRow message_id user_id string
  | ProposalRow proposal
  | VoteRow vote
  | EmojiRow emoji
  | EmojiVoteRow emoji_vote
  | RuleRow rule
  | DmRow dm_message
  | BlockRow block
  | FriendshipRow friendship
  | UserKeysRow user_keys
  | GrantRow channel_key_grant
  | RoleRow role
  | RoleAssignmentRow role_assignment

record change_record =
  cr_seq :: u64
  cr_entity :: string
  cr_op :: change_op
  cr_payload :: row

section \<open>The state\<close>

record inner =
  users :: "(user_id, user) hashmap"
  servers :: "(server_id, server) hashmap"
  memberships :: "(user_id \<times> server_id, membership) hashmap"
  channels :: "(channel_id, channel) hashmap"
  messages :: "(message_id, message) hashmap"
  reactions :: "reaction list"
  proposals :: "(proposal_id, proposal) hashmap"
  votes :: "vote list"
  emojis :: "(emoji_id, emoji) hashmap"
  emoji_votes :: "emoji_vote list"
  rules :: "(rule_id, rule) hashmap"
  dms :: "dm_message list"
  blocks :: "block list"
  friends :: "friendship list"
  roles :: "(role_id, role) hashmap"
  role_assignments :: "role_assignment list"
  invites :: "(string, invite) hashmap"
  media :: "(string, string \<times> u8 list) hashmap"
  media_seq :: u64
  key_directory :: "(user_id, user_keys) hashmap"
  channel_grants :: "(channel_id \<times> u32 \<times> user_id, channel_key_grant) hashmap"
  next_user :: u64
  next_server :: u64
  next_channel :: u64
  next_message :: u64
  next_proposal :: u64
  next_rule :: u64
  next_dm :: u64
  next_role :: u64
  next_emoji :: u64
  node :: node_id
  outbox :: "change_record list"
  next_outbox :: u64
  cursors :: "(node_id, u64) hashmap"
  nonces :: "(u16 \<times> string, int) hashmap"
  verification_tokens :: "(string, user_id \<times> int) hashmap"

definition empty_store :: inner where
  "empty_store =
     \<lparr> users = [], servers = [], memberships = [], channels = [], messages = [],
       reactions = [], proposals = [], votes = [], emojis = [], emoji_votes = [],
       rules = [], dms = [], blocks = [], friends = [], roles = [], role_assignments = [],
       invites = [], media = [], media_seq = 0, key_directory = [], channel_grants = [],
       next_user = 0, next_server = 0, next_channel = 0, next_message = 0,
       next_proposal = 0, next_rule = 0, next_dm = 0, next_role = 0, next_emoji = 0,
       node = NodeId 0, outbox = [], next_outbox = 0, cursors = [], nonces = [],
       verification_tokens = [] \<rparr>"

definition with_node :: "node_id \<Rightarrow> inner \<Rightarrow> inner" where
  "with_node n st = st\<lparr>node := n\<rparr>"

definition record_change :: "string \<Rightarrow> change_op \<Rightarrow> row \<Rightarrow> inner \<Rightarrow> inner" where
  "record_change entity op payload st =
     (let st = st\<lparr>next_outbox := next_outbox st + 1\<rparr> in
      st\<lparr>outbox := outbox st @
          [\<lparr> cr_seq = next_outbox st, cr_entity = entity, cr_op = op, cr_payload = payload \<rparr>]\<rparr>)"

named_theorems store_defs "the operations of the store, unfolded"

declare record_change_def [store_defs]

section \<open>Users\<close>

definition next_user_id :: "inner \<Rightarrow> user_id \<times> inner" where
  "next_user_id st =
     (let st = st\<lparr>next_user := next_user st + 1\<rparr> in
      (UserId (compose_id (node st) (next_user st)), st))"

definition insert_user :: "user \<Rightarrow> inner \<Rightarrow> inner" where [store_defs]:
  "insert_user u st =
     (let st = record_change ''users'' Upsert (UserRow u) st in
      st\<lparr>users := hm_insert (u_id u) u (users st)\<rparr>)"

definition update_user :: "user \<Rightarrow> inner \<Rightarrow> inner" where [store_defs]:
  "update_user u st =
     (let st = record_change ''users'' Upsert (UserRow u) st in
      st\<lparr>users := hm_insert (u_id u) u (users st)\<rparr>)"

definition get_user :: "inner \<Rightarrow> user_id \<Rightarrow> user option" where
  "get_user st uid = hm_get (users st) uid"

definition find_by_handle :: "inner \<Rightarrow> string \<Rightarrow> user option" where
  "find_by_handle st hdl = find (\<lambda>u. u_handle u = hdl) (hm_values (users st))"

definition list_all_users :: "inner \<Rightarrow> user list" where
  "list_all_users st = hm_values (users st)"

section \<open>Servers\<close>

definition next_server_id :: "inner \<Rightarrow> server_id \<times> inner" where
  "next_server_id st =
     (let st = st\<lparr>next_server := next_server st + 1\<rparr> in
      (ServerId (compose_id (node st) (next_server st)), st))"

definition insert_server :: "server \<Rightarrow> inner \<Rightarrow> inner" where [store_defs]:
  "insert_server s st =
     (let st = record_change ''servers'' Upsert (ServerRow s) st in
      st\<lparr>servers := hm_insert (s_id s) s (servers st)\<rparr>)"

definition get_server :: "inner \<Rightarrow> server_id \<Rightarrow> server option" where
  "get_server st sid = hm_get (servers st) sid"

definition find_by_slug :: "inner \<Rightarrow> string \<Rightarrow> server option" where
  "find_by_slug st slug = find (\<lambda>g. s_slug g = slug) (hm_values (servers st))"

definition update_server :: "server \<Rightarrow> inner \<Rightarrow> inner" where [store_defs]:
  "update_server s st =
     (let st = record_change ''servers'' Upsert (ServerRow s) st in
      st\<lparr>servers := hm_insert (s_id s) s (servers st)\<rparr>)"

definition list_all_servers :: "inner \<Rightarrow> server list" where
  "list_all_servers st = sort_key (\<lambda>g. server_id_val (s_id g)) (hm_values (servers st))"

section \<open>Memberships\<close>

definition upsert_membership :: "membership \<Rightarrow> inner \<Rightarrow> inner" where [store_defs]:
  "upsert_membership m st =
     (let st = record_change ''memberships'' Upsert (MembershipRow m) st in
      st\<lparr>memberships := hm_insert (m_user_id m, m_server_id m) m (memberships st)\<rparr>)"

definition get_membership :: "inner \<Rightarrow> user_id \<Rightarrow> server_id \<Rightarrow> membership option" where
  "get_membership st uid sid = hm_get (memberships st) (uid, sid)"

definition list_members_for_server :: "inner \<Rightarrow> server_id \<Rightarrow> membership list" where
  "list_members_for_server st sid =
     filter (\<lambda>m. m_server_id m = sid) (hm_values (memberships st))"

definition citizen_count :: "inner \<Rightarrow> server_id \<Rightarrow> u64" where
  "citizen_count st sid =
     of_nat (length (filter (\<lambda>m. m_server_id m = sid \<and> is_citizen m)
       (hm_values (memberships st))))"

definition admitted_since :: "inner \<Rightarrow> server_id \<Rightarrow> timestamp \<Rightarrow> u64" where
  "admitted_since st sid since =
     of_nat (length (filter (\<lambda>m. m_server_id m = sid \<and>
         (case m_enfranchised_at m of None \<Rightarrow> False | Some at \<Rightarrow> at \<ge> since))
       (hm_values (memberships st))))"

section \<open>Channels\<close>

definition next_channel_id :: "inner \<Rightarrow> channel_id \<times> inner" where
  "next_channel_id st =
     (let st = st\<lparr>next_channel := next_channel st + 1\<rparr> in
      (ChannelId (compose_id (node st) (next_channel st)), st))"

definition insert_channel :: "channel \<Rightarrow> inner \<Rightarrow> inner" where [store_defs]:
  "insert_channel c st =
     (let st = record_change ''channels'' Upsert (ChannelRow c) st in
      st\<lparr>channels := hm_insert (ch_id c) c (channels st)\<rparr>)"

definition get_channel :: "inner \<Rightarrow> channel_id \<Rightarrow> channel option" where
  "get_channel st cid = hm_get (channels st) cid"

definition find_by_name :: "inner \<Rightarrow> server_id \<Rightarrow> string \<Rightarrow> channel option" where
  "find_by_name st sid name =
     find (\<lambda>c. ch_server_id c = sid \<and> ch_name c = name) (hm_values (channels st))"

definition list_channels_for_server :: "inner \<Rightarrow> server_id \<Rightarrow> channel list" where
  "list_channels_for_server st sid =
     sort_key (\<lambda>c. channel_id_val (ch_id c))
       (filter (\<lambda>c. ch_server_id c = sid) (hm_values (channels st)))"

definition remove_channel :: "channel_id \<Rightarrow> inner \<Rightarrow> bool \<times> inner" where
  "remove_channel cid st =
     (case hm_get (channels st) cid of
        None \<Rightarrow> (False, st)
      | Some removed \<Rightarrow>
          let st = st\<lparr>channels := hm_remove cid (channels st)\<rparr>;
              st = record_change ''channels'' Delete (ChannelRow removed) st
          in (True, st\<lparr>messages := hm_retain (\<lambda>_ m. msg_channel_id m \<noteq> cid) (messages st)\<rparr>))"

section \<open>Messages and reactions\<close>

definition next_message_id :: "inner \<Rightarrow> message_id \<times> inner" where
  "next_message_id st =
     (let st = st\<lparr>next_message := next_message st + 1\<rparr> in
      (MessageId (compose_id (node st) (next_message st)), st))"

definition store_insert_message :: "message \<Rightarrow> inner \<Rightarrow> inner" where [store_defs]:
  "store_insert_message m st =
     (let st = record_change ''messages'' Upsert (MessageRow m) st in
      st\<lparr>messages := hm_insert (msg_id m) m (messages st)\<rparr>)"

definition get_message :: "inner \<Rightarrow> message_id \<Rightarrow> message option" where
  "get_message st mid = hm_get (messages st) mid"

definition update_message :: "message \<Rightarrow> inner \<Rightarrow> inner" where [store_defs]:
  "update_message m st =
     (let st = record_change ''messages'' Upsert (MessageRow m) st in
      st\<lparr>messages := hm_insert (msg_id m) m (messages st)\<rparr>)"

definition list_for_channel :: "inner \<Rightarrow> channel_id \<Rightarrow> message list" where
  "list_for_channel st cid =
     sort_key (\<lambda>m. message_id_val (msg_id m))
       (filter (\<lambda>m. msg_channel_id m = cid) (hm_values (messages st)))"

definition same_reaction :: "reaction \<Rightarrow> message_id \<Rightarrow> user_id \<Rightarrow> string \<Rightarrow> bool" where
  "same_reaction r mid uid em = (re_message_id r = mid \<and> re_user r = uid \<and> re_emoji r = em)"

definition add_reaction :: "reaction \<Rightarrow> inner \<Rightarrow> bool \<times> inner" where
  "add_reaction r st =
     (if \<exists>x\<in>set (reactions st). same_reaction x (re_message_id r) (re_user r) (re_emoji r)
      then (False, st)
      else
        let st = record_change ''reactions'' Upsert (ReactionRow r) st
        in (True, st\<lparr>reactions := reactions st @ [r]\<rparr>))"

definition remove_reaction :: "message_id \<Rightarrow> user_id \<Rightarrow> string \<Rightarrow> inner \<Rightarrow> bool \<times> inner" where
  "remove_reaction mid uid em st =
     (let before = length (reactions st);
          st = st\<lparr>reactions := filter (\<lambda>r. \<not> same_reaction r mid uid em) (reactions st)\<rparr>;
          removed = (length (reactions st) \<noteq> before)
      in (removed,
          if removed then record_change ''reactions'' Delete (ReactionKeyRow mid uid em) st
          else st))"

definition list_for_message :: "inner \<Rightarrow> message_id \<Rightarrow> reaction list" where
  "list_for_message st mid = filter (\<lambda>r. re_message_id r = mid) (reactions st)"

definition user_has_any :: "inner \<Rightarrow> message_id \<Rightarrow> user_id \<Rightarrow> bool" where
  "user_has_any st mid uid = (\<exists>r\<in>set (reactions st). re_message_id r = mid \<and> re_user r = uid)"

section \<open>Proposals and votes\<close>

definition next_proposal_id :: "inner \<Rightarrow> proposal_id \<times> inner" where
  "next_proposal_id st =
     (let st = st\<lparr>next_proposal := next_proposal st + 1\<rparr> in
      (ProposalId (compose_id (node st) (next_proposal st)), st))"

definition insert_proposal :: "proposal \<Rightarrow> inner \<Rightarrow> inner" where [store_defs]:
  "insert_proposal p st =
     (let st = record_change ''proposals'' Upsert (ProposalRow p) st in
      st\<lparr>proposals := hm_insert (p_id p) p (proposals st)\<rparr>)"

definition get_proposal :: "inner \<Rightarrow> proposal_id \<Rightarrow> proposal option" where
  "get_proposal st pid = hm_get (proposals st) pid"

definition update_proposal :: "proposal \<Rightarrow> inner \<Rightarrow> inner" where [store_defs]:
  "update_proposal p st =
     (let st = record_change ''proposals'' Upsert (ProposalRow p) st in
      st\<lparr>proposals := hm_insert (p_id p) p (proposals st)\<rparr>)"

definition list_proposals_for_server :: "inner \<Rightarrow> server_id \<Rightarrow> proposal list" where
  "list_proposals_for_server st sid =
     sort_key (\<lambda>p. proposal_id_val (p_id p))
       (filter (\<lambda>p. p_server_id p = sid) (hm_values (proposals st)))"

definition upsert_vote :: "vote \<Rightarrow> inner \<Rightarrow> inner" where [store_defs]:
  "upsert_vote v st =
     (let st = st\<lparr>votes := filter (\<lambda>x. \<not> (v_proposal_id x = v_proposal_id v \<and>
                  v_voter x = v_voter v)) (votes st)\<rparr>;
          st = record_change ''votes'' Upsert (VoteRow v) st
      in st\<lparr>votes := votes st @ [v]\<rparr>)"

definition get_vote :: "inner \<Rightarrow> proposal_id \<Rightarrow> user_id \<Rightarrow> vote option" where
  "get_vote st pid voter = find (\<lambda>v. v_proposal_id v = pid \<and> v_voter v = voter) (votes st)"

definition list_for_proposal :: "inner \<Rightarrow> proposal_id \<Rightarrow> vote list" where
  "list_for_proposal st pid = filter (\<lambda>v. v_proposal_id v = pid) (votes st)"

section \<open>Emoji\<close>

definition next_emoji_id :: "inner \<Rightarrow> emoji_id \<times> inner" where
  "next_emoji_id st =
     (let st = st\<lparr>next_emoji := next_emoji st + 1\<rparr> in
      (EmojiId (compose_id (node st) (next_emoji st)), st))"

definition insert_emoji :: "emoji \<Rightarrow> inner \<Rightarrow> inner" where [store_defs]:
  "insert_emoji e st =
     (let st = record_change ''emojis'' Upsert (EmojiRow e) st in
      st\<lparr>emojis := hm_insert (e_id e) e (emojis st)\<rparr>)"

definition get_emoji :: "inner \<Rightarrow> emoji_id \<Rightarrow> emoji option" where
  "get_emoji st eid = hm_get (emojis st) eid"

definition find_emoji :: "inner \<Rightarrow> server_id \<Rightarrow> string \<Rightarrow> emoji option" where
  "find_emoji st sid name =
     find (\<lambda>e. e_server_id e = sid \<and> e_name e = name) (hm_values (emojis st))"

definition list_emojis_for_server :: "inner \<Rightarrow> server_id \<Rightarrow> emoji list" where
  "list_emojis_for_server st sid =
     sort_key (\<lambda>e. emoji_id_val (e_id e))
       (filter (\<lambda>e. e_server_id e = sid) (hm_values (emojis st)))"

definition upsert_emoji_vote :: "emoji_vote \<Rightarrow> inner \<Rightarrow> inner" where [store_defs]:
  "upsert_emoji_vote v st =
     (let st = st\<lparr>emoji_votes := filter (\<lambda>x. \<not> (ev_emoji_id x = ev_emoji_id v \<and>
                  ev_voter x = ev_voter v)) (emoji_votes st)\<rparr>;
          st = record_change ''emoji_votes'' Upsert (EmojiVoteRow v) st
      in st\<lparr>emoji_votes := emoji_votes st @ [v]\<rparr>)"

definition emoji_votes_for_server :: "inner \<Rightarrow> server_id \<Rightarrow> emoji_vote list" where
  "emoji_votes_for_server st sid = filter (\<lambda>v. ev_server_id v = sid) (emoji_votes st)"

definition my_emoji_vote :: "inner \<Rightarrow> emoji_id \<Rightarrow> user_id \<Rightarrow> bool option" where
  "my_emoji_vote st eid voter =
     map_option ev_is_up
       (find (\<lambda>v. ev_emoji_id v = eid \<and> ev_voter v = voter) (emoji_votes st))"

section \<open>Rules\<close>

definition next_rule_id :: "inner \<Rightarrow> rule_id \<times> inner" where
  "next_rule_id st =
     (let st = st\<lparr>next_rule := next_rule st + 1\<rparr> in
      (RuleId (compose_id (node st) (next_rule st)), st))"

definition insert_rule :: "rule \<Rightarrow> inner \<Rightarrow> inner" where [store_defs]:
  "insert_rule r st =
     (let st = record_change ''rules'' Upsert (RuleRow r) st in
      st\<lparr>rules := hm_insert (r_id r) r (rules st)\<rparr>)"

definition remove_rule :: "rule_id \<Rightarrow> inner \<Rightarrow> bool \<times> inner" where
  "remove_rule rid st =
     (case hm_get (rules st) rid of
        Some removed \<Rightarrow>
          let st = st\<lparr>rules := hm_remove rid (rules st)\<rparr>
          in (True, record_change ''rules'' Delete (RuleRow removed) st)
      | None \<Rightarrow> (False, st))"

definition list_rules_for_server :: "inner \<Rightarrow> server_id \<Rightarrow> rule list" where
  "list_rules_for_server st sid =
     sort_key (\<lambda>r. rule_id_val (r_id r))
       (filter (\<lambda>r. r_server_id r = sid) (hm_values (rules st)))"

section \<open>Keys and grants\<close>

definition put_keys :: "user_keys \<Rightarrow> inner \<Rightarrow> inner" where [store_defs]:
  "put_keys k st =
     (let st = record_change ''user_keys'' Upsert (UserKeysRow k) st in
      st\<lparr>key_directory := hm_insert (k_user_id k) k (key_directory st)\<rparr>)"

definition get_keys :: "inner \<Rightarrow> user_id \<Rightarrow> user_keys option" where
  "get_keys st uid = hm_get (key_directory st) uid"

definition put_grant :: "channel_key_grant \<Rightarrow> inner \<Rightarrow> inner" where [store_defs]:
  "put_grant g st =
     (let st = record_change ''channel_grants'' Upsert (GrantRow g) st in
      st\<lparr>channel_grants :=
           hm_insert (g_channel_id g, g_epoch g, g_member g) g (channel_grants st)\<rparr>)"

definition grants_for_member :: "inner \<Rightarrow> channel_id \<Rightarrow> user_id \<Rightarrow> channel_key_grant list" where
  "grants_for_member st cid uid =
     sort_key g_epoch
       (filter (\<lambda>g. g_channel_id g = cid \<and> g_member g = uid) (hm_values (channel_grants st)))"

end
