(* ===== verification/Store_Ops.thy ===== *)
theory Store_Ops
  imports Store
begin

text \<open>
  The rest of the store's operations: direct messages, blocks and friendships,
  media blobs, invites, roles; the anti-replay nonces and the verification
  tokens; the replication cursors; and the snapshot the store is saved to and
  loaded from.
\<close>

section \<open>Direct messages, blocks, friendships\<close>

definition next_dm_id :: "inner \<Rightarrow> dm_id \<times> inner" where
  "next_dm_id st =
     (let st = st\<lparr>next_dm := next_dm st + 1\<rparr> in
      (DmId (compose_id (node st) (next_dm st)), st))"

definition insert_dm :: "dm_message \<Rightarrow> inner \<Rightarrow> inner" where [store_defs]:
  "insert_dm m st =
     (let st = record_change ''dms'' Upsert (DmRow m) st in
      st\<lparr>dms := dms st @ [m]\<rparr>)"

definition store_conversation :: "inner \<Rightarrow> user_id \<Rightarrow> user_id \<Rightarrow> dm_message list" where
  "store_conversation st a b =
     sort_key (\<lambda>m. dm_id_val (dm_ident m)) (filter (\<lambda>m. dm_is_between m a b) (dms st))"

text \<open>The loop over the messages, newest first.\<close>

fun partners_loop :: "user_id \<Rightarrow> dm_message list \<Rightarrow> user_id list \<Rightarrow> user_id list" where
  "partners_loop who [] seen = seen"
| "partners_loop who (m # ms) seen =
     (let other = (if dm_sender m = who then Some (dm_recipient m)
                   else if dm_recipient m = who then Some (dm_sender m)
                   else None)
      in case other of
          Some x \<Rightarrow> partners_loop who ms (if x \<notin> set seen then seen @ [x] else seen)
        | None \<Rightarrow> partners_loop who ms seen)"

definition partners :: "inner \<Rightarrow> user_id \<Rightarrow> user_id list" where
  "partners st who = partners_loop who (rev (dms st)) []"

definition add_block :: "block \<Rightarrow> inner \<Rightarrow> bool \<times> inner" where
  "add_block b st =
     (if \<exists>x\<in>set (blocks st). b_blocker x = b_blocker b \<and> b_blocked x = b_blocked b
      then (False, st)
      else
        let st = record_change ''blocks'' Upsert (BlockRow b) st
        in (True, st\<lparr>blocks := blocks st @ [b]\<rparr>))"

definition blocks_involving :: "inner \<Rightarrow> user_id \<Rightarrow> block list" where
  "blocks_involving st who = filter (\<lambda>b. b_blocker b = who \<or> b_blocked b = who) (blocks st)"

definition store_is_blocked_between :: "inner \<Rightarrow> user_id \<Rightarrow> user_id \<Rightarrow> bool" where
  "store_is_blocked_between st a b = (\<exists>bl\<in>set (blocks st). block_is_between bl a b)"

definition add_friend :: "friendship \<Rightarrow> inner \<Rightarrow> bool \<times> inner" where
  "add_friend f st =
     (if \<exists>x\<in>set (friends st). friendship_is_between x (f_requester f) (f_addressee f)
      then (False, st)
      else
        let st = record_change ''friendships'' Upsert (FriendshipRow f) st
        in (True, st\<lparr>friends := friends st @ [f]\<rparr>))"

text \<open>\<^verbatim>\<open>iter_mut().find(..)\<close> and the assignment to the slot it found.\<close>

fun replace_first :: "('a \<Rightarrow> bool) \<Rightarrow> 'a \<Rightarrow> 'a list \<Rightarrow> 'a list" where
  "replace_first P y [] = []"
| "replace_first P y (x # xs) = (if P x then y # xs else x # replace_first P y xs)"

definition update_friend :: "friendship \<Rightarrow> inner \<Rightarrow> inner" where
  "update_friend f st =
     (let P = (\<lambda>x. friendship_is_between x (f_requester f) (f_addressee f));
          found = (\<exists>x\<in>set (friends st). P x);
          st = st\<lparr>friends := replace_first P f (friends st)\<rparr>
      in if found then record_change ''friendships'' Upsert (FriendshipRow f) st else st)"

definition friend_between :: "inner \<Rightarrow> user_id \<Rightarrow> user_id \<Rightarrow> friendship option" where
  "friend_between st a b = find (\<lambda>f. friendship_is_between f a b) (friends st)"

definition friends_involving :: "inner \<Rightarrow> user_id \<Rightarrow> friendship list" where
  "friends_involving st who =
     filter (\<lambda>f. f_requester f = who \<or> f_addressee f = who) (friends st)"

section \<open>Media\<close>

text \<open>Lower-case hexadecimal, as \<^verbatim>\<open>{:x}\<close> prints it.\<close>

definition hex_digit :: "nat \<Rightarrow> char" where
  "hex_digit d = (if d < 10 then char_of (48 + d) else char_of (87 + d))"

function hex_nat :: "nat \<Rightarrow> string" where
  "hex_nat n = (if n < 16 then [hex_digit n] else hex_nat (n div 16) @ [hex_digit (n mod 16)])"
  by auto
termination by (relation "measure id") auto

declare hex_nat.simps [simp del]

text \<open>\<open>nanos\<close> is the reading of the system clock; this adapter never fails.\<close>

definition put_media :: "nat \<Rightarrow> string \<Rightarrow> u8 list \<Rightarrow> inner \<Rightarrow> string \<times> inner" where
  "put_media nanos content_type bytes st =
     (let st = st\<lparr>media_seq := media_seq st + 1\<rparr>;
          key = hex_nat nanos @ hex_nat (unat (media_seq st))
      in (key, st\<lparr>media := hm_insert key (content_type, bytes) (media st)\<rparr>))"

definition get_media :: "inner \<Rightarrow> string \<Rightarrow> (string \<times> u8 list) option" where
  "get_media st key = hm_get (media st) key"

definition delete_media :: "string \<Rightarrow> inner \<Rightarrow> inner" where
  "delete_media key st = st\<lparr>media := hm_remove key (media st)\<rparr>"

section \<open>Invites\<close>

definition add_invite :: "invite \<Rightarrow> inner \<Rightarrow> inner" where [store_defs]:
  "add_invite i st =
     (let st = record_change ''invites'' Upsert (InviteRow i) st in
      st\<lparr>invites := hm_insert (i_code_hash i) i (invites st)\<rparr>)"

definition invite_by_hash :: "inner \<Rightarrow> string \<Rightarrow> invite option" where
  "invite_by_hash st code_hash = hm_get (invites st) code_hash"

definition list_invites_for_server :: "inner \<Rightarrow> server_id \<Rightarrow> invite list" where
  "list_invites_for_server st sid = filter (\<lambda>i. i_server_id i = sid) (hm_values (invites st))"

definition revoke :: "string \<Rightarrow> inner \<Rightarrow> inner" where
  "revoke code_hash st =
     (case hm_get (invites st) code_hash of
        None \<Rightarrow> st
      | Some i \<Rightarrow>
          let i = i\<lparr>i_is_revoked := True\<rparr>;
              st = record_change ''invites'' Upsert (InviteRow i) st
          in st\<lparr>invites := hm_insert (i_code_hash i) i (invites st)\<rparr>)"

section \<open>Roles\<close>

definition next_role_id :: "inner \<Rightarrow> role_id \<times> inner" where
  "next_role_id st =
     (let st = st\<lparr>next_role := next_role st + 1\<rparr> in
      (RoleId (compose_id (node st) (next_role st)), st))"

definition insert_role :: "role \<Rightarrow> inner \<Rightarrow> inner" where [store_defs]:
  "insert_role r st =
     (let st = record_change ''roles'' Upsert (RoleRow r) st in
      st\<lparr>roles := hm_insert (ro_id r) r (roles st)\<rparr>)"

definition get_role :: "inner \<Rightarrow> role_id \<Rightarrow> role option" where
  "get_role st rid = hm_get (roles st) rid"

definition find_role :: "inner \<Rightarrow> server_id \<Rightarrow> string \<Rightarrow> role option" where
  "find_role st sid name =
     find (\<lambda>r. ro_server_id r = sid \<and> ro_name r = name) (hm_values (roles st))"

definition remove_role :: "role_id \<Rightarrow> inner \<Rightarrow> bool \<times> inner" where
  "remove_role rid st =
     (case hm_get (roles st) rid of
        None \<Rightarrow> (False, st)
      | Some removed \<Rightarrow>
          let st = st\<lparr>roles := hm_remove rid (roles st)\<rparr>;
              st = record_change ''roles'' Delete (RoleRow removed) st
          in (True, st\<lparr>role_assignments :=
                         filter (\<lambda>a. ra_role_id a \<noteq> rid) (role_assignments st)\<rparr>))"

definition list_roles_for_server :: "inner \<Rightarrow> server_id \<Rightarrow> role list" where
  "list_roles_for_server st sid =
     sort_key (\<lambda>r. role_id_val (ro_id r))
       (filter (\<lambda>r. ro_server_id r = sid) (hm_values (roles st)))"

definition assign :: "role_assignment \<Rightarrow> inner \<Rightarrow> bool \<times> inner" where
  "assign a st =
     (if \<exists>x\<in>set (role_assignments st). ra_role_id x = ra_role_id a \<and> ra_user x = ra_user a
      then (False, st)
      else
        let st = record_change ''role_assignments'' Upsert (RoleAssignmentRow a) st
        in (True, st\<lparr>role_assignments := role_assignments st @ [a]\<rparr>))"

definition unassign :: "role_id \<Rightarrow> user_id \<Rightarrow> inner \<Rightarrow> bool \<times> inner" where
  "unassign rid uid st =
     (case find (\<lambda>a. ra_role_id a = rid \<and> ra_user a = uid) (role_assignments st) of
        None \<Rightarrow> (False, st)
      | Some a \<Rightarrow>
          let st = st\<lparr>role_assignments :=
                filter (\<lambda>a. \<not> (ra_role_id a = rid \<and> ra_user a = uid)) (role_assignments st)\<rparr>
          in (True, record_change ''role_assignments'' Delete (RoleAssignmentRow a) st))"

definition holders :: "inner \<Rightarrow> role_id \<Rightarrow> user_id list" where
  "holders st rid = map ra_user (filter (\<lambda>a. ra_role_id a = rid) (role_assignments st))"

section \<open>Nonces and verification tokens\<close>

definition remember_nonce :: "u16 \<Rightarrow> string \<Rightarrow> int \<Rightarrow> int \<Rightarrow> inner \<Rightarrow> bool \<times> inner" where
  "remember_nonce n nonce now expiry_at st =
     (let st = st\<lparr>nonces := hm_retain (\<lambda>_ expiry. expiry > now) (nonces st)\<rparr>;
          fresh = (hm_get (nonces st) (n, nonce) = None)
      in (fresh, st\<lparr>nonces := hm_insert (n, nonce) expiry_at (nonces st)\<rparr>))"

definition add_token :: "string \<Rightarrow> user_id \<Rightarrow> int \<Rightarrow> inner \<Rightarrow> inner" where
  "add_token token_hash uid expires_at st =
     st\<lparr>verification_tokens :=
          hm_insert token_hash (uid, expires_at) (verification_tokens st)\<rparr>"

definition take_token :: "string \<Rightarrow> int \<Rightarrow> inner \<Rightarrow> user_id option \<times> inner" where
  "take_token token_hash now st =
     (let st = st\<lparr>verification_tokens :=
            hm_retain (\<lambda>_ (_, expiry). expiry > now) (verification_tokens st)\<rparr>
      in (map_option fst (hm_get (verification_tokens st) token_hash),
          st\<lparr>verification_tokens := hm_remove token_hash (verification_tokens st)\<rparr>))"

section \<open>Replication cursors and the feed\<close>

definition replication_cursor :: "inner \<Rightarrow> node_id \<Rightarrow> u64" where
  "replication_cursor st peer = (case hm_get (cursors st) peer of None \<Rightarrow> 0 | Some c \<Rightarrow> c)"

definition advance_cursor :: "node_id \<Rightarrow> u64 \<Rightarrow> inner \<Rightarrow> inner" where
  "advance_cursor peer seq st =
     st\<lparr>cursors := hm_insert peer (max (replication_cursor st peer) seq) (cursors st)\<rparr>"

definition changes_since :: "inner \<Rightarrow> u64 \<Rightarrow> u64 \<Rightarrow> change_record list" where
  "changes_since st after_seq limit =
     take (unat limit) (filter (\<lambda>r. cr_seq r > after_seq) (outbox st))"

section \<open>Snapshots\<close>

record snapshot =
  sn_users :: "user list"
  sn_servers :: "server list"
  sn_memberships :: "membership list"
  sn_channels :: "channel list"
  sn_messages :: "message list"
  sn_reactions :: "reaction list"
  sn_proposals :: "proposal list"
  sn_votes :: "vote list"
  sn_emojis :: "emoji list"
  sn_emoji_votes :: "emoji_vote list"
  sn_rules :: "rule list"
  sn_dms :: "dm_message list"
  sn_blocks :: "block list"
  sn_friends :: "friendship list"
  sn_roles :: "role list"
  sn_role_assignments :: "role_assignment list"
  sn_invites :: "invite list"
  sn_user_keys :: "user_keys list"
  sn_channel_grants :: "channel_key_grant list"
  sn_nonces :: "(u16 \<times> string \<times> int) list"
  sn_verification_tokens :: "(string \<times> user_id \<times> int) list"
  sn_next_user :: u64
  sn_next_server :: u64
  sn_next_channel :: u64
  sn_next_message :: u64
  sn_next_proposal :: u64
  sn_next_rule :: u64
  sn_next_dm :: u64
  sn_next_role :: u64
  sn_next_emoji :: u64

text \<open>What \<^verbatim>\<open>to_json\<close> serialises, and what \<^verbatim>\<open>from_json\<close> rebuilds from it; the JSON
  text between the two is the serialisation library's.\<close>

definition to_snapshot :: "inner \<Rightarrow> snapshot" where
  "to_snapshot st =
     \<lparr> sn_users = hm_values (users st), sn_servers = hm_values (servers st),
       sn_memberships = hm_values (memberships st), sn_channels = hm_values (channels st),
       sn_messages = hm_values (messages st), sn_reactions = reactions st,
       sn_proposals = hm_values (proposals st), sn_votes = votes st,
       sn_emojis = hm_values (emojis st), sn_emoji_votes = emoji_votes st,
       sn_rules = hm_values (rules st), sn_dms = dms st, sn_blocks = blocks st,
       sn_friends = friends st, sn_roles = hm_values (roles st),
       sn_role_assignments = role_assignments st, sn_invites = hm_values (invites st),
       sn_user_keys = hm_values (key_directory st),
       sn_channel_grants = hm_values (channel_grants st),
       sn_nonces = map (\<lambda>((n, nc), e). (n, nc, e)) (nonces st),
       sn_verification_tokens = map (\<lambda>(h, (u, e)). (h, u, e)) (verification_tokens st),
       sn_next_user = next_user st, sn_next_server = next_server st,
       sn_next_channel = next_channel st, sn_next_message = next_message st,
       sn_next_proposal = next_proposal st, sn_next_rule = next_rule st,
       sn_next_dm = next_dm st, sn_next_role = next_role st, sn_next_emoji = next_emoji st \<rparr>"

text \<open>Inserting a list of rows into an empty map, each under its key.\<close>

definition hm_collect :: "('v \<Rightarrow> 'k) \<Rightarrow> ('v \<Rightarrow> 'w) \<Rightarrow> 'v list \<Rightarrow> ('k, 'w) hashmap" where
  "hm_collect key val rows = foldl (\<lambda>m v. hm_insert (key v) (val v) m) [] rows"

definition from_snapshot :: "snapshot \<Rightarrow> inner" where
  "from_snapshot s =
     empty_store
       \<lparr> reactions := sn_reactions s, votes := sn_votes s, emoji_votes := sn_emoji_votes s,
         dms := sn_dms s, blocks := sn_blocks s, friends := sn_friends s,
         role_assignments := sn_role_assignments s,
         invites := hm_collect i_code_hash (\<lambda>i. i) (sn_invites s),
         next_user := sn_next_user s, next_server := sn_next_server s,
         next_channel := sn_next_channel s, next_message := sn_next_message s,
         next_proposal := sn_next_proposal s, next_rule := sn_next_rule s,
         next_dm := sn_next_dm s, next_role := sn_next_role s, next_emoji := sn_next_emoji s,
         users := hm_collect u_id (\<lambda>u. u) (sn_users s),
         servers := hm_collect s_id (\<lambda>g. g) (sn_servers s),
         memberships := hm_collect (\<lambda>m. (m_user_id m, m_server_id m)) (\<lambda>m. m) (sn_memberships s),
         channels := hm_collect ch_id (\<lambda>c. c) (sn_channels s),
         messages := hm_collect msg_id (\<lambda>m. m) (sn_messages s),
         proposals := hm_collect p_id (\<lambda>p. p) (sn_proposals s),
         rules := hm_collect r_id (\<lambda>r. r) (sn_rules s),
         roles := hm_collect ro_id (\<lambda>r. r) (sn_roles s),
         emojis := hm_collect e_id (\<lambda>e. e) (sn_emojis s),
         key_directory := hm_collect k_user_id (\<lambda>k. k) (sn_user_keys s),
         channel_grants :=
           hm_collect (\<lambda>g. (g_channel_id g, g_epoch g, g_member g)) (\<lambda>g. g) (sn_channel_grants s),
         nonces := hm_collect (\<lambda>(n, nc, e). (n, nc)) (\<lambda>(n, nc, e). e) (sn_nonces s),
         verification_tokens :=
           hm_collect (\<lambda>(h, u, e). h) (\<lambda>(h, u, e). (u, e)) (sn_verification_tokens s) \<rparr>"

end
