(* ===== verification/Store_Laws.thy ===== *)
theory Store_Laws
  imports Store_Ops
begin

text \<open>
  The laws of the store. A table keyed by its rows' own ids is the interface
  \<open>keyed_table\<close>; a lookup by a secondary key (a handle, a slug, a name within a
  server) is \<open>indexed_table\<close>, whose lemma is that inserting under a free
  secondary key keeps the keys unique; the id counters are \<open>id_allocator\<close>. Each
  is interpreted on the tables and counters of the store. The invariant
  \<open>store_ok\<close> collects what every operation keeps.
\<close>

section \<open>Keyed tables\<close>

locale keyed_table =
  fixes table :: "'s \<Rightarrow> ('k, 'v) hashmap"
    and put :: "'v \<Rightarrow> 's \<Rightarrow> 's"
    and key :: "'v \<Rightarrow> 'k"
  assumes table_put: "table (put v s) = hm_insert (key v) v (table s)"
begin

definition lookup :: "'s \<Rightarrow> 'k \<Rightarrow> 'v option" where
  "lookup s k = hm_get (table s) k"

lemma lookup_put: "lookup (put v s) k = (if k = key v then Some v else lookup s k)"
  by (simp add: lookup_def table_put hm_get_insert)

lemma keyed_put: "hm_keyed key (table s) \<Longrightarrow> hm_keyed key (table (put v s))"
  by (simp add: table_put hm_keyed_insert)

lemma lookup_key: "hm_keyed key (table s) \<Longrightarrow> lookup s k = Some v \<Longrightarrow> key v = k"
  unfolding lookup_def by (rule hm_keyed_get)

lemma values_put:
  assumes "hm_keyed key (table s)"
  shows "set (hm_values (table (put v s))) =
    insert v {x \<in> set (hm_values (table s)). key x \<noteq> key v}"
proof (rule set_eqI)
  fix x
  note put_iff = hm_keyed_values [OF keyed_put [OF assms, of v], of x, unfolded table_put]
  note old_iff = hm_keyed_values [OF assms, of x]
  show "x \<in> set (hm_values (table (put v s))) \<longleftrightarrow>
      x \<in> insert v {x \<in> set (hm_values (table s)). key x \<noteq> key v}"
    unfolding table_put put_iff hm_get_insert insert_iff mem_Collect_eq old_iff
    by (cases "key x = key v") auto
qed

end

text \<open>A secondary index: \<open>index\<close> of a row, and the lookup that scans for it.\<close>

locale indexed_table = keyed_table table put key
  for table :: "'s \<Rightarrow> ('k, 'v) hashmap" and put :: "'v \<Rightarrow> 's \<Rightarrow> 's" and key :: "'v \<Rightarrow> 'k" +
  fixes index :: "'v \<Rightarrow> 'i"
    and find_by :: "'s \<Rightarrow> 'i \<Rightarrow> 'v option"
  assumes find_by_scan: "find_by s i = find (\<lambda>v. index v = i) (hm_values (table s))"
begin

definition unique_index :: "'s \<Rightarrow> bool" where
  "unique_index s =
     (\<forall>v\<in>set (hm_values (table s)). \<forall>w\<in>set (hm_values (table s)).
        index v = index w \<longrightarrow> v = w)"

lemma find_by_None: "find_by s i = None \<longleftrightarrow> (\<forall>v\<in>set (hm_values (table s)). index v \<noteq> i)"
  by (auto simp: find_by_scan find_None_all)

lemma find_by_Some:
  "find_by s i = Some v \<Longrightarrow> v \<in> set (hm_values (table s)) \<and> index v = i"
  using find_Some_filter [of "\<lambda>v. index v = i"] by (simp add: find_by_scan)

lemma find_by_lookup:
  "hm_keyed key (table s) \<Longrightarrow> find_by s i = Some v \<Longrightarrow> lookup s (key v) = Some v \<and> index v = i"
  using find_by_Some [of s i v] by (simp add: lookup_def hm_keyed_values)

text \<open>With unique indices the scan is a function of the index, whatever the
  order of the table.\<close>

lemma find_by_unique:
  assumes "unique_index s" "v \<in> set (hm_values (table s))"
  shows "find_by s (index v) = Some v"
proof (cases "find_by s (index v)")
  case None
  then show ?thesis using assms(2) by (auto simp: find_by_None)
next
  case (Some w)
  then have "w = v" using find_by_Some [OF Some] assms by (simp add: unique_index_def)
  with Some show ?thesis by simp
qed

lemma unique_put_new:
  assumes "hm_keyed key (table s)" "unique_index s" "find_by s (index v) = None"
  shows "unique_index (put v s)"
  using assms by (auto simp: unique_index_def values_put find_by_None)

lemma unique_put_same:
  assumes "hm_keyed key (table s)" "unique_index s" "lookup s (key v) = Some w"
    "index v = index w"
  shows "unique_index (put v s)"
proof -
  have w: "w \<in> set (hm_values (table s))" "key w = key v"
    using assms(1,3) lookup_key [OF assms(1,3)]
    by (simp_all add: lookup_def hm_keyed_values [OF assms(1)])
  have "x = w" if "x \<in> set (hm_values (table s))" "index x = index v" for x
    using that w(1) assms(2,4) by (simp add: unique_index_def)
  then show ?thesis
    using assms(2) w(2) by (auto simp: unique_index_def values_put [OF assms(1)])
qed

end

section \<open>Id allocation\<close>

text \<open>A counter that hands out composite ids: every id it has handed out carries its
  node, and a sequence no larger than the counter.\<close>

locale id_allocator =
  fixes counter :: "'s \<Rightarrow> u64"
    and this_node :: "'s \<Rightarrow> node_id"
    and next_id :: "'s \<Rightarrow> 'i \<times> 's"
    and id_val :: "'i \<Rightarrow> u64"
  assumes next_id_val: "id_val (fst (next_id s)) = compose_id (this_node s) (counter s + 1)"
    and next_id_counter: "counter (snd (next_id s)) = counter s + 1"
    and next_id_node: "this_node (snd (next_id s)) = this_node s"
begin

definition own :: "'s \<Rightarrow> u64 \<Rightarrow> bool" where
  "own s i = (origin_node i = this_node s \<and> local_sequence i \<le> counter s)"

lemma counter_Suc: "counter s < MAX_SEQUENCE \<Longrightarrow> counter s + 1 \<le> MAX_SEQUENCE \<and> counter s < counter s + 1"
proof -
  assume lt: "counter s < MAX_SEQUENCE"
  have "unat (counter s) < 2 ^ 48 - 1"
    using lt by (simp add: word_less_nat_alt MAX_SEQUENCE_def SEQUENCE_MASK_def SEQUENCE_BITS_def)
  hence "unat (counter s + 1) = unat (counter s) + 1" by (simp add: unat_word_ariths)
  with lt show ?thesis by (simp add: word_less_nat_alt word_le_nat_alt)
qed

lemma next_id_sequence:
  assumes "counter s < MAX_SEQUENCE"
  shows "local_sequence (id_val (fst (next_id s))) = counter s + 1"
    "origin_node (id_val (fst (next_id s))) = this_node s"
  using counter_Suc [OF assms]
  by (simp_all add: next_id_val local_sequence_compose origin_node_compose SEQUENCE_MASK_le)

lemma next_id_own:
  assumes "counter s < MAX_SEQUENCE"
  shows "own (snd (next_id s)) (id_val (fst (next_id s)))"
  using next_id_sequence [OF assms]
  by (simp add: own_def next_id_counter next_id_node)

lemma own_mono:
  assumes "counter s < MAX_SEQUENCE" "own s i"
  shows "own (snd (next_id s)) i"
  using counter_Suc [OF assms(1)] assms(2)
  by (auto simp: own_def next_id_counter next_id_node)

text \<open>The next id is larger than every id handed out before it.\<close>

lemma next_id_greater:
  assumes "counter s < MAX_SEQUENCE" "own s i"
  shows "i < id_val (fst (next_id s))"
proof -
  have "i = compose_id (this_node s) (local_sequence i)"
    using compose_origin_local [of i] assms(2) by (simp add: own_def)
  moreover have "local_sequence i < counter s + 1" "counter s + 1 \<le> MAX_SEQUENCE"
    using counter_Suc [OF assms(1)] assms(2) by (auto simp: own_def)
  ultimately show ?thesis
    unfolding next_id_val by (metis compose_id_less)
qed

lemma next_id_fresh:
  assumes "counter s < MAX_SEQUENCE" "own s i"
  shows "id_val (fst (next_id s)) \<noteq> i"
  using next_id_greater [OF assms] by auto

end

section \<open>The store provides the interfaces\<close>

interpretation user_table: indexed_table users insert_user u_id u_handle find_by_handle
  by unfold_locales (simp_all add: store_defs Let_def find_by_handle_def)

interpretation server_table: indexed_table servers insert_server s_id s_slug find_by_slug
  by unfold_locales (simp_all add: store_defs Let_def find_by_slug_def)

interpretation membership_table: keyed_table memberships upsert_membership
    "\<lambda>m. (m_user_id m, m_server_id m)"
  by unfold_locales (simp_all add: store_defs Let_def)

interpretation channel_table: indexed_table channels insert_channel ch_id
    "\<lambda>c. (ch_server_id c, ch_name c)" "\<lambda>st (sid, name). find_by_name st sid name"
  by unfold_locales (auto simp add: store_defs Let_def find_by_name_def)

interpretation message_table: keyed_table messages store_insert_message msg_id
  by unfold_locales (simp_all add: store_defs Let_def)

interpretation proposal_table: keyed_table proposals insert_proposal p_id
  by unfold_locales (simp_all add: store_defs Let_def)

interpretation emoji_table: indexed_table emojis insert_emoji e_id
    "\<lambda>e. (e_server_id e, e_name e)" "\<lambda>st (sid, name). find_emoji st sid name"
  by unfold_locales (auto simp add: store_defs Let_def find_emoji_def)

interpretation rule_table: keyed_table rules insert_rule r_id
  by unfold_locales (simp_all add: store_defs Let_def)

interpretation role_table: indexed_table roles insert_role ro_id
    "\<lambda>r. (ro_server_id r, ro_name r)" "\<lambda>st (sid, name). find_role st sid name"
  by unfold_locales (auto simp add: store_defs Let_def find_role_def)

interpretation key_table: keyed_table key_directory put_keys k_user_id
  by unfold_locales (simp_all add: store_defs Let_def)

interpretation grant_table: keyed_table channel_grants put_grant
    "\<lambda>g. (g_channel_id g, g_epoch g, g_member g)"
  by unfold_locales (simp_all add: store_defs Let_def)

interpretation invite_table: keyed_table invites add_invite i_code_hash
  by unfold_locales (simp_all add: store_defs Let_def)

lemma update_is_insert:
  "update_user = insert_user" "update_server = insert_server"
  "update_message = store_insert_message" "update_proposal = insert_proposal"
  by (simp_all add: fun_eq_iff update_user_def insert_user_def update_server_def
      insert_server_def update_message_def store_insert_message_def update_proposal_def
      insert_proposal_def)

text \<open>The counters.\<close>

named_theorems next_defs "the id counters, unfolded"

lemmas next_id_defs [next_defs] =
  next_user_id_def next_server_id_def next_channel_id_def next_message_id_def
  next_proposal_id_def next_rule_id_def next_dm_id_def next_role_id_def next_emoji_id_def

interpretation user_ids: id_allocator next_user node next_user_id user_id_val
  by unfold_locales (simp_all add: next_defs Let_def)

interpretation server_ids: id_allocator next_server node next_server_id server_id_val
  by unfold_locales (simp_all add: next_defs Let_def)

interpretation channel_ids: id_allocator next_channel node next_channel_id channel_id_val
  by unfold_locales (simp_all add: next_defs Let_def)

interpretation message_ids: id_allocator next_message node next_message_id message_id_val
  by unfold_locales (simp_all add: next_defs Let_def)

interpretation proposal_ids: id_allocator next_proposal node next_proposal_id proposal_id_val
  by unfold_locales (simp_all add: next_defs Let_def)

interpretation rule_ids: id_allocator next_rule node next_rule_id rule_id_val
  by unfold_locales (simp_all add: next_defs Let_def)

interpretation dm_ids: id_allocator next_dm node next_dm_id dm_id_val
  by unfold_locales (simp_all add: next_defs Let_def)

interpretation role_ids: id_allocator next_role node next_role_id role_id_val
  by unfold_locales (simp_all add: next_defs Let_def)

interpretation emoji_ids: id_allocator next_emoji node next_emoji_id emoji_id_val
  by unfold_locales (simp_all add: next_defs Let_def)

section \<open>The invariant of the store\<close>

definition tables_ok :: "inner \<Rightarrow> bool" where
  "tables_ok st =
     (hm_keyed u_id (users st) \<and> hm_keyed s_id (servers st) \<and>
      hm_keyed (\<lambda>m. (m_user_id m, m_server_id m)) (memberships st) \<and>
      hm_keyed ch_id (channels st) \<and> hm_keyed msg_id (messages st) \<and>
      hm_keyed p_id (proposals st) \<and> hm_keyed e_id (emojis st) \<and> hm_keyed r_id (rules st) \<and>
      hm_keyed ro_id (roles st) \<and> hm_keyed k_user_id (key_directory st) \<and>
      hm_keyed (\<lambda>g. (g_channel_id g, g_epoch g, g_member g)) (channel_grants st) \<and>
      hm_keyed i_code_hash (invites st) \<and> hm_ok (media st) \<and> hm_ok (nonces st) \<and>
      hm_ok (verification_tokens st) \<and> hm_ok (cursors st))"

definition vectors_ok :: "inner \<Rightarrow> bool" where
  "vectors_ok st =
     (unique_by (\<lambda>r. (re_message_id r, re_user r, re_emoji r)) (reactions st) \<and>
      unique_by (\<lambda>v. (v_proposal_id v, v_voter v)) (votes st) \<and>
      unique_by (\<lambda>v. (ev_emoji_id v, ev_voter v)) (emoji_votes st) \<and>
      unique_by (\<lambda>b. (b_blocker b, b_blocked b)) (blocks st) \<and>
      unique_by (\<lambda>f. {f_requester f, f_addressee f}) (friends st) \<and>
      unique_by (\<lambda>a. (ra_role_id a, ra_user a)) (role_assignments st))"

definition names_ok :: "inner \<Rightarrow> bool" where
  "names_ok st =
     (user_table.unique_index st \<and> server_table.unique_index st \<and>
      channel_table.unique_index st \<and> emoji_table.unique_index st \<and>
      role_table.unique_index st)"

definition surfaces_ok :: "inner \<Rightarrow> bool" where
  "surfaces_ok st = (\<forall>s\<in>set (hm_values (servers st)). self_governing s)"

text \<open>The outbox numbers its records 1, 2, 3 and on without a gap.\<close>

definition feed_ok :: "inner \<Rightarrow> bool" where
  "feed_ok st =
     ((\<forall>i<length (outbox st). cr_seq (outbox st ! i) = of_nat (Suc i)) \<and>
      next_outbox st = of_nat (length (outbox st)))"

definition store_ok :: "inner \<Rightarrow> bool" where
  "store_ok st = (tables_ok st \<and> vectors_ok st \<and> names_ok st \<and> surfaces_ok st \<and> feed_ok st)"

lemma tables_ok_ops:
  assumes "tables_ok st"
  shows "tables_ok (insert_user u st)" "tables_ok (insert_server s st)"
    "tables_ok (upsert_membership m st)" "tables_ok (insert_channel c st)"
    "tables_ok (snd (remove_channel cid st))" "tables_ok (store_insert_message msg st)"
    "tables_ok (snd (add_reaction r st))" "tables_ok (snd (remove_reaction mid uid em st))"
    "tables_ok (insert_proposal p st)" "tables_ok (upsert_vote v st)"
    "tables_ok (insert_emoji e st)" "tables_ok (upsert_emoji_vote ev st)"
    "tables_ok (insert_rule ru st)" "tables_ok (snd (remove_rule rid st))"
    "tables_ok (put_keys k st)" "tables_ok (put_grant g st)"
  using assms
  by (auto simp: tables_ok_def store_defs remove_channel_def add_reaction_def
      remove_reaction_def remove_rule_def Let_def hm_keyed_insert hm_keyed_remove
      hm_keyed_retain split: option.splits)

lemma tables_ok_more_ops:
  assumes "tables_ok st"
  shows "tables_ok (insert_dm dm st)" "tables_ok (snd (add_block b st))"
    "tables_ok (snd (add_friend f st))" "tables_ok (update_friend f st)"
    "tables_ok (snd (put_media n ct bs st))" "tables_ok (delete_media key st)"
    "tables_ok (add_invite i st)" "tables_ok (revoke h st)" "tables_ok (insert_role ro st)"
    "tables_ok (snd (remove_role roid st))" "tables_ok (snd (assign a st))"
    "tables_ok (snd (unassign roid uid st))" "tables_ok (snd (remember_nonce nn nc t ex st))"
    "tables_ok (add_token th uid t st)" "tables_ok (snd (take_token th t st))"
    "tables_ok (advance_cursor peer sq st)"
  using assms hm_keyed_get [of i_code_hash "invites st"]
  by (auto simp: tables_ok_def store_defs add_block_def add_friend_def update_friend_def
      put_media_def delete_media_def revoke_def remove_role_def assign_def unassign_def
      remember_nonce_def add_token_def take_token_def advance_cursor_def Let_def
      hm_keyed_insert hm_keyed_remove hm_keyed_retain split: option.splits)

lemma tables_ok_next [simp]:
  "tables_ok (snd (next_user_id st)) = tables_ok st"
  "tables_ok (snd (next_server_id st)) = tables_ok st"
  "tables_ok (snd (next_channel_id st)) = tables_ok st"
  "tables_ok (snd (next_message_id st)) = tables_ok st"
  "tables_ok (snd (next_proposal_id st)) = tables_ok st"
  "tables_ok (snd (next_rule_id st)) = tables_ok st"
  "tables_ok (snd (next_dm_id st)) = tables_ok st"
  "tables_ok (snd (next_role_id st)) = tables_ok st"
  "tables_ok (snd (next_emoji_id st)) = tables_ok st"
  by (simp_all add: tables_ok_def next_defs Let_def)

lemma unique_by_upsert:
  assumes "unique_by k xs" "\<And>y. P y \<longleftrightarrow> k y \<noteq> k x"
  shows "unique_by k (filter P xs @ [x])"
proof (rule unique_by_append [OF unique_by_filter [OF assms(1)]])
  show "k x \<notin> k ` set (filter P xs)" unfolding set_filter assms(2) by force
qed

lemma pair_set_eq: "friendship_is_between f a b \<longleftrightarrow> {f_requester f, f_addressee f} = {a, b}"
  by (auto simp: friendship_is_between_def doubleton_eq_iff)

lemma unique_by_replace_first:
  assumes "unique_by k xs" "\<And>x. P x \<longleftrightarrow> k x = k y"
  shows "unique_by k (replace_first P y xs) \<and> k ` set (replace_first P y xs) \<subseteq> k ` set xs"
  using assms(1)
proof (induction xs)
  case (Cons x xs)
  then show ?case using assms(2) by (auto simp: unique_by_def)
qed simp

lemma vectors_ok_reactions:
  assumes "vectors_ok st"
  shows "vectors_ok (snd (add_reaction r st))" "vectors_ok (snd (remove_reaction mid uid em st))"
proof -
  let ?k = "\<lambda>r. (re_message_id r, re_user r, re_emoji r)"
  have "?k r \<notin> ?k ` set (reactions st)"
    if "\<not> (\<exists>x\<in>set (reactions st). same_reaction x (re_message_id r) (re_user r) (re_emoji r))"
    using that by (auto simp: same_reaction_def)
  moreover have u: "unique_by ?k (reactions st)" using assms by (simp add: vectors_ok_def)
  ultimately show "vectors_ok (snd (add_reaction r st))"
    using assms unique_by_append [of ?k "reactions st" r]
    by (simp add: vectors_ok_def add_reaction_def record_change_def Let_def)
  show "vectors_ok (snd (remove_reaction mid uid em st))"
    using assms unique_by_filter [OF u]
    by (simp add: vectors_ok_def remove_reaction_def record_change_def Let_def)
qed

lemma vectors_ok_votes:
  assumes "vectors_ok st"
  shows "vectors_ok (upsert_vote v st)" "vectors_ok (upsert_emoji_vote ev st)"
proof -
  have "unique_by (\<lambda>v. (v_proposal_id v, v_voter v)) (votes st)"
      "unique_by (\<lambda>v. (ev_emoji_id v, ev_voter v)) (emoji_votes st)"
    using assms by (simp_all add: vectors_ok_def)
  note * = this [THEN unique_by_upsert]
  show "vectors_ok (upsert_vote v st)"
    using assms *(1) [of "\<lambda>x. \<not> (v_proposal_id x = v_proposal_id v \<and> v_voter x = v_voter v)" v]
    by (simp add: vectors_ok_def store_defs Let_def)
  show "vectors_ok (upsert_emoji_vote ev st)"
    using assms *(2) [of "\<lambda>x. \<not> (ev_emoji_id x = ev_emoji_id ev \<and> ev_voter x = ev_voter ev)" ev]
    by (simp add: vectors_ok_def store_defs Let_def)
qed

lemma vectors_ok_social:
  assumes "vectors_ok st"
  shows "vectors_ok (snd (add_block b st))" "vectors_ok (snd (add_friend f st))"
    "vectors_ok (update_friend f st)"
proof -
  let ?kb = "\<lambda>b. (b_blocker b, b_blocked b)"
  let ?kf = "\<lambda>f. {f_requester f, f_addressee f}"
  have u: "unique_by ?kb (blocks st)" "unique_by ?kf (friends st)"
    using assms by (simp_all add: vectors_ok_def)
  have "?kb b \<notin> ?kb ` set (blocks st)"
    if "\<not> (\<exists>x\<in>set (blocks st). b_blocker x = b_blocker b \<and> b_blocked x = b_blocked b)"
    using that by auto
  then show "vectors_ok (snd (add_block b st))"
    using assms unique_by_append [OF u(1), of b]
    by (simp add: vectors_ok_def add_block_def record_change_def Let_def)
  have "?kf f \<notin> ?kf ` set (friends st)"
    if "\<not> (\<exists>x\<in>set (friends st). friendship_is_between x (f_requester f) (f_addressee f))"
    using that by (auto simp: pair_set_eq)
  then show "vectors_ok (snd (add_friend f st))"
    using assms unique_by_append [OF u(2), of f]
    by (simp add: vectors_ok_def add_friend_def record_change_def Let_def)
  have "unique_by ?kf (replace_first
      (\<lambda>x. friendship_is_between x (f_requester f) (f_addressee f)) f (friends st))"
    by (rule unique_by_replace_first [OF u(2), THEN conjunct1]) (simp add: pair_set_eq)
  then show "vectors_ok (update_friend f st)"
    using assms by (simp add: vectors_ok_def update_friend_def record_change_def Let_def)
qed

lemma vectors_ok_roles:
  assumes "vectors_ok st"
  shows "vectors_ok (snd (assign a st))" "vectors_ok (snd (unassign roid uid st))"
    "vectors_ok (snd (remove_role roid st))"
proof -
  let ?k = "\<lambda>a. (ra_role_id a, ra_user a)"
  have u: "unique_by ?k (role_assignments st)" using assms by (simp add: vectors_ok_def)
  have "?k a \<notin> ?k ` set (role_assignments st)"
    if "\<not> (\<exists>x\<in>set (role_assignments st). ra_role_id x = ra_role_id a \<and> ra_user x = ra_user a)"
    using that by auto
  then show "vectors_ok (snd (assign a st))"
    using assms unique_by_append [OF u, of a]
    by (simp add: vectors_ok_def assign_def record_change_def Let_def)
  show "vectors_ok (snd (unassign roid uid st))" "vectors_ok (snd (remove_role roid st))"
    using assms unique_by_filter [OF u]
    by (simp_all add: vectors_ok_def unassign_def remove_role_def record_change_def Let_def
        split: option.split)
qed

lemma vectors_ok_ops:
  assumes "vectors_ok st"
  shows "vectors_ok (insert_user u st)" "vectors_ok (insert_server s st)"
    "vectors_ok (upsert_membership m st)" "vectors_ok (insert_channel c st)"
    "vectors_ok (snd (remove_channel cid st))" "vectors_ok (store_insert_message msg st)"
    "vectors_ok (insert_proposal p st)" "vectors_ok (insert_emoji e st)"
    "vectors_ok (insert_rule ru st)" "vectors_ok (snd (remove_rule rid st))"
    "vectors_ok (put_keys k st)" "vectors_ok (put_grant g st)" "vectors_ok (insert_dm dm st)"
    "vectors_ok (snd (put_media n ct bs st))" "vectors_ok (delete_media key st)"
    "vectors_ok (add_invite i st)" "vectors_ok (revoke h st)" "vectors_ok (insert_role ro st)"
    "vectors_ok (snd (remember_nonce nn nc t ex st))" "vectors_ok (add_token th uid t st)"
    "vectors_ok (snd (take_token th t st))" "vectors_ok (advance_cursor peer sq st)"
  using assms
  by (simp_all add: vectors_ok_def store_defs remove_channel_def remove_rule_def put_media_def
      delete_media_def revoke_def remember_nonce_def add_token_def take_token_def
      advance_cursor_def Let_def split: option.split)

lemma vectors_ok_next [simp]:
  "vectors_ok (snd (next_user_id st)) = vectors_ok st"
  "vectors_ok (snd (next_server_id st)) = vectors_ok st"
  "vectors_ok (snd (next_channel_id st)) = vectors_ok st"
  "vectors_ok (snd (next_message_id st)) = vectors_ok st"
  "vectors_ok (snd (next_proposal_id st)) = vectors_ok st"
  "vectors_ok (snd (next_rule_id st)) = vectors_ok st"
  "vectors_ok (snd (next_dm_id st)) = vectors_ok st"
  "vectors_ok (snd (next_role_id st)) = vectors_ok st"
  "vectors_ok (snd (next_emoji_id st)) = vectors_ok st"
  by (simp_all add: vectors_ok_def next_defs Let_def)

lemma feed_ok_record [simp]: "feed_ok st \<Longrightarrow> feed_ok (record_change en op row st)"
  by (auto simp: feed_ok_def record_change_def Let_def nth_append less_Suc_eq)

lemma feed_ok_cong:
  "outbox st' = outbox st \<Longrightarrow> next_outbox st' = next_outbox st \<Longrightarrow> feed_ok st' = feed_ok st"
  by (simp add: feed_ok_def)

lemma feed_ok_ops:
  assumes "feed_ok st"
  shows "feed_ok (insert_user u st)" "feed_ok (insert_server s st)"
    "feed_ok (upsert_membership m st)" "feed_ok (insert_channel c st)"
    "feed_ok (snd (remove_channel cid st))" "feed_ok (store_insert_message msg st)"
    "feed_ok (snd (add_reaction r st))" "feed_ok (snd (remove_reaction mid uid em st))"
    "feed_ok (insert_proposal p st)" "feed_ok (upsert_vote v st)" "feed_ok (insert_emoji e st)"
    "feed_ok (upsert_emoji_vote ev st)" "feed_ok (insert_rule ru st)"
    "feed_ok (snd (remove_rule rid st))" "feed_ok (put_keys k st)" "feed_ok (put_grant g st)"
  using assms
  by (auto simp: feed_ok_def store_defs remove_channel_def add_reaction_def
      remove_reaction_def remove_rule_def Let_def nth_append less_Suc_eq split: option.splits)

lemma feed_ok_more_ops:
  assumes "feed_ok st"
  shows "feed_ok (insert_dm dm st)" "feed_ok (snd (add_block b st))"
    "feed_ok (snd (add_friend f st))" "feed_ok (update_friend f st)"
    "feed_ok (snd (put_media n ct bs st))" "feed_ok (delete_media key st)"
    "feed_ok (add_invite i st)" "feed_ok (revoke h st)" "feed_ok (insert_role ro st)"
    "feed_ok (snd (remove_role roid st))" "feed_ok (snd (assign a st))"
    "feed_ok (snd (unassign roid uid st))" "feed_ok (snd (remember_nonce nn nc t ex st))"
    "feed_ok (add_token th uid t st)" "feed_ok (snd (take_token th t st))"
    "feed_ok (advance_cursor peer sq st)"
  using assms
  by (auto simp: feed_ok_def store_defs add_block_def add_friend_def update_friend_def
      put_media_def delete_media_def revoke_def remove_role_def assign_def unassign_def
      remember_nonce_def add_token_def take_token_def advance_cursor_def Let_def
      nth_append less_Suc_eq split: option.splits)

lemma feed_ok_next [simp]:
  "feed_ok (snd (next_user_id st)) = feed_ok st"
  "feed_ok (snd (next_server_id st)) = feed_ok st"
  "feed_ok (snd (next_channel_id st)) = feed_ok st"
  "feed_ok (snd (next_message_id st)) = feed_ok st"
  "feed_ok (snd (next_proposal_id st)) = feed_ok st"
  "feed_ok (snd (next_rule_id st)) = feed_ok st"
  "feed_ok (snd (next_dm_id st)) = feed_ok st"
  "feed_ok (snd (next_role_id st)) = feed_ok st"
  "feed_ok (snd (next_emoji_id st)) = feed_ok st"
  by (simp_all add: feed_ok_def next_defs Let_def)

lemmas unique_index_defs =
  user_table.unique_index_def server_table.unique_index_def channel_table.unique_index_def
  emoji_table.unique_index_def role_table.unique_index_def

lemma names_ok_other [simp]:
  "names_ok (upsert_membership m st) = names_ok st"
  "names_ok (store_insert_message msg st) = names_ok st"
  "names_ok (snd (add_reaction r st)) = names_ok st"
  "names_ok (snd (remove_reaction mid uid em st)) = names_ok st"
  "names_ok (insert_proposal p st) = names_ok st"
  "names_ok (upsert_vote v st) = names_ok st"
  "names_ok (upsert_emoji_vote ev st) = names_ok st"
  "names_ok (insert_rule ru st) = names_ok st"
  "names_ok (snd (remove_rule rid st)) = names_ok st"
  "names_ok (put_keys k st) = names_ok st"
  "names_ok (put_grant g st) = names_ok st"
  "names_ok (insert_dm dm st) = names_ok st"
  "names_ok (snd (add_block b st)) = names_ok st"
  "names_ok (snd (add_friend f st)) = names_ok st"
  "names_ok (update_friend f st) = names_ok st"
  "names_ok (snd (put_media n ct bs st)) = names_ok st"
  "names_ok (delete_media key st) = names_ok st"
  "names_ok (add_invite i st) = names_ok st"
  "names_ok (revoke h st) = names_ok st"
  "names_ok (snd (assign a st)) = names_ok st"
  "names_ok (snd (unassign roid uid st)) = names_ok st"
  "names_ok (snd (remember_nonce nn nc t ex st)) = names_ok st"
  "names_ok (add_token th uid t st) = names_ok st"
  "names_ok (snd (take_token th t st)) = names_ok st"
  "names_ok (advance_cursor peer sq st) = names_ok st"
  by (simp_all add: names_ok_def unique_index_defs store_defs remove_channel_def add_reaction_def
      remove_reaction_def remove_rule_def add_block_def add_friend_def update_friend_def
      put_media_def delete_media_def revoke_def remove_role_def assign_def unassign_def
      remember_nonce_def add_token_def take_token_def advance_cursor_def Let_def
      split: option.split)

lemma names_ok_next [simp]:
  "names_ok (snd (next_user_id st)) = names_ok st"
  "names_ok (snd (next_server_id st)) = names_ok st"
  "names_ok (snd (next_channel_id st)) = names_ok st"
  "names_ok (snd (next_message_id st)) = names_ok st"
  "names_ok (snd (next_proposal_id st)) = names_ok st"
  "names_ok (snd (next_rule_id st)) = names_ok st"
  "names_ok (snd (next_dm_id st)) = names_ok st"
  "names_ok (snd (next_role_id st)) = names_ok st"
  "names_ok (snd (next_emoji_id st)) = names_ok st"
  by (simp_all add: names_ok_def unique_index_defs next_defs Let_def)

lemma surfaces_ok_other [simp]:
  "surfaces_ok (upsert_membership m st) = surfaces_ok st"
  "surfaces_ok (store_insert_message msg st) = surfaces_ok st"
  "surfaces_ok (snd (add_reaction r st)) = surfaces_ok st"
  "surfaces_ok (snd (remove_reaction mid uid em st)) = surfaces_ok st"
  "surfaces_ok (insert_proposal p st) = surfaces_ok st"
  "surfaces_ok (upsert_vote v st) = surfaces_ok st"
  "surfaces_ok (upsert_emoji_vote ev st) = surfaces_ok st"
  "surfaces_ok (insert_rule ru st) = surfaces_ok st"
  "surfaces_ok (snd (remove_rule rid st)) = surfaces_ok st"
  "surfaces_ok (put_keys k st) = surfaces_ok st"
  "surfaces_ok (put_grant g st) = surfaces_ok st"
  "surfaces_ok (insert_dm dm st) = surfaces_ok st"
  "surfaces_ok (snd (add_block b st)) = surfaces_ok st"
  "surfaces_ok (snd (add_friend f st)) = surfaces_ok st"
  "surfaces_ok (update_friend f st) = surfaces_ok st"
  "surfaces_ok (snd (put_media n ct bs st)) = surfaces_ok st"
  "surfaces_ok (delete_media key st) = surfaces_ok st"
  "surfaces_ok (add_invite i st) = surfaces_ok st"
  "surfaces_ok (revoke h st) = surfaces_ok st"
  "surfaces_ok (snd (assign a st)) = surfaces_ok st"
  "surfaces_ok (snd (unassign roid uid st)) = surfaces_ok st"
  "surfaces_ok (snd (remember_nonce nn nc t ex st)) = surfaces_ok st"
  "surfaces_ok (add_token th uid t st) = surfaces_ok st"
  "surfaces_ok (snd (take_token th t st)) = surfaces_ok st"
  "surfaces_ok (advance_cursor peer sq st) = surfaces_ok st"
  "surfaces_ok (insert_user u st) = surfaces_ok st"
  "surfaces_ok (insert_channel c st) = surfaces_ok st"
  "surfaces_ok (snd (remove_channel cid st)) = surfaces_ok st"
  "surfaces_ok (insert_emoji e st) = surfaces_ok st"
  "surfaces_ok (insert_role ro st) = surfaces_ok st"
  "surfaces_ok (snd (remove_role roid st)) = surfaces_ok st"
  by (simp_all add: surfaces_ok_def store_defs remove_channel_def add_reaction_def
      remove_reaction_def remove_rule_def add_block_def add_friend_def update_friend_def
      put_media_def delete_media_def revoke_def remove_role_def assign_def unassign_def
      remember_nonce_def add_token_def take_token_def advance_cursor_def Let_def
      split: option.split)

lemma surfaces_ok_next [simp]:
  "surfaces_ok (snd (next_user_id st)) = surfaces_ok st"
  "surfaces_ok (snd (next_server_id st)) = surfaces_ok st"
  "surfaces_ok (snd (next_channel_id st)) = surfaces_ok st"
  "surfaces_ok (snd (next_message_id st)) = surfaces_ok st"
  "surfaces_ok (snd (next_proposal_id st)) = surfaces_ok st"
  "surfaces_ok (snd (next_rule_id st)) = surfaces_ok st"
  "surfaces_ok (snd (next_dm_id st)) = surfaces_ok st"
  "surfaces_ok (snd (next_role_id st)) = surfaces_ok st"
  "surfaces_ok (snd (next_emoji_id st)) = surfaces_ok st"
  by (simp_all add: surfaces_ok_def next_defs Let_def)

lemma names_ok_insert_new:
  assumes "tables_ok st" "names_ok st"
  shows "find_by_handle st (u_handle u) = None \<Longrightarrow> names_ok (insert_user u st)"
    "find_by_slug st (s_slug s) = None \<Longrightarrow> names_ok (insert_server s st)"
    "find_by_name st (ch_server_id c) (ch_name c) = None \<Longrightarrow> names_ok (insert_channel c st)"
    "find_emoji st (e_server_id e) (e_name e) = None \<Longrightarrow> names_ok (insert_emoji e st)"
    "find_role st (ro_server_id ro) (ro_name ro) = None \<Longrightarrow> names_ok (insert_role ro st)"
proof -
  note t = assms(1) [unfolded tables_ok_def] and n = assms(2) [unfolded names_ok_def]
  have keep: "users (insert_server s st) = users st" "channels (insert_server s st) = channels st"
    "emojis (insert_server s st) = emojis st" "roles (insert_server s st) = roles st"
    "servers (insert_user u st) = servers st" "channels (insert_user u st) = channels st"
    "emojis (insert_user u st) = emojis st" "roles (insert_user u st) = roles st"
    "users (insert_channel c st) = users st" "servers (insert_channel c st) = servers st"
    "emojis (insert_channel c st) = emojis st" "roles (insert_channel c st) = roles st"
    "users (insert_emoji e st) = users st" "servers (insert_emoji e st) = servers st"
    "channels (insert_emoji e st) = channels st" "roles (insert_emoji e st) = roles st"
    "users (insert_role ro st) = users st" "servers (insert_role ro st) = servers st"
    "channels (insert_role ro st) = channels st" "emojis (insert_role ro st) = emojis st"
    by (simp_all add: store_defs Let_def)
  show "names_ok (insert_user u st)" if "find_by_handle st (u_handle u) = None"
    using user_table.unique_put_new [of st u] that t n
    by (simp add: names_ok_def unique_index_defs keep)
  show "names_ok (insert_server s st)" if "find_by_slug st (s_slug s) = None"
    using server_table.unique_put_new [of st s] that t n
    by (simp add: names_ok_def unique_index_defs keep)
  show "names_ok (insert_channel c st)" if "find_by_name st (ch_server_id c) (ch_name c) = None"
    using channel_table.unique_put_new [of st c] that t n
    by (simp add: names_ok_def unique_index_defs keep)
  show "names_ok (insert_emoji e st)" if "find_emoji st (e_server_id e) (e_name e) = None"
    using emoji_table.unique_put_new [of st e] that t n
    by (simp add: names_ok_def unique_index_defs keep)
  show "names_ok (insert_role ro st)" if "find_role st (ro_server_id ro) (ro_name ro) = None"
    using role_table.unique_put_new [of st ro] that t n
    by (simp add: names_ok_def unique_index_defs keep)
qed

lemma names_ok_update:
  assumes "tables_ok st" "names_ok st"
  shows "get_user st (u_id u) = Some u' \<Longrightarrow> u_handle u = u_handle u' \<Longrightarrow> names_ok (insert_user u st)"
    "get_server st (s_id s) = Some s' \<Longrightarrow> s_slug s = s_slug s' \<Longrightarrow> names_ok (insert_server s st)"
    "get_channel st (ch_id c) = Some c' \<Longrightarrow> ch_server_id c = ch_server_id c' \<Longrightarrow>
     ch_name c = ch_name c' \<Longrightarrow> names_ok (insert_channel c st)"
proof -
  note t = assms(1) [unfolded tables_ok_def] and n = assms(2) [unfolded names_ok_def]
  have keep: "users (insert_server s st) = users st" "channels (insert_server s st) = channels st"
    "emojis (insert_server s st) = emojis st" "roles (insert_server s st) = roles st"
    "servers (insert_user u st) = servers st" "channels (insert_user u st) = channels st"
    "emojis (insert_user u st) = emojis st" "roles (insert_user u st) = roles st"
    "users (insert_channel c st) = users st" "servers (insert_channel c st) = servers st"
    "emojis (insert_channel c st) = emojis st" "roles (insert_channel c st) = roles st"
    by (simp_all add: store_defs Let_def)
  show "names_ok (insert_user u st)" if "get_user st (u_id u) = Some u'" "u_handle u = u_handle u'"
    using user_table.unique_put_same [of st u u'] that t n
    by (simp add: names_ok_def unique_index_defs keep user_table.lookup_def get_user_def)
  show "names_ok (insert_server s st)" if "get_server st (s_id s) = Some s'" "s_slug s = s_slug s'"
    using server_table.unique_put_same [of st s s'] that t n
    by (simp add: names_ok_def unique_index_defs keep server_table.lookup_def get_server_def)
  show "names_ok (insert_channel c st)" if "get_channel st (ch_id c) = Some c'"
      "ch_server_id c = ch_server_id c'" "ch_name c = ch_name c'"
    using channel_table.unique_put_same [of st c c'] that t n
    by (simp add: names_ok_def unique_index_defs keep channel_table.lookup_def get_channel_def)
qed

lemma set_values_remove: "set (hm_values (hm_remove k m)) \<subseteq> set (hm_values m)"
  by (auto simp: hm_values_def hm_remove_def)

lemma names_ok_remove:
  assumes "names_ok st"
  shows "names_ok (snd (remove_channel cid st))" "names_ok (snd (remove_role roid st))"
proof -
  have "channel_table.unique_index (snd (remove_channel cid st))"
    using assms set_values_remove [of cid "channels st"]
    by (auto simp: names_ok_def unique_index_defs remove_channel_def record_change_def Let_def
        subset_iff split: option.split)
  then show "names_ok (snd (remove_channel cid st))"
    using assms by (simp add: names_ok_def unique_index_defs remove_channel_def
        record_change_def Let_def split: option.splits)
  have "role_table.unique_index (snd (remove_role roid st))"
    using assms set_values_remove [of roid "roles st"]
    by (auto simp: names_ok_def unique_index_defs remove_role_def record_change_def Let_def
        subset_iff split: option.split)
  then show "names_ok (snd (remove_role roid st))"
    using assms by (simp add: names_ok_def unique_index_defs remove_role_def
        record_change_def Let_def split: option.splits)
qed

lemma surfaces_ok_insert_server:
  "tables_ok st \<Longrightarrow> surfaces_ok st \<Longrightarrow> self_governing s \<Longrightarrow> surfaces_ok (insert_server s st)"
  using server_table.values_put [of st s] by (auto simp: surfaces_ok_def tables_ok_def)

lemma store_ok_ops:
  assumes "store_ok st"
  shows "store_ok (upsert_membership m st)" "store_ok (store_insert_message msg st)"
    "store_ok (snd (add_reaction r st))" "store_ok (snd (remove_reaction mid uid em st))"
    "store_ok (insert_proposal p st)" "store_ok (upsert_vote v st)"
    "store_ok (upsert_emoji_vote ev st)" "store_ok (insert_rule ru st)"
    "store_ok (snd (remove_rule rid st))" "store_ok (put_keys k st)" "store_ok (put_grant g st)"
    "store_ok (insert_dm dm st)" "store_ok (snd (add_block b st))"
    "store_ok (snd (add_friend f st))" "store_ok (update_friend f st)"
    "store_ok (snd (put_media n ct bs st))" "store_ok (delete_media key st)"
    "store_ok (add_invite i st)" "store_ok (revoke h st)" "store_ok (snd (assign a st))"
    "store_ok (snd (unassign roid uid st))" "store_ok (snd (remember_nonce nn nc t ex st))"
    "store_ok (add_token th uid t st)" "store_ok (snd (take_token th t st))"
    "store_ok (advance_cursor peer sq st)" "store_ok (snd (remove_channel cid st))"
    "store_ok (snd (remove_role roid st))" "store_ok (snd (next_user_id st))"
    "store_ok (snd (next_server_id st))" "store_ok (snd (next_channel_id st))"
    "store_ok (snd (next_message_id st))" "store_ok (snd (next_proposal_id st))"
    "store_ok (snd (next_rule_id st))" "store_ok (snd (next_dm_id st))"
    "store_ok (snd (next_role_id st))" "store_ok (snd (next_emoji_id st))"
  using assms
  by (simp_all add: store_ok_def tables_ok_ops tables_ok_more_ops vectors_ok_ops vectors_ok_reactions
      vectors_ok_votes vectors_ok_social vectors_ok_roles names_ok_remove feed_ok_ops
      feed_ok_more_ops)

lemma store_ok_insert_new:
  assumes "store_ok st"
  shows "find_by_handle st (u_handle u) = None \<Longrightarrow> store_ok (insert_user u st)"
    "find_by_slug st (s_slug s) = None \<Longrightarrow> self_governing s \<Longrightarrow> store_ok (insert_server s st)"
    "find_by_name st (ch_server_id c) (ch_name c) = None \<Longrightarrow> store_ok (insert_channel c st)"
    "find_emoji st (e_server_id e) (e_name e) = None \<Longrightarrow> store_ok (insert_emoji e st)"
    "find_role st (ro_server_id ro) (ro_name ro) = None \<Longrightarrow> store_ok (insert_role ro st)"
  using assms
  by (simp_all add: store_ok_def tables_ok_ops tables_ok_more_ops vectors_ok_ops feed_ok_ops
      feed_ok_more_ops names_ok_insert_new surfaces_ok_insert_server)

lemma store_ok_update:
  assumes "store_ok st"
  shows "get_user st (u_id u) = Some u' \<Longrightarrow> u_handle u = u_handle u' \<Longrightarrow> store_ok (insert_user u st)"
    "get_server st (s_id s) = Some s' \<Longrightarrow> s_slug s = s_slug s' \<Longrightarrow> self_governing s \<Longrightarrow>
     store_ok (insert_server s st)"
    "get_channel st (ch_id c) = Some c' \<Longrightarrow> ch_server_id c = ch_server_id c' \<Longrightarrow>
     ch_name c = ch_name c' \<Longrightarrow> store_ok (insert_channel c st)"
  using assms
  by (simp_all add: store_ok_def tables_ok_ops vectors_ok_ops feed_ok_ops
      names_ok_update surfaces_ok_insert_server)

lemma store_ok_empty: "store_ok empty_store"
  by (simp add: store_ok_def tables_ok_def vectors_ok_def names_ok_def surfaces_ok_def
      feed_ok_def unique_index_defs empty_store_def hm_values_def)

text \<open>What a lookup returns is filed under its id.\<close>

lemma get_ids:
  assumes "tables_ok st"
  shows "get_user st uid = Some u \<Longrightarrow> u_id u = uid"
    "get_server st sid = Some s \<Longrightarrow> s_id s = sid"
    "get_membership st uid sid = Some m \<Longrightarrow> m_user_id m = uid \<and> m_server_id m = sid"
    "get_channel st cid = Some c \<Longrightarrow> ch_id c = cid"
    "get_message st mid = Some msg \<Longrightarrow> msg_id msg = mid"
    "get_proposal st pid = Some p \<Longrightarrow> p_id p = pid"
    "get_emoji st eid = Some e \<Longrightarrow> e_id e = eid"
    "get_role st rid = Some r \<Longrightarrow> ro_id r = rid"
    "invite_by_hash st h = Some i \<Longrightarrow> i_code_hash i = h"
  using assms
  unfolding tables_ok_def get_user_def get_server_def get_membership_def get_channel_def
    get_message_def get_proposal_def get_emoji_def get_role_def invite_by_hash_def
  by (auto dest: hm_keyed_get)

lemma find_gets:
  assumes "tables_ok st"
  shows "find_by_handle st h = Some u \<Longrightarrow> get_user st (u_id u) = Some u \<and> u_handle u = h"
    "find_by_slug st sl = Some s \<Longrightarrow> get_server st (s_id s) = Some s \<and> s_slug s = sl"
    "find_by_name st sid nm = Some c \<Longrightarrow>
     get_channel st (ch_id c) = Some c \<and> ch_server_id c = sid \<and> ch_name c = nm"
    "find_role st sid nm = Some r \<Longrightarrow>
     get_role st (ro_id r) = Some r \<and> ro_server_id r = sid \<and> ro_name r = nm"
  using assms user_table.find_by_lookup [of st h u] server_table.find_by_lookup [of st sl s]
    channel_table.find_by_lookup [of st "(sid, nm)" c] role_table.find_by_lookup [of st "(sid, nm)" r]
  by (simp_all add: tables_ok_def get_user_def get_server_def get_channel_def get_role_def
      user_table.lookup_def server_table.lookup_def channel_table.lookup_def
      role_table.lookup_def)

section \<open>Snapshots\<close>

lemma hm_insert_fresh: "k \<notin> fst ` set m \<Longrightarrow> hm_insert k v m = m @ [(k, v)]"
  unfolding hm_insert_def by (induction m) auto

lemma hm_collect_rebuild:
  assumes "hm_ok m" "\<forall>kv\<in>set m. f (h kv) = fst kv"
  shows "hm_collect f g (map h m) = map (\<lambda>kv. (fst kv, g (h kv))) m"
  using assms
proof (induction m rule: rev_induct)
  case (snoc kv m)
  have "hm_ok m" "fst kv \<notin> fst ` set m" using snoc.prems(1) by (auto simp: hm_ok_def)
  with snoc show ?case
    by (simp add: hm_collect_def hm_insert_fresh image_image)
qed (simp add: hm_collect_def)

lemma hm_collect_values:
  assumes "hm_keyed f m"
  shows "hm_collect f (\<lambda>v. v) (hm_values m) = m"
proof -
  have "\<forall>kv\<in>set m. f (snd kv) = fst kv" using assms by (auto simp: hm_keyed_def)
  then have "hm_collect f (\<lambda>v. v) (map snd m) = map (\<lambda>kv. (fst kv, snd kv)) m"
    by (rule hm_collect_rebuild [where h = snd and g = "\<lambda>v. v", OF hm_keyed_ok [OF assms]])
  then show ?thesis by (simp add: hm_values_def)
qed

lemma snapshot_roundtrip:
  assumes "tables_ok st"
  shows "from_snapshot (to_snapshot st) =
    st\<lparr>media := [], media_seq := 0, node := NodeId 0, outbox := [], next_outbox := 0,
       cursors := []\<rparr>"
proof -
  note t = assms [unfolded tables_ok_def]
  have n: "hm_collect (\<lambda>(n, nc, e). (n, nc)) (\<lambda>(n, nc, e). e)
      (map (\<lambda>((n, nc), e). (n, nc, e)) (nonces st)) = nonces st"
    using t by (subst hm_collect_rebuild) (auto intro!: map_idI)
  have v: "hm_collect (\<lambda>(h, u, e). h) (\<lambda>(h, u, e). (u, e))
      (map (\<lambda>(h, (u, e)). (h, u, e)) (verification_tokens st)) = verification_tokens st"
    using t by (subst hm_collect_rebuild) (auto intro!: map_idI)
  have "from_snapshot (to_snapshot st) =
      empty_store
        \<lparr> reactions := reactions st, votes := votes st, emoji_votes := emoji_votes st,
          dms := dms st, blocks := blocks st, friends := friends st,
          role_assignments := role_assignments st, invites := invites st,
          next_user := next_user st, next_server := next_server st,
          next_channel := next_channel st, next_message := next_message st,
          next_proposal := next_proposal st, next_rule := next_rule st,
          next_dm := next_dm st, next_role := next_role st, next_emoji := next_emoji st,
          users := users st, servers := servers st, memberships := memberships st,
          channels := channels st, messages := messages st, proposals := proposals st,
          rules := rules st, roles := roles st, emojis := emojis st,
          key_directory := key_directory st, channel_grants := channel_grants st,
          nonces := nonces st, verification_tokens := verification_tokens st \<rparr>"
    unfolding from_snapshot_def to_snapshot_def snapshot.simps n v
    using t by (simp only: hm_collect_values simp_thms)
  also have "\<dots> = st\<lparr>media := [], media_seq := 0, node := NodeId 0, outbox := [],
      next_outbox := 0, cursors := []\<rparr>"
    by (cases st) (simp add: empty_store_def)
  finally show ?thesis .
qed

end
