(* ===== verification/Accounts.thy ===== *)
theory Accounts
  imports Store_Laws
begin

text \<open>
  The account and server use cases (\<^verbatim>\<open>app/src/services.rs\<close>): registration and
  email verification, authentication, founding and joining servers, invites,
  and the one path to citizenship. An operation takes the environment it runs
  in, its arguments and the store, and returns its result with the store it
  leaves; an early return leaves the store as it was.
\<close>

section \<open>The environment\<close>

datatype email_verification_mode = Off | Hard

definition email_verification_mode_parse :: "string \<Rightarrow> email_verification_mode option" where
  "email_verification_mode_parse s =
     (let t = make_ascii_lowercase (trim s) in
      if t \<in> set [''off'', ''none'', ''disabled''] then Some Off
      else if t \<in> set [''hard'', ''on'', ''required''] then Some Hard
      else None)"

definition requires_verification :: "email_verification_mode \<Rightarrow> bool" where
  "requires_verification m = (m = Hard)"

text \<open>The clock reading of a call, the email policy of the deployment, and the
  cryptographic primitives, which are third-party code: Argon2 hashing (with
  the salt the call drew) and verification, the sealing of addresses, and
  SHA-256.\<close>

datatype vault_key = VaultKey "u8 list"

record env =
  env_now :: timestamp
  env_email_verification :: email_verification_mode
  env_email_key :: "vault_key option"
  env_hash_password :: "string \<Rightarrow> string option"
  env_verify_password :: "string \<Rightarrow> string \<Rightarrow> bool"
  env_seal_email :: "vault_key \<Rightarrow> string \<Rightarrow> string"
  env_open_email :: "vault_key \<Rightarrow> string \<Rightarrow> string option"
  env_sha256 :: "string \<Rightarrow> u8 list"

definition hex_bytes :: "u8 list \<Rightarrow> string" where
  "hex_bytes bs =
     concat (map (\<lambda>b. [hex_digit (unat (drop_bit 4 b)), hex_digit (unat (b AND 0xf))]) bs)"

definition hash_token :: "env \<Rightarrow> string \<Rightarrow> string" where
  "hash_token env token = hex_bytes (env_sha256 env (trim token))"

definition hash_code :: "env \<Rightarrow> string \<Rightarrow> string" where
  "hash_code env code = hex_bytes (env_sha256 env (trim code))"

definition normalize_email :: "string \<Rightarrow> string" where
  "normalize_email email = make_ascii_lowercase (trim email)"

section \<open>Results and errors\<close>

text \<open>\<^verbatim>\<open>to_string\<close> of an unsigned integer.\<close>

function dec_nat :: "nat \<Rightarrow> string" where
  "dec_nat n = (if n < 10 then [char_of (48 + n)]
                else dec_nat (n div 10) @ [char_of (48 + n mod 10)])"
  by auto
termination by (relation "measure id") auto

declare dec_nat.simps [simp del]

definition dec_u64 :: "u64 \<Rightarrow> string" where
  "dec_u64 w = dec_nat (unat w)"

datatype register_error =
    Reg_HandleTaken string
  | Reg_EmptyHandle
  | Reg_WeakPassword string
  | Reg_InvalidEmail string
  | Reg_EmailTaken
  | Reg_HashFailed

fun password_error_text :: "password_error \<Rightarrow> string" where
  "password_error_text TooShort = ''password must be at least 16 characters''"
| "password_error_text TooLong = ''password must be at most 256 characters''"

fun email_error_text :: "email_error \<Rightarrow> string" where
  "email_error_text EmailEmpty = ''email must not be empty''"
| "email_error_text EmailTooLong = ''email must be at most 254 characters''"
| "email_error_text EmailMalformed = ''email is not a valid address''"

datatype found_error =
  Found_NoSuchUser string | Found_SlugTaken string | Found_EmptyName | Found_FounderBarred

datatype invite_error =
    Invite_NoSuchUser string
  | Invite_NoSuchServer string
  | Invite_NotMember string
  | Invite_Closed string
  | Invite_InvalidCode
  | Invite_AlreadyMember string

datatype join_error =
  Join_NoSuchUser string | Join_NoSuchServer string | Join_AlreadyMember string

datatype enfranchise_error =
    Enf_NoSuchUser string
  | Enf_NoSuchServer string
  | Enf_NotAMember string
  | Enf_AlreadyCitizen string

datatype enfranchise_outcome = Admitted | NotEligible "unmet list" | RateCapped u64

record registration =
  reg_user :: user
  reg_verification_token :: "string option"

record resend_target =
  rt_email :: string
  rt_token :: string

definition VERIFICATION_TTL_SECS :: int where
  "VERIFICATION_TTL_SECS = 24 * 60 * 60"

definition RATE_CAP_WINDOW_DAYS :: int where
  "RATE_CAP_WINDOW_DAYS = 30"

section \<open>Registration and authentication\<close>

definition register_account :: "env \<Rightarrow> string \<Rightarrow> inner \<Rightarrow> (register_error + user) \<times> inner" where
  "register_account env handle0 st =
     (let hdl = trim handle0 in
      if hdl = [] then (Inl Reg_EmptyHandle, st)
      else if find_by_handle st hdl \<noteq> None then (Inl (Reg_HandleTaken hdl), st)
      else
        let (uid, st) = next_user_id st;
            u = (user_new uid hdl (env_now env))\<lparr>u_email_verified := True\<rparr>
        in (Inr u, insert_user u st))"

definition email_clash :: "env \<Rightarrow> vault_key \<Rightarrow> string \<Rightarrow> inner \<Rightarrow> bool" where
  "email_clash env key normalized st =
     (\<exists>u\<in>set (filter has_email (list_all_users st)).
        case env_open_email env key (u_email_enc u) of
          None \<Rightarrow> False
        | Some e \<Rightarrow> normalize_email e = normalized)"

text \<open>\<open>raw\<close> is the verification token the call draws.\<close>

definition register_with_password ::
  "env \<Rightarrow> string \<Rightarrow> string \<Rightarrow> string \<Rightarrow> string \<Rightarrow> inner \<Rightarrow> (register_error + registration) \<times> inner"
  where
  "register_with_password env raw handle0 email password st =
     (let hdl = trim handle0 in
      if hdl = [] then (Inl Reg_EmptyHandle, st)
      else case validate_password password of
        Inl e \<Rightarrow> (Inl (Reg_WeakPassword (password_error_text e)), st)
      | Inr _ \<Rightarrow>
      (case validate_email email of
        Inl e \<Rightarrow> (Inl (Reg_InvalidEmail (email_error_text e)), st)
      | Inr _ \<Rightarrow>
      if find_by_handle st hdl \<noteq> None then (Inl (Reg_HandleTaken hdl), st)
      else if (case env_email_key env of
                 None \<Rightarrow> False
               | Some key \<Rightarrow> email_clash env key (normalize_email email) st)
        then (Inl Reg_EmailTaken, st)
      else
        let email_enc = (case env_email_key env of
                           None \<Rightarrow> []
                         | Some key \<Rightarrow> env_seal_email env key (trim email))
        in case env_hash_password env password of
          None \<Rightarrow> (Inl Reg_HashFailed, st)
        | Some hash \<Rightarrow>
            let (uid, st) = next_user_id st;
                u = (user_new uid hdl (env_now env))
                      \<lparr>u_password_hash := hash, u_email_enc := email_enc\<rparr>
            in if requires_verification (env_email_verification env) \<and> env_email_key env \<noteq> None
               then
                 let u = u\<lparr>u_email_verified := False\<rparr>;
                     expires_at = seconds (env_now env) + VERIFICATION_TTL_SECS;
                     st = add_token (hash_token env raw) (u_id u) expires_at st
                 in (Inr \<lparr> reg_user = u, reg_verification_token = Some raw \<rparr>, insert_user u st)
               else
                 let u = u\<lparr>u_email_verified := True\<rparr>
                 in (Inr \<lparr> reg_user = u, reg_verification_token = None \<rparr>, insert_user u st)))"

definition verify_email :: "env \<Rightarrow> string \<Rightarrow> inner \<Rightarrow> user option \<times> inner" where
  "verify_email env raw_token st =
     (let now = seconds (env_now env);
          (taken, st) = take_token (hash_token env raw_token) now st
      in case taken of
          None \<Rightarrow> (None, st)
        | Some uid \<Rightarrow>
            (case get_user st uid of
               None \<Rightarrow> (None, st)
             | Some u \<Rightarrow>
                 let u = u\<lparr>u_email_verified := True\<rparr> in (Some u, update_user u st)))"

definition issue_resend :: "env \<Rightarrow> string \<Rightarrow> string \<Rightarrow> inner \<Rightarrow> resend_target option \<times> inner" where
  "issue_resend env raw hdl st =
     (case env_email_key env of
        None \<Rightarrow> (None, st)
      | Some key \<Rightarrow>
          if \<not> requires_verification (env_email_verification env) then (None, st)
          else case find_by_handle st (trim hdl) of
            None \<Rightarrow> (None, st)
          | Some u \<Rightarrow>
              if u_email_verified u \<or> \<not> has_email u then (None, st)
              else case env_open_email env key (u_email_enc u) of
                None \<Rightarrow> (None, st)
              | Some email \<Rightarrow>
                  let expires_at = seconds (env_now env) + VERIFICATION_TTL_SECS
                  in (Some \<lparr> rt_email = email, rt_token = raw \<rparr>,
                      add_token (hash_token env raw) (u_id u) expires_at st))"

definition set_password :: "env \<Rightarrow> string \<Rightarrow> string \<Rightarrow> inner \<Rightarrow> (register_error + unit) \<times> inner" where
  "set_password env hdl password st =
     (case validate_password password of
        Inl e \<Rightarrow> (Inl (Reg_WeakPassword (password_error_text e)), st)
      | Inr _ \<Rightarrow>
          (case find_by_handle st (trim hdl) of
             None \<Rightarrow> (Inl Reg_EmptyHandle, st)
           | Some u \<Rightarrow>
               (case env_hash_password env password of
                  None \<Rightarrow> (Inl Reg_HashFailed, st)
                | Some hash \<Rightarrow> (Inr (), update_user (u\<lparr>u_password_hash := hash\<rparr>) st))))"

text \<open>The miss path also spends the time of one verification, which is not
  observable here.\<close>

definition authenticate :: "env \<Rightarrow> string \<Rightarrow> string \<Rightarrow> inner \<Rightarrow> user option" where
  "authenticate env hdl password st =
     (case find_by_handle st (trim hdl) of
        Some u \<Rightarrow>
          if has_password u then
            (if env_verify_password env password (u_password_hash u) then Some u else None)
          else None
      | None \<Rightarrow> None)"

section \<open>Founding and joining\<close>

definition found_server_with_visibility ::
  "env \<Rightarrow> string \<Rightarrow> string \<Rightarrow> bool \<Rightarrow> inner \<Rightarrow> (found_error + server) \<times> inner" where
  "found_server_with_visibility env founder_handle name is_private st =
     (case find_by_handle st (trim founder_handle) of
        None \<Rightarrow> (Inl (Found_NoSuchUser founder_handle), st)
      | Some founder \<Rightarrow>
          if u_is_franchise_barred founder then (Inl Found_FounderBarred, st)
          else
            let slug = slugify name in
            if slug = [] then (Inl Found_EmptyName, st)
            else if find_by_slug st slug \<noteq> None then (Inl (Found_SlugTaken slug), st)
            else
              let now = env_now env;
                  (sid, st) = next_server_id st;
                  s = (server_new sid slug (trim name) (u_id founder) now)
                        \<lparr>s_is_private := is_private\<rparr>;
                  st = insert_server s st;
                  m = (joined (u_id founder) (s_id s) now)
                        \<lparr>m_tier := Citizen, m_enfranchised_at := Some now\<rparr>
              in (Inr s, upsert_membership m st))"

definition found_server :: "env \<Rightarrow> string \<Rightarrow> string \<Rightarrow> inner \<Rightarrow> (found_error + server) \<times> inner" where
  "found_server env founder_handle name st =
     found_server_with_visibility env founder_handle name False st"

text \<open>\<open>code\<close> is the invite code the call draws.\<close>

definition create_invite ::
  "env \<Rightarrow> string \<Rightarrow> string \<Rightarrow> string \<Rightarrow> inner \<Rightarrow> (invite_error + string) \<times> inner" where
  "create_invite env code hdl slug st =
     (case find_by_handle st (trim hdl) of
        None \<Rightarrow> (Inl (Invite_NoSuchUser hdl), st)
      | Some u \<Rightarrow>
      (case find_by_slug st (trim slug) of
        None \<Rightarrow> (Inl (Invite_NoSuchServer slug), st)
      | Some s \<Rightarrow>
          if get_membership st (u_id u) (s_id s) = None then (Inl (Invite_NotMember slug), st)
          else if \<not> allows_member_invites s then (Inl (Invite_Closed slug), st)
          else
            (Inr code,
             add_invite (invite_new (hash_code env code) (s_id s) (u_id u) (env_now env)) st)))"

definition accept_invite ::
  "env \<Rightarrow> string \<Rightarrow> string \<Rightarrow> inner \<Rightarrow> (invite_error + membership) \<times> inner" where
  "accept_invite env hdl code st =
     (case find_by_handle st (trim hdl) of
        None \<Rightarrow> (Inl (Invite_NoSuchUser hdl), st)
      | Some u \<Rightarrow>
      (case Option.bind (invite_by_hash st (hash_code env code))
              (\<lambda>i. if is_live i then Some i else None) of
        None \<Rightarrow> (Inl Invite_InvalidCode, st)
      | Some i \<Rightarrow>
      (case get_server st (i_server_id i) of
        None \<Rightarrow> (Inl Invite_InvalidCode, st)
      | Some s \<Rightarrow>
          if \<not> allows_member_invites s then (Inl (Invite_Closed (s_slug s)), st)
          else if get_membership st (u_id u) (s_id s) \<noteq> None
            then (Inl (Invite_AlreadyMember (s_slug s)), st)
          else
            let m = joined (u_id u) (s_id s) (env_now env)
            in (Inr m, upsert_membership m st))))"

definition list_invites ::
  "string \<Rightarrow> string \<Rightarrow> inner \<Rightarrow> invite_error + invite list" where
  "list_invites hdl slug st =
     (case find_by_handle st (trim hdl) of
        None \<Rightarrow> Inl (Invite_NoSuchUser hdl)
      | Some u \<Rightarrow>
      (case find_by_slug st (trim slug) of
        None \<Rightarrow> Inl (Invite_NoSuchServer slug)
      | Some s \<Rightarrow>
          if get_membership st (u_id u) (s_id s) = None then Inl (Invite_NotMember slug)
          else Inr (filter is_live (list_invites_for_server st (s_id s)))))"

definition revoke_invite ::
  "string \<Rightarrow> string \<Rightarrow> string \<Rightarrow> inner \<Rightarrow> (invite_error + unit) \<times> inner" where
  "revoke_invite hdl slug code_hash st =
     (case find_by_handle st (trim hdl) of
        None \<Rightarrow> (Inl (Invite_NoSuchUser hdl), st)
      | Some u \<Rightarrow>
      (case find_by_slug st (trim slug) of
        None \<Rightarrow> (Inl (Invite_NoSuchServer slug), st)
      | Some s \<Rightarrow>
          if get_membership st (u_id u) (s_id s) = None then (Inl (Invite_NotMember slug), st)
          else if (case invite_by_hash st code_hash of
                     None \<Rightarrow> False | Some i \<Rightarrow> i_server_id i = s_id s)
            then (Inr (), revoke code_hash st)
          else (Inr (), st)))"

definition join_server ::
  "env \<Rightarrow> string \<Rightarrow> string \<Rightarrow> inner \<Rightarrow> (join_error + membership) \<times> inner" where
  "join_server env hdl slug st =
     (case find_by_handle st (trim hdl) of
        None \<Rightarrow> (Inl (Join_NoSuchUser hdl), st)
      | Some u \<Rightarrow>
      (case find_by_slug st (trim slug) of
        None \<Rightarrow> (Inl (Join_NoSuchServer slug), st)
      | Some s \<Rightarrow>
          if get_membership st (u_id u) (s_id s) \<noteq> None
            then (Inl (Join_AlreadyMember slug), st)
          else
            let m = joined (u_id u) (s_id s) (env_now env)
            in (Inr m, upsert_membership m st)))"

section \<open>The path to citizenship\<close>

definition window_start :: "timestamp \<Rightarrow> timestamp" where
  "window_start now = Timestamp (seconds now - RATE_CAP_WINDOW_DAYS * SECONDS_PER_DAY)"

definition try_enfranchise ::
  "env \<Rightarrow> string \<Rightarrow> string \<Rightarrow> inner \<Rightarrow> (enfranchise_error + enfranchise_outcome) \<times> inner" where
  "try_enfranchise env hdl slug st =
     (case find_by_handle st (trim hdl) of
        None \<Rightarrow> (Inl (Enf_NoSuchUser hdl), st)
      | Some u \<Rightarrow>
      (case find_by_slug st (trim slug) of
        None \<Rightarrow> (Inl (Enf_NoSuchServer slug), st)
      | Some s \<Rightarrow>
      (case get_membership st (u_id u) (s_id s) of
        None \<Rightarrow> (Inl (Enf_NotAMember hdl), st)
      | Some m \<Rightarrow>
          if is_citizen m then (Inl (Enf_AlreadyCitizen hdl), st)
          else
            let now = env_now env;
                e = evaluate_eligibility u m (s_criteria s) now
            in if \<not> is_eligible e then (Inr (NotEligible (unmet e)), st)
               else
                 let citizens = citizen_count st (s_id s);
                     admitted = admitted_since st (s_id s) (window_start now)
                 in if enfranchisement_slots citizens admitted = 0
                    then (Inr (RateCapped admitted), st)
                    else
                      let m = m\<lparr>m_tier := Citizen, m_enfranchised_at := Some now\<rparr>
                      in (Inr Admitted, upsert_membership m st))))"

definition eligibility_of ::
  "env \<Rightarrow> string \<Rightarrow> string \<Rightarrow> inner \<Rightarrow> enfranchise_error + eligibility" where
  "eligibility_of env hdl slug st =
     (case find_by_handle st (trim hdl) of
        None \<Rightarrow> Inl (Enf_NoSuchUser hdl)
      | Some u \<Rightarrow>
      (case find_by_slug st (trim slug) of
        None \<Rightarrow> Inl (Enf_NoSuchServer slug)
      | Some s \<Rightarrow>
      (case get_membership st (u_id u) (s_id s) of
        None \<Rightarrow> Inl (Enf_NotAMember hdl)
      | Some m \<Rightarrow> Inr (evaluate_eligibility u m (s_criteria s) (env_now env)))))"

definition set_contribution ::
  "string \<Rightarrow> string \<Rightarrow> int \<Rightarrow> inner \<Rightarrow> (enfranchise_error + unit) \<times> inner" where
  "set_contribution hdl slug contribution st =
     (case find_by_handle st (trim hdl) of
        None \<Rightarrow> (Inl (Enf_NoSuchUser hdl), st)
      | Some u \<Rightarrow>
      (case find_by_slug st (trim slug) of
        None \<Rightarrow> (Inl (Enf_NoSuchServer slug), st)
      | Some s \<Rightarrow>
      (case get_membership st (u_id u) (s_id s) of
        None \<Rightarrow> (Inl (Enf_NotAMember hdl), st)
      | Some m \<Rightarrow> (Inr (), upsert_membership (m\<lparr>m_contribution := contribution\<rparr>) st))))"

section \<open>Reading\<close>

definition list_servers :: "inner \<Rightarrow> (server \<times> phase \<times> u64) list" where
  "list_servers st =
     map (\<lambda>g. let citizens = citizen_count st (s_id g)
              in (g, from_citizen_count citizens, citizens))
       (list_all_servers st)"

definition my_servers :: "string \<Rightarrow> inner \<Rightarrow> (server \<times> phase \<times> u64) list" where
  "my_servers hdl st =
     (case find_by_handle st (trim hdl) of
        None \<Rightarrow> []
      | Some u \<Rightarrow>
          filter (\<lambda>(g, _, _). get_membership st (u_id u) (s_id g) \<noteq> None) (list_servers st))"

definition server_slug :: "server_id \<Rightarrow> inner \<Rightarrow> string option" where
  "server_slug sid st = map_option s_slug (get_server st sid)"

definition list_public_servers :: "inner \<Rightarrow> (server \<times> phase \<times> u64) list" where
  "list_public_servers st = filter (\<lambda>(g, _, _). \<not> s_is_private g) (list_servers st)"

definition find_user :: "string \<Rightarrow> inner \<Rightarrow> user option" where
  "find_user hdl st = find_by_handle st (trim hdl)"

definition member_tier :: "string \<Rightarrow> string \<Rightarrow> inner \<Rightarrow> tier option" where
  "member_tier hdl slug st =
     (case find_by_handle st (trim hdl) of
        None \<Rightarrow> None
      | Some u \<Rightarrow>
      (case find_by_slug st (trim slug) of
        None \<Rightarrow> None
      | Some s \<Rightarrow> map_option m_tier (get_membership st (u_id u) (s_id s))))"

definition member_contribution :: "string \<Rightarrow> string \<Rightarrow> inner \<Rightarrow> int option" where
  "member_contribution hdl slug st =
     (case find_by_handle st (trim hdl) of
        None \<Rightarrow> None
      | Some u \<Rightarrow>
      (case find_by_slug st (trim slug) of
        None \<Rightarrow> None
      | Some s \<Rightarrow> map_option m_contribution (get_membership st (u_id u) (s_id s))))"

definition server_snapshot :: "string \<Rightarrow> inner \<Rightarrow> (server \<times> phase \<times> u64) option" where
  "server_snapshot slug st =
     (case find_by_slug st (trim slug) of
        None \<Rightarrow> None
      | Some s \<Rightarrow>
          let citizens = citizen_count st (s_id s)
          in Some (s, from_citizen_count citizens, citizens))"

end
