(* ===== verification/Chat_Service.thy ===== *)
theory Chat_Service
  imports Accounts
begin

text \<open>
  The chat use cases (\<^verbatim>\<open>app/src/chat_service.rs\<close>): channels, messages with
  attachments and threads, history sharing, and reactions, which are how
  citizens endorse a message's author.
\<close>

section \<open>Errors\<close>

datatype channel_error =
    Channel_NoSuchUser string
  | Channel_NoSuchServer string
  | Channel_EmptyName
  | Channel_NameTaken string
  | Channel_NotProvisionable

datatype message_error =
    Msg_NoSuchUser string
  | Msg_NoSuchServer string
  | Msg_NoSuchChannel string
  | Msg_NoSuchMessage u64
  | Msg_NotAMember string
  | Msg_Sanctioned string
  | Msg_NotTheAuthor
  | Msg_EmptyBody
  | Msg_CrossChannelReply
  | Msg_ChannelEncrypted
  | Msg_NotEncrypted

datatype reaction_error =
    React_NoSuchUser string
  | React_NoSuchMessage u64
  | React_NotAMember string
  | React_EmptyEmoji

datatype media_error = Media_Empty | Media_TooLarge | Media_UnsupportedType string | Media_Io

definition MAX_MEDIA_BYTES :: nat where
  "MAX_MEDIA_BYTES = 25 * 1024 * 1024"

section \<open>Channels\<close>

definition create_channel ::
  "env \<Rightarrow> string \<Rightarrow> string \<Rightarrow> string \<Rightarrow> string \<Rightarrow> inner \<Rightarrow> (channel_error + channel) \<times> inner" where
  "create_channel env founder_handle slug name0 topic st =
     (case find_by_handle st (trim founder_handle) of
        None \<Rightarrow> (Inl (Channel_NoSuchUser founder_handle), st)
      | Some u \<Rightarrow>
      (case find_by_slug st (trim slug) of
        None \<Rightarrow> (Inl (Channel_NoSuchServer slug), st)
      | Some s \<Rightarrow>
          let phase = from_citizen_count (citizen_count st (s_id s)) in
          if \<not> (founder_may_provision phase \<and> u_id u = s_founder_id s)
            then (Inl Channel_NotProvisionable, st)
          else
            let name = normalize_channel_name name0 in
            if name = [] then (Inl Channel_EmptyName, st)
            else if find_by_name st (s_id s) name \<noteq> None then (Inl (Channel_NameTaken name), st)
            else
              let (cid, st) = next_channel_id st;
                  c = channel_new cid (s_id s) name (trim topic) (env_now env)
              in (Inr c, insert_channel c st)))"

definition list_channels :: "string \<Rightarrow> inner \<Rightarrow> channel list option" where
  "list_channels slug st =
     map_option (\<lambda>s. list_channels_for_server st (s_id s)) (find_by_slug st (trim slug))"

definition handle_of_user :: "user_id \<Rightarrow> inner \<Rightarrow> string option" where
  "handle_of_user uid st = map_option u_handle (get_user st uid)"

definition id_of_user :: "string \<Rightarrow> inner \<Rightarrow> u64 option" where
  "id_of_user hdl st = map_option (\<lambda>u. user_id_val (u_id u)) (find_by_handle st (trim hdl))"

definition message_reactions :: "u64 \<Rightarrow> inner \<Rightarrow> (string \<times> u64) list" where
  "message_reactions message_id st =
     summarize_reactions (list_for_message st (MessageId message_id))"

definition message_context :: "u64 \<Rightarrow> inner \<Rightarrow> (string \<times> string) option" where
  "message_context message_id st =
     (case get_message st (MessageId message_id) of
        None \<Rightarrow> None
      | Some m \<Rightarrow>
      (case get_server st (msg_server_id m) of
        None \<Rightarrow> None
      | Some s \<Rightarrow> map_option (\<lambda>c. (s_slug s, ch_name c)) (get_channel st (msg_channel_id m))))"

section \<open>Posting\<close>

definition resolve_poster ::
  "string \<Rightarrow> string \<Rightarrow> string \<Rightarrow> inner \<Rightarrow> message_error + (user \<times> server \<times> channel \<times> user_id)" where
  "resolve_poster hdl slug channel_name st =
     (case find_by_handle st (trim hdl) of
        None \<Rightarrow> Inl (Msg_NoSuchUser hdl)
      | Some u \<Rightarrow>
      (case find_by_slug st (trim slug) of
        None \<Rightarrow> Inl (Msg_NoSuchServer slug)
      | Some s \<Rightarrow>
      (case get_membership st (u_id u) (s_id s) of
        None \<Rightarrow> Inl (Msg_NotAMember hdl)
      | Some m \<Rightarrow>
          if m_is_sanctioned m then Inl (Msg_Sanctioned hdl)
          else
            let name = normalize_channel_name channel_name in
            case find_by_name st (s_id s) name of
              None \<Rightarrow> Inl (Msg_NoSuchChannel channel_name)
            | Some c \<Rightarrow> Inr (u, s, c, u_id u))))"

definition insert_message ::
  "env \<Rightarrow> user_id \<Rightarrow> channel \<Rightarrow> string \<Rightarrow> message_id option \<Rightarrow> attachment list \<Rightarrow> inner \<Rightarrow>
   (message_error + message) \<times> inner" where
  "insert_message env author c body0 parent attachments st =
     (if ch_is_encrypted c then (Inl Msg_ChannelEncrypted, st)
      else
        let body = trim body0 in
        if body = [] \<and> attachments = [] then (Inl Msg_EmptyBody, st)
        else
          let (mid, st) = next_message_id st;
              m = (message_new mid (ch_id c) (ch_server_id c) author body parent (env_now env))
                    \<lparr>msg_attachments := attachments\<rparr>
          in (Inr m, store_insert_message m st))"

definition post_message ::
  "env \<Rightarrow> string \<Rightarrow> string \<Rightarrow> string \<Rightarrow> string \<Rightarrow> inner \<Rightarrow> (message_error + message) \<times> inner" where
  "post_message env hdl slug channel_name body st =
     (case resolve_poster hdl slug channel_name st of
        Inl e \<Rightarrow> (Inl e, st)
      | Inr (_, _, c, author_id) \<Rightarrow> insert_message env author_id c body None [] st)"

definition post_message_with_attachments ::
  "env \<Rightarrow> string \<Rightarrow> string \<Rightarrow> string \<Rightarrow> string \<Rightarrow> attachment list \<Rightarrow> inner \<Rightarrow>
   (message_error + message) \<times> inner" where
  "post_message_with_attachments env hdl slug channel_name body attachments st =
     (case resolve_poster hdl slug channel_name st of
        Inl e \<Rightarrow> (Inl e, st)
      | Inr (_, _, c, author_id) \<Rightarrow> insert_message env author_id c body None attachments st)"

text \<open>\<open>nanos\<close> is the system clock the media store draws its key from.\<close>

definition store_media ::
  "nat \<Rightarrow> string \<Rightarrow> u8 list \<Rightarrow> inner \<Rightarrow> (media_error + (string \<times> media_kind)) \<times> inner" where
  "store_media nanos content_type bytes st =
     (if bytes = [] then (Inl Media_Empty, st)
      else if length bytes > MAX_MEDIA_BYTES then (Inl Media_TooLarge, st)
      else
        let base = make_ascii_lowercase (trim (before_first (CHR '';'') content_type)) in
        if base = ''image/svg+xml'' then (Inl (Media_UnsupportedType base), st)
        else case media_kind_from_content_type base of
          None \<Rightarrow> (Inl (Media_UnsupportedType base), st)
        | Some kind \<Rightarrow>
            let (key, st) = put_media nanos base bytes st in (Inr (key, kind), st))"

definition media_blob :: "string \<Rightarrow> inner \<Rightarrow> (string \<times> u8 list) option" where
  "media_blob key st = get_media st key"

definition post_sealed_message ::
  "env \<Rightarrow> string \<Rightarrow> string \<Rightarrow> string \<Rightarrow> string \<Rightarrow> u32 \<Rightarrow> u64 option \<Rightarrow> inner \<Rightarrow>
   (message_error + message) \<times> inner" where
  "post_sealed_message env hdl slug channel_name ciphertext0 key_epoch parent0 st =
     (case resolve_poster hdl slug channel_name st of
        Inl e \<Rightarrow> (Inl e, st)
      | Inr (_, _, c, author_id) \<Rightarrow>
          if \<not> ch_is_encrypted c then (Inl Msg_NotEncrypted, st)
          else
            let ciphertext = trim ciphertext0 in
            if ciphertext = [] then (Inl Msg_EmptyBody, st)
            else
              case (case parent0 of
                      None \<Rightarrow> Inr None
                    | Some pid \<Rightarrow>
                        (case get_message st (MessageId pid) of
                           None \<Rightarrow> Inl (Msg_NoSuchMessage pid)
                         | Some p \<Rightarrow>
                             if msg_channel_id p \<noteq> ch_id c then Inl Msg_CrossChannelReply
                             else Inr (Some (msg_id p)))) of
                Inl e \<Rightarrow> (Inl e, st)
              | Inr parent \<Rightarrow>
                  let (mid, st) = next_message_id st;
                      m = sealed mid (ch_id c) (ch_server_id c) author_id ciphertext key_epoch
                            parent (env_now env)
                  in (Inr m, store_insert_message m st))"

definition reply_message ::
  "env \<Rightarrow> string \<Rightarrow> u64 \<Rightarrow> string \<Rightarrow> inner \<Rightarrow> (message_error + message) \<times> inner" where
  "reply_message env hdl parent_id body st =
     (case get_message st (MessageId parent_id) of
        None \<Rightarrow> (Inl (Msg_NoSuchMessage parent_id), st)
      | Some parent \<Rightarrow>
      (case get_channel st (msg_channel_id parent) of
        None \<Rightarrow> (Inl (Msg_NoSuchChannel (dec_u64 (channel_id_val (msg_channel_id parent)))), st)
      | Some c \<Rightarrow>
      (case get_server st (msg_server_id parent) of
        None \<Rightarrow> (Inl (Msg_NoSuchServer (dec_u64 (server_id_val (msg_server_id parent)))), st)
      | Some s \<Rightarrow>
      (case find_by_handle st (trim hdl) of
        None \<Rightarrow> (Inl (Msg_NoSuchUser hdl), st)
      | Some u \<Rightarrow>
      (case get_membership st (u_id u) (s_id s) of
        None \<Rightarrow> (Inl (Msg_NotAMember hdl), st)
      | Some m \<Rightarrow>
          if m_is_sanctioned m then (Inl (Msg_Sanctioned hdl), st)
          else insert_message env (u_id u) c body (Some (msg_id parent)) [] st)))))"

section \<open>Editing and deleting\<close>

definition authored_message :: "string \<Rightarrow> u64 \<Rightarrow> inner \<Rightarrow> message_error + message" where
  "authored_message hdl message_id st =
     (case find_by_handle st (trim hdl) of
        None \<Rightarrow> Inl (Msg_NoSuchUser hdl)
      | Some u \<Rightarrow>
      (case get_message st (MessageId message_id) of
        None \<Rightarrow> Inl (Msg_NoSuchMessage message_id)
      | Some m \<Rightarrow> if msg_author m \<noteq> u_id u then Inl Msg_NotTheAuthor else Inr m))"

definition edit_message ::
  "env \<Rightarrow> string \<Rightarrow> u64 \<Rightarrow> string \<Rightarrow> inner \<Rightarrow> (message_error + message) \<times> inner" where
  "edit_message env hdl message_id body0 st =
     (let body = trim body0 in
      if body = [] then (Inl Msg_EmptyBody, st)
      else case authored_message hdl message_id st of
        Inl e \<Rightarrow> (Inl e, st)
      | Inr m \<Rightarrow> let m = edit body (env_now env) m in (Inr m, update_message m st))"

definition delete_message :: "string \<Rightarrow> u64 \<Rightarrow> inner \<Rightarrow> (message_error + unit) \<times> inner" where
  "delete_message hdl message_id st =
     (case authored_message hdl message_id st of
        Inl e \<Rightarrow> (Inl e, st)
      | Inr m \<Rightarrow>
          let st = foldl (\<lambda>st a. delete_media (a_key a) st) st (msg_attachments m)
          in (Inr (), update_message (tombstone m) st))"

section \<open>Reading a channel\<close>

definition channel_messages ::
  "string \<Rightarrow> string \<Rightarrow> inner \<Rightarrow> message_error + message list" where
  "channel_messages slug channel_name st =
     (case find_by_slug st (trim slug) of
        None \<Rightarrow> Inl (Msg_NoSuchServer slug)
      | Some s \<Rightarrow>
      (case find_by_name st (s_id s) (normalize_channel_name channel_name) of
        None \<Rightarrow> Inl (Msg_NoSuchChannel channel_name)
      | Some c \<Rightarrow> Inr (list_for_channel st (ch_id c))))"

definition visible_to ::
  "inner \<Rightarrow> server_id \<Rightarrow> user_id option \<Rightarrow> timestamp \<Rightarrow> message \<Rightarrow> bool" where
  "visible_to st sid viewer viewer_joined m =
     (if viewer = Some (msg_author m) then True
      else case get_membership st (msg_author m) sid of
        Some a \<Rightarrow> shows_message_to a (msg_created_at m) viewer_joined
      | None \<Rightarrow> True)"

definition channel_messages_for ::
  "env \<Rightarrow> string \<Rightarrow> string \<Rightarrow> string \<Rightarrow> inner \<Rightarrow> message_error + message list" where
  "channel_messages_for env viewer_handle slug channel_name st =
     (case channel_messages slug channel_name st of
        Inl e \<Rightarrow> Inl e
      | Inr all \<Rightarrow>
      (case find_by_slug st (trim slug) of
        None \<Rightarrow> Inl (Msg_NoSuchServer slug)
      | Some s \<Rightarrow>
          let viewer_id = map_option u_id (find_by_handle st (trim viewer_handle));
              viewer_joined =
                (case Option.bind viewer_id (\<lambda>uid. get_membership st uid (s_id s)) of
                   Some m \<Rightarrow> m_joined_at m
                 | None \<Rightarrow> env_now env)
          in Inr (filter (visible_to st (s_id s) viewer_id viewer_joined) all)))"

definition history_sharing :: "string \<Rightarrow> string \<Rightarrow> inner \<Rightarrow> bool option" where
  "history_sharing hdl slug st =
     (case find_by_handle st (trim hdl) of
        None \<Rightarrow> None
      | Some u \<Rightarrow>
      (case find_by_slug st (trim slug) of
        None \<Rightarrow> None
      | Some s \<Rightarrow>
          map_option m_shares_history_with_newcomers (get_membership st (u_id u) (s_id s))))"

definition set_history_sharing ::
  "string \<Rightarrow> string \<Rightarrow> bool \<Rightarrow> inner \<Rightarrow> (message_error + unit) \<times> inner" where
  "set_history_sharing hdl slug shares st =
     (case find_by_handle st (trim hdl) of
        None \<Rightarrow> (Inl (Msg_NoSuchUser hdl), st)
      | Some u \<Rightarrow>
      (case find_by_slug st (trim slug) of
        None \<Rightarrow> (Inl (Msg_NoSuchServer slug), st)
      | Some s \<Rightarrow>
      (case get_membership st (u_id u) (s_id s) of
        None \<Rightarrow> (Inl (Msg_NotAMember hdl), st)
      | Some m \<Rightarrow>
          (Inr (), upsert_membership (m\<lparr>m_shares_history_with_newcomers := shares\<rparr>) st))))"

section \<open>Reactions\<close>

definition adjust_contribution :: "user_id \<Rightarrow> server_id \<Rightarrow> int \<Rightarrow> inner \<Rightarrow> inner" where
  "adjust_contribution author sid delta st =
     (case get_membership st author sid of
        None \<Rightarrow> st
      | Some m \<Rightarrow>
          upsert_membership (m\<lparr>m_contribution := max (m_contribution m + delta) 0\<rparr>) st)"

definition react :: "string \<Rightarrow> u64 \<Rightarrow> string \<Rightarrow> inner \<Rightarrow> (reaction_error + unit) \<times> inner" where
  "react hdl message_id emoji0 st =
     (let em = trim emoji0 in
      if em = [] then (Inl React_EmptyEmoji, st)
      else case find_by_handle st (trim hdl) of
        None \<Rightarrow> (Inl (React_NoSuchUser hdl), st)
      | Some u \<Rightarrow>
      (case get_message st (MessageId message_id) of
        None \<Rightarrow> (Inl (React_NoSuchMessage message_id), st)
      | Some m \<Rightarrow>
      (case get_membership st (u_id u) (msg_server_id m) of
        None \<Rightarrow> (Inl (React_NotAMember hdl), st)
      | Some reactor \<Rightarrow>
          let first_reaction = (\<not> user_has_any st (msg_id m) (u_id u));
              endorses = (first_reaction \<and> is_franchised reactor \<and> u_id u \<noteq> msg_author m);
              (added, st) = add_reaction (reaction_new (msg_id m) (u_id u) em) st
          in (Inr (),
              if added \<and> endorses then adjust_contribution (msg_author m) (msg_server_id m) 1 st
              else st))))"

definition unreact :: "string \<Rightarrow> u64 \<Rightarrow> string \<Rightarrow> inner \<Rightarrow> (reaction_error + unit) \<times> inner" where
  "unreact hdl message_id emoji0 st =
     (let em = trim emoji0 in
      case find_by_handle st (trim hdl) of
        None \<Rightarrow> (Inl (React_NoSuchUser hdl), st)
      | Some u \<Rightarrow>
      (case get_message st (MessageId message_id) of
        None \<Rightarrow> (Inl (React_NoSuchMessage message_id), st)
      | Some m \<Rightarrow>
          let (removed, st) = remove_reaction (msg_id m) (u_id u) em st
          in (Inr (),
              if removed then
                let still_reacting = user_has_any st (msg_id m) (u_id u) in
                case get_membership st (u_id u) (msg_server_id m) of
                  None \<Rightarrow> st
                | Some reactor \<Rightarrow>
                    if \<not> still_reacting \<and> is_franchised reactor \<and> u_id u \<noteq> msg_author m
                    then adjust_contribution (msg_author m) (msg_server_id m) (-1) st
                    else st
              else st)))"

end
