(* ===== verification/Governance_Service.thy ===== *)
theory Governance_Service
  imports Accounts
begin

text \<open>
  The governance use cases (\<^verbatim>\<open>app/src/governance_service.rs\<close>): opening a proposal,
  casting a vote, and resolving the ballots whose window has closed, which
  tallies the weighted votes, decides, and applies a passed and matured effect
  to the server.
\<close>

section \<open>Errors\<close>

datatype propose_error =
    Propose_NoSuchUser string
  | Propose_NoSuchServer string
  | Propose_NotACitizen
  | Propose_NotGoverned
  | Propose_NotAllowedInPhase
  | Propose_Invalid string

datatype vote_error =
    Vote_NoSuchUser string
  | Vote_NoSuchProposal u64
  | Vote_NotACitizen
  | Vote_Closed

definition VOTING_WINDOW_DAYS :: int where
  "VOTING_WINDOW_DAYS = 3"

section \<open>Proposing and voting\<close>

text \<open>\<^verbatim>\<open>memberships.get(..).filter(is_franchised)\<close>.\<close>

definition franchised_member :: "inner \<Rightarrow> user_id \<Rightarrow> server_id \<Rightarrow> membership option" where
  "franchised_member st uid sid =
     (case get_membership st uid sid of
        None \<Rightarrow> None
      | Some m \<Rightarrow> if is_franchised m then Some m else None)"

definition open_proposal ::
  "env \<Rightarrow> string \<Rightarrow> string \<Rightarrow> proposal_kind \<Rightarrow> inner \<Rightarrow> (propose_error + proposal) \<times> inner" where
  "open_proposal env proposer_handle slug kind st =
     (case find_by_handle st (trim proposer_handle) of
        None \<Rightarrow> (Inl (Propose_NoSuchUser proposer_handle), st)
      | Some u \<Rightarrow>
      (case find_by_slug st (trim slug) of
        None \<Rightarrow> (Inl (Propose_NoSuchServer slug), st)
      | Some s \<Rightarrow>
      (case franchised_member st (u_id u) (s_id s) of
        None \<Rightarrow> (Inl Propose_NotACitizen, st)
      | Some _ \<Rightarrow>
          if \<not> governs s (ballot_kind_of kind) then (Inl Propose_NotGoverned, st)
          else
            let phase = from_citizen_count (citizen_count st (s_id s)) in
            if threshold_for (decision_class_of kind) phase = None
              then (Inl Propose_NotAllowedInPhase, st)
            else
              let now = env_now env;
                  (pid, st) = next_proposal_id st;
                  p = proposal_new pid (s_id s) (u_id u) kind now
                        (plus_days now VOTING_WINDOW_DAYS)
              in (Inr p, insert_proposal p st))))"

definition cast_vote_as :: "user_id \<Rightarrow> u64 \<Rightarrow> bool \<Rightarrow> inner \<Rightarrow> (vote_error + unit) \<times> inner" where
  "cast_vote_as voter_id proposal_id is_aye st =
     (case get_proposal st (ProposalId proposal_id) of
        None \<Rightarrow> (Inl (Vote_NoSuchProposal proposal_id), st)
      | Some p \<Rightarrow>
          if p_status p \<noteq> Open then (Inl Vote_Closed, st)
          else case franchised_member st voter_id (p_server_id p) of
            None \<Rightarrow> (Inl Vote_NotACitizen, st)
          | Some _ \<Rightarrow> (Inr (), upsert_vote (vote_new (p_id p) voter_id is_aye) st))"

definition cast_vote :: "string \<Rightarrow> u64 \<Rightarrow> bool \<Rightarrow> inner \<Rightarrow> (vote_error + unit) \<times> inner" where
  "cast_vote voter_handle proposal_id is_aye st =
     (case find_by_handle st (trim voter_handle) of
        None \<Rightarrow> (Inl (Vote_NoSuchUser voter_handle), st)
      | Some u \<Rightarrow> cast_vote_as (u_id u) proposal_id is_aye st)"

definition cast_vote_by_id :: "u64 \<Rightarrow> u64 \<Rightarrow> bool \<Rightarrow> inner \<Rightarrow> (vote_error + unit) \<times> inner" where
  "cast_vote_by_id voter_id proposal_id is_aye st =
     (case get_user st (UserId voter_id) of
        None \<Rightarrow> (Inl (Vote_NoSuchUser (dec_u64 voter_id)), st)
      | Some u \<Rightarrow> cast_vote_as (u_id u) proposal_id is_aye st)"

section \<open>Tallying\<close>

definition ballot_weight :: "inner \<Rightarrow> server \<Rightarrow> timestamp \<Rightarrow> user_id \<Rightarrow> u64 option" where
  "ballot_weight st s now voter =
     (case get_membership st voter (s_id s) of
        Some m \<Rightarrow>
          if is_franchised m then
            Some (if applies_to_ballots (s_weighting_scope s)
                  then weight_of (s_vote_weighting s) m now else 1)
          else None
      | None \<Rightarrow> None)"

definition tally_step :: "inner \<Rightarrow> server \<Rightarrow> timestamp \<Rightarrow> tally \<Rightarrow> vote \<Rightarrow> tally" where
  "tally_step st s now t v =
     (case ballot_weight st s now (v_voter v) of
        None \<Rightarrow> t
      | Some w \<Rightarrow> if v_is_aye v then t\<lparr>aye := aye t + w\<rparr> else t\<lparr>nay := nay t + w\<rparr>)"

definition weighted_tally :: "inner \<Rightarrow> server \<Rightarrow> proposal \<Rightarrow> timestamp \<Rightarrow> tally" where
  "weighted_tally st s p now =
     foldl (tally_step st s now) \<lparr> aye = 0, nay = 0 \<rparr> (list_for_proposal st (p_id p))"

section \<open>Effects\<close>

definition update_server_with :: "server_id \<Rightarrow> (server \<Rightarrow> server) \<Rightarrow> inner \<Rightarrow> inner" where
  "update_server_with sid f st =
     (case get_server st sid of None \<Rightarrow> st | Some s \<Rightarrow> update_server (f s) st)"

definition update_membership_with ::
  "user_id \<Rightarrow> server_id \<Rightarrow> (membership \<Rightarrow> membership) \<Rightarrow> inner \<Rightarrow> inner" where
  "update_membership_with uid sid f st =
     (case get_membership st uid sid of None \<Rightarrow> st | Some m \<Rightarrow> upsert_membership (f m) st)"

definition role_in_server :: "inner \<Rightarrow> role_id \<Rightarrow> server_id \<Rightarrow> bool" where
  "role_in_server st rid sid =
     (case get_role st rid of None \<Rightarrow> False | Some r \<Rightarrow> ro_server_id r = sid)"

fun apply_kind :: "server_id \<Rightarrow> timestamp \<Rightarrow> proposal_kind \<Rightarrow> inner \<Rightarrow> inner" where
  "apply_kind sid now (CreateChannel name topic) st =
     (let name = normalize_channel_name name in
      if name \<noteq> [] \<and> find_by_name st sid name = None then
        let (cid, st) = next_channel_id st
        in insert_channel (channel_new cid sid name topic now) st
      else st)"
| "apply_kind sid now (DeleteChannel name) st =
     (let name = normalize_channel_name name in
      case find_by_name st sid name of
        None \<Rightarrow> st
      | Some c \<Rightarrow> snd (remove_channel (ch_id c) st))"
| "apply_kind sid now (AddRule txt) st =
     (let (rid, st) = next_rule_id st in insert_rule (rule_new rid sid txt now) st)"
| "apply_kind sid now (RemoveRule rid) st = snd (remove_rule rid st)"
| "apply_kind sid now (Ban uid) st =
     update_membership_with uid sid (\<lambda>m. m\<lparr>m_is_sanctioned := True\<rparr>) st"
| "apply_kind sid now (Timeout uid _) st =
     update_membership_with uid sid (\<lambda>m. m\<lparr>m_is_sanctioned := True\<rparr>) st"
| "apply_kind sid now (SetGovernanceSurface enabled) st =
     update_server_with sid (set_governance_surface enabled) st"
| "apply_kind sid now (AmendCriteria proposed) st =
     update_server_with sid (\<lambda>s. s\<lparr>s_criteria := proposed\<rparr>) st"
| "apply_kind sid now (SetJurySizing sizing) st =
     update_server_with sid (\<lambda>s. s\<lparr>s_jury_sizing := sizing\<rparr>) st"
| "apply_kind sid now (SetVoteWeighting scheme) st =
     update_server_with sid (\<lambda>s. s\<lparr>s_vote_weighting := scheme\<rparr>) st"
| "apply_kind sid now (SetWeightingScope scope) st =
     update_server_with sid (\<lambda>s. s\<lparr>s_weighting_scope := scope\<rparr>) st"
| "apply_kind sid now (GrantVoteWeight uid weight) st =
     update_membership_with uid sid (\<lambda>m. m\<lparr>m_granted_weight := weight\<rparr>) st"
| "apply_kind sid now (CreateRole name) st =
     (let name = normalize_role_name name in
      if name \<noteq> [] \<and> find_role st sid name = None then
        let (rid, st) = next_role_id st
        in insert_role (role_new rid sid name now) st
      else st)"
| "apply_kind sid now (DeleteRole rid) st =
     (if role_in_server st rid sid then snd (remove_role rid st) else st)"
| "apply_kind sid now (AssignRole uid rid) st =
     (if role_in_server st rid sid then snd (assign (role_assignment_new sid rid uid) st) else st)"
| "apply_kind sid now (UnassignRole uid rid) st =
     (if role_in_server st rid sid then snd (unassign rid uid st) else st)"
| "apply_kind sid now (SetRehomingPolicy is_disabled) st =
     update_server_with sid (\<lambda>s. s\<lparr>s_is_rehoming_disabled := is_disabled\<rparr>) st"
| "apply_kind sid now (SetInvitePolicy policy) st =
     update_server_with sid (\<lambda>s. s\<lparr>s_invite_policy := policy\<rparr>) st"
| "apply_kind sid now (Recall _) st = st"
| "apply_kind sid now (RemoveContent _) st = st"

definition apply_effect :: "proposal \<Rightarrow> timestamp \<Rightarrow> inner \<Rightarrow> inner" where
  "apply_effect p now st = apply_kind (p_server_id p) now (p_kind p) st"

section \<open>Resolving\<close>

text \<open>The two steps of the loop body: close a ballot whose window has elapsed,
  then apply a passed and matured one.\<close>

definition close_if_due ::
  "server \<Rightarrow> u64 \<Rightarrow> phase \<Rightarrow> timestamp \<Rightarrow> proposal \<Rightarrow> inner \<Rightarrow> proposal \<times> inner" where
  "close_if_due s citizens phase now p st =
     (if p_status p = Open \<and> now \<ge> p_closes_at p then
        let t = weighted_tally st s p now;
            p = close p t citizens phase now
        in (p, update_proposal p st)
      else (p, st))"

definition apply_if_matured :: "timestamp \<Rightarrow> proposal \<Rightarrow> inner \<Rightarrow> inner" where
  "apply_if_matured now p st =
     (case p_status p of
        Passed eff \<Rightarrow>
          if \<not> p_is_applied p \<and> now \<ge> eff then
            let st = apply_effect p now st
            in update_proposal (p\<lparr>p_is_applied := True\<rparr>) st
          else st
      | _ \<Rightarrow> st)"

definition resolve_step ::
  "server \<Rightarrow> u64 \<Rightarrow> phase \<Rightarrow> timestamp \<Rightarrow> inner \<Rightarrow> proposal \<Rightarrow> inner" where
  "resolve_step s citizens phase now st p =
     (let (p, st) = close_if_due s citizens phase now p st in apply_if_matured now p st)"

definition resolve_due :: "env \<Rightarrow> string \<Rightarrow> inner \<Rightarrow> inner" where
  "resolve_due env slug st =
     (case find_by_slug st (trim slug) of
        None \<Rightarrow> st
      | Some s \<Rightarrow>
          let now = env_now env;
              citizens = citizen_count st (s_id s);
              phase = from_citizen_count citizens
          in foldl (resolve_step s citizens phase now) st
               (list_proposals_for_server st (s_id s)))"

section \<open>Reading\<close>

definition list_rules :: "string \<Rightarrow> inner \<Rightarrow> rule list" where
  "list_rules slug st =
     (case find_by_slug st (trim slug) of
        Some s \<Rightarrow> list_rules_for_server st (s_id s)
      | None \<Rightarrow> [])"

definition list_emojis :: "string \<Rightarrow> inner \<Rightarrow> emoji list" where
  "list_emojis slug st =
     (case find_by_slug st (trim slug) of
        Some s \<Rightarrow> list_emojis_for_server st (s_id s)
      | None \<Rightarrow> [])"

definition list_proposals :: "env \<Rightarrow> string \<Rightarrow> inner \<Rightarrow> proposal list \<times> inner" where
  "list_proposals env slug st =
     (let st = resolve_due env slug st in
      (case find_by_slug st (trim slug) of
         Some s \<Rightarrow> (list_proposals_for_server st (s_id s), st)
       | None \<Rightarrow> ([], st)))"

definition proposal_head_counts :: "u64 \<Rightarrow> inner \<Rightarrow> u64 \<times> u64" where
  "proposal_head_counts proposal_id st =
     foldl (\<lambda>(a, n) v. if v_is_aye v then (a + 1, n) else (a, n + 1)) (0, 0)
       (list_for_proposal st (ProposalId proposal_id))"

definition my_vote :: "u64 \<Rightarrow> string \<Rightarrow> inner \<Rightarrow> bool option" where
  "my_vote proposal_id hdl st =
     (case find_by_handle st (trim hdl) of
        None \<Rightarrow> None
      | Some u \<Rightarrow> map_option v_is_aye (get_vote st (ProposalId proposal_id) (u_id u)))"

end
