(* ===== verification/Social_Service.thy ===== *)
theory Social_Service
  imports Accounts
begin

text \<open>
  The social use cases (\<^verbatim>\<open>app/src/social_service.rs\<close>): sealed direct messages, the
  direct-message policy, permanent blocks, and friendships. The by-handle and
  by-id entry points share one core each, as in the code.
\<close>

section \<open>Errors\<close>

datatype dm_error = Dm_NoSuchUser string | Dm_Self | Dm_NotAllowed | Dm_EmptyBody

datatype social_error = Social_NoSuchUser string | Social_Self | Social_NoPendingRequest

section \<open>Direct messages\<close>

definition may_dm :: "inner \<Rightarrow> user \<Rightarrow> user \<Rightarrow> bool" where
  "may_dm st sender recipient =
     (let bs = blocks_involving st (u_id recipient);
          fs = friends_involving st (u_id recipient)
      in can_dm (u_id sender) (u_id recipient) (u_dm_policy recipient) bs fs)"

definition send_sealed_dm_core ::
  "env \<Rightarrow> user \<Rightarrow> user \<Rightarrow> string \<Rightarrow> string \<Rightarrow> inner \<Rightarrow> (dm_error + dm_message) \<times> inner" where
  "send_sealed_dm_core env sender recipient for_recipient for_sender st =
     (if u_id sender = u_id recipient then (Inl Dm_Self, st)
      else if trim for_recipient = [] \<or> trim for_sender = [] then (Inl Dm_EmptyBody, st)
      else if \<not> may_dm st sender recipient then (Inl Dm_NotAllowed, st)
      else
        let (did, st) = next_dm_id st;
            m = dm_message_new did (u_id sender) (u_id recipient) (trim for_recipient)
                  (trim for_sender) (env_now env)
        in (Inr m, insert_dm m st))"

definition send_sealed_dm ::
  "env \<Rightarrow> string \<Rightarrow> string \<Rightarrow> string \<Rightarrow> string \<Rightarrow> inner \<Rightarrow> (dm_error + dm_message) \<times> inner" where
  "send_sealed_dm env from_handle to_handle for_recipient for_sender st =
     (case find_by_handle st (trim from_handle) of
        None \<Rightarrow> (Inl (Dm_NoSuchUser from_handle), st)
      | Some sender \<Rightarrow>
      (case find_by_handle st (trim to_handle) of
        None \<Rightarrow> (Inl (Dm_NoSuchUser to_handle), st)
      | Some recipient \<Rightarrow>
          send_sealed_dm_core env sender recipient for_recipient for_sender st))"

definition send_sealed_dm_by_id ::
  "env \<Rightarrow> u64 \<Rightarrow> u64 \<Rightarrow> string \<Rightarrow> string \<Rightarrow> inner \<Rightarrow> (dm_error + dm_message) \<times> inner" where
  "send_sealed_dm_by_id env from_id to_id for_recipient for_sender st =
     (case get_user st (UserId from_id) of
        None \<Rightarrow> (Inl (Dm_NoSuchUser (dec_u64 from_id)), st)
      | Some sender \<Rightarrow>
      (case get_user st (UserId to_id) of
        None \<Rightarrow> (Inl (Dm_NoSuchUser (dec_u64 to_id)), st)
      | Some recipient \<Rightarrow>
          send_sealed_dm_core env sender recipient for_recipient for_sender st))"

definition svc_can_dm :: "string \<Rightarrow> string \<Rightarrow> inner \<Rightarrow> bool" where
  "svc_can_dm from_handle to_handle st =
     (case (find_by_handle st (trim from_handle), find_by_handle st (trim to_handle)) of
        (Some sender, Some recipient) \<Rightarrow>
          u_id sender \<noteq> u_id recipient \<and> may_dm st sender recipient
      | _ \<Rightarrow> False)"

definition conversation :: "string \<Rightarrow> string \<Rightarrow> inner \<Rightarrow> dm_message list" where
  "conversation a_handle b_handle st =
     (case (find_by_handle st (trim a_handle), find_by_handle st (trim b_handle)) of
        (Some a, Some b) \<Rightarrow> store_conversation st (u_id a) (u_id b)
      | _ \<Rightarrow> [])"

text \<open>\<^verbatim>\<open>filter_map(get_user).map(handle)\<close>.\<close>

definition handles_of :: "inner \<Rightarrow> user_id list \<Rightarrow> string list" where
  "handles_of st ids = map u_handle (List.map_filter (get_user st) ids)"

definition dm_partners :: "string \<Rightarrow> inner \<Rightarrow> string list" where
  "dm_partners hdl st =
     (case find_by_handle st (trim hdl) of
        None \<Rightarrow> []
      | Some u \<Rightarrow> handles_of st (partners st (u_id u)))"

definition set_dm_policy :: "string \<Rightarrow> dm_policy \<Rightarrow> inner \<Rightarrow> (social_error + unit) \<times> inner" where
  "set_dm_policy hdl policy st =
     (case find_by_handle st (trim hdl) of
        None \<Rightarrow> (Inl (Social_NoSuchUser hdl), st)
      | Some u \<Rightarrow> (Inr (), update_user (u\<lparr>u_dm_policy := policy\<rparr>) st))"

definition dm_policy_of :: "string \<Rightarrow> inner \<Rightarrow> dm_policy option" where
  "dm_policy_of hdl st = map_option u_dm_policy (find_by_handle st (trim hdl))"

section \<open>Blocks\<close>

definition block_between ::
  "env \<Rightarrow> user \<Rightarrow> user \<Rightarrow> inner \<Rightarrow> (social_error + unit) \<times> inner" where
  "block_between env blocker blocked st =
     (if u_id blocker = u_id blocked then (Inl Social_Self, st)
      else (Inr (), snd (add_block (block_new (u_id blocker) (u_id blocked) (env_now env)) st)))"

definition block_user ::
  "env \<Rightarrow> string \<Rightarrow> string \<Rightarrow> inner \<Rightarrow> (social_error + unit) \<times> inner" where
  "block_user env blocker_handle blocked_handle st =
     (case find_by_handle st (trim blocker_handle) of
        None \<Rightarrow> (Inl (Social_NoSuchUser blocker_handle), st)
      | Some blocker \<Rightarrow>
      (case find_by_handle st (trim blocked_handle) of
        None \<Rightarrow> (Inl (Social_NoSuchUser blocked_handle), st)
      | Some blocked \<Rightarrow> block_between env blocker blocked st))"

definition block_user_by_id ::
  "env \<Rightarrow> u64 \<Rightarrow> u64 \<Rightarrow> inner \<Rightarrow> (social_error + unit) \<times> inner" where
  "block_user_by_id env blocker_id blocked_id st =
     (case get_user st (UserId blocker_id) of
        None \<Rightarrow> (Inl (Social_NoSuchUser (dec_u64 blocker_id)), st)
      | Some blocker \<Rightarrow>
      (case get_user st (UserId blocked_id) of
        None \<Rightarrow> (Inl (Social_NoSuchUser (dec_u64 blocked_id)), st)
      | Some blocked \<Rightarrow> block_between env blocker blocked st))"

definition blocked_users :: "string \<Rightarrow> inner \<Rightarrow> string list" where
  "blocked_users hdl st =
     (case find_by_handle st (trim hdl) of
        None \<Rightarrow> []
      | Some u \<Rightarrow>
          handles_of st (map b_blocked
            (filter (\<lambda>b. b_blocker b = u_id u) (blocks_involving st (u_id u)))))"

definition is_blocked_between :: "string \<Rightarrow> string \<Rightarrow> inner \<Rightarrow> bool" where
  "is_blocked_between a_handle b_handle st =
     (case (find_by_handle st (trim a_handle), find_by_handle st (trim b_handle)) of
        (Some a, Some b) \<Rightarrow> store_is_blocked_between st (u_id a) (u_id b)
      | _ \<Rightarrow> False)"

section \<open>Friendships\<close>

definition request_friend_between ::
  "env \<Rightarrow> user \<Rightarrow> user \<Rightarrow> inner \<Rightarrow> (social_error + unit) \<times> inner" where
  "request_friend_between env requester addressee st =
     (if u_id requester = u_id addressee then (Inl Social_Self, st)
      else (Inr (), snd (add_friend
              (friendship_request (u_id requester) (u_id addressee) (env_now env)) st)))"

definition request_friend ::
  "env \<Rightarrow> string \<Rightarrow> string \<Rightarrow> inner \<Rightarrow> (social_error + unit) \<times> inner" where
  "request_friend env requester_handle addressee_handle st =
     (case find_by_handle st (trim requester_handle) of
        None \<Rightarrow> (Inl (Social_NoSuchUser requester_handle), st)
      | Some requester \<Rightarrow>
      (case find_by_handle st (trim addressee_handle) of
        None \<Rightarrow> (Inl (Social_NoSuchUser addressee_handle), st)
      | Some addressee \<Rightarrow> request_friend_between env requester addressee st))"

definition request_friend_by_id ::
  "env \<Rightarrow> u64 \<Rightarrow> u64 \<Rightarrow> inner \<Rightarrow> (social_error + unit) \<times> inner" where
  "request_friend_by_id env requester_id addressee_id st =
     (case get_user st (UserId requester_id) of
        None \<Rightarrow> (Inl (Social_NoSuchUser (dec_u64 requester_id)), st)
      | Some requester \<Rightarrow>
      (case get_user st (UserId addressee_id) of
        None \<Rightarrow> (Inl (Social_NoSuchUser (dec_u64 addressee_id)), st)
      | Some addressee \<Rightarrow> request_friend_between env requester addressee st))"

definition accept_friend_between :: "user \<Rightarrow> user \<Rightarrow> inner \<Rightarrow> (social_error + unit) \<times> inner" where
  "accept_friend_between me other st =
     (case Option.bind (friend_between st (u_id me) (u_id other))
             (\<lambda>f. if \<not> are_friends f \<and> f_requester f = u_id other \<and> f_addressee f = u_id me
                  then Some f else None) of
        None \<Rightarrow> (Inl Social_NoPendingRequest, st)
      | Some f \<Rightarrow> (Inr (), update_friend (accept f) st))"

definition accept_friend :: "string \<Rightarrow> string \<Rightarrow> inner \<Rightarrow> (social_error + unit) \<times> inner" where
  "accept_friend me_handle other_handle st =
     (case find_by_handle st (trim me_handle) of
        None \<Rightarrow> (Inl (Social_NoSuchUser me_handle), st)
      | Some me \<Rightarrow>
      (case find_by_handle st (trim other_handle) of
        None \<Rightarrow> (Inl (Social_NoSuchUser other_handle), st)
      | Some other \<Rightarrow> accept_friend_between me other st))"

definition accept_friend_by_id :: "u64 \<Rightarrow> u64 \<Rightarrow> inner \<Rightarrow> (social_error + unit) \<times> inner" where
  "accept_friend_by_id accepter_id requester_id st =
     (case get_user st (UserId accepter_id) of
        None \<Rightarrow> (Inl (Social_NoSuchUser (dec_u64 accepter_id)), st)
      | Some me \<Rightarrow>
      (case get_user st (UserId requester_id) of
        None \<Rightarrow> (Inl (Social_NoSuchUser (dec_u64 requester_id)), st)
      | Some other \<Rightarrow> accept_friend_between me other st))"

definition svc_are_friends :: "string \<Rightarrow> string \<Rightarrow> inner \<Rightarrow> bool" where
  "svc_are_friends a_handle b_handle st =
     (case (find_by_handle st (trim a_handle), find_by_handle st (trim b_handle)) of
        (Some a, Some b) \<Rightarrow>
          (case friend_between st (u_id a) (u_id b) of
             None \<Rightarrow> False | Some f \<Rightarrow> are_friends f)
      | _ \<Rightarrow> False)"

definition other_party :: "friendship \<Rightarrow> user_id \<Rightarrow> user_id option" where
  "other_party f me =
     (if f_requester f = me then Some (f_addressee f)
      else if f_addressee f = me then Some (f_requester f)
      else None)"

definition friends_of :: "string \<Rightarrow> inner \<Rightarrow> string list" where
  "friends_of hdl st =
     (case find_by_handle st (trim hdl) of
        None \<Rightarrow> []
      | Some u \<Rightarrow>
          handles_of st (List.map_filter (\<lambda>f. other_party f (u_id u))
            (filter are_friends (friends_involving st (u_id u)))))"

definition incoming_friend_requests :: "string \<Rightarrow> inner \<Rightarrow> string list" where
  "incoming_friend_requests hdl st =
     (case find_by_handle st (trim hdl) of
        None \<Rightarrow> []
      | Some u \<Rightarrow>
          handles_of st (map f_requester
            (filter (\<lambda>f. \<not> are_friends f \<and> f_addressee f = u_id u)
              (friends_involving st (u_id u)))))"

end
