(* ===== verification/Content_Service.thy ===== *)
theory Content_Service
  imports Governance_Service Social_Service
begin

text \<open>
  The smaller use cases: custom emoji and their ranked list
  (\<^verbatim>\<open>app/src/emoji_service.rs\<close>), roles and the resolution of mentions
  (\<^verbatim>\<open>app/src/role_service.rs\<close>), the key directory
  (\<^verbatim>\<open>app/src/key_directory_service.rs\<close>) and encrypted channels
  (\<^verbatim>\<open>app/src/channel_key_service.rs\<close>).
\<close>

section \<open>Emoji\<close>

datatype emoji_error =
    Emoji_NoSuchUser string
  | Emoji_NoSuchServer string
  | Emoji_NotACitizen
  | Emoji_BadName
  | Emoji_NameTaken string
  | Emoji_BadImage string
  | Emoji_NoSuchEmoji u64

definition add_emoji ::
  "env \<Rightarrow> string \<Rightarrow> string \<Rightarrow> string \<Rightarrow> string \<Rightarrow> inner \<Rightarrow> (emoji_error + emoji) \<times> inner" where
  "add_emoji env adder_handle slug name0 url st =
     (case find_by_slug st (trim slug) of
        None \<Rightarrow> (Inl (Emoji_NoSuchServer slug), st)
      | Some s \<Rightarrow>
      (case find_by_handle st (trim adder_handle) of
        None \<Rightarrow> (Inl (Emoji_NoSuchUser adder_handle), st)
      | Some u \<Rightarrow>
      (case franchised_member st (u_id u) (s_id s) of
        None \<Rightarrow> (Inl Emoji_NotACitizen, st)
      | Some _ \<Rightarrow>
          let name = normalize_emoji_name name0 in
          if name = [] then (Inl Emoji_BadName, st)
          else if find_emoji st (s_id s) name \<noteq> None then (Inl (Emoji_NameTaken name), st)
          else
            let (eid, st) = next_emoji_id st;
                e = emoji_new eid (s_id s) name url (u_id u) (env_now env)
            in (Inr e, insert_emoji e st))))"

definition vote_emoji ::
  "string \<Rightarrow> string \<Rightarrow> u64 \<Rightarrow> bool \<Rightarrow> inner \<Rightarrow> (emoji_error + unit) \<times> inner" where
  "vote_emoji voter_handle slug emoji_id up st =
     (case find_by_slug st (trim slug) of
        None \<Rightarrow> (Inl (Emoji_NoSuchServer slug), st)
      | Some s \<Rightarrow>
      (case find_by_handle st (trim voter_handle) of
        None \<Rightarrow> (Inl (Emoji_NoSuchUser voter_handle), st)
      | Some u \<Rightarrow>
      (case franchised_member st (u_id u) (s_id s) of
        None \<Rightarrow> (Inl Emoji_NotACitizen, st)
      | Some _ \<Rightarrow>
      (case Option.bind (get_emoji st (EmojiId emoji_id))
              (\<lambda>e. if e_server_id e = s_id s then Some e else None) of
        None \<Rightarrow> (Inl (Emoji_NoSuchEmoji emoji_id), st)
      | Some e \<Rightarrow>
          (Inr (), upsert_emoji_vote (emoji_vote_new (s_id s) (e_id e) (u_id u) up) st)))))"

record ranked_emoji =
  rk_id :: u64
  rk_name :: string
  rk_url :: string
  rk_score :: int
  rk_standing :: emoji_standing
  rk_my_vote :: "bool option"

text \<open>The score map of the loop over the votes, read at one emoji.\<close>

definition emoji_score :: "inner \<Rightarrow> server_id \<Rightarrow> emoji_id \<Rightarrow> int" where
  "emoji_score st sid eid =
     foldl (\<lambda>score v.
         if ev_emoji_id v = eid \<and>
            ev_voter v \<in> m_user_id ` set (filter is_franchised (list_members_for_server st sid))
         then score + (if ev_is_up v then 1 else - 1) else score)
       0 (emoji_votes_for_server st sid)"

definition ranked_emojis :: "string \<Rightarrow> string \<Rightarrow> inner \<Rightarrow> ranked_emoji list" where
  "ranked_emojis slug viewer_handle st =
     (case find_by_slug st (trim slug) of
        None \<Rightarrow> []
      | Some s \<Rightarrow>
          let es = sort_key (\<lambda>e. emoji_id_val (e_id e)) (list_emojis_for_server st (s_id s));
              scores = map (\<lambda>e. emoji_score st (s_id s) (e_id e)) es;
              standings = rank_emojis scores;
              viewer = map_option u_id (find_by_handle st (trim viewer_handle));
              items = map (\<lambda>i. let e = es ! i in
                         \<lparr> rk_id = emoji_id_val (e_id e), rk_name = e_name e, rk_url = e_url e,
                           rk_score = scores ! i, rk_standing = standings ! i,
                           rk_my_vote = Option.bind viewer (my_emoji_vote st (e_id e)) \<rparr>)
                       (filter (\<lambda>i. is_listed (standings ! i)) [0..<length es])
          in sort_key (\<lambda>r. (- rk_score r, rk_id r)) items)"

definition emoji_name_map :: "string \<Rightarrow> inner \<Rightarrow> (string \<times> string) list" where
  "emoji_name_map slug st =
     (case find_by_slug st (trim slug) of
        Some s \<Rightarrow> map (\<lambda>e. (e_name e, e_url e)) (list_emojis_for_server st (s_id s))
      | None \<Rightarrow> [])"

section \<open>Roles and mentions\<close>

datatype mention_kind = MK_User | MK_StandingRole | MK_Role | MK_Unknown

definition mention_kind_as_str :: "mention_kind \<Rightarrow> string" where
  "mention_kind_as_str k =
     (case k of MK_User \<Rightarrow> ''user'' | MK_StandingRole \<Rightarrow> ''standing_role''
      | MK_Role \<Rightarrow> ''role'' | MK_Unknown \<Rightarrow> ''unknown'')"

record resolved_mention =
  rm_token :: string
  rm_kind :: mention_kind
  rm_handles :: "string list"

definition is_resolved :: "resolved_mention \<Rightarrow> bool" where
  "is_resolved r = (rm_kind r \<noteq> MK_Unknown)"

definition member_handles :: "string \<Rightarrow> inner \<Rightarrow> string list" where
  "member_handles slug st =
     (case find_by_slug st (trim slug) of
        None \<Rightarrow> []
      | Some s \<Rightarrow> handles_of st (map m_user_id (list_members_for_server st (s_id s))))"

definition list_roles :: "string \<Rightarrow> inner \<Rightarrow> role list" where
  "list_roles slug st =
     (case find_by_slug st (trim slug) of
        Some s \<Rightarrow> list_roles_for_server st (s_id s)
      | None \<Rightarrow> [])"

definition role_holders :: "string \<Rightarrow> string \<Rightarrow> inner \<Rightarrow> string list" where
  "role_holders slug role_name st =
     (case find_by_slug st (trim slug) of
        None \<Rightarrow> []
      | Some s \<Rightarrow>
      (case find_role st (s_id s) (normalize_role_name role_name) of
        None \<Rightarrow> []
      | Some r \<Rightarrow> handles_of st (holders st (ro_id r))))"

definition mentionable_role_names :: "string \<Rightarrow> inner \<Rightarrow> string list" where
  "mentionable_role_names slug st =
     map standing_role_name all_standing_roles @ map ro_name (list_roles slug st)"

definition members_admitted_by :: "inner \<Rightarrow> server_id \<Rightarrow> standing_role \<Rightarrow> string list" where
  "members_admitted_by st sid standing =
     handles_of st (map m_user_id
       (filter (\<lambda>m. admits standing (m_tier m)) (list_members_for_server st sid)))"

definition resolve_one :: "inner \<Rightarrow> server_id \<Rightarrow> string \<Rightarrow> resolved_mention" where
  "resolve_one st sid token =
     (case standing_role_from_token token of
        Some standing \<Rightarrow>
          \<lparr> rm_token = token, rm_kind = MK_StandingRole,
            rm_handles = members_admitted_by st sid standing \<rparr>
      | None \<Rightarrow>
      (case find_role st sid token of
        Some r \<Rightarrow>
          \<lparr> rm_token = token, rm_kind = MK_Role,
            rm_handles = handles_of st (holders st (ro_id r)) \<rparr>
      | None \<Rightarrow>
      (case find_by_handle st token of
        Some u \<Rightarrow>
          if get_membership st (u_id u) sid \<noteq> None
          then \<lparr> rm_token = token, rm_kind = MK_User, rm_handles = [u_handle u] \<rparr>
          else \<lparr> rm_token = token, rm_kind = MK_Unknown, rm_handles = [] \<rparr>
      | None \<Rightarrow> \<lparr> rm_token = token, rm_kind = MK_Unknown, rm_handles = [] \<rparr>)))"

definition resolve_mentions :: "string \<Rightarrow> string \<Rightarrow> inner \<Rightarrow> resolved_mention list" where
  "resolve_mentions slug body st =
     (case find_by_slug st (trim slug) of
        None \<Rightarrow> []
      | Some s \<Rightarrow> map (resolve_one st (s_id s)) (parse_mentions body))"

text \<open>The loop that keeps the first sighting of every handle.\<close>

definition push_new :: "'a list \<Rightarrow> 'a \<Rightarrow> 'a list" where
  "push_new out h = (if h \<in> set out then out else out @ [h])"

definition mentioned_handles :: "string \<Rightarrow> string \<Rightarrow> inner \<Rightarrow> string list" where
  "mentioned_handles slug body st =
     foldl push_new [] (concat (map rm_handles (resolve_mentions slug body st)))"

section \<open>The key directory\<close>

datatype key_error = Key_NoSuchUser string | Key_BadPublicKey string | Key_NotPublished string

text \<open>\<open>hex_decode\<close> is the hex library's decoder; a public key is any 32 bytes.\<close>

definition public_identity_from_hex ::
  "(string \<Rightarrow> string + u8 list) \<Rightarrow> string \<Rightarrow> string + u8 list" where
  "public_identity_from_hex hex_decode hex_str =
     (case hex_decode (trim hex_str) of
        Inl e \<Rightarrow> Inl (''malformed key material: '' @ e)
      | Inr bytes \<Rightarrow>
          if length bytes = 32 then Inr bytes
          else Inl (''malformed key material: public key must be 32 bytes''))"

definition publish_keys ::
  "(string \<Rightarrow> string + u8 list) \<Rightarrow> string \<Rightarrow> string \<Rightarrow> wrapped_key \<Rightarrow> inner \<Rightarrow>
   (key_error + unit) \<times> inner" where
  "publish_keys hex_decode hdl public_key wrapped_secret st =
     (case find_by_handle st (trim hdl) of
        None \<Rightarrow> (Inl (Key_NoSuchUser hdl), st)
      | Some u \<Rightarrow>
      (case public_identity_from_hex hex_decode public_key of
        Inl e \<Rightarrow> (Inl (Key_BadPublicKey e), st)
      | Inr _ \<Rightarrow> (Inr (), put_keys (user_keys_new (u_id u) (trim public_key) wrapped_secret) st)))"

definition my_keys :: "string \<Rightarrow> inner \<Rightarrow> key_error + user_keys" where
  "my_keys hdl st =
     (case find_by_handle st (trim hdl) of
        None \<Rightarrow> Inl (Key_NoSuchUser hdl)
      | Some u \<Rightarrow>
      (case get_keys st (u_id u) of
        None \<Rightarrow> Inl (Key_NotPublished hdl)
      | Some k \<Rightarrow> Inr k))"

definition public_key_of :: "string \<Rightarrow> inner \<Rightarrow> key_error + string" where
  "public_key_of hdl st =
     (case find_by_handle st (trim hdl) of
        None \<Rightarrow> Inl (Key_NoSuchUser hdl)
      | Some u \<Rightarrow>
      (case get_keys st (u_id u) of
        None \<Rightarrow> Inl (Key_NotPublished hdl)
      | Some k \<Rightarrow> Inr (k_public_key k)))"

section \<open>Encrypted channels\<close>

datatype channel_key_error =
    CK_NoSuchUser string
  | CK_NoSuchServer string
  | CK_NoSuchChannel string
  | CK_NotAMember string
  | CK_NotACitizen
  | CK_NotEncrypted
  | CK_EmptySeal

definition enable_channel_encryption ::
  "string \<Rightarrow> string \<Rightarrow> string \<Rightarrow> history_mode \<Rightarrow> inner \<Rightarrow> (channel_key_error + unit) \<times> inner" where
  "enable_channel_encryption hdl slug channel_name mode st =
     (case find_by_handle st (trim hdl) of
        None \<Rightarrow> (Inl (CK_NoSuchUser hdl), st)
      | Some u \<Rightarrow>
      (case find_by_slug st (trim slug) of
        None \<Rightarrow> (Inl (CK_NoSuchServer slug), st)
      | Some s \<Rightarrow>
      (case franchised_member st (u_id u) (s_id s) of
        None \<Rightarrow> (Inl CK_NotACitizen, st)
      | Some _ \<Rightarrow>
      (case find_by_name st (s_id s) (normalize_channel_name channel_name) of
        None \<Rightarrow> (Inl (CK_NoSuchChannel channel_name), st)
      | Some c \<Rightarrow> (Inr (), insert_channel (enable_encryption mode c) st)))))"

definition grant_channel_key ::
  "string \<Rightarrow> string \<Rightarrow> string \<Rightarrow> u32 \<Rightarrow> string \<Rightarrow> string \<Rightarrow> inner \<Rightarrow>
   (channel_key_error + unit) \<times> inner" where
  "grant_channel_key granter_handle slug channel_name epoch member_handle sealed_key0 st =
     (case find_by_handle st (trim granter_handle) of
        None \<Rightarrow> (Inl (CK_NoSuchUser granter_handle), st)
      | Some granter \<Rightarrow>
      (case find_by_slug st (trim slug) of
        None \<Rightarrow> (Inl (CK_NoSuchServer slug), st)
      | Some s \<Rightarrow>
      (case get_membership st (u_id granter) (s_id s) of
        None \<Rightarrow> (Inl (CK_NotAMember granter_handle), st)
      | Some _ \<Rightarrow>
      (case find_by_name st (s_id s) (normalize_channel_name channel_name) of
        None \<Rightarrow> (Inl (CK_NoSuchChannel channel_name), st)
      | Some c \<Rightarrow>
          if \<not> ch_is_encrypted c then (Inl CK_NotEncrypted, st)
          else (case find_by_handle st (trim member_handle) of
            None \<Rightarrow> (Inl (CK_NoSuchUser member_handle), st)
          | Some mem \<Rightarrow>
          (case get_membership st (u_id mem) (s_id s) of
            None \<Rightarrow> (Inl (CK_NotAMember member_handle), st)
          | Some _ \<Rightarrow>
              let sealed_key = trim sealed_key0 in
              if sealed_key = [] then (Inl CK_EmptySeal, st)
              else (Inr (), put_grant
                     (channel_key_grant_new (s_id s) (ch_id c) epoch (u_id mem) sealed_key) st)))))))"

definition my_channel_grants ::
  "string \<Rightarrow> string \<Rightarrow> string \<Rightarrow> inner \<Rightarrow> channel_key_error + channel_key_grant list" where
  "my_channel_grants hdl slug channel_name st =
     (case find_by_handle st (trim hdl) of
        None \<Rightarrow> Inl (CK_NoSuchUser hdl)
      | Some u \<Rightarrow>
      (case find_by_slug st (trim slug) of
        None \<Rightarrow> Inl (CK_NoSuchServer slug)
      | Some s \<Rightarrow>
      (case find_by_name st (s_id s) (normalize_channel_name channel_name) of
        None \<Rightarrow> Inl (CK_NoSuchChannel channel_name)
      | Some c \<Rightarrow> Inr (grants_for_member st (ch_id c) (u_id u)))))"

end
