(* ===== verification/Service_Invariant.thy ===== *)
theory Service_Invariant
  imports Chat_Service Content_Service
begin

text \<open>
  Every service call keeps the invariant of the store, whatever branch it
  takes. The lemmas are per service; the steps they share (an id was drawn, a
  row was replaced by one with the same secondary key) are the frame lemmas
  of the first section.
\<close>

section \<open>What drawing an id leaves alone\<close>

lemma finders_next [simp]:
  "find_by_handle (snd (next_user_id st)) h = find_by_handle st h"
  "find_by_slug (snd (next_server_id st)) sl = find_by_slug st sl"
  "find_by_name (snd (next_channel_id st)) sid nm = find_by_name st sid nm"
  "find_role (snd (next_role_id st)) sid nm = find_role st sid nm"
  "find_emoji (snd (next_emoji_id st)) sid nm = find_emoji st sid nm"
  by (simp_all add: next_defs Let_def find_by_handle_def find_by_slug_def find_by_name_def
      find_role_def find_emoji_def)

lemma find_by_handle_token [simp]: "find_by_handle (add_token th uid t st) h = find_by_handle st h"
  by (simp add: add_token_def find_by_handle_def)

lemma user_new_simps [simp]: "u_id (user_new i h t) = i" "u_handle (user_new i h t) = h"
  by (simp_all add: user_new_def)

lemma server_new_simps [simp]:
  "s_id (server_new i sl n f t) = i" "s_slug (server_new i sl n f t) = sl"
  "s_founder_id (server_new i sl n f t) = f"
  by (simp_all add: server_new_def)

lemma self_governing_private [simp]: "self_governing (s\<lparr>s_is_private := b\<rparr>) = self_governing s"
  by (simp add: self_governing_def)

lemma new_rows_index [simp]:
  "ch_server_id (channel_new i sid n tp t) = sid" "ch_name (channel_new i sid n tp t) = n"
  "ro_server_id (role_new ri sid n t) = sid" "ro_name (role_new ri sid n t) = n"
  "e_server_id (emoji_new ei sid n url u t) = sid" "e_name (emoji_new ei sid n url u t) = n"
  by (simp_all add: channel_new_def role_new_def emoji_new_def)

lemma store_ok_tables [dest]: "store_ok st \<Longrightarrow> tables_ok st"
  by (simp add: store_ok_def)

lemma store_ok_self_governing:
  "store_ok st \<Longrightarrow> get_server st sid = Some s \<Longrightarrow> self_governing s"
  using get_ids(2) [of st sid s] hm_keyed_values [of s_id "servers st" s]
  by (auto simp: store_ok_def surfaces_ok_def tables_ok_def get_server_def)

lemma store_ok_update_found:
  assumes "store_ok st" "find_by_handle st h = Some u0" "u_id u = u_id u0" "u_handle u = u_handle u0"
  shows "store_ok (insert_user u st)"
  using find_gets(1) [OF store_ok_tables [OF assms(1)] assms(2)] assms
  by (auto intro: store_ok_update(1))

section \<open>Accounts\<close>

lemma register_account_ok: "store_ok st \<Longrightarrow> store_ok (snd (register_account env h st))"
  by (auto simp: register_account_def Let_def split_beta store_ok_ops
      intro!: store_ok_insert_new(1))

lemma register_with_password_ok:
  assumes "store_ok st"
  shows "store_ok (snd (register_with_password env raw h em pw st))"
  using assms
  by (auto simp: register_with_password_def Let_def split_beta store_ok_ops
      intro!: store_ok_insert_new(1) split: sum.split option.split)

lemma verify_email_ok:
  assumes "store_ok st"
  shows "store_ok (snd (verify_email env tok st))"
proof -
  let ?st = "snd (take_token (hash_token env tok) (seconds (env_now env)) st)"
  have ok: "store_ok ?st" using assms by (rule store_ok_ops)
  have "store_ok (insert_user (u\<lparr>u_email_verified := True\<rparr>) ?st)"
    if "get_user ?st uid = Some u" for uid u
    by (rule store_ok_update(1) [OF ok])
       (use that get_ids(1) [OF store_ok_tables [OF ok] that] in auto)
  then show ?thesis
    using ok by (simp add: verify_email_def Let_def split_beta update_is_insert split: option.split)
qed

lemma issue_resend_ok: "store_ok st \<Longrightarrow> store_ok (snd (issue_resend env raw h st))"
  by (simp add: issue_resend_def Let_def store_ok_ops split: option.split)

lemma set_password_ok: "store_ok st \<Longrightarrow> store_ok (snd (set_password env h pw st))"
  by (auto simp: set_password_def update_is_insert intro: store_ok_update_found
      split: sum.split option.split)

lemma found_server_with_visibility_ok:
  "store_ok st \<Longrightarrow> store_ok (snd (found_server_with_visibility env h nm priv st))"
  by (auto simp: found_server_with_visibility_def Let_def split_beta
      intro!: store_ok_ops store_ok_insert_new(2) split: option.split)

lemma create_invite_ok: "store_ok st \<Longrightarrow> store_ok (snd (create_invite env code h sl st))"
  by (simp add: create_invite_def store_ok_ops split: option.split)

lemma accept_invite_ok: "store_ok st \<Longrightarrow> store_ok (snd (accept_invite env h code st))"
  by (simp add: accept_invite_def Let_def store_ok_ops split: option.split)

lemma revoke_invite_ok: "store_ok st \<Longrightarrow> store_ok (snd (revoke_invite h sl ch st))"
  by (simp add: revoke_invite_def store_ok_ops split: option.split)

lemma join_server_ok: "store_ok st \<Longrightarrow> store_ok (snd (join_server env h sl st))"
  by (simp add: join_server_def Let_def store_ok_ops split: option.split)

lemma try_enfranchise_ok: "store_ok st \<Longrightarrow> store_ok (snd (try_enfranchise env h sl st))"
  by (simp add: try_enfranchise_def Let_def store_ok_ops split: option.split)

lemma set_contribution_ok: "store_ok st \<Longrightarrow> store_ok (snd (set_contribution h sl c st))"
  by (simp add: set_contribution_def store_ok_ops split: option.split)

lemmas accounts_ok =
  register_account_ok register_with_password_ok verify_email_ok issue_resend_ok set_password_ok
  found_server_with_visibility_ok create_invite_ok accept_invite_ok revoke_invite_ok
  join_server_ok try_enfranchise_ok set_contribution_ok

section \<open>Governance\<close>

lemma open_proposal_ok: "store_ok st \<Longrightarrow> store_ok (snd (open_proposal env h sl k st))"
  by (simp add: open_proposal_def Let_def split_beta store_ok_ops split: option.split)

lemma cast_vote_as_ok: "store_ok st \<Longrightarrow> store_ok (snd (cast_vote_as v pid ay st))"
  by (simp add: cast_vote_as_def store_ok_ops split: option.split)

lemma cast_vote_ok:
  "store_ok st \<Longrightarrow> store_ok (snd (cast_vote h pid ay st))"
  "store_ok st \<Longrightarrow> store_ok (snd (cast_vote_by_id v pid ay st))"
  by (simp_all add: cast_vote_def cast_vote_by_id_def cast_vote_as_ok split: option.split)

lemma update_server_with_ok:
  assumes "store_ok st" "\<And>s. s_id (f s) = s_id s" "\<And>s. s_slug (f s) = s_slug s"
    "\<And>s. self_governing s \<Longrightarrow> self_governing (f s)"
  shows "store_ok (update_server_with sid f st)"
proof (cases "get_server st sid")
  case (Some s)
  then have "store_ok (insert_server (f s) st)"
    using assms store_ok_self_governing [OF assms(1) Some]
      get_ids(2) [OF store_ok_tables [OF assms(1)] Some]
    by (auto intro!: store_ok_update(2))
  with Some show ?thesis by (simp add: update_server_with_def update_is_insert)
qed (simp add: update_server_with_def assms)

lemma update_membership_with_ok:
  "store_ok st \<Longrightarrow> store_ok (update_membership_with uid sid f st)"
  by (simp add: update_membership_with_def store_ok_ops split: option.split)

lemma apply_kind_ok: "store_ok st \<Longrightarrow> store_ok (apply_kind sid now k st)"
  by (cases k)
     (auto simp: Let_def split_beta self_governing_def set_governance_surface_def
       intro!: store_ok_insert_new store_ok_ops update_membership_with_ok update_server_with_ok
       split: option.split)

lemma resolve_step_ok: "store_ok st \<Longrightarrow> store_ok (resolve_step s c ph now st p)"
  by (auto simp: resolve_step_def close_if_due_def apply_if_matured_def apply_effect_def Let_def
      update_is_insert intro!: store_ok_ops apply_kind_ok split: proposal_status.split)

lemma resolve_steps_ok: "store_ok st \<Longrightarrow> store_ok (foldl (resolve_step s c ph now) st ps)"
  by (induction ps arbitrary: st) (simp_all add: resolve_step_ok)

lemma resolve_due_ok: "store_ok st \<Longrightarrow> store_ok (resolve_due env sl st)"
  by (simp add: resolve_due_def Let_def resolve_steps_ok split: option.split)

lemmas governance_ok = open_proposal_ok cast_vote_ok resolve_due_ok

section \<open>Chat\<close>

lemma create_channel_ok: "store_ok st \<Longrightarrow> store_ok (snd (create_channel env h sl nm tp st))"
  by (auto simp: create_channel_def Let_def split_beta intro!: store_ok_insert_new(3) store_ok_ops
      split: option.split)

lemma insert_message_ok: "store_ok st \<Longrightarrow> store_ok (snd (insert_message env a c b p at st))"
  by (simp add: insert_message_def Let_def split_beta store_ok_ops)

lemma post_message_ok:
  "store_ok st \<Longrightarrow> store_ok (snd (post_message env h sl ch b st))"
  "store_ok st \<Longrightarrow> store_ok (snd (post_message_with_attachments env h sl ch b at st))"
  "store_ok st \<Longrightarrow> store_ok (snd (post_sealed_message env h sl ch ct ep par st))"
  "store_ok st \<Longrightarrow> store_ok (snd (reply_message env h pid b st))"
  by (simp_all add: post_message_def post_message_with_attachments_def post_sealed_message_def
      reply_message_def insert_message_ok Let_def split_beta store_ok_ops
      split: sum.split option.split)

lemma store_media_ok: "store_ok st \<Longrightarrow> store_ok (snd (store_media n ct bs st))"
  by (simp add: store_media_def Let_def split_beta store_ok_ops split: option.split)

lemma edit_message_ok: "store_ok st \<Longrightarrow> store_ok (snd (edit_message env h mid b st))"
  by (simp add: edit_message_def Let_def update_is_insert store_ok_ops split: sum.split)

lemma delete_medias_ok:
  "store_ok st \<Longrightarrow> store_ok (foldl (\<lambda>st a. delete_media (a_key a) st) st as)"
  by (induction as arbitrary: st) (simp_all add: store_ok_ops)

lemma delete_message_ok: "store_ok st \<Longrightarrow> store_ok (snd (delete_message h mid st))"
  by (simp add: delete_message_def Let_def update_is_insert store_ok_ops delete_medias_ok
      split: sum.split)

lemma set_history_sharing_ok: "store_ok st \<Longrightarrow> store_ok (snd (set_history_sharing h sl b st))"
  by (simp add: set_history_sharing_def store_ok_ops split: option.split)

lemma adjust_contribution_ok: "store_ok st \<Longrightarrow> store_ok (adjust_contribution a sid d st)"
  by (simp add: adjust_contribution_def store_ok_ops split: option.split)

lemma react_ok:
  "store_ok st \<Longrightarrow> store_ok (snd (react h mid em st))"
  "store_ok st \<Longrightarrow> store_ok (snd (unreact h mid em st))"
  by (simp_all add: react_def unreact_def Let_def split_beta adjust_contribution_ok store_ok_ops
      split: option.split)

lemmas chat_ok = create_channel_ok post_message_ok store_media_ok edit_message_ok
  delete_message_ok set_history_sharing_ok react_ok

section \<open>Social\<close>

lemma send_sealed_dm_ok:
  "store_ok st \<Longrightarrow> store_ok (snd (send_sealed_dm env f t fr fs st))"
  "store_ok st \<Longrightarrow> store_ok (snd (send_sealed_dm_by_id env i j fr fs st))"
  by (simp_all add: send_sealed_dm_def send_sealed_dm_by_id_def send_sealed_dm_core_def Let_def
      split_beta store_ok_ops split: option.split)

lemma set_dm_policy_ok: "store_ok st \<Longrightarrow> store_ok (snd (set_dm_policy h pol st))"
  by (auto simp: set_dm_policy_def update_is_insert intro: store_ok_update_found
      split: option.split)

lemma block_ok:
  "store_ok st \<Longrightarrow> store_ok (snd (block_user env a b st))"
  "store_ok st \<Longrightarrow> store_ok (snd (block_user_by_id env i j st))"
  by (simp_all add: block_user_def block_user_by_id_def block_between_def store_ok_ops
      split: option.split)

lemma friend_ok:
  "store_ok st \<Longrightarrow> store_ok (snd (request_friend env a b st))"
  "store_ok st \<Longrightarrow> store_ok (snd (request_friend_by_id env i j st))"
  "store_ok st \<Longrightarrow> store_ok (snd (accept_friend a b st))"
  "store_ok st \<Longrightarrow> store_ok (snd (accept_friend_by_id i j st))"
  by (simp_all add: request_friend_def request_friend_by_id_def request_friend_between_def
      accept_friend_def accept_friend_by_id_def accept_friend_between_def store_ok_ops
      split: option.split)

lemmas social_ok = send_sealed_dm_ok set_dm_policy_ok block_ok friend_ok

section \<open>Emoji, keys and encrypted channels\<close>

lemma emoji_ok:
  "store_ok st \<Longrightarrow> store_ok (snd (add_emoji env h sl nm url st))"
  "store_ok st \<Longrightarrow> store_ok (snd (vote_emoji h sl eid up st))"
  by (auto simp: add_emoji_def vote_emoji_def Let_def split_beta
      intro!: store_ok_insert_new(4) store_ok_ops split: option.split)

lemma publish_keys_ok: "store_ok st \<Longrightarrow> store_ok (snd (publish_keys dec h pk ws st))"
  by (simp add: publish_keys_def store_ok_ops split: option.split sum.split)

lemma enable_encryption_simps [simp]:
  "ch_id (enable_encryption mode c) = ch_id c"
  "ch_server_id (enable_encryption mode c) = ch_server_id c"
  "ch_name (enable_encryption mode c) = ch_name c"
  by (simp_all add: enable_encryption_def)

lemma channel_keys_ok:
  "store_ok st \<Longrightarrow> store_ok (snd (enable_channel_encryption h sl ch mode st))"
  "store_ok st \<Longrightarrow> store_ok (snd (grant_channel_key g sl ch ep m k st))"
proof -
  assume ok: "store_ok st"
  have "store_ok (insert_channel (enable_encryption mode c) st)"
    if "find_by_name st sid nm = Some c" for sid nm c
    using find_gets(3) [OF store_ok_tables [OF ok] that] ok
    by (auto intro: store_ok_update(3))
  then show "store_ok (snd (enable_channel_encryption h sl ch mode st))"
    using ok by (simp add: enable_channel_encryption_def split: option.split)
  show "store_ok (snd (grant_channel_key g sl ch ep m k st))"
    using ok by (simp add: grant_channel_key_def Let_def store_ok_ops split: option.split)
qed

lemmas content_ok = emoji_ok publish_keys_ok channel_keys_ok

end
