(* ===== verification/System.thy ===== *)
theory System
  imports Service_Invariant
begin

text \<open>
  The whole node: the service calls that change the store, as the commands of a
  state machine. A command carries the arguments of one call of
  \<^verbatim>\<open>app::Services\<close>; the environment of the call (clock, keys, email policy) may
  differ from step to step. A restart saves the store and loads it back, as
  \<^verbatim>\<open>main.rs\<close> does around every run.
\<close>

section \<open>Commands\<close>

datatype command =
    Cmd_register_account string
  | Cmd_register_with_password string string string string
  | Cmd_verify_email string
  | Cmd_issue_resend string string
  | Cmd_set_password string string
  | Cmd_found_server string string bool
  | Cmd_create_invite string string string
  | Cmd_accept_invite string string
  | Cmd_revoke_invite string string string
  | Cmd_join_server string string
  | Cmd_try_enfranchise string string
  | Cmd_set_contribution string string int
  | Cmd_open_proposal string string proposal_kind
  | Cmd_cast_vote string u64 bool
  | Cmd_cast_vote_by_id u64 u64 bool
  | Cmd_resolve_due string
  | Cmd_create_channel string string string string
  | Cmd_post_message string string string string "attachment list"
  | Cmd_store_media nat string "u8 list"
  | Cmd_post_sealed_message string string string string u32 "u64 option"
  | Cmd_reply_message string u64 string
  | Cmd_edit_message string u64 string
  | Cmd_delete_message string u64
  | Cmd_set_history_sharing string string bool
  | Cmd_react string u64 string
  | Cmd_unreact string u64 string
  | Cmd_send_sealed_dm string string string string
  | Cmd_send_sealed_dm_by_id u64 u64 string string
  | Cmd_set_dm_policy string dm_policy
  | Cmd_block_user string string
  | Cmd_block_user_by_id u64 u64
  | Cmd_request_friend string string
  | Cmd_request_friend_by_id u64 u64
  | Cmd_accept_friend string string
  | Cmd_accept_friend_by_id u64 u64
  | Cmd_add_emoji string string string string
  | Cmd_vote_emoji string string u64 bool
  | Cmd_publish_keys "string \<Rightarrow> string + u8 list" string string wrapped_key
  | Cmd_enable_channel_encryption string string string history_mode
  | Cmd_grant_channel_key string string string u32 string string
  | Cmd_remember_nonce u16 string int int
  | Cmd_advance_cursor node_id u64
  | Cmd_restart

primrec exec :: "env \<Rightarrow> command \<Rightarrow> inner \<Rightarrow> inner" where
  "exec env (Cmd_register_account h) st = snd (register_account env h st)"
| "exec env (Cmd_register_with_password raw h em pw) st =
     snd (register_with_password env raw h em pw st)"
| "exec env (Cmd_verify_email tok) st = snd (verify_email env tok st)"
| "exec env (Cmd_issue_resend raw h) st = snd (issue_resend env raw h st)"
| "exec env (Cmd_set_password h pw) st = snd (set_password env h pw st)"
| "exec env (Cmd_found_server h nm priv) st = snd (found_server_with_visibility env h nm priv st)"
| "exec env (Cmd_create_invite code h sl) st = snd (create_invite env code h sl st)"
| "exec env (Cmd_accept_invite h code) st = snd (accept_invite env h code st)"
| "exec env (Cmd_revoke_invite h sl ch) st = snd (revoke_invite h sl ch st)"
| "exec env (Cmd_join_server h sl) st = snd (join_server env h sl st)"
| "exec env (Cmd_try_enfranchise h sl) st = snd (try_enfranchise env h sl st)"
| "exec env (Cmd_set_contribution h sl c) st = snd (set_contribution h sl c st)"
| "exec env (Cmd_open_proposal h sl k) st = snd (open_proposal env h sl k st)"
| "exec env (Cmd_cast_vote h pid ay) st = snd (cast_vote h pid ay st)"
| "exec env (Cmd_cast_vote_by_id v pid ay) st = snd (cast_vote_by_id v pid ay st)"
| "exec env (Cmd_resolve_due sl) st = resolve_due env sl st"
| "exec env (Cmd_create_channel h sl nm tp) st = snd (create_channel env h sl nm tp st)"
| "exec env (Cmd_post_message h sl ch b at) st =
     snd (post_message_with_attachments env h sl ch b at st)"
| "exec env (Cmd_store_media n ct bs) st = snd (store_media n ct bs st)"
| "exec env (Cmd_post_sealed_message h sl ch ct ep par) st =
     snd (post_sealed_message env h sl ch ct ep par st)"
| "exec env (Cmd_reply_message h pid b) st = snd (reply_message env h pid b st)"
| "exec env (Cmd_edit_message h mid b) st = snd (edit_message env h mid b st)"
| "exec env (Cmd_delete_message h mid) st = snd (delete_message h mid st)"
| "exec env (Cmd_set_history_sharing h sl b) st = snd (set_history_sharing h sl b st)"
| "exec env (Cmd_react h mid em) st = snd (react h mid em st)"
| "exec env (Cmd_unreact h mid em) st = snd (unreact h mid em st)"
| "exec env (Cmd_send_sealed_dm f t fr fs) st = snd (send_sealed_dm env f t fr fs st)"
| "exec env (Cmd_send_sealed_dm_by_id i j fr fs) st = snd (send_sealed_dm_by_id env i j fr fs st)"
| "exec env (Cmd_set_dm_policy h pol) st = snd (set_dm_policy h pol st)"
| "exec env (Cmd_block_user a b) st = snd (block_user env a b st)"
| "exec env (Cmd_block_user_by_id i j) st = snd (block_user_by_id env i j st)"
| "exec env (Cmd_request_friend a b) st = snd (request_friend env a b st)"
| "exec env (Cmd_request_friend_by_id i j) st = snd (request_friend_by_id env i j st)"
| "exec env (Cmd_accept_friend a b) st = snd (accept_friend a b st)"
| "exec env (Cmd_accept_friend_by_id i j) st = snd (accept_friend_by_id i j st)"
| "exec env (Cmd_add_emoji h sl nm url) st = snd (add_emoji env h sl nm url st)"
| "exec env (Cmd_vote_emoji h sl eid up) st = snd (vote_emoji h sl eid up st)"
| "exec env (Cmd_publish_keys dec h pk ws) st = snd (publish_keys dec h pk ws st)"
| "exec env (Cmd_enable_channel_encryption h sl ch mode) st =
     snd (enable_channel_encryption h sl ch mode st)"
| "exec env (Cmd_grant_channel_key g sl ch ep m k) st = snd (grant_channel_key g sl ch ep m k st)"
| "exec env (Cmd_remember_nonce n nc now ex) st = snd (remember_nonce n nc now ex st)"
| "exec env (Cmd_advance_cursor peer sq) st = advance_cursor peer sq st"
| "exec env Cmd_restart st = with_node (node st) (from_snapshot (to_snapshot st))"

text \<open>Runs: every call in any order, from a fresh node.\<close>

inductive reachable :: "inner \<Rightarrow> bool" where
  fresh_node: "reachable (with_node n empty_store)"
| call: "reachable st \<Longrightarrow> reachable (exec env cmd st)"

definition run :: "(env \<times> command) list \<Rightarrow> inner \<Rightarrow> inner" where
  "run calls st = foldl (\<lambda>st (env, cmd). exec env cmd st) st calls"

lemma reachable_run: "reachable st \<Longrightarrow> reachable (run calls st)"
  unfolding run_def by (induction calls arbitrary: st) (auto intro: reachable.intros)

lemma run_simps [simp]: "run [] st = st" "run (c # cs) st = run cs (exec (fst c) (snd c) st)"
  by (simp_all add: run_def split_beta)

lemma run_append: "run (cs @ ds) st = run ds (run cs st)"
  by (simp add: run_def)

lemma store_ok_restart:
  assumes "store_ok st"
  shows "store_ok (with_node n (from_snapshot (to_snapshot st)))"
  using assms snapshot_roundtrip [of st]
  by (simp add: with_node_def store_ok_def tables_ok_def vectors_ok_def names_ok_def surfaces_ok_def
      feed_ok_def unique_index_defs)

lemma store_ok_with_node: "store_ok (with_node n st) = store_ok st"
  by (simp add: with_node_def store_ok_def tables_ok_def vectors_ok_def names_ok_def surfaces_ok_def
      feed_ok_def unique_index_defs)

lemma exec_store_ok: "store_ok st \<Longrightarrow> store_ok (exec env cmd st)"
  by (cases cmd)
     (simp_all add: accounts_ok governance_ok chat_ok social_ok content_ok store_ok_ops
       store_ok_restart)

lemma reachable_store_ok: "reachable st \<Longrightarrow> store_ok st"
  by (induction rule: reachable.induct)
     (simp_all add: store_ok_with_node store_ok_empty exec_store_ok)

end
