(* ===== verification/Standing.thy ===== *)
theory Standing
  imports System
begin

text \<open>
  What a command may do to a member's standing. All but two leave it alone: no
  membership disappears, no tier changes, a sanction stays, and a new
  membership is not a citizen's. The two are founding, which makes the founder
  the first citizen of the new server, and the enfranchisement call.
\<close>

section \<open>Memberships the store operations leave alone\<close>

lemma memberships_frame [simp]:
  "memberships (record_change en op row st) = memberships st"
  "memberships (insert_user u st) = memberships st"
  "memberships (insert_server s st) = memberships st"
  "memberships (insert_channel c st) = memberships st"
  "memberships (snd (remove_channel cid st)) = memberships st"
  "memberships (store_insert_message msg st) = memberships st"
  "memberships (snd (add_reaction r st)) = memberships st"
  "memberships (snd (remove_reaction mid uid em st)) = memberships st"
  "memberships (insert_proposal p st) = memberships st"
  "memberships (upsert_vote v st) = memberships st"
  "memberships (insert_emoji e st) = memberships st"
  "memberships (upsert_emoji_vote ev st) = memberships st"
  "memberships (insert_rule ru st) = memberships st"
  "memberships (snd (remove_rule rid st)) = memberships st"
  "memberships (put_keys k st) = memberships st"
  "memberships (put_grant g st) = memberships st"
  "memberships (insert_dm dm st) = memberships st"
  "memberships (snd (add_block b st)) = memberships st"
  "memberships (snd (add_friend f st)) = memberships st"
  "memberships (update_friend f st) = memberships st"
  "memberships (snd (put_media n ct bs st)) = memberships st"
  "memberships (delete_media key st) = memberships st"
  "memberships (add_invite i st) = memberships st"
  "memberships (revoke h st) = memberships st"
  "memberships (insert_role ro st) = memberships st"
  "memberships (snd (remove_role roid st)) = memberships st"
  "memberships (snd (assign a st)) = memberships st"
  "memberships (snd (unassign roid uid st)) = memberships st"
  "memberships (snd (remember_nonce nn nc t ex st)) = memberships st"
  "memberships (add_token th uid t st) = memberships st"
  "memberships (snd (take_token th t st)) = memberships st"
  "memberships (advance_cursor peer sq st) = memberships st"
  by (simp_all add: store_defs remove_channel_def add_reaction_def remove_reaction_def
      remove_rule_def add_block_def add_friend_def update_friend_def put_media_def
      delete_media_def revoke_def remove_role_def assign_def unassign_def remember_nonce_def
      add_token_def take_token_def advance_cursor_def Let_def split: option.split)

lemma memberships_next [simp]:
  "memberships (snd (next_user_id st)) = memberships st"
  "memberships (snd (next_server_id st)) = memberships st"
  "memberships (snd (next_channel_id st)) = memberships st"
  "memberships (snd (next_message_id st)) = memberships st"
  "memberships (snd (next_proposal_id st)) = memberships st"
  "memberships (snd (next_rule_id st)) = memberships st"
  "memberships (snd (next_dm_id st)) = memberships st"
  "memberships (snd (next_role_id st)) = memberships st"
  "memberships (snd (next_emoji_id st)) = memberships st"
  by (simp_all add: next_defs Let_def)

lemma memberships_delete_medias [simp]:
  "memberships (foldl (\<lambda>st a. delete_media (a_key a) st) st as) = memberships st"
  by (induction as arbitrary: st) simp_all

lemma get_membership_upsert:
  "get_membership (upsert_membership m st) uid sid =
     (if uid = m_user_id m \<and> sid = m_server_id m then Some m else get_membership st uid sid)"
  using membership_table.lookup_put [of m st "(uid, sid)"]
  by (simp add: get_membership_def membership_table.lookup_def)

section \<open>Kept standing\<close>

definition same_standing :: "membership \<Rightarrow> membership \<Rightarrow> bool" where
  "same_standing m m' =
     (m_user_id m' = m_user_id m \<and> m_server_id m' = m_server_id m \<and>
      m_joined_at m' = m_joined_at m \<and> m_tier m' = m_tier m \<and>
      m_enfranchised_at m' = m_enfranchised_at m \<and>
      (m_is_sanctioned m \<longrightarrow> m_is_sanctioned m'))"

text \<open>\<open>standing_kept st st'\<close>: the members of \<open>st\<close> keep their standing in \<open>st'\<close>, and
  who is new has none.\<close>

definition standing_kept :: "inner \<Rightarrow> inner \<Rightarrow> bool" where
  "standing_kept st st' =
     (\<forall>uid sid. case get_membership st uid sid of
        Some m \<Rightarrow> (\<exists>m'. get_membership st' uid sid = Some m' \<and> same_standing m m')
      | None \<Rightarrow> (\<forall>m'. get_membership st' uid sid = Some m' \<longrightarrow>
                   \<not> is_citizen m' \<and> m_enfranchised_at m' = None))"

lemma standing_keptD:
  "standing_kept st st' \<Longrightarrow> get_membership st uid sid = Some m \<Longrightarrow>
   \<exists>m'. get_membership st' uid sid = Some m' \<and> same_standing m m'"
  unfolding standing_kept_def by (drule spec2 [of _ uid sid]) simp

lemma standing_kept_new:
  "standing_kept st st' \<Longrightarrow> get_membership st uid sid = None \<Longrightarrow>
   get_membership st' uid sid = Some m' \<Longrightarrow> \<not> is_citizen m' \<and> m_enfranchised_at m' = None"
  unfolding standing_kept_def by (drule spec2 [of _ uid sid]) simp

lemma same_standing_refl [simp]: "same_standing m m"
  by (simp add: same_standing_def)

lemma standing_kept_same: "memberships st' = memberships st \<Longrightarrow> standing_kept st st'"
  by (simp add: standing_kept_def get_membership_def split: option.split)

lemma standing_kept_trans:
  assumes "standing_kept st1 st2" "standing_kept st2 st3"
  shows "standing_kept st1 st3"
  unfolding standing_kept_def
proof (intro allI)
  fix uid sid
  show "case get_membership st1 uid sid of
      Some m \<Rightarrow> \<exists>m'. get_membership st3 uid sid = Some m' \<and> same_standing m m'
    | None \<Rightarrow> \<forall>m'. get_membership st3 uid sid = Some m' \<longrightarrow>
        \<not> is_citizen m' \<and> m_enfranchised_at m' = None"
  proof (cases "get_membership st1 uid sid")
    case (Some m)
    then obtain m2 where m2: "get_membership st2 uid sid = Some m2" "same_standing m m2"
      using standing_keptD [OF assms(1)] by blast
    then obtain m3 where "get_membership st3 uid sid = Some m3" "same_standing m2 m3"
      using standing_keptD [OF assms(2)] by blast
    with m2 Some show ?thesis by (auto simp: same_standing_def)
  next
    case None
    note none = None
    show ?thesis
    proof (cases "get_membership st2 uid sid")
      case None
      then show ?thesis using none standing_kept_new [OF assms(2)] by simp
    next
      case (Some m2)
      then show ?thesis
        using none standing_kept_new [OF assms(1) none Some] standing_keptD [OF assms(2) Some]
        by (auto simp: same_standing_def is_citizen_def)
    qed
  qed
qed

lemma standing_kept_upsert:
  assumes "\<And>m. get_membership st (m_user_id m') (m_server_id m') = Some m \<Longrightarrow> same_standing m m'"
    and "get_membership st (m_user_id m') (m_server_id m') = None \<Longrightarrow>
      \<not> is_citizen m' \<and> m_enfranchised_at m' = None"
  shows "standing_kept st (upsert_membership m' st)"
  using assms by (auto simp: standing_kept_def get_membership_upsert split: option.split)

lemma standing_kept_update:
  assumes "tables_ok st" "get_membership st uid sid = Some m" "same_standing m m'"
  shows "standing_kept st (upsert_membership m' st)"
  using get_ids(3) [OF assms(1,2)] assms(2,3)
  by (intro standing_kept_upsert) (auto simp: same_standing_def)

lemma standing_kept_join:
  assumes "get_membership st uid sid = None"
  shows "standing_kept st (upsert_membership (joined uid sid t) st)"
  using assms by (intro standing_kept_upsert) auto

section \<open>The commands\<close>

lemma standing_accept_invite: "standing_kept st (snd (accept_invite env h code st))"
  by (auto simp: accept_invite_def Let_def intro: standing_kept_same standing_kept_join
      split: option.split)

lemma standing_join_server: "standing_kept st (snd (join_server env h sl st))"
  by (auto simp: join_server_def Let_def intro: standing_kept_same standing_kept_join
      split: option.split)

lemma standing_set_contribution:
  "tables_ok st \<Longrightarrow> standing_kept st (snd (set_contribution h sl c st))"
  by (auto simp: set_contribution_def same_standing_def
      intro: standing_kept_same standing_kept_update split: option.split)

lemma standing_set_history_sharing:
  "tables_ok st \<Longrightarrow> standing_kept st (snd (set_history_sharing h sl b st))"
  by (auto simp: set_history_sharing_def same_standing_def
      intro: standing_kept_same standing_kept_update split: option.split)

lemma standing_adjust_contribution:
  "tables_ok st \<Longrightarrow> standing_kept st (adjust_contribution a sid d st)"
  by (auto simp: adjust_contribution_def same_standing_def
      intro: standing_kept_same standing_kept_update split: option.split)

lemma standing_react:
  assumes "tables_ok st"
  shows "standing_kept st (snd (react h mid em st))" "standing_kept st (snd (unreact h mid em st))"
proof -
  have adj: "standing_kept st (adjust_contribution a sid d st')"
    if "tables_ok st'" "memberships st' = memberships st" for a sid d st'
    using standing_kept_trans [OF standing_kept_same standing_adjust_contribution] that by blast
  show "standing_kept st (snd (react h mid em st))"
    using assms by (auto simp: react_def Let_def split_beta tables_ok_ops
        intro: adj standing_kept_same split: option.split)
  show "standing_kept st (snd (unreact h mid em st))"
    using assms by (auto simp: unreact_def Let_def split_beta tables_ok_ops
        intro: adj standing_kept_same split: option.split)
qed

lemma standing_update_membership_with:
  assumes "tables_ok st" "\<And>m. same_standing m (f m)"
  shows "standing_kept st (update_membership_with uid sid f st)"
  using assms
  by (auto simp: update_membership_with_def intro: standing_kept_same standing_kept_update
      split: option.split)

lemma memberships_update_server_with [simp]:
  "memberships (update_server_with sid f st) = memberships st"
  by (simp add: update_server_with_def update_is_insert split: option.split)

lemma standing_apply_kind: "tables_ok st \<Longrightarrow> standing_kept st (apply_kind sid now k st)"
  by (cases k)
     (auto simp: Let_def split_beta same_standing_def
       intro: standing_update_membership_with standing_kept_same split: option.split)

lemma standing_resolve_step:
  assumes "store_ok st"
  shows "standing_kept st (resolve_step s c ph now st p)"
proof -
  have effect: "standing_kept st (insert_proposal q (apply_kind sid now k st'))"
    if "memberships st' = memberships st" "store_ok st'" for q sid k st'
  proof -
    have "standing_kept st (apply_kind sid now k st')"
      using that by (blast intro: standing_kept_trans standing_kept_same standing_apply_kind)
    then show ?thesis by (rule standing_kept_trans) (simp add: standing_kept_same)
  qed
  show ?thesis
    using assms
    by (auto simp: resolve_step_def close_if_due_def apply_if_matured_def apply_effect_def Let_def
        update_is_insert store_ok_ops intro: effect standing_kept_same
        split: proposal_status.split)
qed

lemma standing_resolve_due: "store_ok st \<Longrightarrow> standing_kept st (resolve_due env sl st)"
proof -
  have "standing_kept st (foldl (resolve_step s c ph now) st ps)" if "store_ok st"
    for s c ph now ps
    using that
  proof (induction ps arbitrary: st)
    case (Cons p ps)
    then show ?case
      using standing_kept_trans [OF standing_resolve_step [OF Cons.prems, of s c ph now p]]
        Cons.IH [OF resolve_step_ok [OF Cons.prems]] by simp
  qed (simp add: standing_kept_same)
  then show "store_ok st \<Longrightarrow> standing_kept st (resolve_due env sl st)"
    by (simp add: resolve_due_def Let_def standing_kept_same split: option.split)
qed

text \<open>The rest do not touch the memberships at all.\<close>

lemma memberships_accounts [simp]:
  "memberships (snd (register_account env h st)) = memberships st"
  "memberships (snd (register_with_password env raw h em pw st)) = memberships st"
  "memberships (snd (verify_email env tok st)) = memberships st"
  "memberships (snd (issue_resend env raw h st)) = memberships st"
  "memberships (snd (set_password env h pw st)) = memberships st"
  "memberships (snd (create_invite env code h sl st)) = memberships st"
  "memberships (snd (revoke_invite h sl ch st)) = memberships st"
  by (simp_all add: register_account_def register_with_password_def verify_email_def
      issue_resend_def set_password_def create_invite_def revoke_invite_def Let_def split_beta
      update_is_insert split: option.split sum.split)

lemma memberships_governance [simp]:
  "memberships (snd (open_proposal env h sl k st)) = memberships st"
  "memberships (snd (cast_vote h pid ay st)) = memberships st"
  "memberships (snd (cast_vote_by_id v pid ay st)) = memberships st"
  by (simp_all add: open_proposal_def cast_vote_def cast_vote_by_id_def cast_vote_as_def Let_def
      split_beta split: option.split)

lemma memberships_chat [simp]:
  "memberships (snd (create_channel env h sl nm tp st)) = memberships st"
  "memberships (snd (post_message_with_attachments env h sl ch b at st)) = memberships st"
  "memberships (snd (store_media n ct bs st)) = memberships st"
  "memberships (snd (post_sealed_message env h sl ch ct ep par st)) = memberships st"
  "memberships (snd (reply_message env h pid b st)) = memberships st"
  "memberships (snd (edit_message env h mid b st)) = memberships st"
  "memberships (snd (delete_message h mid st)) = memberships st"
  by (simp_all add: create_channel_def post_message_with_attachments_def store_media_def
      post_sealed_message_def reply_message_def edit_message_def delete_message_def
      insert_message_def Let_def split_beta update_is_insert split: option.split sum.split)

lemma memberships_social [simp]:
  "memberships (snd (send_sealed_dm env f t fr fs st)) = memberships st"
  "memberships (snd (send_sealed_dm_by_id env i j fr fs st)) = memberships st"
  "memberships (snd (set_dm_policy h pol st)) = memberships st"
  "memberships (snd (block_user env a b st)) = memberships st"
  "memberships (snd (block_user_by_id env i j st)) = memberships st"
  "memberships (snd (request_friend env a b st)) = memberships st"
  "memberships (snd (request_friend_by_id env i j st)) = memberships st"
  "memberships (snd (accept_friend a b st)) = memberships st"
  "memberships (snd (accept_friend_by_id i j st)) = memberships st"
  by (simp_all add: send_sealed_dm_def send_sealed_dm_by_id_def send_sealed_dm_core_def
      set_dm_policy_def block_user_def block_user_by_id_def block_between_def request_friend_def
      request_friend_by_id_def request_friend_between_def accept_friend_def
      accept_friend_by_id_def accept_friend_between_def Let_def split_beta update_is_insert
      split: option.split)

lemma memberships_content [simp]:
  "memberships (snd (add_emoji env h sl nm url st)) = memberships st"
  "memberships (snd (vote_emoji h sl eid up st)) = memberships st"
  "memberships (snd (publish_keys dec h pk ws st)) = memberships st"
  "memberships (snd (enable_channel_encryption h sl ch mode st)) = memberships st"
  "memberships (snd (grant_channel_key g sl ch ep m k st)) = memberships st"
  by (simp_all add: add_emoji_def vote_emoji_def publish_keys_def enable_channel_encryption_def
      grant_channel_key_def Let_def split_beta split: option.split sum.split)

lemma memberships_restart [simp]:
  "tables_ok st \<Longrightarrow> memberships (with_node n (from_snapshot (to_snapshot st))) = memberships st"
  by (simp add: with_node_def snapshot_roundtrip)

lemma exec_standing:
  assumes "store_ok st" "\<nexists>h nm priv. cmd = Cmd_found_server h nm priv"
    "\<nexists>h sl. cmd = Cmd_try_enfranchise h sl"
  shows "standing_kept st (exec env cmd st)"
  using assms(2,3) store_ok_tables [OF assms(1)]
  by (cases cmd)
     (simp_all add: standing_accept_invite standing_join_server standing_set_contribution
       standing_set_history_sharing standing_react standing_resolve_due assms(1)
       standing_kept_same)

end
