(* ===== verification/Integrity.thy ===== *)
theory Integrity
  imports Standing
begin

text \<open>
  Identity and reference. \<open>ids_ok\<close>: every account, server, message and proposal
  carries an id this node has handed out, so the next one is fresh; replies
  point to earlier messages. \<open>refs_ok\<close>: what a row refers to exists. Both hold of
  every state the commands lead to, while the counters stay below the
  \<open>2 ^ 48\<close> ids of a node.
\<close>

section \<open>Ids\<close>

definition ids_ok :: "inner \<Rightarrow> bool" where
  "ids_ok st =
     ((\<forall>u\<in>set (hm_values (users st)). user_ids.own st (user_id_val (u_id u))) \<and>
      (\<forall>s\<in>set (hm_values (servers st)). server_ids.own st (server_id_val (s_id s))) \<and>
      (\<forall>p\<in>set (hm_values (proposals st)). proposal_ids.own st (proposal_id_val (p_id p))) \<and>
      (\<forall>m\<in>set (hm_values (messages st)). message_ids.own st (message_id_val (msg_id m)) \<and>
         (\<forall>p. msg_parent m = Some p \<longrightarrow> message_id_val p < message_id_val (msg_id m))))"

definition capacity :: "inner \<Rightarrow> bool" where
  "capacity st =
     (next_user st < MAX_SEQUENCE \<and> next_server st < MAX_SEQUENCE \<and>
      next_message st < MAX_SEQUENCE \<and> next_proposal st < MAX_SEQUENCE)"

lemmas own_defs =
  user_ids.own_def server_ids.own_def proposal_ids.own_def message_ids.own_def

lemma ids_ok_other [simp]:
  "ids_ok (upsert_membership m st) = ids_ok st"
  "ids_ok (insert_channel c st) = ids_ok st"
  "ids_ok (snd (add_reaction r st)) = ids_ok st"
  "ids_ok (snd (remove_reaction mid uid em st)) = ids_ok st"
  "ids_ok (upsert_vote v st) = ids_ok st"
  "ids_ok (insert_emoji e st) = ids_ok st"
  "ids_ok (upsert_emoji_vote ev st) = ids_ok st"
  "ids_ok (insert_rule ru st) = ids_ok st"
  "ids_ok (snd (remove_rule rid st)) = ids_ok st"
  "ids_ok (put_keys k st) = ids_ok st"
  "ids_ok (put_grant g st) = ids_ok st"
  "ids_ok (insert_dm dm st) = ids_ok st"
  "ids_ok (snd (add_block b st)) = ids_ok st"
  "ids_ok (snd (add_friend f st)) = ids_ok st"
  "ids_ok (update_friend f st) = ids_ok st"
  "ids_ok (snd (put_media n ct bs st)) = ids_ok st"
  "ids_ok (delete_media key st) = ids_ok st"
  "ids_ok (add_invite i st) = ids_ok st"
  "ids_ok (revoke h st) = ids_ok st"
  "ids_ok (insert_role ro st) = ids_ok st"
  "ids_ok (snd (remove_role roid st)) = ids_ok st"
  "ids_ok (snd (assign a st)) = ids_ok st"
  "ids_ok (snd (unassign roid uid st)) = ids_ok st"
  "ids_ok (snd (remember_nonce nn nc t ex st)) = ids_ok st"
  "ids_ok (add_token th uid t st) = ids_ok st"
  "ids_ok (snd (take_token th t st)) = ids_ok st"
  "ids_ok (advance_cursor peer sq st) = ids_ok st"
  "ids_ok (snd (next_channel_id st)) = ids_ok st"
  "ids_ok (snd (next_rule_id st)) = ids_ok st"
  "ids_ok (snd (next_dm_id st)) = ids_ok st"
  "ids_ok (snd (next_role_id st)) = ids_ok st"
  "ids_ok (snd (next_emoji_id st)) = ids_ok st"
  by (simp_all add: ids_ok_def own_defs store_defs next_defs add_reaction_def
      remove_reaction_def remove_rule_def add_block_def add_friend_def update_friend_def
      put_media_def delete_media_def revoke_def remove_role_def assign_def unassign_def
      remember_nonce_def add_token_def take_token_def advance_cursor_def Let_def
      split: option.split)

lemma ids_ok_next:
  assumes "ids_ok st"
  shows "next_user st < MAX_SEQUENCE \<Longrightarrow> ids_ok (snd (next_user_id st))"
    "next_server st < MAX_SEQUENCE \<Longrightarrow> ids_ok (snd (next_server_id st))"
    "next_message st < MAX_SEQUENCE \<Longrightarrow> ids_ok (snd (next_message_id st))"
    "next_proposal st < MAX_SEQUENCE \<Longrightarrow> ids_ok (snd (next_proposal_id st))"
  using assms user_ids.own_mono [of st] server_ids.own_mono [of st] message_ids.own_mono [of st]
    proposal_ids.own_mono [of st]
  by (simp_all add: ids_ok_def own_defs next_defs Let_def)

lemma ids_ok_insert:
  assumes "tables_ok st" "ids_ok st"
  shows "user_ids.own st (user_id_val (u_id u)) \<Longrightarrow> ids_ok (insert_user u st)"
    "server_ids.own st (server_id_val (s_id s)) \<Longrightarrow> ids_ok (insert_server s st)"
    "proposal_ids.own st (proposal_id_val (p_id p)) \<Longrightarrow> ids_ok (insert_proposal p st)"
    "message_ids.own st (message_id_val (msg_id m)) \<Longrightarrow>
     (\<And>p. msg_parent m = Some p \<Longrightarrow> message_id_val p < message_id_val (msg_id m)) \<Longrightarrow>
     ids_ok (store_insert_message m st)"
proof -
  note t = assms(1) [unfolded tables_ok_def] and i = assms(2) [unfolded ids_ok_def]
  note vals = user_table.values_put [of st u] server_table.values_put [of st s]
    proposal_table.values_put [of st p] message_table.values_put [of st m]
  show "ids_ok (insert_user u st)" if "user_ids.own st (user_id_val (u_id u))"
    using that t i vals(1) by (auto simp: ids_ok_def own_defs) (auto simp: store_defs Let_def)
  show "ids_ok (insert_server s st)" if "server_ids.own st (server_id_val (s_id s))"
    using that t i vals(2) by (auto simp: ids_ok_def own_defs) (auto simp: store_defs Let_def)
  show "ids_ok (insert_proposal p st)" if "proposal_ids.own st (proposal_id_val (p_id p))"
    using that t i vals(3) by (auto simp: ids_ok_def own_defs) (auto simp: store_defs Let_def)
  show "ids_ok (store_insert_message m st)" if "message_ids.own st (message_id_val (msg_id m))"
      "\<And>p. msg_parent m = Some p \<Longrightarrow> message_id_val p < message_id_val (msg_id m)"
    using that t i vals(4) by (auto simp: ids_ok_def own_defs) (auto simp: store_defs Let_def)
qed

lemma ids_ok_get:
  assumes "store_ok st" "ids_ok st"
  shows "get_user st uid = Some u \<Longrightarrow> user_ids.own st (user_id_val uid)"
    "get_server st sid = Some s \<Longrightarrow> server_ids.own st (server_id_val sid)"
    "get_proposal st pid = Some p \<Longrightarrow> proposal_ids.own st (proposal_id_val pid)"
    "get_message st mid = Some m \<Longrightarrow> message_ids.own st (message_id_val mid) \<and>
       (\<forall>p. msg_parent m = Some p \<longrightarrow> message_id_val p < message_id_val mid)"
proof -
  note t = store_ok_tables [OF assms(1)]
  note k = t [unfolded tables_ok_def] and i = assms(2) [unfolded ids_ok_def]
  show "user_ids.own st (user_id_val uid)" if "get_user st uid = Some u"
    using get_ids(1) [OF t that] that k i by (auto simp: get_user_def hm_keyed_values)
  show "server_ids.own st (server_id_val sid)" if "get_server st sid = Some s"
    using get_ids(2) [OF t that] that k i by (auto simp: get_server_def hm_keyed_values)
  show "proposal_ids.own st (proposal_id_val pid)" if "get_proposal st pid = Some p"
    using get_ids(6) [OF t that] that k i by (auto simp: get_proposal_def hm_keyed_values)
  show "message_ids.own st (message_id_val mid) \<and>
       (\<forall>p. msg_parent m = Some p \<longrightarrow> message_id_val p < message_id_val mid)"
    if "get_message st mid = Some m"
    using get_ids(5) [OF t that] that k i by (auto simp: get_message_def hm_keyed_values)
qed

text \<open>A row filed under an id just drawn, and a row that replaces one with its id.\<close>

lemma ids_ok_new:
  assumes "store_ok st" "ids_ok st" "capacity st"
  shows "u_id u = fst (next_user_id st) \<Longrightarrow> ids_ok (insert_user u (snd (next_user_id st)))"
    "s_id s = fst (next_server_id st) \<Longrightarrow> ids_ok (insert_server s (snd (next_server_id st)))"
    "p_id p = fst (next_proposal_id st) \<Longrightarrow> ids_ok (insert_proposal p (snd (next_proposal_id st)))"
    "msg_id m = fst (next_message_id st) \<Longrightarrow>
     (\<And>q. msg_parent m = Some q \<Longrightarrow> get_message st q \<noteq> None) \<Longrightarrow>
     ids_ok (store_insert_message m (snd (next_message_id st)))"
  using store_ok_tables [OF assms(1)] ids_ok_next [OF assms(2)] assms(3)
    message_ids.next_id_greater [of st] ids_ok_get(4) [OF assms(1,2)]
  by (auto simp: capacity_def intro!: ids_ok_insert user_ids.next_id_own server_ids.next_id_own
      proposal_ids.next_id_own message_ids.next_id_own)

lemma ids_ok_update:
  assumes "store_ok st" "ids_ok st"
  shows "get_user st (u_id u) = Some u' \<Longrightarrow> ids_ok (insert_user u st)"
    "get_server st (s_id s) = Some s' \<Longrightarrow> ids_ok (insert_server s st)"
    "get_proposal st (p_id p) = Some p' \<Longrightarrow> ids_ok (insert_proposal p st)"
    "get_message st (msg_id m) = Some m' \<Longrightarrow> msg_parent m = msg_parent m' \<Longrightarrow>
     ids_ok (store_insert_message m st)"
  using store_ok_tables [OF assms(1)] assms(2) ids_ok_get [OF assms]
  by (auto intro!: ids_ok_insert)

lemma ids_ok_remove_channel: "ids_ok st \<Longrightarrow> ids_ok (snd (remove_channel cid st))"
  by (auto simp: ids_ok_def own_defs remove_channel_def record_change_def Let_def hm_values_def
      hm_retain_def split: option.split)

section \<open>The commands keep the ids\<close>

lemma ids_accounts:
  assumes "store_ok st" "ids_ok st" "capacity st"
  shows "ids_ok (snd (register_account env h st))"
    "ids_ok (snd (register_with_password env raw h em pw st))"
    "ids_ok (snd (verify_email env tok st))"
    "ids_ok (snd (issue_resend env raw h st))"
    "ids_ok (snd (set_password env h pw st))"
    "ids_ok (snd (found_server_with_visibility env h nm priv st))"
    "ids_ok (snd (create_invite env code h sl st))"
    "ids_ok (snd (accept_invite env h code st))"
    "ids_ok (snd (revoke_invite h sl ch st))"
    "ids_ok (snd (join_server env h sl st))"
    "ids_ok (snd (try_enfranchise env h sl st))"
    "ids_ok (snd (set_contribution h sl c st))"
  using assms
proof -
  have tok: "insert_user u (add_token th uid t st') = add_token th uid t (insert_user u st')"
    for u th uid t st'
    by (simp add: insert_user_def add_token_def record_change_def Let_def)
  have upd: "ids_ok (insert_user (u\<lparr>u_password_hash := pw\<rparr>) st)" if "find_by_handle st hh = Some u" for hh u pw
    using find_gets(1) [OF store_ok_tables [OF assms(1)] that] by (auto intro!: ids_ok_update assms)
  show "ids_ok (snd (register_account env h st))"
    using assms by (auto simp: register_account_def Let_def split_beta intro!: ids_ok_new)
  show "ids_ok (snd (register_with_password env raw h em pw st))"
    using assms by (auto simp: register_with_password_def Let_def split_beta tok
        intro!: ids_ok_new split: option.split sum.split)
  show "ids_ok (snd (verify_email env tok st))"
  proof -
    let ?st = "snd (take_token (hash_token env tok) (seconds (env_now env)) st)"
    have ok: "store_ok ?st" "ids_ok ?st" using assms by (auto intro: store_ok_ops)
    have "ids_ok (insert_user (u\<lparr>u_email_verified := True\<rparr>) ?st)"
      if "get_user ?st uid = Some u" for uid u
      using get_ids(1) [OF store_ok_tables [OF ok(1)] that] that by (auto intro!: ids_ok_update ok)
    then show ?thesis
      using ok by (simp add: verify_email_def Let_def split_beta update_is_insert split: option.split)
  qed
  show "ids_ok (snd (set_password env h pw st))"
    using assms upd by (simp add: set_password_def update_is_insert split: option.split sum.split)
  show "ids_ok (snd (found_server_with_visibility env h nm priv st))"
    using assms by (auto simp: found_server_with_visibility_def Let_def split_beta
        intro!: ids_ok_new split: option.split)
qed (use assms in \<open>simp_all add: issue_resend_def create_invite_def accept_invite_def revoke_invite_def
    join_server_def try_enfranchise_def set_contribution_def Let_def split: option.split\<close>)

lemma ids_update_with:
  assumes "store_ok st" "ids_ok st"
  shows "(\<And>s. s_id (f s) = s_id s) \<Longrightarrow> ids_ok (update_server_with sid f st)"
    "ids_ok (update_membership_with uid sid g st)"
  using assms get_ids(2) [OF store_ok_tables [OF assms(1)]]
  by (auto simp: update_server_with_def update_membership_with_def update_is_insert
      intro!: ids_ok_update split: option.split)

lemma ids_apply_kind:
  assumes "store_ok st" "ids_ok st"
  shows "ids_ok (apply_kind sid now k st)"
  using assms
  by (cases k)
     (auto simp: Let_def split_beta set_governance_surface_def
       intro!: ids_update_with ids_ok_remove_channel split: option.split)

text \<open>The ballot a resolution step works on is the one on file.\<close>

lemma proposals_apply_kind [simp]: "proposals (apply_kind sid now k st) = proposals st"
  by (cases k)
     (auto simp: Let_def split_beta update_server_with_def update_membership_with_def
       update_is_insert store_defs next_defs remove_channel_def remove_rule_def remove_role_def
       assign_def unassign_def split: option.split)

lemma get_proposal_insert:
  "get_proposal (insert_proposal p st) pid =
     (if pid = p_id p then Some p else get_proposal st pid)"
  using proposal_table.lookup_put [of p st pid]
  by (simp add: get_proposal_def proposal_table.lookup_def)

lemma get_proposal_apply_kind [simp]:
  "get_proposal (apply_kind sid now k st) pid = get_proposal st pid"
  by (simp add: get_proposal_def)

lemma ids_resolve_step:
  assumes "store_ok st" "ids_ok st" "get_proposal st (p_id p) = Some p"
  shows "ids_ok (resolve_step s c ph now st p)"
proof -
  have upd: "ids_ok (insert_proposal q st')" if "store_ok st'" "ids_ok st'" "p_id q = p_id p"
      "get_proposal st' (p_id p) \<noteq> None" for q st'
    using that by (auto intro: ids_ok_update)
  show ?thesis
    using assms
    by (auto simp: resolve_step_def close_if_due_def apply_if_matured_def apply_effect_def Let_def
        update_is_insert get_proposal_insert intro!: upd ids_apply_kind apply_kind_ok store_ok_ops
        split: proposal_status.split)
qed

text \<open>A step changes its own ballot only.\<close>

lemma get_proposal_resolve_step_other:
  "pid \<noteq> p_id p \<Longrightarrow> get_proposal (resolve_step s c ph now st p) pid = get_proposal st pid"
  by (auto simp: resolve_step_def close_if_due_def apply_if_matured_def apply_effect_def Let_def
      update_is_insert get_proposal_insert split: proposal_status.split)

lemma list_proposals_on_file:
  assumes "tables_ok st" "p \<in> set (list_proposals_for_server st sid)"
  shows "get_proposal st (p_id p) = Some p" "p_server_id p = sid"
  using assms
  by (auto simp: list_proposals_for_server_def tables_ok_def get_proposal_def hm_keyed_values)

lemma distinct_proposal_ids:
  assumes "tables_ok st"
  shows "distinct (map p_id (list_proposals_for_server st sid))"
proof -
  have "unique_by p_id (hm_values (proposals st))"
    using assms by (simp add: tables_ok_def hm_keyed_unique)
  then have "distinct (map p_id (filter (\<lambda>p. p_server_id p = sid) (hm_values (proposals st))))"
    using unique_by_filter unfolding unique_by_def by blast
  moreover have "mset (map p_id (list_proposals_for_server st sid)) =
      mset (map p_id (filter (\<lambda>p. p_server_id p = sid) (hm_values (proposals st))))"
    by (simp add: list_proposals_for_server_def)
  ultimately show ?thesis by (metis mset_eq_imp_distinct_iff)
qed

text \<open>An invariant of the resolution loop, proved for one step on a ballot on
  file, holds after it.\<close>

lemma resolve_loop_invariant:
  assumes "Q st" "\<And>st p. Q st \<Longrightarrow> p \<in> set ps \<Longrightarrow> get_proposal st (p_id p) = Some p \<Longrightarrow>
      Q (resolve_step s c ph now st p)"
    and "distinct (map p_id ps)" "\<forall>p\<in>set ps. get_proposal st (p_id p) = Some p"
  shows "Q (foldl (resolve_step s c ph now) st ps)"
  using assms
proof (induction ps arbitrary: st)
  case (Cons p ps)
  let ?st = "resolve_step s c ph now st p"
  have "\<forall>q\<in>set ps. get_proposal ?st (p_id q) = Some q"
  proof
    fix q assume q: "q \<in> set ps"
    then have "p_id q \<noteq> p_id p" using Cons.prems(3) by (auto simp: image_iff)
    then show "get_proposal ?st (p_id q) = Some q"
      using Cons.prems(4) q by (simp add: get_proposal_resolve_step_other)
  qed
  moreover have "Q ?st" using Cons.prems by simp
  ultimately show ?case using Cons.IH [of ?st] Cons.prems(2,3) by simp
qed simp

lemma resolve_due_invariant:
  assumes "store_ok st" "Q st"
    and "\<And>s c ph st' p. find_by_slug st (trim sl) = Some s \<Longrightarrow> c = citizen_count st (s_id s) \<Longrightarrow>
      ph = from_citizen_count c \<Longrightarrow> Q st' \<Longrightarrow> store_ok st' \<Longrightarrow>
      get_proposal st (p_id p) = Some p \<Longrightarrow> p_server_id p = s_id s \<Longrightarrow>
      get_proposal st' (p_id p) = Some p \<Longrightarrow> Q (resolve_step s c ph (env_now env) st' p)"
  shows "Q (resolve_due env sl st)"
proof (cases "find_by_slug st (trim sl)")
  case (Some s)
  note t = store_ok_tables [OF assms(1)]
  let ?ps = "list_proposals_for_server st (s_id s)"
  let ?c = "citizen_count st (s_id s)"
  have "store_ok (foldl (resolve_step s ?c (from_citizen_count ?c) (env_now env)) st ?ps) \<and>
      Q (foldl (resolve_step s ?c (from_citizen_count ?c) (env_now env)) st ?ps)"
    by (rule resolve_loop_invariant)
       (use assms Some list_proposals_on_file [OF t] distinct_proposal_ids [OF t]
         in \<open>auto intro: resolve_step_ok\<close>)
  with Some show ?thesis by (simp add: resolve_due_def Let_def)
qed (simp add: resolve_due_def assms)

lemma ids_governance:
  assumes "store_ok st" "ids_ok st" "capacity st"
  shows "ids_ok (snd (open_proposal env h sl k st))" "ids_ok (snd (cast_vote h pid ay st))"
    "ids_ok (snd (cast_vote_by_id v pid ay st))" "ids_ok (resolve_due env sl st)"
proof -
  show "ids_ok (snd (open_proposal env h sl k st))"
    using assms by (auto simp: open_proposal_def Let_def split_beta proposal_new_def
        intro!: ids_ok_new split: option.split)
  show "ids_ok (snd (cast_vote h pid ay st))" "ids_ok (snd (cast_vote_by_id v pid ay st))"
    using assms by (simp_all add: cast_vote_def cast_vote_by_id_def cast_vote_as_def
        split: option.split)
  show "ids_ok (resolve_due env sl st)"
    by (rule resolve_due_invariant) (use assms in \<open>auto intro: ids_resolve_step\<close>)
qed

lemma insert_message_ids:
  assumes "store_ok st" "ids_ok st" "capacity st"
    "\<And>q. par = Some q \<Longrightarrow> get_message st q \<noteq> None"
  shows "ids_ok (snd (insert_message env a c b par at st))"
  using assms
  by (auto simp: insert_message_def Let_def split_beta message_new_def intro!: ids_ok_new)

lemma get_message_own_id:
  "store_ok st \<Longrightarrow> get_message st mid = Some m \<Longrightarrow> get_message st (msg_id m) = Some m"
  using get_ids(5) [of st mid m] by auto

lemma authored_message_get:
  "authored_message h mid st = Inr m \<Longrightarrow> get_message st (MessageId mid) = Some m"
  by (auto simp: authored_message_def split: option.splits if_splits)

lemma get_message_delete_medias [simp]:
  "get_message (foldl (\<lambda>st a. delete_media (a_key a) st) st as) mid = get_message st mid"
proof -
  have "messages (foldl (\<lambda>st a. delete_media (a_key a) st) st as) = messages st"
    by (induction as arbitrary: st) (simp_all add: delete_media_def)
  then show ?thesis by (simp add: get_message_def)
qed

lemma ids_ok_delete_medias [simp]:
  "ids_ok (foldl (\<lambda>st a. delete_media (a_key a) st) st as) = ids_ok st"
  by (induction as arbitrary: st) simp_all

lemma ids_chat:
  assumes "store_ok st" "ids_ok st" "capacity st"
  shows "ids_ok (snd (create_channel env h sl nm tp st))"
    "ids_ok (snd (post_message_with_attachments env h sl ch b at st))"
    "ids_ok (snd (store_media n ct bs st))"
    "ids_ok (snd (post_sealed_message env h sl ch cip ep par st))"
    "ids_ok (snd (reply_message env h pid b st))"
    "ids_ok (snd (edit_message env h mid b st))"
    "ids_ok (snd (delete_message h mid st))"
    "ids_ok (snd (set_history_sharing h sl sh st))"
    "ids_ok (snd (react h mid em st))"
    "ids_ok (snd (unreact h mid em st))"
proof -
  note own = get_message_own_id [OF assms(1)]
  show "ids_ok (snd (post_sealed_message env h sl ch cip ep par st))"
    using assms own
    by (auto simp: post_sealed_message_def Let_def split_beta sealed_def intro!: ids_ok_new
        split: option.splits sum.splits)
  show "ids_ok (snd (reply_message env h pid b st))"
    using assms own
    by (auto simp: reply_message_def intro!: insert_message_ids split: option.split)
  show "ids_ok (snd (edit_message env h mid b st))"
    using assms own [OF authored_message_get]
    by (auto simp: edit_message_def Let_def update_is_insert edit_def
        intro!: ids_ok_update split: sum.split)
  show "ids_ok (snd (delete_message h mid st))"
    using assms own [OF authored_message_get]
    by (auto simp: delete_message_def Let_def update_is_insert tombstone_def
        intro!: ids_ok_update delete_medias_ok split: sum.split)
qed (use assms in \<open>auto simp: create_channel_def post_message_with_attachments_def store_media_def
    set_history_sharing_def react_def unreact_def adjust_contribution_def Let_def split_beta
    intro!: insert_message_ids split: option.split sum.split\<close>)

lemma ids_social:
  assumes "store_ok st" "ids_ok st"
  shows "ids_ok (snd (send_sealed_dm env f t fr fs st))"
    "ids_ok (snd (send_sealed_dm_by_id env i j fr fs st))"
    "ids_ok (snd (set_dm_policy h pol st))"
    "ids_ok (snd (block_user env a b st))"
    "ids_ok (snd (block_user_by_id env i j st))"
    "ids_ok (snd (request_friend env a b st))"
    "ids_ok (snd (request_friend_by_id env i j st))"
    "ids_ok (snd (accept_friend a b st))"
    "ids_ok (snd (accept_friend_by_id i j st))"
proof -
  show "ids_ok (snd (set_dm_policy h pol st))"
    using assms find_gets(1) [OF store_ok_tables [OF assms(1)]]
    by (auto simp: set_dm_policy_def update_is_insert intro!: ids_ok_update split: option.split)
qed (use assms in \<open>simp_all add: send_sealed_dm_def send_sealed_dm_by_id_def
    send_sealed_dm_core_def block_user_def block_user_by_id_def block_between_def
    request_friend_def request_friend_by_id_def request_friend_between_def accept_friend_def
    accept_friend_by_id_def accept_friend_between_def Let_def split_beta split: option.split\<close>)

lemma ids_content:
  assumes "ids_ok st"
  shows "ids_ok (snd (add_emoji env h sl nm url st))"
    "ids_ok (snd (vote_emoji h sl eid up st))"
    "ids_ok (snd (publish_keys dec h pk ws st))"
    "ids_ok (snd (enable_channel_encryption h sl ch mode st))"
    "ids_ok (snd (grant_channel_key g sl ch ep m k st))"
  using assms
  by (simp_all add: add_emoji_def vote_emoji_def publish_keys_def enable_channel_encryption_def
      grant_channel_key_def Let_def split_beta split: option.split sum.split)

lemma ids_restart:
  "tables_ok st \<Longrightarrow> ids_ok st \<Longrightarrow> ids_ok (with_node (node st) (from_snapshot (to_snapshot st)))"
  by (simp add: with_node_def snapshot_roundtrip ids_ok_def own_defs)

lemma exec_ids:
  assumes "store_ok st" "ids_ok st" "capacity st"
  shows "ids_ok (exec env cmd st)"
  using assms store_ok_tables [OF assms(1)]
  by (cases cmd)
     (simp_all add: ids_accounts ids_governance ids_chat ids_social ids_content ids_restart)

text \<open>The states of a node that has not run out of ids.\<close>

inductive live :: "inner \<Rightarrow> bool" where
  live_fresh: "live (with_node n empty_store)"
| live_call: "live st \<Longrightarrow> capacity st \<Longrightarrow> live (exec env cmd st)"

lemma ids_ok_fresh: "ids_ok (with_node n empty_store)"
  by (simp add: ids_ok_def with_node_def empty_store_def hm_values_def)

lemma live_ok: "live st \<Longrightarrow> store_ok st \<and> ids_ok st"
  by (induction rule: live.induct)
     (simp_all add: store_ok_with_node store_ok_empty ids_ok_fresh exec_store_ok exec_ids)

end
