(* ===== verification/Refs.thy ===== *)
theory Refs
  imports Integrity
begin

text \<open>
  Referential integrity: what a row refers to by id is on file. Accounts,
  servers and proposals are never removed; a channel takes its messages with
  it and a role its assignments, so these references never dangle either.
\<close>

section \<open>The invariant\<close>

definition has_user :: "inner \<Rightarrow> user_id \<Rightarrow> bool" where
  "has_user st uid = (get_user st uid \<noteq> None)"

definition has_server :: "inner \<Rightarrow> server_id \<Rightarrow> bool" where
  "has_server st sid = (get_server st sid \<noteq> None)"

definition has_channel :: "inner \<Rightarrow> channel_id \<Rightarrow> bool" where
  "has_channel st cid = (get_channel st cid \<noteq> None)"

definition has_role :: "inner \<Rightarrow> role_id \<Rightarrow> bool" where
  "has_role st rid = (get_role st rid \<noteq> None)"

definition replies_in_channel :: "inner \<Rightarrow> message \<Rightarrow> bool" where
  "replies_in_channel st m =
     (\<forall>pid. msg_parent m = Some pid \<longrightarrow>
        (\<exists>q. get_message st pid = Some q \<and> msg_channel_id q = msg_channel_id m))"

definition member_refs :: "inner \<Rightarrow> bool" where
  "member_refs st =
     ((\<forall>m\<in>set (hm_values (memberships st)). has_user st (m_user_id m) \<and> has_server st (m_server_id m)) \<and>
      (\<forall>i\<in>set (hm_values (invites st)). has_user st (i_created_by i) \<and> has_server st (i_server_id i)))"

definition server_refs :: "inner \<Rightarrow> bool" where
  "server_refs st =
     ((\<forall>s\<in>set (hm_values (servers st)). has_user st (s_founder_id s)) \<and>
      (\<forall>c\<in>set (hm_values (channels st)). has_server st (ch_server_id c)) \<and>
      (\<forall>e\<in>set (hm_values (emojis st)). has_user st (e_added_by e) \<and> has_server st (e_server_id e)) \<and>
      (\<forall>r\<in>set (hm_values (rules st)). has_server st (r_server_id r)) \<and>
      (\<forall>r\<in>set (hm_values (roles st)). has_server st (ro_server_id r)) \<and>
      (\<forall>a\<in>set (role_assignments st). has_role st (ra_role_id a)))"

definition ballot_refs :: "inner \<Rightarrow> bool" where
  "ballot_refs st =
     ((\<forall>p\<in>set (hm_values (proposals st)). has_user st (p_proposer p) \<and> has_server st (p_server_id p)) \<and>
      (\<forall>v\<in>set (votes st). get_proposal st (v_proposal_id v) \<noteq> None))"

definition message_refs :: "inner \<Rightarrow> bool" where
  "message_refs st =
     (\<forall>m\<in>set (hm_values (messages st)). has_user st (msg_author m) \<and>
        has_server st (msg_server_id m) \<and> has_channel st (msg_channel_id m) \<and> replies_in_channel st m)"

definition social_refs :: "inner \<Rightarrow> bool" where
  "social_refs st =
     ((\<forall>d\<in>set (dms st). has_user st (dm_sender d) \<and> has_user st (dm_recipient d)) \<and>
      (\<forall>b\<in>set (blocks st). has_user st (b_blocker b) \<and> has_user st (b_blocked b)) \<and>
      (\<forall>f\<in>set (friends st). has_user st (f_requester f) \<and> has_user st (f_addressee f)) \<and>
      (\<forall>k\<in>set (hm_values (key_directory st)). has_user st (k_user_id k)))"

definition refs_ok :: "inner \<Rightarrow> bool" where
  "refs_ok st =
     (member_refs st \<and> server_refs st \<and> ballot_refs st \<and> message_refs st \<and> social_refs st)"

lemmas refs_defs = refs_ok_def member_refs_def server_refs_def ballot_refs_def message_refs_def
  social_refs_def

lemmas has_defs = has_user_def has_server_def has_channel_def has_role_def
  replies_in_channel_def get_user_def get_server_def get_channel_def get_message_def
  get_proposal_def get_role_def

section \<open>The store operations\<close>

lemma refs_ok_other:
  "refs_ok (snd (add_reaction r st)) = refs_ok st"
  "refs_ok (snd (remove_reaction mid uid em st)) = refs_ok st"
  "refs_ok (upsert_emoji_vote ev st) = refs_ok st"
  "refs_ok (put_grant g st) = refs_ok st"
  "refs_ok (snd (put_media n ct bs st)) = refs_ok st"
  "refs_ok (delete_media key st) = refs_ok st"
  "refs_ok (snd (remember_nonce nn nc t ex st)) = refs_ok st"
  "refs_ok (add_token th uid t st) = refs_ok st"
  "refs_ok (snd (take_token th t st)) = refs_ok st"
  "refs_ok (advance_cursor peer sq st) = refs_ok st"
  "refs_ok (snd (next_user_id st)) = refs_ok st"
  "refs_ok (snd (next_server_id st)) = refs_ok st"
  "refs_ok (snd (next_channel_id st)) = refs_ok st"
  "refs_ok (snd (next_message_id st)) = refs_ok st"
  "refs_ok (snd (next_proposal_id st)) = refs_ok st"
  "refs_ok (snd (next_rule_id st)) = refs_ok st"
  "refs_ok (snd (next_dm_id st)) = refs_ok st"
  "refs_ok (snd (next_role_id st)) = refs_ok st"
  "refs_ok (snd (next_emoji_id st)) = refs_ok st"
  by (simp_all add: refs_defs has_defs store_defs next_defs add_reaction_def remove_reaction_def
      put_media_def delete_media_def remember_nonce_def add_token_def take_token_def
      advance_cursor_def Let_def)

lemma values_insert:
  "x \<in> set (hm_values (hm_insert k v m)) \<Longrightarrow> x = v \<or> x \<in> set (hm_values m)"
  unfolding hm_values_def hm_insert_def by (induction m) (auto split: if_splits)

lemma refs_ok_insert_user: "refs_ok st \<Longrightarrow> refs_ok (insert_user u st)"
  by (auto simp: refs_defs has_defs store_defs Let_def hm_get_insert)

lemma refs_ok_insert_server:
  "refs_ok st \<Longrightarrow> has_user st (s_founder_id s) \<Longrightarrow> refs_ok (insert_server s st)"
  by (auto simp: refs_defs has_defs store_defs Let_def hm_get_insert dest!: values_insert)

lemma refs_ok_upsert_membership:
  "refs_ok st \<Longrightarrow> has_user st (m_user_id m) \<Longrightarrow> has_server st (m_server_id m) \<Longrightarrow>
   refs_ok (upsert_membership m st)"
  by (auto simp: refs_defs has_defs store_defs Let_def dest!: values_insert)

lemma refs_ok_add_invite:
  "refs_ok st \<Longrightarrow> has_user st (i_created_by i) \<Longrightarrow> has_server st (i_server_id i) \<Longrightarrow>
   refs_ok (add_invite i st)"
  by (auto simp: refs_defs has_defs store_defs Let_def dest!: values_insert)

lemma refs_ok_insert_channel:
  "refs_ok st \<Longrightarrow> has_server st (ch_server_id c) \<Longrightarrow> refs_ok (insert_channel c st)"
  by (auto simp: refs_defs has_defs store_defs Let_def hm_get_insert dest!: values_insert)

lemma refs_ok_insert_emoji:
  "refs_ok st \<Longrightarrow> has_user st (e_added_by e) \<Longrightarrow> has_server st (e_server_id e) \<Longrightarrow>
   refs_ok (insert_emoji e st)"
  by (auto simp: refs_defs has_defs store_defs Let_def dest!: values_insert)

lemma refs_ok_insert_rule:
  "refs_ok st \<Longrightarrow> has_server st (r_server_id r) \<Longrightarrow> refs_ok (insert_rule r st)"
  by (auto simp: refs_defs has_defs store_defs Let_def dest!: values_insert)

lemma refs_ok_insert_role:
  "refs_ok st \<Longrightarrow> has_server st (ro_server_id r) \<Longrightarrow> refs_ok (insert_role r st)"
  by (auto simp: refs_defs has_defs store_defs Let_def hm_get_insert dest!: values_insert)

lemma refs_ok_insert_proposal:
  "refs_ok st \<Longrightarrow> has_user st (p_proposer p) \<Longrightarrow> has_server st (p_server_id p) \<Longrightarrow>
   refs_ok (insert_proposal p st)"
  by (auto simp: refs_defs has_defs store_defs Let_def hm_get_insert dest!: values_insert)

lemma refs_ok_upsert_vote:
  "refs_ok st \<Longrightarrow> get_proposal st (v_proposal_id v) \<noteq> None \<Longrightarrow> refs_ok (upsert_vote v st)"
  by (auto simp: refs_defs has_defs store_defs Let_def)

lemma refs_ok_insert_dm:
  "refs_ok st \<Longrightarrow> has_user st (dm_sender d) \<Longrightarrow> has_user st (dm_recipient d) \<Longrightarrow>
   refs_ok (insert_dm d st)"
  by (auto simp: refs_defs has_defs store_defs Let_def)

lemma refs_ok_add_block:
  "refs_ok st \<Longrightarrow> has_user st (b_blocker b) \<Longrightarrow> has_user st (b_blocked b) \<Longrightarrow>
   refs_ok (snd (add_block b st))"
  by (auto simp: refs_defs has_defs store_defs add_block_def Let_def)

lemma refs_ok_add_friend:
  "refs_ok st \<Longrightarrow> has_user st (f_requester f) \<Longrightarrow> has_user st (f_addressee f) \<Longrightarrow>
   refs_ok (snd (add_friend f st))"
  by (auto simp: refs_defs has_defs store_defs add_friend_def Let_def)

lemma set_replace_first: "set (replace_first P y xs) \<subseteq> insert y (set xs)"
  by (induction xs) auto

lemma refs_ok_update_friend:
  assumes "refs_ok st" "has_user st (f_requester f)" "has_user st (f_addressee f)"
  shows "refs_ok (update_friend f st)"
  using assms set_replace_first [of "\<lambda>x. friendship_is_between x (f_requester f) (f_addressee f)" f "friends st"]
  by (auto simp: refs_defs has_defs store_defs update_friend_def Let_def subset_iff)

lemma refs_ok_put_keys:
  "refs_ok st \<Longrightarrow> has_user st (k_user_id k) \<Longrightarrow> refs_ok (put_keys k st)"
  by (auto simp: refs_defs has_defs store_defs Let_def dest!: values_insert)

lemma refs_ok_assign:
  "refs_ok st \<Longrightarrow> has_role st (ra_role_id a) \<Longrightarrow> refs_ok (snd (assign a st))"
  by (auto simp: refs_defs has_defs store_defs assign_def Let_def)

lemma refs_ok_insert_message:
  assumes "refs_ok st" "has_user st (msg_author m)" "has_server st (msg_server_id m)"
    "has_channel st (msg_channel_id m)" "replies_in_channel st m"
    "\<And>old. get_message st (msg_id m) = Some old \<Longrightarrow> msg_channel_id old = msg_channel_id m"
  shows "refs_ok (store_insert_message m st)"
proof -
  have replies: "replies_in_channel (store_insert_message m st) n" if "replies_in_channel st n" for n
    using that assms(6)
    by (auto simp: replies_in_channel_def get_message_def store_defs Let_def hm_get_insert)
  have "message_refs (store_insert_message m st)"
    unfolding message_refs_def
  proof
    fix n assume "n \<in> set (hm_values (messages (store_insert_message m st)))"
    then have "n = m \<or> n \<in> set (hm_values (messages st))"
      by (auto simp: store_defs Let_def dest!: values_insert)
    then have "has_user st (msg_author n) \<and> has_server st (msg_server_id n) \<and>
        has_channel st (msg_channel_id n) \<and> replies_in_channel st n"
      using assms by (auto simp: refs_ok_def message_refs_def)
    then show "has_user (store_insert_message m st) (msg_author n) \<and>
        has_server (store_insert_message m st) (msg_server_id n) \<and>
        has_channel (store_insert_message m st) (msg_channel_id n) \<and>
        replies_in_channel (store_insert_message m st) n"
      using replies by (auto simp: has_user_def has_server_def has_channel_def get_user_def
          get_server_def get_channel_def store_defs Let_def)
  qed
  moreover have "member_refs (store_insert_message m st)" "server_refs (store_insert_message m st)"
      "ballot_refs (store_insert_message m st)" "social_refs (store_insert_message m st)"
    using assms(1) by (auto simp: refs_defs has_defs store_defs Let_def)
  ultimately show ?thesis by (simp add: refs_ok_def)
qed

lemma refs_ok_revoke: "refs_ok st \<Longrightarrow> refs_ok (revoke h st)"
  using hm_get_mem [of "invites st" h]
  by (force simp: refs_defs has_defs store_defs revoke_def Let_def hm_values_def [of "invites st"]
      dest!: values_insert split: option.split)

lemma refs_ok_remove_rule: "refs_ok st \<Longrightarrow> refs_ok (snd (remove_rule rid st))"
  using set_values_remove [of rid "rules st"]
  by (auto simp: refs_defs has_defs store_defs remove_rule_def Let_def split: option.split)

lemma refs_ok_unassign: "refs_ok st \<Longrightarrow> refs_ok (snd (unassign rid uid st))"
  by (auto simp: refs_defs has_defs store_defs unassign_def Let_def split: option.split)

lemma refs_ok_remove_role: "refs_ok st \<Longrightarrow> refs_ok (snd (remove_role rid st))"
  using set_values_remove [of rid "roles st"]
  by (auto simp: refs_defs has_defs store_defs remove_role_def Let_def hm_get_remove
      split: option.split)

lemma set_values_retain: "x \<in> set (hm_values (hm_retain P m)) \<Longrightarrow>
    x \<in> set (hm_values m) \<and> (\<exists>k. P k x)"
  by (auto simp: hm_values_def hm_retain_def)

lemma refs_ok_remove_channel:
  assumes "store_ok st" "refs_ok st"
  shows "refs_ok (snd (remove_channel cid st))"
proof (cases "get_channel st cid")
  case None
  then show ?thesis using assms by (simp add: remove_channel_def get_channel_def)
next
  case (Some c)
  let ?st = "snd (remove_channel cid st)"
  have ok: "hm_ok (messages st)"
    using assms(1) by (auto simp: store_ok_def tables_ok_def dest: hm_keyed_ok)
  have st: "channels ?st = hm_remove cid (channels st)"
      "messages ?st = hm_retain (\<lambda>_ m. msg_channel_id m \<noteq> cid) (messages st)"
    using Some by (simp_all add: remove_channel_def get_channel_def record_change_def Let_def)
  have keep: "has_user ?st = has_user st" "has_server ?st = has_server st" "has_role ?st = has_role st"
      "get_proposal ?st = get_proposal st"
    using Some by (simp_all add: fun_eq_iff has_defs remove_channel_def record_change_def Let_def)
  have "message_refs ?st"
    unfolding message_refs_def st(2)
  proof
    fix m assume "m \<in> set (hm_values (hm_retain (\<lambda>_ m. msg_channel_id m \<noteq> cid) (messages st)))"
    then have m: "m \<in> set (hm_values (messages st))" "msg_channel_id m \<noteq> cid"
      by (auto dest: set_values_retain)
    with assms(2) have *: "has_user st (msg_author m)" "has_server st (msg_server_id m)"
        "has_channel st (msg_channel_id m)" "replies_in_channel st m"
      by (auto simp: refs_ok_def message_refs_def)
    have "has_channel ?st (msg_channel_id m)"
      using *(3) m(2) by (simp add: has_channel_def get_channel_def st hm_get_remove)
    moreover have "replies_in_channel ?st m"
      using *(4) m(2) ok by (auto simp: replies_in_channel_def get_message_def st hm_get_retain)
    ultimately show "has_user ?st (msg_author m) \<and> has_server ?st (msg_server_id m) \<and>
        has_channel ?st (msg_channel_id m) \<and> replies_in_channel ?st m"
      using * keep by simp
  qed
  moreover have "member_refs ?st" "server_refs ?st" "ballot_refs ?st" "social_refs ?st"
    using assms(2) Some set_values_remove [of cid "channels st"]
    by (auto simp: refs_defs keep) (auto simp: remove_channel_def get_channel_def record_change_def Let_def)
  ultimately show ?thesis by (simp add: refs_ok_def)
qed

lemmas refs_intros = refs_ok_insert_user refs_ok_insert_server refs_ok_upsert_membership
  refs_ok_add_invite refs_ok_insert_channel refs_ok_insert_emoji refs_ok_insert_rule
  refs_ok_insert_role refs_ok_insert_proposal refs_ok_upsert_vote refs_ok_insert_dm
  refs_ok_add_block refs_ok_add_friend refs_ok_update_friend refs_ok_put_keys refs_ok_assign
  refs_ok_revoke refs_ok_remove_rule refs_ok_unassign refs_ok_remove_role refs_ok_remove_channel

section \<open>The commands\<close>

lemma has_next [simp]:
  "has_user (snd (next_server_id st)) = has_user st"
  "has_user (snd (next_proposal_id st)) = has_user st"
  "has_user (snd (next_dm_id st)) = has_user st"
  "has_user (snd (next_emoji_id st)) = has_user st"
  "has_user (snd (next_message_id st)) = has_user st"
  "has_server (snd (next_proposal_id st)) = has_server st"
  "has_server (snd (next_channel_id st)) = has_server st"
  "has_server (snd (next_emoji_id st)) = has_server st"
  "has_server (snd (next_rule_id st)) = has_server st"
  "has_server (snd (next_role_id st)) = has_server st"
  "has_server (snd (next_message_id st)) = has_server st"
  "has_channel (snd (next_message_id st)) = has_channel st"
  "replies_in_channel (snd (next_message_id st)) = replies_in_channel st"
  "has_user (insert_server s st) = has_user st"
  "has_server (insert_server s st) sid \<longleftrightarrow> sid = s_id s \<or> has_server st sid"
  by (auto simp: fun_eq_iff has_defs store_defs next_defs Let_def hm_get_insert)

lemma has_found:
  assumes "store_ok st"
  shows "find_by_handle st h = Some u \<Longrightarrow> has_user st (u_id u)"
    "find_by_slug st sl = Some s \<Longrightarrow> has_server st (s_id s)"
    "find_by_name st sid nm = Some c \<Longrightarrow> has_channel st (ch_id c)"
    "get_user st uid = Some u \<Longrightarrow> has_user st (u_id u)"
    "get_server st sid = Some s \<Longrightarrow> has_server st (s_id s)"
    "get_channel st cid = Some c \<Longrightarrow> has_channel st (ch_id c)"
  using find_gets [OF store_ok_tables [OF assms]] get_ids [OF store_ok_tables [OF assms]]
  by (auto simp: has_user_def has_server_def has_channel_def)

lemma refs_channel_server:
  assumes "store_ok st" "refs_ok st" "get_channel st cid = Some c"
  shows "has_server st (ch_server_id c)"
  using assms get_ids(4) [OF store_ok_tables [OF assms(1)] assms(3)]
  by (auto simp: refs_ok_def server_refs_def store_ok_def tables_ok_def get_channel_def
      hm_keyed_values)

lemma refs_message:
  assumes "store_ok st" "refs_ok st" "get_message st mid = Some m"
  shows "has_user st (msg_author m)" "has_server st (msg_server_id m)"
    "has_channel st (msg_channel_id m)" "replies_in_channel st m"
  using assms get_ids(5) [OF store_ok_tables [OF assms(1)] assms(3)]
  by (auto simp: refs_ok_def message_refs_def store_ok_def tables_ok_def get_message_def
      hm_keyed_values)

lemma refs_membership:
  assumes "store_ok st" "refs_ok st" "get_membership st uid sid = Some m"
  shows "has_user st (m_user_id m)" "has_server st (m_server_id m)"
proof -
  have "m \<in> set (hm_values (memberships st))"
    using assms(1,3) get_ids(3) [OF store_ok_tables [OF assms(1)] assms(3)]
    by (auto simp: store_ok_def tables_ok_def get_membership_def hm_keyed_values)
  with assms(2) show "has_user st (m_user_id m)" "has_server st (m_server_id m)"
    by (auto simp: refs_ok_def member_refs_def)
qed

lemma refs_friendship:
  "refs_ok st \<Longrightarrow> friend_between st a b = Some f \<Longrightarrow> has_user st (f_requester f) \<and> has_user st (f_addressee f)"
  using find_Some_filter [of "\<lambda>f. friendship_is_between f a b" "friends st" f]
  by (auto simp: refs_ok_def social_refs_def friend_between_def)

lemma refs_accounts:
  assumes "store_ok st" "refs_ok st"
  shows "refs_ok (snd (register_account env h st))"
    "refs_ok (snd (register_with_password env raw h em pw st))"
    "refs_ok (snd (verify_email env tok st))"
    "refs_ok (snd (issue_resend env raw h st))"
    "refs_ok (snd (set_password env h pw st))"
    "refs_ok (snd (found_server_with_visibility env h nm priv st))"
    "refs_ok (snd (create_invite env code h sl st))"
    "refs_ok (snd (accept_invite env h code st))"
    "refs_ok (snd (revoke_invite h sl ch st))"
    "refs_ok (snd (join_server env h sl st))"
    "refs_ok (snd (try_enfranchise env h sl st))"
    "refs_ok (snd (set_contribution h sl c st))"
  using assms
proof -
  note f = has_found [OF assms(1)] and m = refs_membership [OF assms]
  show "refs_ok (snd (found_server_with_visibility env h nm priv st))"
    using assms by (auto simp: found_server_with_visibility_def Let_def split_beta refs_ok_other
        intro!: refs_intros dest: f split: option.split)
  show "refs_ok (snd (create_invite env code h sl st))"
    using assms by (auto simp: create_invite_def invite_new_def intro!: refs_intros dest: f
        split: option.split)
  show "refs_ok (snd (accept_invite env h code st))" "refs_ok (snd (join_server env h sl st))"
    using assms by (auto simp: accept_invite_def join_server_def Let_def intro!: refs_intros
        dest: f split: option.split)
  show "refs_ok (snd (try_enfranchise env h sl st))" "refs_ok (snd (set_contribution h sl c st))"
    using assms by (auto simp: try_enfranchise_def set_contribution_def Let_def
        intro!: refs_intros dest: m split: option.split)
qed (auto simp: register_account_def register_with_password_def verify_email_def issue_resend_def
    set_password_def revoke_invite_def Let_def split_beta update_is_insert refs_ok_other assms
    intro!: refs_intros split: option.split sum.split)

lemma refs_server_founder:
  assumes "store_ok st" "refs_ok st" "get_server st sid = Some s"
  shows "has_user st (s_founder_id s)"
  using assms get_ids(2) [OF store_ok_tables [OF assms(1)] assms(3)]
  by (auto simp: refs_ok_def server_refs_def store_ok_def tables_ok_def get_server_def
      hm_keyed_values)

lemma refs_update_with:
  assumes "store_ok st" "refs_ok st"
  shows "(\<And>s. s_founder_id (f s) = s_founder_id s) \<Longrightarrow> refs_ok (update_server_with sid f st)"
    "(\<And>m. m_user_id (g m) = m_user_id m \<and> m_server_id (g m) = m_server_id m) \<Longrightarrow>
     refs_ok (update_membership_with uid sid g st)"
  using assms refs_server_founder [OF assms] refs_membership [OF assms]
  by (auto simp: update_server_with_def update_membership_with_def update_is_insert
      intro!: refs_intros split: option.split)

lemma refs_apply_kind:
  assumes "store_ok st" "refs_ok st" "has_server st sid"
  shows "refs_ok (apply_kind sid now k st)"
  using assms
  by (cases k)
     (auto simp: Let_def split_beta set_governance_surface_def refs_ok_other channel_new_def
       rule_new_def role_new_def role_assignment_new_def role_in_server_def has_role_def
       intro!: refs_update_with refs_intros split: option.splits)

lemma refs_proposal:
  assumes "store_ok st" "refs_ok st" "get_proposal st pid = Some p"
  shows "has_user st (p_proposer p)" "has_server st (p_server_id p)"
  using assms get_ids(6) [OF store_ok_tables [OF assms(1)] assms(3)]
  by (auto simp: refs_ok_def ballot_refs_def store_ok_def tables_ok_def get_proposal_def
      hm_keyed_values)

lemma has_apply_kind:
  "has_user st uid \<Longrightarrow> has_user (apply_kind sid' now k st) uid"
  "has_server st sid \<Longrightarrow> has_server (apply_kind sid' now k st) sid"
  "has_user (insert_proposal p st) = has_user st" "has_server (insert_proposal p st) = has_server st"
  by (cases k;
      auto simp: has_defs store_defs next_defs Let_def split_beta update_server_with_def
        update_membership_with_def update_is_insert remove_channel_def remove_rule_def
        remove_role_def assign_def unassign_def hm_get_insert fun_eq_iff split: option.split)+

lemma refs_resolve_step:
  assumes "store_ok st" "refs_ok st" "get_proposal st (p_id p) = Some p"
  shows "refs_ok (resolve_step s c ph now st p)"
  using assms refs_proposal [OF assms]
  by (auto simp: resolve_step_def close_if_due_def apply_if_matured_def apply_effect_def Let_def
      update_is_insert close_def has_apply_kind intro!: refs_intros refs_apply_kind store_ok_ops
      split: proposal_status.split)

lemma refs_governance:
  assumes "store_ok st" "refs_ok st"
  shows "refs_ok (snd (open_proposal env h sl k st))" "refs_ok (snd (cast_vote h pid ay st))"
    "refs_ok (snd (cast_vote_by_id v pid ay st))" "refs_ok (resolve_due env sl st)"
proof -
  note f = has_found [OF assms(1)]
  show "refs_ok (snd (open_proposal env h sl k st))"
    using assms by (auto simp: open_proposal_def Let_def split_beta proposal_new_def refs_ok_other
        intro!: refs_intros dest: f split: option.split)
  show "refs_ok (snd (cast_vote h pid ay st))" "refs_ok (snd (cast_vote_by_id v pid ay st))"
    using assms get_ids(6) [OF store_ok_tables [OF assms(1)]]
    by (auto simp: cast_vote_def cast_vote_by_id_def cast_vote_as_def vote_new_def
        intro!: refs_intros split: option.split)
  show "refs_ok (resolve_due env sl st)"
    by (rule resolve_due_invariant) (use assms in \<open>auto intro: refs_resolve_step\<close>)
qed

lemma fresh_message:
  assumes "store_ok st" "ids_ok st" "capacity st"
  shows "get_message st (fst (next_message_id st)) = None"
    "get_message (snd (next_message_id st)) mid = get_message st mid"
proof -
  show "get_message st (fst (next_message_id st)) = None"
  proof (rule ccontr)
    assume "get_message st (fst (next_message_id st)) \<noteq> None"
    then have "message_ids.own st (message_id_val (fst (next_message_id st)))"
      using ids_ok_get(4) [OF assms(1,2)] by blast
    with assms(3) message_ids.next_id_fresh [of st] show False by (auto simp: capacity_def)
  qed
  show "get_message (snd (next_message_id st)) mid = get_message st mid"
    by (simp add: get_message_def next_defs Let_def)
qed

lemma refs_new_message:
  assumes "store_ok st" "ids_ok st" "capacity st" "refs_ok st" "msg_id m = fst (next_message_id st)"
    "has_user st (msg_author m)" "has_server st (msg_server_id m)"
    "has_channel st (msg_channel_id m)" "replies_in_channel st m"
  shows "refs_ok (store_insert_message m (snd (next_message_id st)))"
  by (rule refs_ok_insert_message)
     (use assms fresh_message [OF assms(1-3)] in \<open>simp_all add: refs_ok_other\<close>)

lemma insert_message_refs:
  assumes "store_ok st" "ids_ok st" "capacity st" "refs_ok st" "has_user st a"
    "get_channel st cid = Some c"
    "\<And>q. par = Some q \<Longrightarrow> \<exists>m. get_message st q = Some m \<and> msg_channel_id m = ch_id c"
  shows "refs_ok (snd (insert_message env a c b par at st))"
  using assms refs_channel_server [OF assms(1,4,6)] has_found(6) [OF assms(1,6)]
  by (auto simp: insert_message_def Let_def split_beta message_new_def replies_in_channel_def
      intro!: refs_new_message)

lemma resolve_poster_found:
  assumes "store_ok st" "resolve_poster h sl ch st = Inr (u, s, c, a)"
  shows "has_user st a" "get_channel st (ch_id c) = Some c"
  using assms has_found(1) [OF assms(1)] find_gets(3) [OF store_ok_tables [OF assms(1)]]
  by (auto simp: resolve_poster_def Let_def split: option.splits if_splits)

lemma refs_replace_message:
  assumes "store_ok st" "refs_ok st" "get_message st mid = Some m"
    "msg_id m' = msg_id m" "msg_author m' = msg_author m" "msg_server_id m' = msg_server_id m"
    "msg_channel_id m' = msg_channel_id m" "msg_parent m' = msg_parent m"
  shows "refs_ok (store_insert_message m' st)"
  by (rule refs_ok_insert_message)
     (use assms refs_message [OF assms(1-3)] get_ids(5) [OF store_ok_tables [OF assms(1)] assms(3)]
       in \<open>auto simp: replies_in_channel_def\<close>)

lemma refs_delete_medias [simp]:
  "refs_ok (foldl (\<lambda>st a. delete_media (a_key a) st) st as) = refs_ok st"
  by (induction as arbitrary: st) (simp_all add: refs_ok_other)

lemma refs_adjust_contribution:
  "store_ok st \<Longrightarrow> refs_ok st \<Longrightarrow> refs_ok (adjust_contribution a sid d st)"
  using refs_membership [of st a sid]
  by (auto simp: adjust_contribution_def intro!: refs_intros split: option.split)

lemma refs_posting:
  assumes "store_ok st" "ids_ok st" "capacity st" "refs_ok st"
  shows "refs_ok (snd (post_message_with_attachments env h sl ch b at st))"
    "refs_ok (snd (post_sealed_message env h sl ch cip ep par st))"
    "refs_ok (snd (reply_message env h pid b st))"
proof -
  note p = resolve_poster_found [OF assms(1)] and own = get_message_own_id [OF assms(1)]
  show "refs_ok (snd (post_message_with_attachments env h sl ch b at st))"
    using assms by (auto simp: post_message_with_attachments_def
        intro: insert_message_refs [OF _ _ _ _ p] split: sum.split)
  have sealed: "refs_ok (store_insert_message
        (sealed (fst (next_message_id st)) (ch_id c) (ch_server_id c) a ct e par t)
        (snd (next_message_id st)))"
    if "resolve_poster h sl ch st = Inr (u, s, c, a)"
      "\<And>q. par = Some q \<Longrightarrow> \<exists>m. get_message st q = Some m \<and> msg_channel_id m = ch_id c"
    for u s c a ct e par t
    using assms that p [OF that(1)] refs_channel_server [OF assms(1,4)]
      has_found(6) [OF assms(1)]
    by (auto simp: sealed_def replies_in_channel_def intro!: refs_new_message)
  show "refs_ok (snd (post_sealed_message env h sl ch cip ep par st))"
    using assms(4) own
    by (auto simp: post_sealed_message_def Let_def split_beta intro!: sealed
        split: option.splits sum.splits)
  show "refs_ok (snd (reply_message env h pid b st))"
    using assms own has_found(1) [OF assms(1)] get_ids(4) [OF store_ok_tables [OF assms(1)]]
    by (auto simp: reply_message_def intro!: insert_message_refs split: option.split)
qed

lemma refs_chat:
  assumes "store_ok st" "ids_ok st" "capacity st" "refs_ok st"
  shows "refs_ok (snd (create_channel env h sl nm tp st))"
    "refs_ok (snd (store_media n ct bs st))"
    "refs_ok (snd (edit_message env h mid b st))"
    "refs_ok (snd (delete_message h mid st))"
    "refs_ok (snd (set_history_sharing h sl sh st))"
    "refs_ok (snd (react h mid em st))"
    "refs_ok (snd (unreact h mid em st))"
proof -
  note f = has_found [OF assms(1)] and m = refs_membership [OF assms(1,4)]
  show "refs_ok (snd (create_channel env h sl nm tp st))"
    using assms by (auto simp: create_channel_def Let_def split_beta channel_new_def refs_ok_other
        intro!: refs_intros dest: f split: option.split)
  show "refs_ok (snd (store_media n ct bs st))"
    using assms by (simp add: store_media_def Let_def split_beta refs_ok_other split: option.split)
  show "refs_ok (snd (edit_message env h mid b st))"
    using assms by (auto simp: edit_message_def Let_def update_is_insert edit_def
        intro!: refs_replace_message dest: authored_message_get split: sum.split)
  show "refs_ok (snd (delete_message h mid st))"
    using assms by (auto simp: delete_message_def Let_def update_is_insert tombstone_def
        intro!: refs_replace_message delete_medias_ok dest: authored_message_get split: sum.split)
  show "refs_ok (snd (set_history_sharing h sl sh st))"
    using assms by (auto simp: set_history_sharing_def intro!: refs_intros dest: m
        split: option.split)
  show "refs_ok (snd (react h mid em st))" "refs_ok (snd (unreact h mid em st))"
    using assms by (auto simp: react_def unreact_def Let_def split_beta refs_ok_other
        intro!: refs_adjust_contribution store_ok_ops split: option.split)
qed

lemma refs_social:
  assumes "store_ok st" "refs_ok st"
  shows "refs_ok (snd (send_sealed_dm env f t fr fs st))"
    "refs_ok (snd (send_sealed_dm_by_id env i j fr fs st))"
    "refs_ok (snd (set_dm_policy h pol st))"
    "refs_ok (snd (block_user env a b st))"
    "refs_ok (snd (block_user_by_id env i j st))"
    "refs_ok (snd (request_friend env a b st))"
    "refs_ok (snd (request_friend_by_id env i j st))"
    "refs_ok (snd (accept_friend a b st))"
    "refs_ok (snd (accept_friend_by_id i j st))"
  using assms has_found(1,4) [OF assms(1)] refs_friendship [OF assms(2)]
  by (auto simp: send_sealed_dm_def send_sealed_dm_by_id_def send_sealed_dm_core_def
      dm_message_new_def set_dm_policy_def update_is_insert block_user_def block_user_by_id_def
      block_between_def block_new_def request_friend_def request_friend_by_id_def
      request_friend_between_def friendship_request_def accept_friend_def accept_friend_by_id_def
      accept_friend_between_def accept_def bind_eq_Some_conv Let_def split_beta refs_ok_other
      intro!: refs_intros split: option.splits if_splits)

lemma refs_content:
  assumes "store_ok st" "refs_ok st"
  shows "refs_ok (snd (add_emoji env h sl nm url st))"
    "refs_ok (snd (vote_emoji h sl eid up st))"
    "refs_ok (snd (publish_keys dec h pk ws st))"
    "refs_ok (snd (enable_channel_encryption h sl ch mode st))"
    "refs_ok (snd (grant_channel_key g sl ch ep m k st))"
  using assms has_found(1,2) [OF assms(1)] refs_channel_server [OF assms]
    find_gets(3) [OF store_ok_tables [OF assms(1)]]
  by (auto simp: add_emoji_def vote_emoji_def publish_keys_def enable_channel_encryption_def
      grant_channel_key_def emoji_new_def user_keys_new_def Let_def split_beta refs_ok_other
      intro!: refs_intros split: option.split sum.split)

lemma refs_restart:
  "tables_ok st \<Longrightarrow> refs_ok st \<Longrightarrow> refs_ok (with_node n (from_snapshot (to_snapshot st)))"
  by (simp add: with_node_def snapshot_roundtrip refs_defs has_defs)

lemma exec_refs:
  assumes "store_ok st" "ids_ok st" "capacity st" "refs_ok st"
  shows "refs_ok (exec env cmd st)"
  using assms store_ok_tables [OF assms(1)]
  by (cases cmd)
     (simp_all add: refs_accounts refs_governance refs_posting refs_chat refs_social refs_content
       refs_restart refs_ok_other)

lemma refs_ok_fresh: "refs_ok (with_node n empty_store)"
  by (simp add: refs_defs with_node_def empty_store_def hm_values_def)

lemma live_refs_ok: "live st \<Longrightarrow> refs_ok st"
  by (induction rule: live.induct) (simp_all add: refs_ok_fresh exec_refs live_ok)

end
