(* ===== verification/Ballots.thy ===== *)
theory Ballots
  imports Refs
begin

text \<open>
  The life of accounts, servers and ballots over the commands. An account and
  a server keep their identity; a ballot keeps what it asks and, once closed,
  its outcome; a charter (who may vote, how votes weigh, where the server
  lives) changes only by a matured constitutional ballot.
\<close>

section \<open>The tables most commands leave alone\<close>

definition trunk :: "inner \<Rightarrow> (user_id, user) hashmap \<times> (server_id, server) hashmap \<times>
    (proposal_id, proposal) hashmap" where
  "trunk st = (users st, servers st, proposals st)"

lemma trunk_store [simp]:
  "trunk (upsert_membership m st) = trunk st"
  "trunk (insert_channel c st) = trunk st"
  "trunk (snd (remove_channel cid st)) = trunk st"
  "trunk (store_insert_message msg st) = trunk st"
  "trunk (snd (add_reaction r st)) = trunk st"
  "trunk (snd (remove_reaction mid uid em st)) = trunk st"
  "trunk (upsert_vote v st) = trunk st"
  "trunk (insert_emoji e st) = trunk st"
  "trunk (upsert_emoji_vote ev st) = trunk st"
  "trunk (insert_rule ru st) = trunk st"
  "trunk (snd (remove_rule rid st)) = trunk st"
  "trunk (put_keys k st) = trunk st"
  "trunk (put_grant g st) = trunk st"
  "trunk (insert_dm dm st) = trunk st"
  "trunk (snd (add_block b st)) = trunk st"
  "trunk (snd (add_friend f st)) = trunk st"
  "trunk (update_friend f st) = trunk st"
  "trunk (snd (put_media n ct bs st)) = trunk st"
  "trunk (delete_media key st) = trunk st"
  "trunk (add_invite i st) = trunk st"
  "trunk (revoke h st) = trunk st"
  "trunk (insert_role ro st) = trunk st"
  "trunk (snd (remove_role roid st)) = trunk st"
  "trunk (snd (assign a st)) = trunk st"
  "trunk (snd (unassign roid uid st)) = trunk st"
  "trunk (snd (remember_nonce nn nc t ex st)) = trunk st"
  "trunk (add_token th uid t st) = trunk st"
  "trunk (snd (take_token th t st)) = trunk st"
  "trunk (advance_cursor peer sq st) = trunk st"
  by (simp_all add: trunk_def store_defs remove_channel_def add_reaction_def remove_reaction_def
      remove_rule_def add_block_def add_friend_def update_friend_def put_media_def
      delete_media_def revoke_def remove_role_def assign_def unassign_def remember_nonce_def
      add_token_def take_token_def advance_cursor_def Let_def split: option.split)

lemma trunk_next [simp]:
  "trunk (snd (next_user_id st)) = trunk st"
  "trunk (snd (next_server_id st)) = trunk st"
  "trunk (snd (next_channel_id st)) = trunk st"
  "trunk (snd (next_message_id st)) = trunk st"
  "trunk (snd (next_proposal_id st)) = trunk st"
  "trunk (snd (next_rule_id st)) = trunk st"
  "trunk (snd (next_dm_id st)) = trunk st"
  "trunk (snd (next_role_id st)) = trunk st"
  "trunk (snd (next_emoji_id st)) = trunk st"
  by (simp_all add: trunk_def next_defs Let_def)

lemma trunk_delete_medias [simp]:
  "trunk (foldl (\<lambda>st a. delete_media (a_key a) st) st as) = trunk st"
  by (induction as arbitrary: st) simp_all

text \<open>The commands that touch accounts, servers or ballots.\<close>

primrec touches_trunk :: "command \<Rightarrow> bool" where
  "touches_trunk (Cmd_register_account h) = True"
| "touches_trunk (Cmd_register_with_password raw h em pw) = True"
| "touches_trunk (Cmd_verify_email tok) = True"
| "touches_trunk (Cmd_issue_resend raw h) = False"
| "touches_trunk (Cmd_set_password h pw) = True"
| "touches_trunk (Cmd_found_server h nm priv) = True"
| "touches_trunk (Cmd_create_invite code h sl) = False"
| "touches_trunk (Cmd_accept_invite h code) = False"
| "touches_trunk (Cmd_revoke_invite h sl ch) = False"
| "touches_trunk (Cmd_join_server h sl) = False"
| "touches_trunk (Cmd_try_enfranchise h sl) = False"
| "touches_trunk (Cmd_set_contribution h sl c) = False"
| "touches_trunk (Cmd_open_proposal h sl k) = True"
| "touches_trunk (Cmd_cast_vote h pid ay) = False"
| "touches_trunk (Cmd_cast_vote_by_id v pid ay) = False"
| "touches_trunk (Cmd_resolve_due sl) = True"
| "touches_trunk (Cmd_create_channel h sl nm tp) = False"
| "touches_trunk (Cmd_post_message h sl ch b at) = False"
| "touches_trunk (Cmd_store_media n ct bs) = False"
| "touches_trunk (Cmd_post_sealed_message h sl ch ct ep par) = False"
| "touches_trunk (Cmd_reply_message h pid b) = False"
| "touches_trunk (Cmd_edit_message h mid b) = False"
| "touches_trunk (Cmd_delete_message h mid) = False"
| "touches_trunk (Cmd_set_history_sharing h sl b) = False"
| "touches_trunk (Cmd_react h mid em) = False"
| "touches_trunk (Cmd_unreact h mid em) = False"
| "touches_trunk (Cmd_send_sealed_dm f t fr fs) = False"
| "touches_trunk (Cmd_send_sealed_dm_by_id i j fr fs) = False"
| "touches_trunk (Cmd_set_dm_policy h pol) = True"
| "touches_trunk (Cmd_block_user a b) = False"
| "touches_trunk (Cmd_block_user_by_id i j) = False"
| "touches_trunk (Cmd_request_friend a b) = False"
| "touches_trunk (Cmd_request_friend_by_id i j) = False"
| "touches_trunk (Cmd_accept_friend a b) = False"
| "touches_trunk (Cmd_accept_friend_by_id i j) = False"
| "touches_trunk (Cmd_add_emoji h sl nm url) = False"
| "touches_trunk (Cmd_vote_emoji h sl eid up) = False"
| "touches_trunk (Cmd_publish_keys dec h pk ws) = False"
| "touches_trunk (Cmd_enable_channel_encryption h sl ch mode) = False"
| "touches_trunk (Cmd_grant_channel_key g sl ch ep m k) = False"
| "touches_trunk (Cmd_remember_nonce n nc now ex) = False"
| "touches_trunk (Cmd_advance_cursor peer sq) = False"
| "touches_trunk Cmd_restart = False"

lemma trunk_chat [simp]:
  "trunk (snd (create_channel env h sl nm tp st)) = trunk st"
  "trunk (snd (post_message_with_attachments env h sl ch b at st)) = trunk st"
  "trunk (snd (store_media n ct bs st)) = trunk st"
  "trunk (snd (post_sealed_message env h sl ch ct ep par st)) = trunk st"
  "trunk (snd (reply_message env h pid b st)) = trunk st"
  "trunk (snd (edit_message env h mid b st)) = trunk st"
  "trunk (snd (delete_message h mid st)) = trunk st"
  "trunk (snd (set_history_sharing h sl sh st)) = trunk st"
  "trunk (snd (react h mid em st)) = trunk st"
  "trunk (snd (unreact h mid em st)) = trunk st"
  by (simp_all add: create_channel_def post_message_with_attachments_def store_media_def
      post_sealed_message_def reply_message_def edit_message_def delete_message_def
      set_history_sharing_def react_def unreact_def adjust_contribution_def
      insert_message_def Let_def split_beta update_is_insert split: option.split sum.split)

lemma trunk_accounts [simp]:
  "trunk (snd (issue_resend env raw h st)) = trunk st"
  "trunk (snd (create_invite env code h sl st)) = trunk st"
  "trunk (snd (accept_invite env h code st)) = trunk st"
  "trunk (snd (revoke_invite h sl ch st)) = trunk st"
  "trunk (snd (join_server env h sl st)) = trunk st"
  "trunk (snd (try_enfranchise env h sl st)) = trunk st"
  "trunk (snd (set_contribution h sl c st)) = trunk st"
  "trunk (snd (cast_vote h pid ay st)) = trunk st"
  "trunk (snd (cast_vote_by_id v pid ay st)) = trunk st"
  by (simp_all add: issue_resend_def create_invite_def accept_invite_def revoke_invite_def
      join_server_def try_enfranchise_def set_contribution_def cast_vote_def cast_vote_by_id_def
      cast_vote_as_def Let_def split: option.split)

lemma trunk_social [simp]:
  "trunk (snd (send_sealed_dm env f t fr fs st)) = trunk st"
  "trunk (snd (send_sealed_dm_by_id env i j fr fs st)) = trunk st"
  "trunk (snd (block_user env a b st)) = trunk st"
  "trunk (snd (block_user_by_id env i j st)) = trunk st"
  "trunk (snd (request_friend env a b st)) = trunk st"
  "trunk (snd (request_friend_by_id env i j st)) = trunk st"
  "trunk (snd (accept_friend a b st)) = trunk st"
  "trunk (snd (accept_friend_by_id i j st)) = trunk st"
  by (simp_all add: send_sealed_dm_def send_sealed_dm_by_id_def send_sealed_dm_core_def
      block_user_def block_user_by_id_def block_between_def request_friend_def
      request_friend_by_id_def request_friend_between_def accept_friend_def
      accept_friend_by_id_def accept_friend_between_def Let_def split_beta split: option.split)

lemma trunk_content [simp]:
  "trunk (snd (add_emoji env h sl nm url st)) = trunk st"
  "trunk (snd (vote_emoji h sl eid up st)) = trunk st"
  "trunk (snd (publish_keys dec h pk ws st)) = trunk st"
  "trunk (snd (enable_channel_encryption h sl ch mode st)) = trunk st"
  "trunk (snd (grant_channel_key g sl ch ep m k st)) = trunk st"
  by (simp_all add: add_emoji_def vote_emoji_def publish_keys_def enable_channel_encryption_def
      grant_channel_key_def Let_def split_beta split: option.split sum.split)

lemma trunk_restart:
  "tables_ok st \<Longrightarrow> trunk (with_node n (from_snapshot (to_snapshot st))) = trunk st"
  by (simp add: trunk_def with_node_def snapshot_roundtrip)

lemma exec_trunk:
  "tables_ok st \<Longrightarrow> \<not> touches_trunk cmd \<Longrightarrow> trunk (exec env cmd st) = trunk st"
  by (cases cmd) (simp_all add: trunk_restart)

lemma trunk_get:
  assumes "trunk st' = trunk st"
  shows "get_user st' = get_user st" "get_server st' = get_server st"
    "get_proposal st' = get_proposal st"
  using assms by (simp_all add: trunk_def fun_eq_iff get_user_def get_server_def get_proposal_def)

section \<open>Accounts keep their identity\<close>

definition same_account :: "user \<Rightarrow> user \<Rightarrow> bool" where
  "same_account u u' =
     (u_id u' = u_id u \<and> u_handle u' = u_handle u \<and> u_created_at u' = u_created_at u \<and>
      u_is_franchise_barred u' = u_is_franchise_barred u)"

definition accounts_kept :: "inner \<Rightarrow> inner \<Rightarrow> bool" where
  "accounts_kept st st' =
     (\<forall>uid u. get_user st uid = Some u \<longrightarrow> (\<exists>u'. get_user st' uid = Some u' \<and> same_account u u'))"

lemma get_user_insert:
  "get_user (insert_user u st) uid = (if uid = u_id u then Some u else get_user st uid)"
  using user_table.lookup_put [of u st uid]
  by (simp add: get_user_def user_table.lookup_def)

lemma get_user_frame [simp]:
  "get_user (snd (next_user_id st)) = get_user st" "get_user (add_token th uid t st) = get_user st"
  "get_user (snd (take_token th t st)) = get_user st"
  "get_user (insert_server s st) = get_user st" "get_user (insert_proposal p st) = get_user st"
proof -
  show "get_user (snd (next_user_id st)) = get_user st" "get_user (add_token th uid t st) = get_user st"
    "get_user (snd (take_token th t st)) = get_user st"
    by (rule trunk_get, simp)+
  show "get_user (insert_server s st) = get_user st" "get_user (insert_proposal p st) = get_user st"
    by (rule ext, simp add: get_user_def store_defs Let_def)+
qed

lemma accounts_kept_refl [simp]: "accounts_kept st st"
  by (simp add: accounts_kept_def same_account_def)

lemma accounts_kept_same: "get_user st' = get_user st \<Longrightarrow> accounts_kept st st'"
  by (simp add: accounts_kept_def same_account_def)

lemma accounts_kept_insert:
  assumes "get_user st' = get_user st"
    "\<And>u0. get_user st (u_id u) = Some u0 \<Longrightarrow> same_account u0 u"
  shows "accounts_kept st (insert_user u st')"
  unfolding accounts_kept_def get_user_insert assms(1)
proof (intro allI impI)
  fix uid v assume "get_user st uid = Some v"
  then show "\<exists>u'. (if uid = u_id u then Some u else get_user st uid) = Some u' \<and> same_account v u'"
    using assms(2) by (cases "uid = u_id u") (auto simp: same_account_def)
qed

lemma fresh_user:
  assumes "store_ok st" "ids_ok st" "capacity st"
  shows "get_user st (fst (next_user_id st)) = None"
proof (cases "get_user st (fst (next_user_id st))")
  case (Some u)
  have "next_user st < MAX_SEQUENCE" using assms(3) by (simp add: capacity_def)
  from user_ids.next_id_fresh [OF this ids_ok_get(1) [OF assms(1,2) Some]] show ?thesis by simp
qed

lemma get_user_apply_kind [simp]: "get_user (apply_kind sid now k st) = get_user st"
  by (cases k)
     (auto simp: fun_eq_iff get_user_def Let_def split_beta update_server_with_def
       update_membership_with_def update_is_insert store_defs next_defs remove_channel_def
       remove_rule_def remove_role_def assign_def unassign_def split: option.split)

lemma get_user_resolve_due: "get_user (resolve_due env sl st) = get_user st"
proof -
  have "get_user (resolve_step s c ph now st p) = get_user st" for s c ph now st p
    by (auto simp: resolve_step_def close_if_due_def apply_if_matured_def apply_effect_def Let_def
        update_is_insert split: proposal_status.split)
  then have "get_user (foldl (resolve_step s c ph now) st ps) = get_user st" for s c ph now ps
    by (induction ps arbitrary: st) simp_all
  then show ?thesis by (simp add: resolve_due_def Let_def split: option.split)
qed

lemma accounts_kept_register:
  assumes "store_ok st" "ids_ok st" "capacity st"
  shows "accounts_kept st (snd (register_account env h st))"
    "accounts_kept st (snd (register_with_password env raw h em pw st))"
  using fresh_user [OF assms]
  by (auto simp: register_account_def register_with_password_def Let_def split_beta
      intro!: accounts_kept_insert split: option.split sum.split)

lemma accounts_kept_update:
  assumes "tables_ok st"
  shows "accounts_kept st (snd (verify_email env tok st))"
    "accounts_kept st (snd (set_password env h pw st))"
    "accounts_kept st (snd (set_dm_policy h pol st))"
proof -
  have upd: "accounts_kept st (insert_user u st')"
    if "get_user st uid = Some u0" "same_account u0 u" "get_user st' = get_user st" for uid u0 u st'
    using that get_ids(1) [OF assms that(1)]
    by (intro accounts_kept_insert) (auto simp: same_account_def)
  have fnd: "get_user st (u_id u) = Some u" if "find_by_handle st hh = Some u" for hh u
    using find_gets(1) [OF assms that] by simp
  show "accounts_kept st (snd (verify_email env tok st))"
    by (auto simp: verify_email_def Let_def split_beta update_is_insert same_account_def
        intro: accounts_kept_same upd split: option.split)
  show "accounts_kept st (snd (set_password env h pw st))"
    by (auto simp: set_password_def update_is_insert same_account_def
        intro: accounts_kept_same upd [OF fnd] split: option.split sum.split)
  show "accounts_kept st (snd (set_dm_policy h pol st))"
    by (auto simp: set_dm_policy_def update_is_insert same_account_def
        intro: accounts_kept_same upd [OF fnd] split: option.split)
qed

lemma get_user_trunk_calls:
  "get_user (snd (found_server_with_visibility env h nm priv st)) = get_user st"
  "get_user (snd (open_proposal env h sl k st)) = get_user st"
proof -
  have u: "get_user (upsert_membership m st') = get_user st'"
      "get_user (snd (next_server_id st')) = get_user st'"
      "get_user (snd (next_proposal_id st')) = get_user st'" for m st'
    by (rule trunk_get, simp)+
  show "get_user (snd (found_server_with_visibility env h nm priv st)) = get_user st"
      "get_user (snd (open_proposal env h sl k st)) = get_user st"
    by (simp_all add: found_server_with_visibility_def open_proposal_def Let_def split_beta u
        split: option.split)
qed

lemma exec_accounts_kept:
  assumes "store_ok st" "ids_ok st" "capacity st"
  shows "accounts_kept st (exec env cmd st)"
proof (cases "touches_trunk cmd")
  case False
  then show ?thesis
    using exec_trunk [OF store_ok_tables [OF assms(1)]] trunk_get(1) accounts_kept_same by blast
next
  case True
  then show ?thesis
    using accounts_kept_register [OF assms] accounts_kept_update [OF store_ok_tables [OF assms(1)]]
    by (cases cmd)
       (simp_all add: accounts_kept_same get_user_trunk_calls get_user_resolve_due)
qed

end
