(* ===== verification/Ballot_Life.thy ===== *)
theory Ballot_Life
  imports Ballots
begin

text \<open>
  What the resolution of due ballots does to the ballots and to the servers:
  one ballot at a time, on the ballot on file, and nothing on a second call.
\<close>

section \<open>One ballot\<close>

definition same_ballot :: "proposal \<Rightarrow> proposal \<Rightarrow> bool" where
  "same_ballot p p' =
     (p_id p' = p_id p \<and> p_server_id p' = p_server_id p \<and> p_proposer p' = p_proposer p \<and>
      p_kind p' = p_kind p \<and> p_opened_at p' = p_opened_at p \<and> p_closes_at p' = p_closes_at p \<and>
      (p_status p \<noteq> Open \<longrightarrow> p_status p' = p_status p) \<and> (p_is_applied p \<longrightarrow> p_is_applied p'))"

definition ballots_kept :: "inner \<Rightarrow> inner \<Rightarrow> bool" where
  "ballots_kept st st' =
     (\<forall>pid p. get_proposal st pid = Some p \<longrightarrow>
        (\<exists>p'. get_proposal st' pid = Some p' \<and> same_ballot p p'))"

lemma same_ballot_refl [simp]: "same_ballot p p"
  by (simp add: same_ballot_def)

lemma same_ballot_trans: "same_ballot p q \<Longrightarrow> same_ballot q r \<Longrightarrow> same_ballot p r"
  by (auto simp: same_ballot_def)

lemma ballots_kept_refl [simp]: "ballots_kept st st"
  by (simp add: ballots_kept_def)

definition matured :: "timestamp \<Rightarrow> proposal \<Rightarrow> bool" where
  "matured now p = (case p_status p of Passed eff \<Rightarrow> eff \<le> now | _ \<Rightarrow> False)"

definition due :: "timestamp \<Rightarrow> proposal \<Rightarrow> bool" where
  "due now p = (p_status p = Open \<and> p_closes_at p \<le> now)"

text \<open>The ballot a resolution step leaves, given the tally it counts.\<close>

definition resolved :: "tally \<Rightarrow> u64 \<Rightarrow> phase \<Rightarrow> timestamp \<Rightarrow> proposal \<Rightarrow> proposal" where
  "resolved t c ph now p =
     (let q = (if due now p then close p t c ph now else p)
      in if matured now q then q\<lparr>p_is_applied := True\<rparr> else q)"

lemma get_proposal_frame [simp]:
  "get_proposal (apply_effect p now st) pid = get_proposal st pid"
  by (simp add: apply_effect_def)

lemma get_proposal_resolve_step:
  assumes "get_proposal st (p_id p) = Some p"
  shows "get_proposal (resolve_step s c ph now st p) (p_id p) =
    Some (resolved (weighted_tally st s p now) c ph now p)"
proof -
  have "p\<lparr>p_is_applied := True\<rparr> = p" if "p_is_applied p" for p :: proposal using that by (cases p) simp
  then show ?thesis
    using assms
    by (auto simp: resolve_step_def close_if_due_def apply_if_matured_def resolved_def due_def
        matured_def Let_def update_is_insert get_proposal_insert
        split: proposal_status.split)
qed

lemma same_ballot_resolved: "same_ballot p (resolved t c ph now p)"
  by (auto simp: same_ballot_def resolved_def due_def close_def Let_def)

text \<open>A ballot with nothing left to do.\<close>

definition settled :: "timestamp \<Rightarrow> proposal \<Rightarrow> bool" where
  "settled now p = (\<not> due now p \<and> (matured now p \<longrightarrow> p_is_applied p))"

lemma settled_resolved: "settled now (resolved t c ph now p)"
  by (auto simp: settled_def resolved_def due_def matured_def Let_def split: proposal_status.split)

lemma resolve_step_settled: "settled now p \<Longrightarrow> resolve_step s c ph now st p = st"
  by (auto simp: settled_def due_def matured_def resolve_step_def close_if_due_def
      apply_if_matured_def Let_def split: proposal_status.splits)

section \<open>All ballots of a server\<close>

lemma resolve_loop_ballot:
  assumes "distinct (map p_id ps)" "\<forall>p\<in>set ps. get_proposal st (p_id p) = Some p" "p \<in> set ps"
  shows "\<exists>t. get_proposal (foldl (resolve_step s c ph now) st ps) (p_id p) =
    Some (resolved t c ph now p)"
  using assms
proof (induction ps arbitrary: st)
  case (Cons q ps)
  let ?st = "resolve_step s c ph now st q"
  have diff: "p_id r \<noteq> p_id q" if "r \<in> set ps" for r
    using Cons.prems(1) that by (auto simp: image_iff)
  have rest: "\<forall>r\<in>set ps. get_proposal ?st (p_id r) = Some r"
    using Cons.prems(2) diff by (simp add: get_proposal_resolve_step_other)
  show ?case
  proof (cases "p \<in> set ps")
    case True
    then show ?thesis using Cons.IH [OF _ rest] Cons.prems(1) by simp
  next
    case False
    then have p: "p = q" using Cons.prems(3) by simp
    have "get_proposal (foldl (resolve_step s c ph now) st' ps) (p_id q) = get_proposal st' (p_id q)"
      for st'
      using diff
    proof (induction ps arbitrary: st')
      case (Cons r ps)
      have "p_id q \<noteq> p_id r" using Cons.prems [of r] by auto
      then show ?case using Cons by (simp add: get_proposal_resolve_step_other)
    qed simp
    then show ?thesis
      using get_proposal_resolve_step [of st q s c ph now] Cons.prems(2) p by auto
  qed
qed simp

lemma resolve_due_ballot:
  assumes "store_ok st" "find_by_slug st (trim sl) = Some s" "get_proposal st pid = Some p"
    "p_server_id p = s_id s"
  shows "\<exists>t. get_proposal (resolve_due env sl st) pid =
    Some (resolved t (citizen_count st (s_id s)) (from_citizen_count (citizen_count st (s_id s)))
      (env_now env) p)"
proof -
  note t = store_ok_tables [OF assms(1)]
  have pid: "p_id p = pid" using get_ids(6) [OF t assms(3)] .
  then have mem: "p \<in> set (list_proposals_for_server st (s_id s))"
    using assms(3,4) t
    by (auto simp: list_proposals_for_server_def tables_ok_def get_proposal_def hm_keyed_values)
  have "\<forall>p\<in>set (list_proposals_for_server st (s_id s)). get_proposal st (p_id p) = Some p"
    using list_proposals_on_file [OF t] by blast
  from resolve_loop_ballot [OF distinct_proposal_ids [OF t] this mem] assms(2) pid
  show ?thesis by (simp add: resolve_due_def Let_def)
qed

lemma resolve_due_other_ballot:
  assumes "store_ok st" "get_proposal st pid = Some p"
    "\<And>s. find_by_slug st (trim sl) = Some s \<Longrightarrow> p_server_id p \<noteq> s_id s"
  shows "get_proposal (resolve_due env sl st) pid = Some p"
proof (rule resolve_due_invariant [where Q = "\<lambda>st'. get_proposal st' pid = Some p", OF assms(1,2)])
  fix s c ph st' q
  assume "find_by_slug st (trim sl) = Some s" "get_proposal st (p_id q) = Some q"
    "p_server_id q = s_id s" "get_proposal st' pid = Some p"
  moreover from this have "pid \<noteq> p_id q" using assms(2,3) by auto
  ultimately show "get_proposal (resolve_step s c ph (env_now env) st' q) pid = Some p"
    by (simp add: get_proposal_resolve_step_other)
qed

lemma resolve_due_no_new_ballot:
  assumes "store_ok st" "get_proposal st pid = None"
  shows "get_proposal (resolve_due env sl st) pid = None"
proof (rule resolve_due_invariant [where Q = "\<lambda>st'. get_proposal st' pid = None", OF assms])
  fix s c ph st' q
  assume "get_proposal st (p_id q) = Some q" "get_proposal st' pid = None"
  moreover from this have "pid \<noteq> p_id q" using assms(2) by auto
  ultimately show "get_proposal (resolve_step s c ph (env_now env) st' q) pid = None"
    by (simp add: get_proposal_resolve_step_other)
qed

lemma ballots_kept_resolve_due:
  assumes "store_ok st"
  shows "ballots_kept st (resolve_due env sl st)"
  unfolding ballots_kept_def
proof (intro allI impI)
  fix pid p assume p: "get_proposal st pid = Some p"
  show "\<exists>p'. get_proposal (resolve_due env sl st) pid = Some p' \<and> same_ballot p p'"
  proof (cases "\<exists>s. find_by_slug st (trim sl) = Some s \<and> p_server_id p = s_id s")
    case True
    then show ?thesis using resolve_due_ballot [OF assms _ p] same_ballot_resolved by metis
  next
    case False
    then show ?thesis using resolve_due_other_ballot [OF assms p] by auto
  qed
qed

section \<open>Servers keep their identity\<close>

definition same_server :: "server \<Rightarrow> server \<Rightarrow> bool" where
  "same_server s s' =
     (s_id s' = s_id s \<and> s_slug s' = s_slug s \<and> s_name s' = s_name s \<and>
      s_founder_id s' = s_founder_id s \<and> s_created_at s' = s_created_at s \<and>
      s_is_private s' = s_is_private s)"

definition servers_kept :: "inner \<Rightarrow> inner \<Rightarrow> bool" where
  "servers_kept st st' =
     (\<forall>sid s. get_server st sid = Some s \<longrightarrow>
        (\<exists>s'. get_server st' sid = Some s' \<and> same_server s s'))"

lemma servers_kept_same: "get_server st' = get_server st \<Longrightarrow> servers_kept st st'"
  by (simp add: servers_kept_def same_server_def)

lemma same_server_trans: "same_server a b \<Longrightarrow> same_server b c \<Longrightarrow> same_server a c"
  by (simp add: same_server_def)

lemma servers_kept_trans: "servers_kept st1 st2 \<Longrightarrow> servers_kept st2 st3 \<Longrightarrow> servers_kept st1 st3"
  unfolding servers_kept_def by (meson same_server_trans)

lemma get_server_insert:
  "get_server (insert_server s st) sid = (if sid = s_id s then Some s else get_server st sid)"
  using server_table.lookup_put [of s st sid]
  by (simp add: get_server_def server_table.lookup_def)

lemma get_server_frame [simp]: "get_server (insert_proposal p st) = get_server st"
  by (rule ext) (simp add: get_server_def store_defs Let_def)

lemma get_server_update_with:
  assumes "tables_ok st" "\<And>s. s_id (f s) = s_id s"
  shows "get_server (update_server_with sid f st) sid' =
    (if sid' = sid then map_option f (get_server st sid) else get_server st sid')"
proof (cases "get_server st sid")
  case (Some s)
  then have "s_id s = sid" by (rule get_ids(2) [OF assms(1)])
  with Some assms(2) show ?thesis
    by (simp add: update_server_with_def update_is_insert get_server_insert)
qed (auto simp: update_server_with_def)

lemma get_server_update_membership [simp]:
  "get_server (update_membership_with uid sid f st) = get_server st"
  by (rule trunk_get) (simp add: update_membership_with_def split: option.split)

text \<open>The effect of a ballot on the servers: at most its own server changes, and
  only as the kind of the ballot says.\<close>

fun amend :: "proposal_kind \<Rightarrow> server \<Rightarrow> server" where
  "amend (SetGovernanceSurface enabled) s = set_governance_surface enabled s"
| "amend (AmendCriteria proposed) s = s\<lparr>s_criteria := proposed\<rparr>"
| "amend (SetJurySizing sizing) s = s\<lparr>s_jury_sizing := sizing\<rparr>"
| "amend (SetVoteWeighting scheme) s = s\<lparr>s_vote_weighting := scheme\<rparr>"
| "amend (SetWeightingScope scope) s = s\<lparr>s_weighting_scope := scope\<rparr>"
| "amend (SetRehomingPolicy b) s = s\<lparr>s_is_rehoming_disabled := b\<rparr>"
| "amend (SetInvitePolicy pol) s = s\<lparr>s_invite_policy := pol\<rparr>"
| "amend _ s = s"

lemma get_server_trunk: "trunk st' = trunk st \<Longrightarrow> get_server st' sid = get_server st sid"
  using trunk_get(2) by metis

lemma apply_kind_amends:
  "amend k = (\<lambda>s. s) \<and> (\<forall>st. trunk (apply_kind sid now k st) = trunk st) \<or>
   apply_kind sid now k = update_server_with sid (amend k)"
proof (cases k)
qed (auto simp: fun_eq_iff Let_def split_beta update_membership_with_def amend.simps [abs_def]
    split: option.split)

lemma amend_id: "s_id (amend k s) = s_id s"
  by (cases k) (simp_all add: set_governance_surface_def)

lemma get_server_apply_kind:
  assumes "tables_ok st"
  shows "get_server (apply_kind sid now k st) sid' =
    (if sid' = sid then map_option (amend k) (get_server st sid) else get_server st sid')"
  using apply_kind_amends [of k sid now]
proof
  assume *: "amend k = (\<lambda>s. s) \<and> (\<forall>st. trunk (apply_kind sid now k st) = trunk st)"
  then have "get_server (apply_kind sid now k st) sid' = get_server st sid'"
    by (intro get_server_trunk) simp
  with * show ?thesis by (simp add: option.map_ident)
next
  assume "apply_kind sid now k = update_server_with sid (amend k)"
  then show ?thesis by (simp add: get_server_update_with [OF assms amend_id])
qed

lemma same_server_amend: "same_server s (amend k s)"
  by (cases k) (simp_all add: same_server_def set_governance_surface_def)

lemma get_server_resolve_step:
  assumes "tables_ok st"
  shows "get_server (resolve_step s c ph now st p) sid =
    (let q = (if due now p then close p (weighted_tally st s p now) c ph now else p)
     in if matured now q \<and> \<not> p_is_applied p \<and> sid = p_server_id p
        then map_option (amend (p_kind p)) (get_server st sid) else get_server st sid)"
  using assms
  by (auto simp: resolve_step_def close_if_due_def apply_if_matured_def apply_effect_def due_def
      matured_def Let_def update_is_insert get_server_apply_kind tables_ok_ops
      split: proposal_status.split)

lemma servers_kept_resolve_step: "tables_ok st \<Longrightarrow> servers_kept st (resolve_step s c ph now st p)"
  by (auto simp: servers_kept_def get_server_resolve_step Let_def same_server_amend)
     (auto simp: same_server_def)

lemma servers_kept_resolve_due:
  assumes "store_ok st"
  shows "servers_kept st (resolve_due env sl st)"
  by (rule resolve_due_invariant [where Q = "servers_kept st", OF assms])
     (auto intro: servers_kept_same servers_kept_trans servers_kept_resolve_step)

section \<open>A second call does nothing\<close>

lemma resolve_due_settled:
  assumes "store_ok st" "find_by_slug st (trim sl) = Some s"
    "get_proposal (resolve_due env sl st) pid = Some p" "p_server_id p = s_id s"
  shows "settled (env_now env) p"
proof (cases "get_proposal st pid")
  case None
  then show ?thesis using resolve_due_no_new_ballot [OF assms(1)] assms(3) by simp
next
  case (Some q)
  show ?thesis
  proof (cases "p_server_id q = s_id s")
    case True
    then show ?thesis
      using resolve_due_ballot [OF assms(1,2) Some, of env] assms(3) settled_resolved by auto
  next
    case False
    then have "get_proposal (resolve_due env sl st) pid = Some q"
      using assms(2) by (intro resolve_due_other_ballot [OF assms(1) Some]) simp
    with False assms(3,4) show ?thesis by simp
  qed
qed

lemma find_by_slug_kept:
  assumes "store_ok st" "store_ok st'" "servers_kept st st'" "find_by_slug st sl = Some s"
  shows "\<exists>s'. find_by_slug st' sl = Some s' \<and> same_server s s'"
proof -
  have s: "get_server st (s_id s) = Some s" "s_slug s = sl"
    using find_gets(2) [OF store_ok_tables [OF assms(1)] assms(4)] by auto
  then obtain s' where s': "get_server st' (s_id s) = Some s'" "same_server s s'"
    using assms(3) by (auto simp: servers_kept_def)
  then have "s' \<in> set (hm_values (servers st'))"
    using assms(2) by (auto simp: store_ok_def tables_ok_def get_server_def hm_keyed_values
        same_server_def)
  then have "find_by_slug st' (s_slug s') = Some s'"
    using server_table.find_by_unique [of st' s'] assms(2) by (simp add: store_ok_def names_ok_def)
  with s s' show ?thesis by (auto simp: same_server_def)
qed

lemma foldl_id: "(\<And>x. x \<in> set xs \<Longrightarrow> f s x = s) \<Longrightarrow> foldl f s xs = s"
  by (induction xs) simp_all

lemma resolve_due_twice:
  assumes "store_ok st"
  shows "resolve_due env sl (resolve_due env sl st) = resolve_due env sl st"
proof (cases "find_by_slug st (trim sl)")
  case (Some s)
  let ?st = "resolve_due env sl st"
  have ok: "store_ok ?st" using assms by (rule resolve_due_ok)
  obtain s' where s': "find_by_slug ?st (trim sl) = Some s'" "same_server s s'"
    using find_by_slug_kept [OF assms ok servers_kept_resolve_due [OF assms] Some] by blast
  have "settled (env_now env) p" if "p \<in> set (list_proposals_for_server ?st (s_id s'))" for p
    using resolve_due_settled [OF assms Some] list_proposals_on_file [OF store_ok_tables [OF ok] that]
      s'(2) by (simp add: same_server_def)
  then show ?thesis
    using s'(1) by (simp add: resolve_due_def [of env sl ?st] Let_def foldl_id resolve_step_settled)
next
  case None
  then show ?thesis by (simp add: resolve_due_def)
qed

section \<open>Over the commands\<close>

lemma fresh_server:
  assumes "store_ok st" "ids_ok st" "capacity st"
  shows "get_server st (fst (next_server_id st)) = None"
proof (cases "get_server st (fst (next_server_id st))")
  case (Some s)
  have "next_server st < MAX_SEQUENCE" using assms(3) by (simp add: capacity_def)
  from server_ids.next_id_fresh [OF this ids_ok_get(2) [OF assms(1,2) Some]] show ?thesis by simp
qed simp

lemma fresh_proposal:
  assumes "store_ok st" "ids_ok st" "capacity st"
  shows "get_proposal st (fst (next_proposal_id st)) = None"
proof (cases "get_proposal st (fst (next_proposal_id st))")
  case (Some p)
  have "next_proposal st < MAX_SEQUENCE" using assms(3) by (simp add: capacity_def)
  from proposal_ids.next_id_fresh [OF this ids_ok_get(3) [OF assms(1,2) Some]] show ?thesis by simp
qed simp

lemma get_frames [simp]:
  "get_server (snd (next_server_id st)) = get_server st"
  "get_server (snd (next_proposal_id st)) = get_server st"
  "get_server (upsert_membership m st) = get_server st"
  "get_proposal (snd (next_proposal_id st)) = get_proposal st"
  "get_proposal (snd (next_server_id st)) = get_proposal st"
  "get_proposal (upsert_membership m st) = get_proposal st"
  by (rule trunk_get, simp)+

lemma get_insert_frames [simp]:
  "get_server (insert_user u st) = get_server st" "get_proposal (insert_user u st) = get_proposal st"
  "get_proposal (insert_server s st) = get_proposal st"
  by (rule ext, simp add: get_server_def get_proposal_def store_defs Let_def)+

lemma get_account_calls [simp]:
  "get_server (snd (register_account env h st)) = get_server st"
  "get_server (snd (register_with_password env raw h em pw st)) = get_server st"
  "get_server (snd (verify_email env tok st)) = get_server st"
  "get_server (snd (set_password env h pw st)) = get_server st"
  "get_server (snd (set_dm_policy h pol st)) = get_server st"
  "get_proposal (snd (register_account env h st)) = get_proposal st"
  "get_proposal (snd (register_with_password env raw h em pw st)) = get_proposal st"
  "get_proposal (snd (verify_email env tok st)) = get_proposal st"
  "get_proposal (snd (set_password env h pw st)) = get_proposal st"
  "get_proposal (snd (set_dm_policy h pol st)) = get_proposal st"
proof -
  have f: "get_server (snd (next_user_id st')) = get_server st'"
      "get_server (add_token th uid t st') = get_server st'"
      "get_server (snd (take_token th t st')) = get_server st'"
      "get_proposal (snd (next_user_id st')) = get_proposal st'"
      "get_proposal (add_token th uid t st') = get_proposal st'"
      "get_proposal (snd (take_token th t st')) = get_proposal st'" for th uid t st'
    by (rule trunk_get, simp)+
  note defs = register_account_def register_with_password_def verify_email_def set_password_def
    set_dm_policy_def
  show "get_server (snd (register_account env h st)) = get_server st"
    "get_server (snd (register_with_password env raw h em pw st)) = get_server st"
    "get_server (snd (verify_email env tok st)) = get_server st"
    "get_server (snd (set_password env h pw st)) = get_server st"
    "get_server (snd (set_dm_policy h pol st)) = get_server st"
    by (simp_all add: defs Let_def split_beta update_is_insert f split: option.split sum.split)
  show "get_proposal (snd (register_account env h st)) = get_proposal st"
    "get_proposal (snd (register_with_password env raw h em pw st)) = get_proposal st"
    "get_proposal (snd (verify_email env tok st)) = get_proposal st"
    "get_proposal (snd (set_password env h pw st)) = get_proposal st"
    "get_proposal (snd (set_dm_policy h pol st)) = get_proposal st"
    by (simp_all add: defs Let_def split_beta update_is_insert f split: option.split sum.split)
qed

lemma get_server_open_proposal [simp]:
  "get_server (snd (open_proposal env h sl k st)) = get_server st"
  by (simp add: open_proposal_def Let_def split_beta split: option.split)

lemma get_proposal_found_server [simp]:
  "get_proposal (snd (found_server_with_visibility env h nm priv st)) = get_proposal st"
  by (simp add: found_server_with_visibility_def Let_def split_beta split: option.split)

lemma get_server_found_server:
  assumes "store_ok st" "ids_ok st" "capacity st" "get_server st sid = Some s"
  shows "get_server (snd (found_server_with_visibility env h nm priv st)) sid = Some s"
  using assms fresh_server [OF assms(1-3)]
  by (auto simp: found_server_with_visibility_def Let_def split_beta get_server_insert
      split: option.split)

lemma get_proposal_open_proposal:
  assumes "store_ok st" "ids_ok st" "capacity st" "get_proposal st pid = Some p"
  shows "get_proposal (snd (open_proposal env h sl k st)) pid = Some p"
  using assms fresh_proposal [OF assms(1-3)]
  by (auto simp: open_proposal_def Let_def split_beta get_proposal_insert proposal_new_def
      split: option.split)

lemma exec_servers:
  assumes "store_ok st" "ids_ok st" "capacity st" "get_server st sid = Some s"
  shows "(\<exists>sl. cmd = Cmd_resolve_due sl) \<or> get_server (exec env cmd st) sid = Some s"
proof (cases "touches_trunk cmd")
  case False
  then show ?thesis
    using trunk_get(2) [OF exec_trunk [OF store_ok_tables [OF assms(1)]]] assms(4) by metis
next
  case True
  then show ?thesis
    using get_server_found_server [OF assms] assms(4) by (cases cmd) simp_all
qed

lemma exec_servers_kept:
  assumes "store_ok st" "ids_ok st" "capacity st"
  shows "servers_kept st (exec env cmd st)"
proof (cases "\<exists>sl. cmd = Cmd_resolve_due sl")
  case True
  then show ?thesis using servers_kept_resolve_due [OF assms(1)] by auto
next
  case False
  then show ?thesis
    using exec_servers [OF assms, of _ _ cmd env] by (auto simp: servers_kept_def same_server_def)
qed

lemma exec_ballots:
  assumes "store_ok st" "ids_ok st" "capacity st" "get_proposal st pid = Some p"
  shows "(\<exists>sl. cmd = Cmd_resolve_due sl) \<or> get_proposal (exec env cmd st) pid = Some p"
proof (cases "touches_trunk cmd")
  case False
  then show ?thesis
    using trunk_get(3) [OF exec_trunk [OF store_ok_tables [OF assms(1)]]] assms(4) by metis
next
  case True
  then show ?thesis
    using get_proposal_open_proposal [OF assms] assms(4) by (cases cmd) simp_all
qed

lemma exec_ballots_kept:
  assumes "store_ok st" "ids_ok st" "capacity st"
  shows "ballots_kept st (exec env cmd st)"
proof (cases "\<exists>sl. cmd = Cmd_resolve_due sl")
  case True
  then show ?thesis using ballots_kept_resolve_due [OF assms(1)] by auto
next
  case False
  then show ?thesis using exec_ballots [OF assms, of _ _ cmd env] by (auto simp: ballots_kept_def)
qed

end
