(* ===== verification/Charter.thy ===== *)
theory Charter
  imports Ballot_Life
begin

text \<open>
  The timelock, and what a charter change needs. \<open>ballots_ok\<close> is the invariant
  that a ballot runs three days and that a passed constitutional one waits
  seven more; \<open>mandate\<close> is a passed, matured ballot on file asking for a given
  change.
\<close>

section \<open>The timelock\<close>

definition ballot_ok :: "proposal \<Rightarrow> bool" where
  "ballot_ok p =
     (p_closes_at p = plus_days (p_opened_at p) 3 \<and>
      (p_is_applied p \<longrightarrow> (\<exists>eff. p_status p = Passed eff)) \<and>
      (\<forall>eff. p_status p = Passed eff \<longrightarrow> p_closes_at p \<le> eff \<and>
         (decision_class_of (p_kind p) = Constitutional \<longrightarrow> plus_days (p_closes_at p) 7 \<le> eff)))"

definition ballots_ok :: "inner \<Rightarrow> bool" where
  "ballots_ok st = (\<forall>pid p. get_proposal st pid = Some p \<longrightarrow> ballot_ok p)"

lemma plus_days_mono: "s \<le> t \<Longrightarrow> plus_days s d \<le> plus_days t d"
  by (simp add: plus_days_def less_eq_timestamp_def)

lemma plus_days_increasing: "0 \<le> d \<Longrightarrow> t \<le> plus_days t d"
  by (simp add: plus_days_def less_eq_timestamp_def SECONDS_PER_DAY_def)

lemma plus_days_plus_days: "plus_days (plus_days t a) b = plus_days t (a + b)"
  by (simp add: plus_days_def algebra_simps)

lemma ballot_ok_new: "ballot_ok (proposal_new pid sid u k now (plus_days now VOTING_WINDOW_DAYS))"
  by (simp add: ballot_ok_def proposal_new_def VOTING_WINDOW_DAYS_def)

lemma ballot_ok_close:
  assumes "ballot_ok p" "due now p"
  shows "ballot_ok (close p t c ph now)"
  using assms plus_days_mono [of "p_closes_at p" now 7] plus_days_increasing [of 7 now]
  by (auto simp: ballot_ok_def due_def close_status_Passed close_def
      intro: order.trans [of _ now])

lemma ballot_ok_resolved: "ballot_ok p \<Longrightarrow> ballot_ok (resolved t c ph now p)"
proof -
  have app: "ballot_ok q \<Longrightarrow> matured now q \<Longrightarrow> ballot_ok (q\<lparr>p_is_applied := True\<rparr>)" for q
    by (auto simp: ballot_ok_def matured_def split: proposal_status.splits)
  assume "ballot_ok p"
  then show ?thesis by (auto simp: resolved_def Let_def intro: app ballot_ok_close)
qed

lemma ballots_ok_resolve_due:
  assumes "store_ok st" "ballots_ok st"
  shows "ballots_ok (resolve_due env sl st)"
  unfolding ballots_ok_def
proof (intro allI impI)
  fix pid p' assume p': "get_proposal (resolve_due env sl st) pid = Some p'"
  then obtain p where p: "get_proposal st pid = Some p"
    using resolve_due_no_new_ballot [OF assms(1), of pid env sl] by (cases "get_proposal st pid") auto
  then have ok: "ballot_ok p" using assms(2) by (simp add: ballots_ok_def)
  show "ballot_ok p'"
  proof (cases "\<exists>s. find_by_slug st (trim sl) = Some s \<and> p_server_id p = s_id s")
    case True
    then obtain t c ph where "p' = resolved t c ph (env_now env) p"
      using resolve_due_ballot [OF assms(1) _ p, of sl _ env] p' by auto
    then show ?thesis using ok ballot_ok_resolved by simp
  next
    case False
    then have "get_proposal (resolve_due env sl st) pid = Some p"
      by (intro resolve_due_other_ballot [OF assms(1) p]) simp
    then show ?thesis using ok p' by simp
  qed
qed

lemma ballots_ok_open_proposal: "ballots_ok st \<Longrightarrow> ballots_ok (snd (open_proposal env h sl k st))"
  by (auto simp: ballots_ok_def open_proposal_def Let_def split_beta get_proposal_insert
      ballot_ok_new split: option.splits if_splits)

lemma ballots_ok_same: "get_proposal st' = get_proposal st \<Longrightarrow> ballots_ok st' = ballots_ok st"
  by (simp add: ballots_ok_def)

lemma exec_ballots_ok:
  assumes "store_ok st" "ballots_ok st"
  shows "ballots_ok (exec env cmd st)"
proof (cases "touches_trunk cmd")
  case False
  then show ?thesis
    using ballots_ok_same [OF trunk_get(3) [OF exec_trunk [OF store_ok_tables [OF assms(1)] False]]]
      assms(2) by simp
next
  case True
  then show ?thesis
    using ballots_ok_resolve_due [OF assms] ballots_ok_open_proposal [OF assms(2)] assms(2)
    by (cases cmd) (simp_all add: ballots_ok_def)
qed

lemma ballots_ok_fresh: "ballots_ok (with_node n empty_store)"
  by (simp add: ballots_ok_def with_node_def empty_store_def get_proposal_def)

lemma live_ballots_ok: "live st \<Longrightarrow> ballots_ok st"
  by (induction rule: live.induct) (simp_all add: ballots_ok_fresh exec_ballots_ok live_ok)

section \<open>Charter changes\<close>

definition mandate :: "inner \<Rightarrow> timestamp \<Rightarrow> server_id \<Rightarrow> proposal_kind \<Rightarrow> bool" where
  "mandate st now sid k =
     (\<exists>p. get_proposal st (p_id p) = Some p \<and> p_server_id p = sid \<and> p_kind p = k \<and>
        matured now p \<and> \<not> p_is_applied p)"

text \<open>Every constitutional field either stays or is what a matured ballot set.\<close>

definition charter_mandated :: "inner \<Rightarrow> timestamp \<Rightarrow> server \<Rightarrow> server \<Rightarrow> bool" where
  "charter_mandated st now s s' =
     ((s_criteria s' = s_criteria s \<or> mandate st now (s_id s) (AmendCriteria (s_criteria s'))) \<and>
      (s_vote_weighting s' = s_vote_weighting s \<or>
       mandate st now (s_id s) (SetVoteWeighting (s_vote_weighting s'))) \<and>
      (s_weighting_scope s' = s_weighting_scope s \<or>
       mandate st now (s_id s) (SetWeightingScope (s_weighting_scope s'))) \<and>
      (s_is_rehoming_disabled s' = s_is_rehoming_disabled s \<or>
       mandate st now (s_id s) (SetRehomingPolicy (s_is_rehoming_disabled s'))))"

lemma charter_mandated_amend:
  assumes "charter_mandated st now s s'"
    "decision_class_of k = Constitutional \<Longrightarrow> mandate st now (s_id s) k"
  shows "charter_mandated st now s (amend k s')"
  using assms
  by (cases k) (auto simp: charter_mandated_def decision_class_of_def set_governance_surface_def)

text \<open>A constitutional ballot is never closed and applied in one go.\<close>

lemma constitutional_waits:
  assumes "decision_class_of (p_kind p) = Constitutional"
    "matured now (if due now p then close p t c ph now else p)"
  shows "\<not> due now p" "matured now p"
proof -
  have "\<not> plus_days now 7 \<le> now"
    by (simp add: plus_days_def less_eq_timestamp_def SECONDS_PER_DAY_def)
  then show "\<not> due now p"
    using assms by (auto simp: matured_def close_status_Passed split: proposal_status.splits)
  then show "matured now p" using assms(2) by simp
qed

lemma charter_resolve_due:
  assumes "store_ok st" "get_server st sid = Some s" "get_server (resolve_due env sl st) sid = Some s'"
  shows "charter_mandated st (env_now env) s s'"
proof -
  let ?Q = "\<lambda>st'. \<forall>s'. get_server st' sid = Some s' \<longrightarrow> charter_mandated st (env_now env) s s'"
  have sid: "s_id s = sid" using get_ids(2) [OF store_ok_tables [OF assms(1)] assms(2)] .
  have "?Q (resolve_due env sl st)"
  proof (rule resolve_due_invariant [where Q = ?Q, OF assms(1)])
    show "?Q st" using assms(2) by (simp add: charter_mandated_def)
  next
    fix g c ph st' p
    assume q: "?Q st'" and ok: "store_ok st'" and p: "get_proposal st (p_id p) = Some p"
    let ?p = "if due (env_now env) p then close p (weighted_tally st' g p (env_now env)) c ph (env_now env)
      else p"
    have mand: "mandate st (env_now env) sid (p_kind p)"
      if "matured (env_now env) ?p" "\<not> p_is_applied p" "sid = p_server_id p"
        "decision_class_of (p_kind p) = Constitutional"
      using constitutional_waits(2) [OF that(4,1)] p that(2,3) by (auto simp: mandate_def)
    show "?Q (resolve_step g c ph (env_now env) st' p)"
    proof (intro allI impI)
      fix s' assume s': "get_server (resolve_step g c ph (env_now env) st' p) sid = Some s'"
      note gs = get_server_resolve_step [OF store_ok_tables [OF ok], of g c ph "env_now env" p sid]
      show "charter_mandated st (env_now env) s s'"
      proof (cases "matured (env_now env) ?p \<and> \<not> p_is_applied p \<and> sid = p_server_id p")
        case True
        then obtain s0 where "get_server st' sid = Some s0" "s' = amend (p_kind p) s0"
          using s' unfolding gs by (auto simp: Let_def)
        then show ?thesis
          using q mand True sid by (auto intro!: charter_mandated_amend)
      next
        case False
        then have "get_server st' sid = Some s'" using s' unfolding gs Let_def by (simp only: if_not_P if_False)
        with q show ?thesis by simp
      qed
    qed
  qed
  with assms(3) show ?thesis by simp
qed

lemma exec_charter:
  assumes "store_ok st" "ids_ok st" "capacity st" "get_server st sid = Some s"
    "get_server (exec env cmd st) sid = Some s'"
  shows "charter_mandated st (env_now env) s s'"
proof (cases "\<exists>sl. cmd = Cmd_resolve_due sl")
  case True
  then show ?thesis using charter_resolve_due [OF assms(1,4)] assms(5) by auto
next
  case False
  then have "get_server (exec env cmd st) sid = Some s"
    using exec_servers [OF assms(1-4), of cmd env] by blast
  then show ?thesis using assms(5) by (simp add: charter_mandated_def)
qed

lemma mandate_ten_days:
  assumes "ballots_ok st" "mandate st now sid k" "decision_class_of k = Constitutional"
  shows "\<exists>p. get_proposal st (p_id p) = Some p \<and> p_server_id p = sid \<and> p_kind p = k \<and>
    plus_days (p_opened_at p) 10 \<le> now"
proof -
  from assms(2) obtain p where p: "get_proposal st (p_id p) = Some p" "p_server_id p = sid"
      "p_kind p = k" "matured now p"
    by (auto simp: mandate_def)
  from p(4) obtain eff where eff: "p_status p = Passed eff" "eff \<le> now"
    by (auto simp: matured_def split: proposal_status.splits)
  have "ballot_ok p" using assms(1) p(1) by (auto simp: ballots_ok_def)
  with eff p(3) assms(3) have "plus_days (plus_days (p_opened_at p) 3) 7 \<le> eff"
    by (auto simp: ballot_ok_def)
  with eff(2) p show ?thesis by (auto simp: plus_days_plus_days)
qed

end
