(* ===== verification/Runs.thy ===== *)
theory Runs
  imports Charter
begin

text \<open>
  Runs of a node, and what lasts over them: accounts, servers, ballots,
  standing and blocks.
\<close>

inductive evolves :: "inner \<Rightarrow> inner \<Rightarrow> bool" for st where
  evolves_refl: "evolves st st"
| evolves_call: "evolves st st' \<Longrightarrow> capacity st' \<Longrightarrow> evolves st (exec env cmd st')"

lemma live_evolves: "evolves st st' \<Longrightarrow> live st \<Longrightarrow> live st'"
  by (induction rule: evolves.induct) (auto intro: live_call)

text \<open>A relation that every call from a live state respects holds over a run.\<close>

lemma evolves_invariant:
  assumes "evolves st st'" "live st" "R st st"
    and "\<And>mid env cmd. live mid \<Longrightarrow> capacity mid \<Longrightarrow> R st mid \<Longrightarrow> R st (exec env cmd mid)"
  shows "R st st'"
  using assms
proof (induction rule: evolves.induct)
  case (evolves_call st' env cmd)
  then show ?case by (blast intro: live_evolves)
qed simp

section \<open>Standing\<close>

definition standing_le :: "membership \<Rightarrow> membership \<Rightarrow> bool" where
  "standing_le m m' =
     (m_joined_at m' = m_joined_at m \<and> (is_citizen m \<longrightarrow> is_citizen m') \<and>
      (m_is_sanctioned m \<longrightarrow> m_is_sanctioned m'))"

lemma enfranchise_keeps:
  assumes "tables_ok st" "get_membership st uid sid = Some m"
  shows "\<exists>m'. get_membership (snd (try_enfranchise env h sl st)) uid sid = Some m' \<and> standing_le m m'"
  using assms(2) get_ids(3) [OF assms(1)]
  by (auto simp: try_enfranchise_def Let_def get_membership_upsert standing_le_def is_citizen_def
      split: option.splits)

lemma founding_keeps:
  assumes "store_ok st" "ids_ok st" "capacity st" "refs_ok st" "get_membership st uid sid = Some m"
  shows "\<exists>m'. get_membership (snd (found_server_with_visibility env h nm priv st)) uid sid = Some m' \<and>
    standing_le m m'"
proof -
  have "has_server st sid"
    using refs_membership(2) [OF assms(1,4,5)] get_ids(3) [OF store_ok_tables [OF assms(1)] assms(5)]
    by simp
  then have "sid \<noteq> fst (next_server_id st)"
    using fresh_server [OF assms(1-3)] by (auto simp: has_server_def)
  moreover have "get_membership (insert_server s (snd (next_server_id st))) uid sid = Some m" for s
    using assms(5) by (simp add: get_membership_def)
  ultimately show ?thesis
    using assms(5)
    by (auto simp: found_server_with_visibility_def Let_def split_beta get_membership_upsert
        standing_le_def split: option.split)
qed

lemma exec_keeps_standing:
  assumes "live st" "capacity st" "get_membership st uid sid = Some m"
  shows "\<exists>m'. get_membership (exec env cmd st) uid sid = Some m' \<and> standing_le m m'"
proof -
  note ok = live_ok [OF assms(1), THEN conjunct1] live_ok [OF assms(1), THEN conjunct2]
  consider (found) h nm priv where "cmd = Cmd_found_server h nm priv"
    | (enf) h sl where "cmd = Cmd_try_enfranchise h sl"
    | (other) "\<nexists>h nm priv. cmd = Cmd_found_server h nm priv" "\<nexists>h sl. cmd = Cmd_try_enfranchise h sl"
    by blast
  then show ?thesis
  proof cases
    case found
    then show ?thesis using founding_keeps [OF ok assms(2) live_refs_ok [OF assms(1)] assms(3)] by simp
  next
    case enf
    then show ?thesis using enfranchise_keeps [OF store_ok_tables [OF ok(1)] assms(3)] by simp
  next
    case other
    then have "standing_kept st (exec env cmd st)" by (rule exec_standing [OF ok(1)])
    from standing_keptD [OF this assms(3)] obtain m' where
      "get_membership (exec env cmd st) uid sid = Some m'" "same_standing m m'" by blast
    then show ?thesis by (simp add: same_standing_def standing_le_def is_citizen_def)
  qed
qed

lemma evolves_standing:
  assumes "evolves st st'" "live st" "get_membership st uid sid = Some m"
  shows "\<exists>m'. get_membership st' uid sid = Some m' \<and> standing_le m m'"
proof (rule evolves_invariant [where R = "\<lambda>_ st'. \<exists>m'. get_membership st' uid sid = Some m' \<and>
    standing_le m m'", OF assms(1,2)])
  show "\<exists>m'. get_membership st uid sid = Some m' \<and> standing_le m m'"
    using assms(3) by (simp add: standing_le_def)
next
  fix mid env cmd
  assume "live mid" "capacity mid" "\<exists>m'. get_membership mid uid sid = Some m' \<and> standing_le m m'"
  then show "\<exists>m'. get_membership (exec env cmd mid) uid sid = Some m' \<and> standing_le m m'"
    using exec_keeps_standing [of mid uid sid _ env cmd] unfolding standing_le_def by metis
qed

section \<open>Accounts, servers and ballots\<close>

lemma evolves_kept:
  assumes "evolves st st'" "live st"
  shows "accounts_kept st st'" "servers_kept st st'" "ballots_kept st st'"
proof -
  have acc: "accounts_kept a c" if "accounts_kept a b" "accounts_kept b c" for a b c
    using that unfolding accounts_kept_def same_account_def by metis
  have bal: "ballots_kept a c" if "ballots_kept a b" "ballots_kept b c" for a b c
    using that unfolding ballots_kept_def by (meson same_ballot_trans)
  show "accounts_kept st st'"
    by (rule evolves_invariant [OF assms, of accounts_kept])
       (auto intro: acc exec_accounts_kept dest: live_ok)
  show "servers_kept st st'"
    by (rule evolves_invariant [OF assms, of servers_kept])
       (auto intro: servers_kept_trans exec_servers_kept servers_kept_same dest: live_ok)
  show "ballots_kept st st'"
    by (rule evolves_invariant [OF assms, of ballots_kept])
       (auto intro: bal exec_ballots_kept dest: live_ok)
qed

section \<open>Blocks\<close>

lemma blocks_frame [simp]:
  "blocks (record_change en op row st) = blocks st"
  "blocks (insert_user u st) = blocks st"
  "blocks (insert_server s st) = blocks st"
  "blocks (upsert_membership m st) = blocks st"
  "blocks (insert_channel c st) = blocks st"
  "blocks (snd (remove_channel cid st)) = blocks st"
  "blocks (store_insert_message msg st) = blocks st"
  "blocks (snd (add_reaction r st)) = blocks st"
  "blocks (snd (remove_reaction mid uid em st)) = blocks st"
  "blocks (insert_proposal p st) = blocks st"
  "blocks (upsert_vote v st) = blocks st"
  "blocks (insert_emoji e st) = blocks st"
  "blocks (upsert_emoji_vote ev st) = blocks st"
  "blocks (insert_rule ru st) = blocks st"
  "blocks (snd (remove_rule rid st)) = blocks st"
  "blocks (put_keys k st) = blocks st"
  "blocks (put_grant g st) = blocks st"
  "blocks (insert_dm dm st) = blocks st"
  "blocks (snd (add_friend f st)) = blocks st"
  "blocks (update_friend f st) = blocks st"
  "blocks (snd (put_media n ct bs st)) = blocks st"
  "blocks (delete_media key st) = blocks st"
  "blocks (add_invite i st) = blocks st"
  "blocks (revoke h st) = blocks st"
  "blocks (insert_role ro st) = blocks st"
  "blocks (snd (remove_role roid st)) = blocks st"
  "blocks (snd (assign a st)) = blocks st"
  "blocks (snd (unassign roid uid st)) = blocks st"
  "blocks (snd (remember_nonce nn nc t ex st)) = blocks st"
  "blocks (add_token th uid t st) = blocks st"
  "blocks (snd (take_token th t st)) = blocks st"
  "blocks (advance_cursor peer sq st) = blocks st"
  by (simp_all add: store_defs remove_channel_def add_reaction_def remove_reaction_def
      remove_rule_def add_friend_def update_friend_def put_media_def
      delete_media_def revoke_def remove_role_def assign_def unassign_def remember_nonce_def
      add_token_def take_token_def advance_cursor_def Let_def split: option.split)

lemma blocks_next [simp]:
  "blocks (snd (next_user_id st)) = blocks st"
  "blocks (snd (next_server_id st)) = blocks st"
  "blocks (snd (next_channel_id st)) = blocks st"
  "blocks (snd (next_message_id st)) = blocks st"
  "blocks (snd (next_proposal_id st)) = blocks st"
  "blocks (snd (next_rule_id st)) = blocks st"
  "blocks (snd (next_dm_id st)) = blocks st"
  "blocks (snd (next_role_id st)) = blocks st"
  "blocks (snd (next_emoji_id st)) = blocks st"
  by (simp_all add: next_defs Let_def)

lemma blocks_add_block: "set (blocks st) \<subseteq> set (blocks (snd (add_block b st)))"
  by (auto simp: add_block_def record_change_def Let_def)

lemma blocks_delete_medias [simp]:
  "blocks (foldl (\<lambda>st a. delete_media (a_key a) st) st as) = blocks st"
  by (induction as arbitrary: st) simp_all

lemma blocks_accounts [simp]:
  "blocks (snd (register_account env h st)) = blocks st"
  "blocks (snd (register_with_password env raw h em pw st)) = blocks st"
  "blocks (snd (verify_email env tok st)) = blocks st"
  "blocks (snd (issue_resend env raw h st)) = blocks st"
  "blocks (snd (set_password env h pw st)) = blocks st"
  "blocks (snd (found_server_with_visibility env h nm priv st)) = blocks st"
  "blocks (snd (create_invite env code h sl st)) = blocks st"
  "blocks (snd (accept_invite env h code st)) = blocks st"
  "blocks (snd (revoke_invite h sl ch st)) = blocks st"
  "blocks (snd (join_server env h sl st)) = blocks st"
  "blocks (snd (try_enfranchise env h sl st)) = blocks st"
  "blocks (snd (set_contribution h sl c st)) = blocks st"
  by (simp_all add: register_account_def register_with_password_def verify_email_def
      issue_resend_def set_password_def found_server_with_visibility_def create_invite_def
      accept_invite_def revoke_invite_def join_server_def try_enfranchise_def set_contribution_def
      Let_def split_beta update_is_insert split: option.split sum.split)

lemma blocks_apply_kind [simp]: "blocks (apply_kind sid now k st) = blocks st"
  by (cases k)
     (simp_all add: Let_def split_beta update_server_with_def update_membership_with_def
       update_is_insert split: option.split)

lemma blocks_resolve_due [simp]: "blocks (resolve_due env sl st) = blocks st"
proof -
  have "blocks (resolve_step s c ph now st p) = blocks st" for s c ph now st p
    by (simp add: resolve_step_def close_if_due_def apply_if_matured_def apply_effect_def Let_def
        update_is_insert split: proposal_status.split)
  then have "blocks (foldl (resolve_step s c ph now) st ps) = blocks st" for s c ph now ps
    by (induction ps arbitrary: st) simp_all
  then show ?thesis by (simp add: resolve_due_def Let_def split: option.split)
qed

lemma blocks_governance [simp]:
  "blocks (snd (open_proposal env h sl k st)) = blocks st"
  "blocks (snd (cast_vote h pid ay st)) = blocks st"
  "blocks (snd (cast_vote_by_id v pid ay st)) = blocks st"
  by (simp_all add: open_proposal_def cast_vote_def cast_vote_by_id_def cast_vote_as_def Let_def
      split_beta split: option.split)

lemma blocks_chat [simp]:
  "blocks (snd (create_channel env h sl nm tp st)) = blocks st"
  "blocks (snd (post_message_with_attachments env h sl ch b at st)) = blocks st"
  "blocks (snd (store_media n ct bs st)) = blocks st"
  "blocks (snd (post_sealed_message env h sl ch ct ep par st)) = blocks st"
  "blocks (snd (reply_message env h pid b st)) = blocks st"
  "blocks (snd (edit_message env h mid b st)) = blocks st"
  "blocks (snd (delete_message h mid st)) = blocks st"
  "blocks (snd (set_history_sharing h sl sh st)) = blocks st"
  "blocks (snd (react h mid em st)) = blocks st"
  "blocks (snd (unreact h mid em st)) = blocks st"
  by (simp_all add: create_channel_def post_message_with_attachments_def store_media_def
      post_sealed_message_def reply_message_def edit_message_def delete_message_def
      set_history_sharing_def react_def unreact_def adjust_contribution_def
      insert_message_def Let_def split_beta update_is_insert split: option.split sum.split)

lemma blocks_content [simp]:
  "blocks (snd (add_emoji env h sl nm url st)) = blocks st"
  "blocks (snd (vote_emoji h sl eid up st)) = blocks st"
  "blocks (snd (publish_keys dec h pk ws st)) = blocks st"
  "blocks (snd (enable_channel_encryption h sl ch mode st)) = blocks st"
  "blocks (snd (grant_channel_key g sl ch ep m k st)) = blocks st"
  by (simp_all add: add_emoji_def vote_emoji_def publish_keys_def enable_channel_encryption_def
      grant_channel_key_def Let_def split_beta split: option.split sum.split)

lemma blocks_social:
  "blocks (snd (send_sealed_dm env f t fr fs st)) = blocks st"
  "blocks (snd (send_sealed_dm_by_id env i j fr fs st)) = blocks st"
  "blocks (snd (set_dm_policy h pol st)) = blocks st"
  "blocks (snd (request_friend env a b st)) = blocks st"
  "blocks (snd (request_friend_by_id env i j st)) = blocks st"
  "blocks (snd (accept_friend a b st)) = blocks st"
  "blocks (snd (accept_friend_by_id i j st)) = blocks st"
  "set (blocks st) \<subseteq> set (blocks (snd (block_user env a b st)))"
  "set (blocks st) \<subseteq> set (blocks (snd (block_user_by_id env i j st)))"
  by (simp_all add: send_sealed_dm_def send_sealed_dm_by_id_def send_sealed_dm_core_def
      set_dm_policy_def request_friend_def request_friend_by_id_def request_friend_between_def
      accept_friend_def accept_friend_by_id_def accept_friend_between_def block_user_def
      block_user_by_id_def block_between_def blocks_add_block Let_def split_beta update_is_insert
      split: option.split)

lemma exec_blocks: "tables_ok st \<Longrightarrow> set (blocks st) \<subseteq> set (blocks (exec env cmd st))"
  by (cases cmd) (simp_all add: blocks_social with_node_def snapshot_roundtrip)

lemma evolves_blocks:
  assumes "evolves st st'" "live st"
  shows "set (blocks st) \<subseteq> set (blocks st')"
proof (rule evolves_invariant [where R = "\<lambda>s t. set (blocks s) \<subseteq> set (blocks t)", OF assms])
  fix mid env cmd
  assume "live mid" "set (blocks st) \<subseteq> set (blocks mid)"
  then show "set (blocks st) \<subseteq> set (blocks (exec env cmd mid))"
    using exec_blocks [of mid env cmd] live_ok [of mid] by blast
qed simp

end
