(* ===== verification/Demo.thy ===== *)
theory Demo
  imports Runs
begin

text \<open>
  A worked run of a node, used to evaluate the theorems on: Ann and Bob
  register, Ann founds Town, Bob joins it and earns the vote, a ballot is
  opened, voted on and resolved, and messages are posted. Each state is given
  by the fields the run has changed.
\<close>

section \<open>The environment\<close>

definition demo_env :: "int \<Rightarrow> env" where
  "demo_env day =
     \<lparr> env_now = Timestamp (day * 86400), env_email_verification = Off, env_email_key = None,
       env_hash_password = (\<lambda>p. Some (''h:'' @ p)), env_verify_password = (\<lambda>p h. h = ''h:'' @ p),
       env_seal_email = (\<lambda>k e. e), env_open_email = (\<lambda>k e. Some e),
       env_sha256 = map of_char \<rparr>"

lemma demo_env_now [simp]: "env_now (demo_env day) = Timestamp (day * 86400)"
  by (simp add: demo_env_def)

lemma demo_trim [simp]:
  "trim ''ann'' = ''ann''" "trim ''bob'' = ''bob''" "trim ''Town'' = ''Town''" "trim ''town'' = ''town''"
  "trim ''hi'' = ''hi''"
  by (rule trim_ascii_id; simp add: is_whitespace_def)+

lemma demo_slug [simp]: "slugify ''Town'' = ''town''" "normalize_channel_name ''general'' = ''general''"
  by (simp_all add: normalize_channel_name_def slugify_def chars_ascii hyphenate_step_def
      is_ascii_alphanumeric_def to_ascii_lowercase_def ascii_char_def char_of_def bit_0)

lemma demo_ids [simp]:
  "compose_id (NodeId 0) 1 = 1" "compose_id (NodeId 0) 2 = 2"
  by (simp_all add: compose_id_bootstrap MAX_SEQUENCE_def SEQUENCE_MASK_def SEQUENCE_BITS_def)

lemma capacity_small:
  "next_user st \<le> 9 \<Longrightarrow> next_server st \<le> 9 \<Longrightarrow> next_message st \<le> 9 \<Longrightarrow> next_proposal st \<le> 9 \<Longrightarrow>
   capacity st"
  by (auto simp: capacity_def MAX_SEQUENCE_def SEQUENCE_MASK_def SEQUENCE_BITS_def
      intro: order.strict_trans1)

lemmas demo_step = Let_def split_beta store_defs next_defs find_by_handle_def find_by_slug_def
  get_membership_def get_user_def get_server_def get_proposal_def hm_values_def hm_get_def
  hm_insert_def

section \<open>Accounts and the server\<close>

definition ann :: user where
  "ann = (user_new (UserId 1) ''ann'' (Timestamp 0))\<lparr>u_email_verified := True\<rparr>"

definition bob :: user where
  "bob = (user_new (UserId 2) ''bob'' (Timestamp 0))\<lparr>u_email_verified := True\<rparr>"

definition town :: server where
  "town = (server_new (ServerId 1) ''town'' ''Town'' (UserId 1) (Timestamp 0))\<lparr>s_is_private := False\<rparr>"

definition ann_in_town :: membership where
  "ann_in_town = (joined (UserId 1) (ServerId 1) (Timestamp 0))
     \<lparr>m_tier := Citizen, m_enfranchised_at := Some (Timestamp 0)\<rparr>"

lemma demo_rows [simp]:
  "u_id ann = UserId 1" "u_handle ann = ''ann''" "\<not> u_is_franchise_barred ann"
  "u_id bob = UserId 2" "u_handle bob = ''bob''" "\<not> u_is_franchise_barred bob"
  "u_created_at bob = Timestamp 0" "u_dm_policy ann = Everyone" "u_dm_policy bob = Everyone"
  "s_id town = ServerId 1" "s_slug town = ''town''" "s_founder_id town = UserId 1"
  "m_user_id ann_in_town = UserId 1" "m_server_id ann_in_town = ServerId 1"
  "m_tier ann_in_town = Citizen" "\<not> m_is_sanctioned ann_in_town"
  "m_enfranchised_at ann_in_town = Some (Timestamp 0)"
  by (simp_all add: ann_def bob_def town_def ann_in_town_def user_new_def)

definition demo0 :: inner where
  "demo0 = with_node (NodeId 0) empty_store"

definition demo1 :: inner where
  "demo1 = exec (demo_env 0) (Cmd_register_account ''ann'') demo0"

definition demo2 :: inner where
  "demo2 = exec (demo_env 0) (Cmd_register_account ''bob'') demo1"

definition demo3 :: inner where
  "demo3 = exec (demo_env 0) (Cmd_found_server ''ann'' ''Town'' False) demo2"

definition demo4 :: inner where
  "demo4 = exec (demo_env 0) (Cmd_join_server ''bob'' ''town'') demo3"

lemma demo0_fields [simp]:
  "users demo0 = []" "servers demo0 = []" "memberships demo0 = []" "channels demo0 = []"
  "messages demo0 = []" "proposals demo0 = []" "votes demo0 = []" "reactions demo0 = []"
  "blocks demo0 = []" "friends demo0 = []" "rules demo0 = []" "node demo0 = NodeId 0"
  "next_user demo0 = 0" "next_server demo0 = 0" "next_message demo0 = 0" "next_proposal demo0 = 0"
  "next_channel demo0 = 0" "next_rule demo0 = 0"
  by (simp_all add: demo0_def with_node_def empty_store_def)

lemma demo1_fields [simp]:
  "users demo1 = [(UserId 1, ann)]" "servers demo1 = []" "memberships demo1 = []" "channels demo1 = []"
  "messages demo1 = []" "proposals demo1 = []" "votes demo1 = []" "reactions demo1 = []"
  "blocks demo1 = []" "friends demo1 = []" "rules demo1 = []" "node demo1 = NodeId 0"
  "next_user demo1 = 1" "next_server demo1 = 0" "next_message demo1 = 0" "next_proposal demo1 = 0"
  "next_channel demo1 = 0" "next_rule demo1 = 0"
  by (simp_all add: demo1_def register_account_def demo_step flip: ann_def)

lemma demo2_fields [simp]:
  "users demo2 = [(UserId 1, ann), (UserId 2, bob)]" "servers demo2 = []"
  "memberships demo2 = []" "channels demo2 = []" "messages demo2 = []" "proposals demo2 = []"
  "votes demo2 = []" "reactions demo2 = []" "blocks demo2 = []" "friends demo2 = []"
  "rules demo2 = []" "node demo2 = NodeId 0" "next_user demo2 = 2" "next_server demo2 = 0"
  "next_message demo2 = 0" "next_proposal demo2 = 0" "next_channel demo2 = 0"
  "next_rule demo2 = 0"
  by (simp_all add: demo2_def register_account_def demo_step flip: bob_def)

lemma demo3_fields [simp]:
  "users demo3 = [(UserId 1, ann), (UserId 2, bob)]" "servers demo3 = [(ServerId 1, town)]"
  "memberships demo3 = [((UserId 1, ServerId 1), ann_in_town)]" "channels demo3 = []"
  "messages demo3 = []" "proposals demo3 = []" "votes demo3 = []" "reactions demo3 = []"
  "blocks demo3 = []" "friends demo3 = []" "rules demo3 = []" "node demo3 = NodeId 0"
  "next_user demo3 = 2" "next_server demo3 = 1" "next_message demo3 = 0"
  "next_proposal demo3 = 0" "next_channel demo3 = 0" "next_rule demo3 = 0"
  by (simp_all add: demo3_def found_server_with_visibility_def demo_step
      flip: town_def ann_in_town_def)

lemma demo4_fields [simp]:
  "users demo4 = [(UserId 1, ann), (UserId 2, bob)]" "servers demo4 = [(ServerId 1, town)]"
  "memberships demo4 = [((UserId 1, ServerId 1), ann_in_town), ((UserId 2, ServerId 1), joined (UserId 2) (ServerId 1) (Timestamp 0))]"
  "channels demo4 = []" "messages demo4 = []" "proposals demo4 = []" "votes demo4 = []"
  "reactions demo4 = []" "blocks demo4 = []" "friends demo4 = []" "rules demo4 = []"
  "node demo4 = NodeId 0" "next_user demo4 = 2" "next_server demo4 = 1" "next_message demo4 = 0"
  "next_proposal demo4 = 0" "next_channel demo4 = 0" "next_rule demo4 = 0"
  by (simp_all add: demo4_def join_server_def demo_step)

section \<open>Bob earns the vote\<close>

definition bob_in_town :: membership where
  "bob_in_town = (joined (UserId 2) (ServerId 1) (Timestamp 0))\<lparr>m_contribution := 5\<rparr>"

definition bob_citizen :: membership where
  "bob_citizen = bob_in_town\<lparr>m_tier := Citizen, m_enfranchised_at := Some (Timestamp 2592000)\<rparr>"

lemma demo_more_rows [simp]:
  "m_user_id bob_in_town = UserId 2" "m_server_id bob_in_town = ServerId 1"
  "m_tier bob_in_town = Member" "\<not> m_is_sanctioned bob_in_town" "m_contribution bob_in_town = 5"
  "m_joined_at bob_in_town = Timestamp 0" "m_enfranchised_at bob_in_town = None"
  "m_user_id bob_citizen = UserId 2" "m_server_id bob_citizen = ServerId 1"
  "m_tier bob_citizen = Citizen" "\<not> m_is_sanctioned bob_citizen"
  "m_enfranchised_at bob_citizen = Some (Timestamp 2592000)"
  "s_criteria town = platform_default" "s_enabled_ballots town = platform_default_surface"
  "s_weighting_scope town = Both" "s_vote_weighting town = Equal"
  by (simp_all add: bob_in_town_def bob_citizen_def town_def server_new_def)

definition demo5 :: inner where
  "demo5 = exec (demo_env 1) (Cmd_set_contribution ''bob'' ''town'' 5) demo4"

definition demo6 :: inner where
  "demo6 = exec (demo_env 30) (Cmd_try_enfranchise ''bob'' ''town'') demo5"

lemma demo5_fields [simp]:
  "users demo5 = [(UserId 1, ann), (UserId 2, bob)]" "servers demo5 = [(ServerId 1, town)]"
  "memberships demo5 = [((UserId 1, ServerId 1), ann_in_town), ((UserId 2, ServerId 1), bob_in_town)]"
  "channels demo5 = []" "messages demo5 = []" "proposals demo5 = []" "votes demo5 = []"
  "reactions demo5 = []" "blocks demo5 = []" "friends demo5 = []" "rules demo5 = []"
  "node demo5 = NodeId 0" "next_user demo5 = 2" "next_server demo5 = 1" "next_message demo5 = 0"
  "next_proposal demo5 = 0" "next_channel demo5 = 0" "next_rule demo5 = 0"
  by (simp_all add: demo5_def set_contribution_def demo_step flip: bob_in_town_def)

lemma demo5_slots:
  "enfranchisement_slots (citizen_count demo5 (ServerId 1))
     (admitted_since demo5 (ServerId 1) (window_start (Timestamp 2592000))) \<noteq> 0"
  by (simp add: citizen_count_def admitted_since_def hm_values_def is_citizen_def window_start_def
      RATE_CAP_WINDOW_DAYS_def SECONDS_PER_DAY_def less_eq_timestamp_def
      enfranchisement_slots_def Let_def saturating_mul_def saturating_add_def saturating_sub_def)

lemma demo5_eligible:
  "is_eligible (evaluate_eligibility bob bob_in_town platform_default (Timestamp 2592000))"
  by (simp add: is_eligible_iff meets_criteria_def platform_default_def plus_days_def
      SECONDS_PER_DAY_def less_eq_timestamp_def)

lemma demo6_fields [simp]:
  "users demo6 = [(UserId 1, ann), (UserId 2, bob)]" "servers demo6 = [(ServerId 1, town)]"
  "memberships demo6 = [((UserId 1, ServerId 1), ann_in_town), ((UserId 2, ServerId 1), bob_citizen)]"
  "channels demo6 = []" "messages demo6 = []" "proposals demo6 = []" "votes demo6 = []"
  "reactions demo6 = []" "blocks demo6 = []" "friends demo6 = []" "rules demo6 = []"
  "node demo6 = NodeId 0" "next_user demo6 = 2" "next_server demo6 = 1" "next_message demo6 = 0"
  "next_proposal demo6 = 0" "next_channel demo6 = 0" "next_rule demo6 = 0"
  using demo5_slots demo5_eligible
  by (simp_all add: demo6_def try_enfranchise_def demo_step is_citizen_def flip: bob_citizen_def)

section \<open>A ballot\<close>

definition kind_rule :: proposal where
  "kind_rule = proposal_new (ProposalId 1) (ServerId 1) (UserId 1) (AddRule ''be kind'')
     (Timestamp 2592000) (Timestamp 2851200)"

lemma kind_rule_simps [simp]:
  "p_id kind_rule = ProposalId 1" "p_server_id kind_rule = ServerId 1"
  "p_kind kind_rule = AddRule ''be kind''" "p_status kind_rule = Open" "\<not> p_is_applied kind_rule"
  "p_closes_at kind_rule = Timestamp 2851200"
  by (simp_all add: kind_rule_def proposal_new_def)

definition demo7 :: inner where
  "demo7 = exec (demo_env 30) (Cmd_open_proposal ''ann'' ''town'' (AddRule ''be kind'')) demo6"

definition demo8 :: inner where
  "demo8 = exec (demo_env 31) (Cmd_cast_vote ''bob'' 1 True) demo7"

definition demo9 :: inner where
  "demo9 = exec (demo_env 33) (Cmd_resolve_due ''town'') demo8"

lemma demo_citizens [simp]:
  "citizen_count demo6 (ServerId 1) = 2"
  by (simp add: citizen_count_def hm_values_def is_citizen_def)

lemma demo_seed [simp]: "from_citizen_count 2 = Seed"
  by (simp add: from_citizen_count_def SOVEREIGN_AT_def CHARTERING_AT_def)

lemma demo7_fields [simp]:
  "users demo7 = [(UserId 1, ann), (UserId 2, bob)]" "servers demo7 = [(ServerId 1, town)]"
  "memberships demo7 = [((UserId 1, ServerId 1), ann_in_town), ((UserId 2, ServerId 1), bob_citizen)]"
  "channels demo7 = []" "messages demo7 = []" "proposals demo7 = [(ProposalId 1, kind_rule)]"
  "votes demo7 = []" "reactions demo7 = []" "blocks demo7 = []" "friends demo7 = []"
  "rules demo7 = []" "node demo7 = NodeId 0" "next_user demo7 = 2" "next_server demo7 = 1"
  "next_message demo7 = 0" "next_proposal demo7 = 1" "next_channel demo7 = 0"
  "next_rule demo7 = 0"
  by (simp_all add: demo7_def open_proposal_def franchised_member_def is_franchised_def
      is_citizen_def governs_def platform_default_surface_def always_on_def ballot_kind_of_def
      decision_class_of_def threshold_for_def VOTING_WINDOW_DAYS_def plus_days_def
      SECONDS_PER_DAY_def demo_step flip: kind_rule_def)

lemma demo8_fields [simp]:
  "users demo8 = [(UserId 1, ann), (UserId 2, bob)]" "servers demo8 = [(ServerId 1, town)]"
  "memberships demo8 = [((UserId 1, ServerId 1), ann_in_town), ((UserId 2, ServerId 1), bob_citizen)]"
  "channels demo8 = []" "messages demo8 = []" "proposals demo8 = [(ProposalId 1, kind_rule)]"
  "votes demo8 = [vote_new (ProposalId 1) (UserId 2) True]" "reactions demo8 = []"
  "blocks demo8 = []" "friends demo8 = []" "rules demo8 = []" "node demo8 = NodeId 0"
  "next_user demo8 = 2" "next_server demo8 = 1" "next_message demo8 = 0"
  "next_proposal demo8 = 1" "next_channel demo8 = 0" "next_rule demo8 = 0"
  by (simp_all add: demo8_def cast_vote_def cast_vote_as_def franchised_member_def
      is_franchised_def is_citizen_def demo_step)

lemma demo8_citizens [simp]: "citizen_count demo8 (ServerId 1) = 2"
  by (simp add: citizen_count_def hm_values_def is_citizen_def)

lemma demo8_tally [simp]: "weighted_tally demo8 town kind_rule now = \<lparr> aye = 1, nay = 0 \<rparr>"
  by (simp add: weighted_tally_def list_for_proposal_def vote_new_def tally_step_def
      ballot_weight_def get_membership_def hm_get_def is_franchised_def is_citizen_def
      applies_to_ballots_def)

section \<open>Live states\<close>

lemma demo_live: "live demo1" "live demo2" "live demo3" "live demo4" "live demo5" "live demo6"
    "live demo7" "live demo8"
proof -
  show 1: "live demo1" unfolding demo1_def demo0_def
    by (intro live_call live_fresh capacity_small) (simp_all flip: demo0_def)
  show 2: "live demo2" unfolding demo2_def by (intro live_call 1 capacity_small) simp_all
  show 3: "live demo3" unfolding demo3_def by (intro live_call 2 capacity_small) simp_all
  show 4: "live demo4" unfolding demo4_def by (intro live_call 3 capacity_small) simp_all
  show 5: "live demo5" unfolding demo5_def by (intro live_call 4 capacity_small) simp_all
  show 6: "live demo6" unfolding demo6_def by (intro live_call 5 capacity_small) simp_all
  show 7: "live demo7" unfolding demo7_def by (intro live_call 6 capacity_small) simp_all
  show "live demo8" unfolding demo8_def by (intro live_call 7 capacity_small) simp_all
qed

lemma demo_capacity: "capacity demo4" "capacity demo5" "capacity demo6" "capacity demo7" "capacity demo8"
  by (rule capacity_small; simp)+

lemmas demo_store_ok = demo_live [THEN live_ok, THEN conjunct1]

section \<open>A matured constitutional ballot\<close>

text \<open>Town with a ballot on its criteria that was opened on day 20, closed on day
  23 and is past its timelock on day 30.\<close>

definition elder_vote :: proposal where
  "elder_vote =
     \<lparr> p_id = ProposalId 1, p_server_id = ServerId 1, p_proposer = UserId 1,
       p_kind = AmendCriteria (platform_default\<lparr>min_contribution := 9\<rparr>),
       p_opened_at = Timestamp 1728000, p_closes_at = Timestamp 1987200,
       p_status = Passed (Timestamp 2592000), p_is_applied = False \<rparr>"

definition demo_charter :: inner where
  "demo_charter = demo6\<lparr>proposals := [(ProposalId 1, elder_vote)], next_proposal := 1\<rparr>"

lemma elder_vote_simps [simp]:
  "p_id elder_vote = ProposalId 1" "p_server_id elder_vote = ServerId 1"
  "p_kind elder_vote = AmendCriteria (platform_default\<lparr>min_contribution := 9\<rparr>)"
  "p_status elder_vote = Passed (Timestamp 2592000)" "\<not> p_is_applied elder_vote"
  by (simp_all add: elder_vote_def)

lemma demo_charter_fields [simp]:
  "servers demo_charter = [(ServerId 1, town)]" "proposals demo_charter = [(ProposalId 1, elder_vote)]"
  by (simp_all add: demo_charter_def)

lemma demo_charter_ok:
  "store_ok demo_charter" "ids_ok demo_charter" "ballots_ok demo_charter" "capacity demo_charter"
proof -
  have "store_ok demo6" "ids_ok demo6" using demo_live(6) live_ok by blast+
  then show "store_ok demo_charter"
    by (simp add: store_ok_def tables_ok_def vectors_ok_def names_ok_def surfaces_ok_def feed_ok_def
        unique_index_defs demo_charter_def hm_keyed_def hm_ok_def)
  show "ids_ok demo_charter"
    using \<open>ids_ok demo6\<close>
    by (simp add: ids_ok_def own_defs demo_charter_def hm_values_def origin_node_def
        local_sequence_def SEQUENCE_BITS_def SEQUENCE_MASK_def)
  show "ballots_ok demo_charter"
    by (auto simp: ballots_ok_def demo_charter_def get_proposal_def hm_get_def ballot_ok_def
        elder_vote_def plus_days_def SECONDS_PER_DAY_def less_eq_timestamp_def split: if_splits)
  show "capacity demo_charter"
    by (rule capacity_small) (simp_all add: demo_charter_def)
qed

lemma demo_charter_town: "get_server demo_charter (ServerId 1) = Some town"
  by (simp add: get_server_def hm_get_def)

lemma demo_charter_amended:
  "get_server (exec (demo_env 30) (Cmd_resolve_due ''town'') demo_charter) (ServerId 1) =
     Some (town\<lparr>s_criteria := platform_default\<lparr>min_contribution := 9\<rparr>\<rparr>)"
  by (simp add: resolve_due_def find_by_slug_def hm_values_def Let_def list_proposals_for_server_def
      get_server_resolve_step [OF store_ok_tables [OF demo_charter_ok(1)]] due_def matured_def
      demo_charter_town)

end
