(* ===== verification/Node_Identity.thy ===== *)
theory Node_Identity
  imports Ids_Time Utf8_Text
begin

text \<open>
  The identity of a federated node (\<^verbatim>\<open>federation/src\<close>: \<^verbatim>\<open>from_hex\<close>, \<^verbatim>\<open>to_hex\<close>,
  \<^verbatim>\<open>fed_error\<close>, \<^verbatim>\<open>node_keypair\<close>, \<^verbatim>\<open>node_public_key\<close>). Ed25519 comes from a
  library: its four functions are the fields of the record \<open>ed25519\<close>, and what
  the code relies on of them is the predicate \<open>ed_sound\<close>.
\<close>

section \<open>Hexadecimal\<close>

datatype fed_error =
    BadHex string
  | BadKey
  | BadSignature
  | BadBody

text \<open>\<^verbatim>\<open>Display\<close> for the errors.\<close>

fun fed_error_text :: "fed_error \<Rightarrow> string" where
  "fed_error_text (BadHex what) = ''malformed hex for '' @ what"
| "fed_error_text BadKey = ''invalid verifying key''"
| "fed_error_text BadSignature = ''signature verification failed''"
| "fed_error_text BadBody = ''malformed signed body''"

definition HEX :: "char list" where
  "HEX = ''0123456789abcdef''"

definition hex_pair :: "u8 \<Rightarrow> string" where
  "hex_pair b = [HEX ! unat (drop_bit 4 b), HEX ! unat (b AND 15)]"

definition to_hex :: "u8 list \<Rightarrow> string" where
  "to_hex bytes = concat (map hex_pair bytes)"

text \<open>\<^verbatim>\<open>char::to_digit(16)\<close> on a byte read as a character.\<close>

definition to_digit_16 :: "char \<Rightarrow> u8 option" where
  "to_digit_16 c =
     (let b = byte c in
      if 48 \<le> b \<and> b \<le> 57 then Some (of_nat (b - 48))
      else if 97 \<le> b \<and> b \<le> 102 then Some (of_nat (b - 87))
      else if 65 \<le> b \<and> b \<le> 70 then Some (of_nat (b - 55))
      else None)"

fun hex_chunks :: "string \<Rightarrow> string \<Rightarrow> fed_error + u8 list" where
  "hex_chunks what (c # d # rest) =
     (case to_digit_16 c of
        None \<Rightarrow> Inl (BadHex what)
      | Some hi \<Rightarrow>
      (case to_digit_16 d of
        None \<Rightarrow> Inl (BadHex what)
      | Some lo \<Rightarrow>
      (case hex_chunks what rest of
        Inl e \<Rightarrow> Inl e
      | Inr out \<Rightarrow> Inr ((push_bit 4 hi OR lo) # out))))"
| "hex_chunks what _ = Inr []"

text \<open>\<^verbatim>\<open>from_hex::<N>\<close>: exactly \<^verbatim>\<open>2 * N\<close> hexadecimal digits, of either case.\<close>

definition from_hex :: "nat \<Rightarrow> string \<Rightarrow> string \<Rightarrow> fed_error + u8 list" where
  "from_hex n s what =
     (if length s \<noteq> n * 2 then Inl (BadHex what) else hex_chunks what s)"

section \<open>Keys\<close>

record ed25519 =
  ed_public :: "u8 list \<Rightarrow> u8 list"
  ed_sign :: "u8 list \<Rightarrow> string \<Rightarrow> u8 list"
  ed_valid :: "u8 list \<Rightarrow> bool"
  ed_verify_strict :: "u8 list \<Rightarrow> string \<Rightarrow> u8 list \<Rightarrow> bool"

text \<open>The documented behaviour: a public key is 32 bytes that parse as a key, a
  signature is 64 bytes, and a signature verifies under the key of its seed.\<close>

definition ed_sound :: "ed25519 \<Rightarrow> bool" where
  "ed_sound ed \<longleftrightarrow>
     (\<forall>seed. length (ed_public ed seed) = 32 \<and> ed_valid ed (ed_public ed seed)) \<and>
     (\<forall>seed msg. length (ed_sign ed seed msg) = 64 \<and>
        ed_verify_strict ed (ed_public ed seed) msg (ed_sign ed seed msg))"

record node_public_key =
  pk_node :: node_id
  pk_verifying :: "u8 list"

record node_keypair =
  kp_node :: node_id
  kp_signing :: "u8 list"

definition from_seed :: "node_id \<Rightarrow> u8 list \<Rightarrow> node_keypair" where
  "from_seed n seed = \<lparr> kp_node = n, kp_signing = seed \<rparr>"

definition from_seed_hex :: "node_id \<Rightarrow> string \<Rightarrow> fed_error + node_keypair" where
  "from_seed_hex n seed_hex = map_sum id (from_seed n) (from_hex 32 seed_hex ''node seed'')"

definition seed_hex :: "node_keypair \<Rightarrow> string" where
  "seed_hex kp = to_hex (kp_signing kp)"

definition keypair_public :: "ed25519 \<Rightarrow> node_keypair \<Rightarrow> node_public_key" where
  "keypair_public ed kp = \<lparr> pk_node = kp_node kp, pk_verifying = ed_public ed (kp_signing kp) \<rparr>"

definition keypair_sign :: "ed25519 \<Rightarrow> node_keypair \<Rightarrow> string \<Rightarrow> u8 list" where
  "keypair_sign ed kp msg = ed_sign ed (kp_signing kp) msg"

definition sign_hex :: "ed25519 \<Rightarrow> node_keypair \<Rightarrow> string \<Rightarrow> string" where
  "sign_hex ed kp msg = to_hex (keypair_sign ed kp msg)"

definition public_from_hex :: "ed25519 \<Rightarrow> node_id \<Rightarrow> string \<Rightarrow> fed_error + node_public_key" where
  "public_from_hex ed n hex =
     (case from_hex 32 hex ''public key'' of
        Inl e \<Rightarrow> Inl e
      | Inr bytes \<Rightarrow>
          if ed_valid ed bytes then Inr \<lparr> pk_node = n, pk_verifying = bytes \<rparr> else Inl BadKey)"

definition public_to_hex :: "node_public_key \<Rightarrow> string" where
  "public_to_hex k = to_hex (pk_verifying k)"

definition public_verify ::
  "ed25519 \<Rightarrow> node_public_key \<Rightarrow> string \<Rightarrow> u8 list \<Rightarrow> fed_error + unit" where
  "public_verify ed k msg sig =
     (if ed_verify_strict ed (pk_verifying k) msg sig then Inr () else Inl BadSignature)"

definition verify_hex ::
  "ed25519 \<Rightarrow> node_public_key \<Rightarrow> string \<Rightarrow> string \<Rightarrow> fed_error + unit" where
  "verify_hex ed k msg sig_hex =
     (case from_hex 64 sig_hex ''signature'' of
        Inl e \<Rightarrow> Inl e
      | Inr sig \<Rightarrow> public_verify ed k msg sig)"

section \<open>Round trips\<close>

lemma digit_HEX:
  fixes b :: u8
  assumes "unat b < 16"
  shows "to_digit_16 (HEX ! unat b) = Some b"
proof -
  have "unat b = 0 \<or> unat b = 1 \<or> unat b = 2 \<or> unat b = 3 \<or> unat b = 4 \<or> unat b = 5 \<or>
    unat b = 6 \<or> unat b = 7 \<or> unat b = 8 \<or> unat b = 9 \<or> unat b = 10 \<or> unat b = 11 \<or>
    unat b = 12 \<or> unat b = 13 \<or> unat b = 14 \<or> unat b = 15"
    using assms by arith
  moreover have "b = of_nat (unat b)" by simp
  ultimately show ?thesis
    by (elim disjE) (simp_all add: HEX_def to_digit_16_def)
qed

lemma nibbles:
  fixes b :: u8
  shows "unat (drop_bit 4 b) < 16" "unat (b AND 15) < 16" "push_bit 4 (drop_bit 4 b) OR (b AND 15) = b"
proof -
  have b: "unat b < 256" using unsigned_less [of b] by simp
  show "unat (drop_bit 4 b) < 16"
    using b by (simp add: drop_bit_eq_div unat_div_distrib)
  have mask: "(15 :: u8) = mask 4" by (simp add: mask_eq_exp_minus_1)
  show "unat (b AND 15) < 16"
    by (simp add: mask take_bit_eq_mod unat_mod_distrib flip: take_bit_eq_mask)
  show "push_bit 4 (drop_bit 4 b) OR (b AND 15) = b"
    unfolding mask by (rule bit_word_eqI) (auto simp: bit_simps)
qed

lemma length_to_hex [simp]: "length (to_hex bs) = length bs * 2"
  by (induction bs) (simp_all add: to_hex_def hex_pair_def)

lemma hex_chunks_to_hex [simp]: "hex_chunks what (to_hex bs) = Inr bs"
  by (induction bs) (simp_all add: to_hex_def hex_pair_def digit_HEX nibbles)

lemma from_hex_to_hex [simp]:
  "from_hex n (to_hex bs) what = (if length bs = n then Inr bs else Inl (BadHex what))"
  by (simp add: from_hex_def)

lemma length_hex_chunks: "hex_chunks what s = Inr bs \<Longrightarrow> even (length s) \<Longrightarrow> length s = length bs * 2"
  by (induction what s arbitrary: bs rule: hex_chunks.induct)
     (auto split: option.splits sum.splits)

lemma from_hex_length: "from_hex n s what = Inr bs \<Longrightarrow> length bs = n"
  using length_hex_chunks [of what s bs] by (auto simp: from_hex_def split: if_splits)

text \<open>A seed written out and read back is the same identity, and a published key
  parses to the key of its node.\<close>

lemma from_seed_hex_round [simp]:
  "length (kp_signing kp) = 32 \<Longrightarrow> from_seed_hex (kp_node kp) (seed_hex kp) = Inr kp"
  by (simp add: from_seed_hex_def seed_hex_def from_seed_def)

lemma public_key_round [simp]:
  "ed_sound ed \<Longrightarrow>
   public_from_hex ed (kp_node kp) (public_to_hex (keypair_public ed kp)) =
     Inr (keypair_public ed kp)"
  by (simp add: public_from_hex_def public_to_hex_def keypair_public_def ed_sound_def)

lemma verify_hex_sign_hex [simp]:
  "ed_sound ed \<Longrightarrow> verify_hex ed (keypair_public ed kp) msg (sign_hex ed kp msg) = Inr ()"
  by (simp add: verify_hex_def sign_hex_def keypair_sign_def keypair_public_def public_verify_def
      ed_sound_def)

end
