(* ===== verification/Ownership.thy ===== *)
theory Ownership
  imports Node_Identity
begin

text \<open>
  The control plane (\<^verbatim>\<open>federation/src/ownership\<close>): who owns a server or a user's
  home, and under which epoch. The trait \<^verbatim>\<open>OwnershipRegistry\<close> is a record of
  functions over the state of a registry, since the code calls it through a
  trait object; \<^verbatim>\<open>InMemoryRegistry\<close> is one such record. What every registry
  promises its clients is the locale \<open>ownership_registry\<close>.
\<close>

section \<open>Scopes\<close>

datatype event_scope = EventServer u64 | EventUserHome u64 | Global

datatype owned_scope = ScopeServer u64 | ScopeUserHome u64

fun from_event :: "event_scope \<Rightarrow> owned_scope option" where
  "from_event (EventServer i) = Some (ScopeServer i)"
| "from_event (EventUserHome i) = Some (ScopeUserHome i)"
| "from_event Global = None"

fun event_scope_from :: "owned_scope \<Rightarrow> event_scope" where
  "event_scope_from (ScopeServer i) = EventServer i"
| "event_scope_from (ScopeUserHome i) = EventUserHome i"

lemma from_event_scope [simp]: "from_event (event_scope_from s) = Some s"
  by (cases s) simp_all

record ownership =
  ow_scope :: owned_scope
  ow_owner :: node_id
  ow_epoch :: u64

datatype claim_outcome = Claimed u64 | Held node_id u64

datatype registry_error = RegistryError string

section \<open>Loads\<close>

text \<open>An \<^verbatim>\<open>f64\<close> as its order sees it: not a number, an infinity, or a finite value,
  given as a multiple of the smallest step of the format (2 to the power -1074).\<close>

datatype f64 = NaN | NegInf | Fin int | PosInf

datatype ordering = Ord_Less | Ord_Equal | Ord_Greater

fun partial_cmp :: "f64 \<Rightarrow> f64 \<Rightarrow> ordering option" where
  "partial_cmp NaN _ = None"
| "partial_cmp _ NaN = None"
| "partial_cmp (Fin x) (Fin y) = Some (if x < y then Ord_Less else if x = y then Ord_Equal else Ord_Greater)"
| "partial_cmp NegInf NegInf = Some Ord_Equal"
| "partial_cmp NegInf _ = Some Ord_Less"
| "partial_cmp PosInf PosInf = Some Ord_Equal"
| "partial_cmp PosInf _ = Some Ord_Greater"
| "partial_cmp (Fin x) NegInf = Some Ord_Greater"
| "partial_cmp (Fin x) PosInf = Some Ord_Less"

definition cmp :: "'a::linorder \<Rightarrow> 'a \<Rightarrow> ordering" where
  "cmp x y = (if x < y then Ord_Less else if x = y then Ord_Equal else Ord_Greater)"

fun then_cmp :: "ordering \<Rightarrow> ordering \<Rightarrow> ordering" where
  "then_cmp Ord_Equal b = b"
| "then_cmp a _ = a"

record node_load =
  hosted_scopes :: u32
  requests_per_sec :: f64

record node_status =
  ns_node :: node_id
  ns_load :: node_load

section \<open>The trait\<close>

record 'r registry =
  reg_owner_of :: "'r \<Rightarrow> owned_scope \<Rightarrow> registry_error + ownership option"
  reg_claim :: "owned_scope \<Rightarrow> node_id \<Rightarrow> 'r \<Rightarrow> (registry_error + claim_outcome) \<times> 'r"
  reg_release :: "owned_scope \<Rightarrow> node_id \<Rightarrow> 'r \<Rightarrow> (registry_error + unit) \<times> 'r"
  reg_set_standby :: "owned_scope \<Rightarrow> node_id \<Rightarrow> 'r \<Rightarrow> (registry_error + unit) \<times> 'r"
  reg_standbys :: "'r \<Rightarrow> owned_scope \<Rightarrow> registry_error + node_id list"
  reg_can_rehome :: "'r \<Rightarrow> owned_scope \<Rightarrow> registry_error + bool"
  reg_set_rehoming :: "owned_scope \<Rightarrow> bool \<Rightarrow> 'r \<Rightarrow> (registry_error + unit) \<times> 'r"
  reg_renew :: "node_id \<Rightarrow> 'r \<Rightarrow> (registry_error + unit) \<times> 'r"
  reg_publish_key :: "node_id \<Rightarrow> string \<Rightarrow> 'r \<Rightarrow> (registry_error + unit) \<times> 'r"
  reg_public_key :: "'r \<Rightarrow> node_id \<Rightarrow> registry_error + node_public_key option"
  reg_report_load :: "node_id \<Rightarrow> node_load \<Rightarrow> 'r \<Rightarrow> (registry_error + unit) \<times> 'r"
  reg_live_nodes :: "'r \<Rightarrow> registry_error + node_status list"

section \<open>The in-memory registry\<close>

record registry_state =
  rs_owners :: "(owned_scope, node_id \<times> u64) hashmap"
  rs_max_epoch :: "(owned_scope, u64) hashmap"
  rs_keys :: "(u16, string) hashmap"
  rs_loads :: "(u16, node_load) hashmap"
  rs_standbys :: "(owned_scope, u16 list) hashmap"
  rs_rehoming_disabled :: "owned_scope list"

definition new_registry :: registry_state where
  "new_registry = \<lparr> rs_owners = [], rs_max_epoch = [], rs_keys = [], rs_loads = [],
     rs_standbys = [], rs_rehoming_disabled = [] \<rparr>"

definition owner_of :: "registry_state \<Rightarrow> owned_scope \<Rightarrow> registry_error + ownership option" where
  "owner_of r scope =
     Inr (map_option (\<lambda>(owner, epoch). \<lparr> ow_scope = scope, ow_owner = owner, ow_epoch = epoch \<rparr>)
       (hm_get (rs_owners r) scope))"

definition max_epoch :: "registry_state \<Rightarrow> owned_scope \<Rightarrow> u64" where
  "max_epoch r scope = (case hm_get (rs_max_epoch r) scope of None \<Rightarrow> 0 | Some e \<Rightarrow> e)"

definition claim ::
  "owned_scope \<Rightarrow> node_id \<Rightarrow> registry_state \<Rightarrow> (registry_error + claim_outcome) \<times> registry_state" where
  "claim scope n r =
     (case hm_get (rs_owners r) scope of
        Some (by_node, epoch) \<Rightarrow> (Inr (Held by_node epoch), r)
      | None \<Rightarrow>
          let epoch = max_epoch r scope + 1 in
          (Inr (Claimed epoch),
           r\<lparr>rs_owners := hm_insert scope (n, epoch) (rs_owners r),
             rs_max_epoch := hm_insert scope epoch (rs_max_epoch r)\<rparr>))"

definition release ::
  "owned_scope \<Rightarrow> node_id \<Rightarrow> registry_state \<Rightarrow> (registry_error + unit) \<times> registry_state" where
  "release scope n r =
     (Inr (),
      if map_option fst (hm_get (rs_owners r) scope) = Some n
      then r\<lparr>rs_owners := hm_remove scope (rs_owners r)\<rparr> else r)"

definition set_standby ::
  "owned_scope \<Rightarrow> node_id \<Rightarrow> registry_state \<Rightarrow> (registry_error + unit) \<times> registry_state" where
  "set_standby scope n r =
     (let sbs = (case hm_get (rs_standbys r) scope of None \<Rightarrow> [] | Some l \<Rightarrow> l);
          sbs = (if node_id_val n \<in> set sbs then sbs else sbs @ [node_id_val n])
      in (Inr (), r\<lparr>rs_standbys := hm_insert scope sbs (rs_standbys r)\<rparr>))"

definition standbys :: "registry_state \<Rightarrow> owned_scope \<Rightarrow> registry_error + node_id list" where
  "standbys r scope =
     Inr (case hm_get (rs_standbys r) scope of None \<Rightarrow> [] | Some l \<Rightarrow> map NodeId l)"

definition can_rehome :: "registry_state \<Rightarrow> owned_scope \<Rightarrow> registry_error + bool" where
  "can_rehome r scope = Inr (scope \<notin> set (rs_rehoming_disabled r))"

definition set_rehoming ::
  "owned_scope \<Rightarrow> bool \<Rightarrow> registry_state \<Rightarrow> (registry_error + unit) \<times> registry_state" where
  "set_rehoming scope enabled r =
     (Inr (), r\<lparr>rs_rehoming_disabled :=
        (if enabled then removeAll scope (rs_rehoming_disabled r)
         else List.insert scope (rs_rehoming_disabled r))\<rparr>)"

definition renew :: "node_id \<Rightarrow> registry_state \<Rightarrow> (registry_error + unit) \<times> registry_state" where
  "renew n r = (Inr (), r)"

definition publish_key ::
  "node_id \<Rightarrow> string \<Rightarrow> registry_state \<Rightarrow> (registry_error + unit) \<times> registry_state" where
  "publish_key n public_hex r =
     (case hm_get (rs_keys r) (node_id_val n) of
        Some existing \<Rightarrow>
          (if existing = public_hex then Inr ()
           else Inl (RegistryError
             ''node key already published; refusing to overwrite it (first-write-wins)''), r)
      | None \<Rightarrow> (Inr (), r\<lparr>rs_keys := hm_insert (node_id_val n) public_hex (rs_keys r)\<rparr>))"

definition public_key ::
  "ed25519 \<Rightarrow> registry_state \<Rightarrow> node_id \<Rightarrow> registry_error + node_public_key option" where
  "public_key ed r n =
     (case hm_get (rs_keys r) (node_id_val n) of
        None \<Rightarrow> Inr None
      | Some h \<Rightarrow>
          map_sum (\<lambda>e. RegistryError (fed_error_text e)) Some (public_from_hex ed n h))"

definition report_load ::
  "node_id \<Rightarrow> node_load \<Rightarrow> registry_state \<Rightarrow> (registry_error + unit) \<times> registry_state" where
  "report_load n load r =
     (Inr (), r\<lparr>rs_loads := hm_insert (node_id_val n) load (rs_loads r)\<rparr>)"

definition live_nodes :: "registry_state \<Rightarrow> registry_error + node_status list" where
  "live_nodes r =
     Inr (map (\<lambda>(n, load). \<lparr> ns_node = NodeId n, ns_load = load \<rparr>) (rs_loads r))"

text \<open>The trait object \<^verbatim>\<open>Arc<InMemoryRegistry>\<close>.\<close>

definition in_memory_registry :: "ed25519 \<Rightarrow> registry_state registry" where
  "in_memory_registry ed =
     \<lparr> reg_owner_of = owner_of, reg_claim = claim, reg_release = release,
       reg_set_standby = set_standby, reg_standbys = standbys, reg_can_rehome = can_rehome,
       reg_set_rehoming = set_rehoming, reg_renew = renew, reg_publish_key = publish_key,
       reg_public_key = public_key ed, reg_report_load = report_load,
       reg_live_nodes = live_nodes \<rparr>"

lemma in_memory_registry_simps [simp]:
  "reg_owner_of (in_memory_registry ed) = owner_of" "reg_claim (in_memory_registry ed) = claim"
  "reg_release (in_memory_registry ed) = release"
  "reg_set_standby (in_memory_registry ed) = set_standby"
  "reg_standbys (in_memory_registry ed) = standbys"
  "reg_can_rehome (in_memory_registry ed) = can_rehome"
  "reg_set_rehoming (in_memory_registry ed) = set_rehoming"
  "reg_renew (in_memory_registry ed) = renew"
  "reg_publish_key (in_memory_registry ed) = publish_key"
  "reg_public_key (in_memory_registry ed) = public_key ed"
  "reg_report_load (in_memory_registry ed) = report_load"
  "reg_live_nodes (in_memory_registry ed) = live_nodes"
  by (simp_all add: in_memory_registry_def)

section \<open>What a registry promises\<close>

text \<open>A run of a registry: any sequence of calls by any nodes, in which no scope runs
  out of epochs (a claim that would wrap to epoch 0).\<close>

inductive registry_run :: "'r registry \<Rightarrow> 'r \<Rightarrow> 'r \<Rightarrow> bool" for reg r where
  run_start: "registry_run reg r r"
| run_claim: "registry_run reg r r' \<Longrightarrow> fst (reg_claim reg s n r') \<noteq> Inr (Claimed 0) \<Longrightarrow>
    registry_run reg r (snd (reg_claim reg s n r'))"
| run_release: "registry_run reg r r' \<Longrightarrow> registry_run reg r (snd (reg_release reg s n r'))"
| run_set_standby: "registry_run reg r r' \<Longrightarrow> registry_run reg r (snd (reg_set_standby reg s n r'))"
| run_set_rehoming: "registry_run reg r r' \<Longrightarrow> registry_run reg r (snd (reg_set_rehoming reg s b r'))"
| run_renew: "registry_run reg r r' \<Longrightarrow> registry_run reg r (snd (reg_renew reg n r'))"
| run_publish_key: "registry_run reg r r' \<Longrightarrow> registry_run reg r (snd (reg_publish_key reg n h r'))"
| run_report_load: "registry_run reg r r' \<Longrightarrow> registry_run reg r (snd (reg_report_load reg n l r'))"

text \<open>The laws: \<open>high\<close> is the highest epoch a scope ever had. A claim on an owned
  scope changes nothing, a claim on a free one takes it at the next epoch or
  fails without an effect, only the owner can release, and no other call touches
  ownership or a published key.\<close>

locale ownership_registry =
  fixes reg :: "'r registry" and wf :: "'r \<Rightarrow> bool" and high :: "'r \<Rightarrow> owned_scope \<Rightarrow> u64"
  assumes owner_high:
      "wf r \<Longrightarrow> reg_owner_of reg r s = Inr (Some ow) \<Longrightarrow> ow_scope ow = s \<and> ow_epoch ow = high r s"
    and claim_held:
      "reg_owner_of reg r s = Inr (Some ow) \<Longrightarrow>
       reg_claim reg s n r = (Inr (Held (ow_owner ow) (ow_epoch ow)), r)"
    and claim_free:
      "reg_owner_of reg r s = Inr None \<Longrightarrow>
       (fst (reg_claim reg s n r) = Inr (Claimed (high r s + 1)) \<and>
        high (snd (reg_claim reg s n r)) = (high r)(s := high r s + 1) \<and>
        reg_owner_of reg (snd (reg_claim reg s n r)) =
          (reg_owner_of reg r)
            (s := Inr (Some \<lparr> ow_scope = s, ow_owner = n, ow_epoch = high r s + 1 \<rparr>))) \<or>
       ((\<exists>e. fst (reg_claim reg s n r) = Inl e) \<and>
        high (snd (reg_claim reg s n r)) = high r \<and>
        reg_owner_of reg (snd (reg_claim reg s n r)) = reg_owner_of reg r)"
    and claim_error:
      "reg_owner_of reg r s = Inl e \<Longrightarrow>
       high (snd (reg_claim reg s n r)) = high r \<and>
       reg_owner_of reg (snd (reg_claim reg s n r)) = reg_owner_of reg r"
    and release_law:
      "high (snd (reg_release reg s n r)) = high r \<and>
       (reg_owner_of reg (snd (reg_release reg s n r)) = reg_owner_of reg r \<or>
        ((\<forall>ow. reg_owner_of reg r s = Inr (Some ow) \<longrightarrow> ow_owner ow = n) \<and>
         reg_owner_of reg (snd (reg_release reg s n r)) = (reg_owner_of reg r)(s := Inr None)))"
    and owners_kept:
      "reg_owner_of reg (snd (reg_set_standby reg s n r)) = reg_owner_of reg r"
      "reg_owner_of reg (snd (reg_set_rehoming reg s b r)) = reg_owner_of reg r"
      "reg_owner_of reg (snd (reg_renew reg n r)) = reg_owner_of reg r"
      "reg_owner_of reg (snd (reg_publish_key reg n h r)) = reg_owner_of reg r"
      "reg_owner_of reg (snd (reg_report_load reg n l r)) = reg_owner_of reg r"
    and high_kept:
      "high (snd (reg_set_standby reg s n r)) = high r"
      "high (snd (reg_set_rehoming reg s b r)) = high r"
      "high (snd (reg_renew reg n r)) = high r"
      "high (snd (reg_publish_key reg n h r)) = high r"
      "high (snd (reg_report_load reg n l r)) = high r"
    and wf_kept:
      "wf r \<Longrightarrow> wf (snd (reg_claim reg s n r))" "wf r \<Longrightarrow> wf (snd (reg_release reg s n r))"
      "wf r \<Longrightarrow> wf (snd (reg_set_standby reg s n r))" "wf r \<Longrightarrow> wf (snd (reg_set_rehoming reg s b r))"
      "wf r \<Longrightarrow> wf (snd (reg_renew reg n r))" "wf r \<Longrightarrow> wf (snd (reg_publish_key reg n h r))"
      "wf r \<Longrightarrow> wf (snd (reg_report_load reg n l r))"
    and key_kept:
      "reg_public_key reg r m = Inr (Some k) \<Longrightarrow>
       reg_public_key reg (snd (reg_claim reg s n r)) m = Inr (Some k) \<and>
       reg_public_key reg (snd (reg_release reg s n r)) m = Inr (Some k) \<and>
       reg_public_key reg (snd (reg_set_standby reg s n r)) m = Inr (Some k) \<and>
       reg_public_key reg (snd (reg_set_rehoming reg s b r)) m = Inr (Some k) \<and>
       reg_public_key reg (snd (reg_renew reg n r)) m = Inr (Some k) \<and>
       reg_public_key reg (snd (reg_publish_key reg n h r)) m = Inr (Some k) \<and>
       reg_public_key reg (snd (reg_report_load reg n l r)) m = Inr (Some k)"
begin

text \<open>What a run leaves of an owner: still there, or free at the same epoch, or
  superseded at a higher one.\<close>

definition follows :: "ownership \<Rightarrow> 'r \<Rightarrow> bool" where
  "follows ow r \<longleftrightarrow>
     (let s = ow_scope ow in
      ow_epoch ow < high r s \<or>
      (ow_epoch ow = high r s \<and>
       (\<forall>ow'. reg_owner_of reg r s = Inr (Some ow') \<longrightarrow> ow' = ow)))"

lemma follows_start: "wf r \<Longrightarrow> reg_owner_of reg r s = Inr (Some ow) \<Longrightarrow> follows ow r"
  using owner_high by (fastforce simp: follows_def Let_def)

lemma follows_claim:
  assumes "follows ow r" "fst (reg_claim reg s n r) \<noteq> Inr (Claimed 0)"
  shows "follows ow (snd (reg_claim reg s n r))"
proof (cases "reg_owner_of reg r s")
  case (Inl e)
  then show ?thesis using assms(1) claim_error by (simp add: follows_def)
next
  case (Inr o')
  then show ?thesis
  proof (cases o')
    case None
    note free = claim_free [OF Inr [unfolded None], of n]
    have "high r s < high r s + 1" if "high r s + 1 \<noteq> 0"
      using that by (simp add: word_less_nat_alt unatSuc add.commute)
    then show ?thesis using assms free by (auto simp: follows_def Let_def split: if_splits)
  next
    case (Some a)
    then show ?thesis using Inr assms(1) by (simp add: claim_held)
  qed
qed

lemma follows_release: "follows ow r \<Longrightarrow> follows ow (snd (reg_release reg s n r))"
  using release_law [of s n r] by (auto simp: follows_def Let_def split: if_splits)

lemma run_invariant:
  assumes "registry_run reg r r'" "wf r" "reg_owner_of reg r s = Inr (Some ow)"
  shows "wf r' \<and> follows ow r'"
  using assms(1)
proof induction
  case run_start
  then show ?case using assms(2,3) follows_start by blast
next
  case (run_claim r' s n)
  then show ?case using follows_claim wf_kept by blast
next
  case (run_release r' s n)
  then show ?case using follows_release wf_kept by blast
qed (simp_all add: follows_def owners_kept high_kept wf_kept)

text \<open>Fencing: whoever owns the scope later is the same owner at the same epoch, or
  holds a strictly higher epoch.\<close>

lemma fencing:
  assumes "registry_run reg r r'" "wf r" "reg_owner_of reg r s = Inr (Some ow)"
    and "reg_owner_of reg r' s = Inr (Some ow')"
  shows "ow' = ow \<or> ow_epoch ow < ow_epoch ow'"
proof -
  have "wf r'" "follows ow r'" using run_invariant [OF assms(1-3)] by simp_all
  then show ?thesis
    using owner_high [OF assms(2,3)] owner_high [OF _ assms(4)] assms(4)
    by (auto simp: follows_def Let_def)
qed

lemma keys_permanent:
  "registry_run reg r r' \<Longrightarrow> reg_public_key reg r m = Inr (Some k) \<Longrightarrow>
   reg_public_key reg r' m = Inr (Some k)"
  by (induction rule: registry_run.induct) (use key_kept in blast)+

end

text \<open>A registry in one process always grants a claim on a free scope.\<close>

locale total_registry = ownership_registry +
  assumes claim_total: "reg_owner_of reg r s = Inr None \<Longrightarrow> fst (reg_claim reg s n r) \<noteq> Inl e"
begin

lemma claim_granted:
  "reg_owner_of reg r s = Inr None \<Longrightarrow>
   fst (reg_claim reg s n r) = Inr (Claimed (high r s + 1)) \<and>
   high (snd (reg_claim reg s n r)) = (high r)(s := high r s + 1) \<and>
   reg_owner_of reg (snd (reg_claim reg s n r)) =
     (reg_owner_of reg r)(s := Inr (Some \<lparr> ow_scope = s, ow_owner = n, ow_epoch = high r s + 1 \<rparr>))"
  using claim_free [of r s n] claim_total [of r s n] by blast

end

section \<open>The in-memory registry keeps the promise\<close>

text \<open>The invariant: an owner's epoch is the highest its scope ever had.\<close>

definition registry_ok :: "registry_state \<Rightarrow> bool" where
  "registry_ok r \<longleftrightarrow>
     (\<forall>s n e. hm_get (rs_owners r) s = Some (n, e) \<longrightarrow> hm_get (rs_max_epoch r) s = Some e)"

lemmas registry_ops = owner_of_def max_epoch_def claim_def release_def set_standby_def
  set_rehoming_def renew_def publish_key_def public_key_def report_load_def

interpretation mem: total_registry "in_memory_registry ed" registry_ok max_epoch
proof unfold_locales
  fix r s ow
  show "registry_ok r \<Longrightarrow> reg_owner_of (in_memory_registry ed) r s = Inr (Some ow) \<Longrightarrow>
      ow_scope ow = s \<and> ow_epoch ow = max_epoch r s"
    by (auto simp: registry_ops registry_ok_def)
next
  fix r s n
  show "max_epoch (snd (reg_release (in_memory_registry ed) s n r)) = max_epoch r \<and>
      (reg_owner_of (in_memory_registry ed) (snd (reg_release (in_memory_registry ed) s n r)) =
         reg_owner_of (in_memory_registry ed) r \<or>
       ((\<forall>ow. reg_owner_of (in_memory_registry ed) r s = Inr (Some ow) \<longrightarrow> ow_owner ow = n) \<and>
        reg_owner_of (in_memory_registry ed) (snd (reg_release (in_memory_registry ed) s n r)) =
          (reg_owner_of (in_memory_registry ed) r)(s := Inr None)))"
    by (cases "hm_get (rs_owners r) s") (auto simp: registry_ops fun_eq_iff hm_get_remove)
next
  fix r m k s n b h l
  show "reg_public_key (in_memory_registry ed) r m = Inr (Some k) \<Longrightarrow>
      reg_public_key (in_memory_registry ed) (snd (reg_claim (in_memory_registry ed) s n r)) m = Inr (Some k) \<and>
      reg_public_key (in_memory_registry ed) (snd (reg_release (in_memory_registry ed) s n r)) m = Inr (Some k) \<and>
      reg_public_key (in_memory_registry ed) (snd (reg_set_standby (in_memory_registry ed) s n r)) m = Inr (Some k) \<and>
      reg_public_key (in_memory_registry ed) (snd (reg_set_rehoming (in_memory_registry ed) s b r)) m = Inr (Some k) \<and>
      reg_public_key (in_memory_registry ed) (snd (reg_renew (in_memory_registry ed) n r)) m = Inr (Some k) \<and>
      reg_public_key (in_memory_registry ed) (snd (reg_publish_key (in_memory_registry ed) n h r)) m = Inr (Some k) \<and>
      reg_public_key (in_memory_registry ed) (snd (reg_report_load (in_memory_registry ed) n l r)) m = Inr (Some k)"
    by (auto simp: registry_ops Let_def hm_get_insert split: option.splits if_splits)
qed (auto simp: registry_ops registry_ok_def fun_eq_iff Let_def hm_get_remove hm_get_insert
    split: option.splits if_splits)

end
