(* ===== verification/Feed.thy ===== *)
theory Feed
  imports Store_Ops Ownership
begin

text \<open>
  The signed change feed (\<^verbatim>\<open>federation/src\<close>: \<^verbatim>\<open>classify\<close>, \<^verbatim>\<open>change_event\<close>,
  \<^verbatim>\<open>authorize\<close>, \<^verbatim>\<open>sign_feed\<close>; \<^verbatim>\<open>adapter-federation/src\<close>: \<^verbatim>\<open>is_transient\<close>,
  \<^verbatim>\<open>store_resolver\<close>). JSON values are modelled as data. What the serialisation
  library generates, the JSON of a row and the text of a signed part, are
  parameters.
\<close>

section \<open>JSON values\<close>

datatype json_number = PosInt u64 | NegInt int | Float f64

datatype json =
    JNull
  | JBool bool
  | JNumber json_number
  | JString string
  | JArray "json list"
  | JObject "(string \<times> json) list"

fun json_get :: "json \<Rightarrow> string \<Rightarrow> json option" where
  "json_get (JObject fs) k = map_of fs k"
| "json_get _ k = None"

fun as_u64 :: "json \<Rightarrow> u64 option" where
  "as_u64 (JNumber (PosInt n)) = Some n"
| "as_u64 _ = None"

fun as_str :: "json \<Rightarrow> string option" where
  "as_str (JString s) = Some s"
| "as_str _ = None"

text \<open>\<^verbatim>\<open>str::parse\<close> for an unsigned type of \<open>w\<close> bits: an optional plus sign and at
  least one digit, within range.\<close>

definition digits_value :: "string \<Rightarrow> nat" where
  "digits_value ds = foldl (\<lambda>n c. 10 * n + (byte c - 48)) 0 ds"

definition parse_unsigned :: "nat \<Rightarrow> string \<Rightarrow> nat option" where
  "parse_unsigned w s =
     (let ds = (if s \<noteq> [] \<and> hd s = CHR ''+'' then tl s else s) in
      if ds \<noteq> [] \<and> list_all (\<lambda>c. 48 \<le> byte c \<and> byte c \<le> 57) ds \<and> digits_value ds < 2 ^ w
      then Some (digits_value ds) else None)"

definition parse_u64 :: "string \<Rightarrow> u64 option" where
  "parse_u64 s = map_option of_nat (parse_unsigned 64 s)"

section \<open>Events\<close>

record signed_part =
  sp_node :: u16
  sp_epoch :: u64
  sp_seq :: u64
  sp_scope :: event_scope
  sp_entity :: string
  sp_op :: change_op
  sp_payload :: json

datatype derived_scope =
    Owned owned_scope
  | ViaProposal u64
  | ViaMessage u64
  | Indeterminate

definition payload_u64 :: "json \<Rightarrow> string \<Rightarrow> u64 option" where
  "payload_u64 payload key =
     (case json_get payload key of
        Some (JNumber n) \<Rightarrow> as_u64 (JNumber n)
      | Some (JString s) \<Rightarrow> parse_u64 s
      | _ \<Rightarrow> None)"

definition server_keyed :: "string \<Rightarrow> bool" where
  "server_keyed entity \<longleftrightarrow>
     entity \<in> set [''channels'', ''messages'', ''proposals'', ''memberships'', ''rules'', ''roles'',
       ''role_assignments'', ''emojis'', ''emoji_votes'', ''channel_grants'', ''invites'']"

definition classify :: "signed_part \<Rightarrow> derived_scope" where
  "classify part =
     (let p = sp_payload part; entity = sp_entity part;
          placed = (\<lambda>scope key. case payload_u64 p key of Some i \<Rightarrow> scope i | None \<Rightarrow> Indeterminate)
      in if entity = ''servers'' then placed (\<lambda>s. Owned (ScopeServer s)) ''id''
         else if server_keyed entity then placed (\<lambda>s. Owned (ScopeServer s)) ''server_id''
         else if entity = ''votes'' then placed ViaProposal ''proposal_id''
         else if entity = ''reactions'' then placed ViaMessage ''message_id''
         else if entity = ''users'' then placed (\<lambda>u. Owned (ScopeUserHome u)) ''id''
         else if entity = ''user_keys'' then placed (\<lambda>u. Owned (ScopeUserHome u)) ''user_id''
         else if entity = ''dms'' then placed (\<lambda>u. Owned (ScopeUserHome u)) ''sender''
         else if entity = ''friendships'' then placed (\<lambda>u. Owned (ScopeUserHome u)) ''requester''
         else if entity = ''blocks'' then placed (\<lambda>u. Owned (ScopeUserHome u)) ''blocker''
         else Indeterminate)"

text \<open>The text of a signed part, from the serialisation library, and what the code
  relies on: the text of a part parses back to it.\<close>

record wire =
  part_to_string :: "signed_part \<Rightarrow> string"
  part_from_str :: "string \<Rightarrow> signed_part option"

definition wire_ok :: "wire \<Rightarrow> bool" where
  "wire_ok w \<longleftrightarrow> (\<forall>part. part_from_str w (part_to_string w part) = Some part)"

record change_event =
  ev_body :: string
  ev_signature :: string

definition sign_event :: "ed25519 \<Rightarrow> wire \<Rightarrow> node_keypair \<Rightarrow> signed_part \<Rightarrow> change_event" where
  "sign_event ed w kp part =
     (let part = part\<lparr>sp_node := node_id_val (kp_node kp)\<rparr>;
          body = part_to_string w part
      in \<lparr> ev_body = body, ev_signature = to_hex (keypair_sign ed kp body) \<rparr>)"

definition peek :: "wire \<Rightarrow> change_event \<Rightarrow> fed_error + signed_part" where
  "peek w ev = (case part_from_str w (ev_body ev) of None \<Rightarrow> Inl BadBody | Some part \<Rightarrow> Inr part)"

definition verify_event ::
  "ed25519 \<Rightarrow> wire \<Rightarrow> node_public_key \<Rightarrow> change_event \<Rightarrow> fed_error + signed_part" where
  "verify_event ed w key ev =
     (case from_hex 64 (ev_signature ev) ''signature'' of
        Inl e \<Rightarrow> Inl e
      | Inr sig \<Rightarrow>
      (case public_verify ed key (ev_body ev) sig of
        Inl e \<Rightarrow> Inl e
      | Inr _ \<Rightarrow>
      (case part_from_str w (ev_body ev) of
        None \<Rightarrow> Inl BadBody
      | Some part \<Rightarrow>
          if pk_node key \<noteq> NodeId (sp_node part) then Inl BadSignature else Inr part)))"

section \<open>Authorization\<close>

datatype auth_error =
    Auth_Fed fed_error
  | Auth_UnknownNode
  | Auth_NotOwner
  | Auth_StaleEpoch
  | Auth_Unowned
  | Auth_ScopeMismatch
  | Auth_Registry string

record scope_resolver =
  proposal_server :: "u64 \<Rightarrow> u64 option"
  message_server :: "u64 \<Rightarrow> u64 option"

definition store_resolver :: "inner \<Rightarrow> scope_resolver" where
  "store_resolver st =
     \<lparr> proposal_server = (\<lambda>p. map_option (\<lambda>p. server_id_val (p_server_id p)) (get_proposal st (ProposalId p))),
       message_server = (\<lambda>m. map_option (\<lambda>m. server_id_val (msg_server_id m)) (get_message st (MessageId m))) \<rparr>"

fun registry_error_text :: "registry_error \<Rightarrow> string" where
  "registry_error_text (RegistryError e) = e"

text \<open>The scope of a row for the ownership check, with the error where there is
  none.\<close>

definition derive_scope :: "scope_resolver \<Rightarrow> signed_part \<Rightarrow> auth_error + owned_scope" where
  "derive_scope rsv part =
     (case classify part of
        Owned s \<Rightarrow> Inr s
      | ViaProposal pid \<Rightarrow>
          (case proposal_server rsv pid of
             Some sid \<Rightarrow> Inr (ScopeServer sid) | None \<Rightarrow> Inl Auth_Unowned)
      | ViaMessage mid \<Rightarrow>
          (case message_server rsv mid of
             Some sid \<Rightarrow> Inr (ScopeServer sid) | None \<Rightarrow> Inl Auth_Unowned)
      | Indeterminate \<Rightarrow> Inl Auth_ScopeMismatch)"

definition authorize ::
  "ed25519 \<Rightarrow> wire \<Rightarrow> 'r registry \<Rightarrow> 'r \<Rightarrow> scope_resolver \<Rightarrow> change_event \<Rightarrow> auth_error + signed_part" where
  "authorize ed w reg r rsv ev =
     (case peek w ev of
        Inl e \<Rightarrow> Inl (Auth_Fed e)
      | Inr claimed \<Rightarrow>
      (case reg_public_key reg r (NodeId (sp_node claimed)) of
        Inl e \<Rightarrow> Inl (Auth_Registry (registry_error_text e))
      | Inr None \<Rightarrow> Inl Auth_UnknownNode
      | Inr (Some key) \<Rightarrow>
      (case verify_event ed w key ev of
        Inl e \<Rightarrow> Inl (Auth_Fed e)
      | Inr part \<Rightarrow>
      (case derive_scope rsv part of
        Inl e \<Rightarrow> Inl e
      | Inr owned \<Rightarrow>
      (case reg_owner_of reg r owned of
        Inl e \<Rightarrow> Inl (Auth_Registry (registry_error_text e))
      | Inr None \<Rightarrow> Inl Auth_Unowned
      | Inr (Some ow) \<Rightarrow>
          if ow_owner ow \<noteq> NodeId (sp_node part) then Inl Auth_NotOwner
          else if sp_epoch part < ow_epoch ow then Inl Auth_StaleEpoch
          else Inr part)))))"

fun is_transient :: "auth_error \<Rightarrow> bool" where
  "is_transient Auth_Unowned = True"
| "is_transient Auth_UnknownNode = True"
| "is_transient (Auth_Registry _) = True"
| "is_transient _ = False"

section \<open>Producing the feed\<close>

text \<open>The JSON of a row. The key of a removed reaction is the one payload the store
  writes out itself (\<^verbatim>\<open>json!\<close>); the others are \<^verbatim>\<open>to_payload\<close> of the row, the
  parameter.\<close>

fun row_payload :: "(row \<Rightarrow> json) \<Rightarrow> row \<Rightarrow> json" where
  "row_payload enc (ReactionKeyRow mid uid em) =
     JObject [(''message_id'', JNumber (PosInt (message_id_val mid))),
              (''user'', JNumber (PosInt (user_id_val uid))), (''emoji'', JString em)]"
| "row_payload enc row = enc row"

definition feed_part :: "(row \<Rightarrow> json) \<Rightarrow> change_record \<Rightarrow> signed_part" where
  "feed_part enc rec =
     \<lparr> sp_node = 0, sp_epoch = 0, sp_seq = cr_seq rec, sp_scope = Global,
       sp_entity = cr_entity rec, sp_op = cr_op rec, sp_payload = row_payload enc (cr_payload rec) \<rparr>"

definition feed_scope :: "scope_resolver \<Rightarrow> signed_part \<Rightarrow> owned_scope option" where
  "feed_scope rsv part =
     (case classify part of
        Owned s \<Rightarrow> Some s
      | ViaProposal pid \<Rightarrow> map_option ScopeServer (proposal_server rsv pid)
      | ViaMessage mid \<Rightarrow> map_option ScopeServer (message_server rsv mid)
      | Indeterminate \<Rightarrow> None)"

definition my_epoch :: "'r registry \<Rightarrow> 'r \<Rightarrow> node_id \<Rightarrow> owned_scope \<Rightarrow> u64 option" where
  "my_epoch reg r me owned =
     (case reg_owner_of reg r owned of
        Inr (Some ow) \<Rightarrow> if ow_owner ow = me then Some (ow_epoch ow) else None
      | _ \<Rightarrow> None)"

text \<open>One turn of the loop: the events so far and the cache of epochs.\<close>

definition sign_step ::
  "ed25519 \<Rightarrow> wire \<Rightarrow> (row \<Rightarrow> json) \<Rightarrow> node_keypair \<Rightarrow> 'r registry \<Rightarrow> 'r \<Rightarrow> scope_resolver \<Rightarrow>
   change_event list \<times> (owned_scope, u64 option) hashmap \<Rightarrow> change_record \<Rightarrow>
   change_event list \<times> (owned_scope, u64 option) hashmap" where
  "sign_step ed w enc kp reg r rsv acc rec =
     (let (out, cache) = acc; part = feed_part enc rec in
      case feed_scope rsv part of
        None \<Rightarrow> (out, cache)
      | Some owned \<Rightarrow>
          let (epoch, cache) =
            (case hm_get cache owned of
               Some cached \<Rightarrow> (cached, cache)
             | None \<Rightarrow>
                 let mine = my_epoch reg r (kp_node kp) owned
                 in (mine, hm_insert owned mine cache))
          in case epoch of
               None \<Rightarrow> (out, cache)
             | Some epoch \<Rightarrow>
                 (out @ [sign_event ed w kp
                    (part\<lparr>sp_epoch := epoch, sp_scope := event_scope_from owned\<rparr>)], cache))"

definition sign_feed ::
  "ed25519 \<Rightarrow> wire \<Rightarrow> (row \<Rightarrow> json) \<Rightarrow> (u64 \<Rightarrow> u64 \<Rightarrow> change_record list) \<Rightarrow> node_keypair \<Rightarrow>
   'r registry \<Rightarrow> 'r \<Rightarrow> scope_resolver \<Rightarrow> u64 \<Rightarrow> u64 \<Rightarrow> change_event list" where
  "sign_feed ed w enc source kp reg r rsv after_seq limit =
     fst (foldl (sign_step ed w enc kp reg r rsv) ([], []) (source after_seq limit))"

end
