(* ===== verification/Feed_Laws.thy ===== *)
theory Feed_Laws
  imports Feed
begin

text \<open>
  What the feed guarantees: the cache of epochs changes nothing, a signed event
  verifies to the part that was signed, an event passes only when its bytes are
  signed by the current owner of the scope its row belongs to, and an event
  signed before a scope changed hands is refused afterwards.
\<close>

section \<open>The cache\<close>

text \<open>The feed without the cache: each record on its own.\<close>

definition sign_record ::
  "ed25519 \<Rightarrow> wire \<Rightarrow> (row \<Rightarrow> json) \<Rightarrow> node_keypair \<Rightarrow> 'r registry \<Rightarrow> 'r \<Rightarrow> scope_resolver \<Rightarrow>
   change_record \<Rightarrow> change_event option" where
  "sign_record ed w enc kp reg r rsv rec =
     Option.bind (feed_scope rsv (feed_part enc rec)) (\<lambda>owned.
       map_option (\<lambda>epoch. sign_event ed w kp
           ((feed_part enc rec)\<lparr>sp_epoch := epoch, sp_scope := event_scope_from owned\<rparr>))
         (my_epoch reg r (kp_node kp) owned))"

definition cache_ok ::
  "'r registry \<Rightarrow> 'r \<Rightarrow> node_id \<Rightarrow> (owned_scope, u64 option) hashmap \<Rightarrow> bool" where
  "cache_ok reg r me cache \<longleftrightarrow>
     (\<forall>s e. hm_get cache s = Some e \<longrightarrow> e = my_epoch reg r me s)"

lemma sign_step_reference:
  assumes "cache_ok reg r (kp_node kp) cache"
  shows "fst (sign_step ed w enc kp reg r rsv (out, cache) rec) =
      out @ (case sign_record ed w enc kp reg r rsv rec of None \<Rightarrow> [] | Some ev \<Rightarrow> [ev]) \<and>
    cache_ok reg r (kp_node kp) (snd (sign_step ed w enc kp reg r rsv (out, cache) rec))"
  using assms
  by (auto simp: sign_step_def sign_record_def cache_ok_def Let_def hm_get_insert
      split: option.splits if_splits)

lemma sign_loop_reference:
  "cache_ok reg r (kp_node kp) cache \<Longrightarrow>
   fst (foldl (sign_step ed w enc kp reg r rsv) (out, cache) recs) =
     out @ List.map_filter (sign_record ed w enc kp reg r rsv) recs"
proof (induction recs arbitrary: out cache)
  case (Cons rec recs)
  obtain out' cache' where step: "sign_step ed w enc kp reg r rsv (out, cache) rec = (out', cache')"
    by fastforce
  show ?case
    using Cons.IH [of cache' out'] sign_step_reference [OF Cons.prems, of ed w enc rsv out rec] step
    by (simp add: List.map_filter_simps split: option.split)
qed simp

lemma sign_feed_reference:
  "sign_feed ed w enc source kp reg r rsv after_seq limit =
     List.map_filter (sign_record ed w enc kp reg r rsv) (source after_seq limit)"
  unfolding sign_feed_def by (subst sign_loop_reference) (simp_all add: cache_ok_def)

section \<open>Scopes come from the row\<close>

lemma classify_envelope [simp]:
  "classify (part\<lparr>sp_node := n\<rparr>) = classify part" "classify (part\<lparr>sp_epoch := e\<rparr>) = classify part"
  "classify (part\<lparr>sp_scope := s\<rparr>) = classify part" "classify (part\<lparr>sp_seq := q\<rparr>) = classify part"
  by (simp_all add: classify_def)

lemma derive_scope_envelope [simp]:
  "derive_scope rsv (part\<lparr>sp_node := n\<rparr>) = derive_scope rsv part"
  "derive_scope rsv (part\<lparr>sp_epoch := e\<rparr>) = derive_scope rsv part"
  "derive_scope rsv (part\<lparr>sp_scope := s\<rparr>) = derive_scope rsv part"
  by (simp_all add: derive_scope_def)

lemma feed_scope_derive:
  "feed_scope rsv part = Some s \<longleftrightarrow> derive_scope rsv part = Inr s"
  by (auto simp: feed_scope_def derive_scope_def split: derived_scope.splits option.splits)

lemma derive_scope_transient:
  "derive_scope rsv part = Inl e \<Longrightarrow> e = Auth_Unowned \<or> e = Auth_ScopeMismatch"
  by (auto simp: derive_scope_def split: derived_scope.splits option.splits)

section \<open>Signing and verifying\<close>

lemma verify_sign_event:
  assumes "ed_sound ed" "wire_ok w"
  shows "verify_event ed w (keypair_public ed kp) (sign_event ed w kp part) =
    Inr (part\<lparr>sp_node := node_id_val (kp_node kp)\<rparr>)"
  using assms
  by (simp add: verify_event_def sign_event_def Let_def keypair_sign_def keypair_public_def
      public_verify_def ed_sound_def wire_ok_def)

lemma peek_sign_event:
  "wire_ok w \<Longrightarrow> peek w (sign_event ed w kp part) = Inr (part\<lparr>sp_node := node_id_val (kp_node kp)\<rparr>)"
  by (simp add: peek_def sign_event_def Let_def wire_ok_def)

lemma verify_event_Inr:
  "verify_event ed w key ev = Inr part \<longleftrightarrow>
   (\<exists>sig. from_hex 64 (ev_signature ev) ''signature'' = Inr sig \<and>
     ed_verify_strict ed (pk_verifying key) (ev_body ev) sig) \<and>
   part_from_str w (ev_body ev) = Some part \<and> pk_node key = NodeId (sp_node part)"
  by (auto simp: verify_event_def public_verify_def split: sum.splits option.splits if_splits)

text \<open>What it takes to pass the gate.\<close>

lemma authorize_Inr:
  "authorize ed w reg r rsv ev = Inr part \<longleftrightarrow>
   (\<exists>key sig s ow. part_from_str w (ev_body ev) = Some part \<and>
     reg_public_key reg r (NodeId (sp_node part)) = Inr (Some key) \<and>
     pk_node key = NodeId (sp_node part) \<and>
     from_hex 64 (ev_signature ev) ''signature'' = Inr sig \<and>
     ed_verify_strict ed (pk_verifying key) (ev_body ev) sig \<and>
     derive_scope rsv part = Inr s \<and> reg_owner_of reg r s = Inr (Some ow) \<and>
     ow_owner ow = NodeId (sp_node part) \<and> ow_epoch ow \<le> sp_epoch part)" (is "?l \<longleftrightarrow> ?r")
proof
  show "?l \<Longrightarrow> ?r"
    by (auto simp: authorize_def peek_def verify_event_Inr not_less
        split: sum.splits option.splits if_splits)
next
  assume ?r
  then obtain key s ow where key: "part_from_str w (ev_body ev) = Some part"
      "reg_public_key reg r (NodeId (sp_node part)) = Inr (Some key)"
      "verify_event ed w key ev = Inr part" and
    ow: "derive_scope rsv part = Inr s" "reg_owner_of reg r s = Inr (Some ow)"
      "ow_owner ow = NodeId (sp_node part)" "ow_epoch ow \<le> sp_epoch part"
    by (auto simp: verify_event_Inr)
  then show ?l by (simp add: authorize_def peek_def not_less)
qed

text \<open>What the gate says of an event a node of the fleet really signed.\<close>

lemma authorize_signed:
  assumes "ed_sound ed" "wire_ok w"
    and "reg_public_key reg r (kp_node kp) = Inr (Some (keypair_public ed kp))"
  shows "authorize ed w reg r rsv (sign_event ed w kp part) =
    (case derive_scope rsv part of
       Inl e \<Rightarrow> Inl e
     | Inr s \<Rightarrow>
         (case reg_owner_of reg r s of
            Inl e \<Rightarrow> Inl (Auth_Registry (registry_error_text e))
          | Inr None \<Rightarrow> Inl Auth_Unowned
          | Inr (Some ow) \<Rightarrow>
              if ow_owner ow \<noteq> kp_node kp then Inl Auth_NotOwner
              else if sp_epoch part < ow_epoch ow then Inl Auth_StaleEpoch
              else Inr (part\<lparr>sp_node := node_id_val (kp_node kp)\<rparr>)))"
  using assms
  by (simp add: authorize_def peek_sign_event verify_sign_event split: sum.split option.split)

text \<open>A record of the feed passes at a peer that sees the same owner, epoch and
  parent rows.\<close>

lemma authorize_feed_record:
  assumes "ed_sound ed" "wire_ok w"
    and "reg_public_key reg r (kp_node kp) = Inr (Some (keypair_public ed kp))"
    and "sign_record ed w enc kp reg r rsv rec = Some ev"
  shows "\<exists>part s e. authorize ed w reg r rsv ev = Inr part \<and>
    derive_scope rsv part = Inr s \<and> my_epoch reg r (kp_node kp) s = Some e \<and>
    part = (feed_part enc rec)\<lparr>sp_node := node_id_val (kp_node kp), sp_epoch := e,
      sp_scope := event_scope_from s\<rparr>"
proof -
  obtain s e where s: "derive_scope rsv (feed_part enc rec) = Inr s"
      "my_epoch reg r (kp_node kp) s = Some e" and
    ev: "ev = sign_event ed w kp
      ((feed_part enc rec)\<lparr>sp_epoch := e, sp_scope := event_scope_from s\<rparr>)"
    using assms(4) by (auto simp: sign_record_def feed_scope_derive bind_eq_Some_conv)
  obtain ow where ow: "reg_owner_of reg r s = Inr (Some ow)" "ow_owner ow = kp_node kp" "ow_epoch ow = e"
    using s(2) by (auto simp: my_epoch_def split: sum.splits option.splits if_splits)
  show ?thesis
    unfolding ev authorize_signed [OF assms(1-3)] using s ow by simp
qed

section \<open>Fencing\<close>

context ownership_registry
begin

text \<open>An event that passed is refused for good once the scope has another owner,
  whoever holds it and even when its old owner takes it back.\<close>

lemma superseded_event_refused:
  assumes "wf r" "registry_run reg r r'"
    and "authorize ed w reg r rsv ev = Inr part" "derive_scope rsv part = Inr s"
    and "reg_owner_of reg r s = Inr (Some ow)" "sp_epoch part = ow_epoch ow"
    and "reg_owner_of reg r' s = Inr (Some ow')" "ow' \<noteq> ow"
  shows "authorize ed w reg r' rsv ev \<in> {Inl Auth_NotOwner, Inl Auth_StaleEpoch}"
proof -
  have later: "ow_epoch ow < ow_epoch ow'"
    using fencing [OF assms(2,1,5,7)] assms(8) by simp
  obtain key where key: "part_from_str w (ev_body ev) = Some part"
      "reg_public_key reg r (NodeId (sp_node part)) = Inr (Some key)"
      "verify_event ed w key ev = Inr part"
    using assms(3) by (auto simp: authorize_Inr verify_event_Inr)
  have "reg_public_key reg r' (NodeId (sp_node part)) = Inr (Some key)"
    using keys_permanent [OF assms(2) key(2)] .
  then show ?thesis
    using key(1,3) assms(4,6,7) later by (auto simp: authorize_def peek_def)
qed

end

end
