(* ===== verification/Command_Path.thy ===== *)
theory Command_Path
  imports Feed_Laws Store_Laws Governance_Service Social_Service
begin

text \<open>
  Writes to a scope another node owns (\<^verbatim>\<open>adapter-federation/src/command\<close>,
  \<^verbatim>\<open>adapter-federation/src/http\<close>, \<^verbatim>\<open>democrachat/src\<close>: \<^verbatim>\<open>command_executor\<close>,
  \<^verbatim>\<open>nonce_log\<close>). The caller signs a command and sends it to the owner, which
  authenticates it, checks that it owns the scope, refuses replays and runs the
  use case. Clocks are whole seconds, as \<^verbatim>\<open>int\<close>.
\<close>

section \<open>Commands\<close>

datatype fed_command =
    CastVote u64 u64 bool
  | SendDm u64 u64 string string
  | BlockUser u64 u64
  | RequestFriend u64 u64
  | AcceptFriend u64 u64

datatype forward_error =
    Fwd_Unowned
  | Fwd_OwnerUnreachable string
  | Fwd_Rejected string

fun forward_error_text :: "forward_error \<Rightarrow> string" where
  "forward_error_text Fwd_Unowned = ''scope has no reachable owner''"
| "forward_error_text (Fwd_OwnerUnreachable e) = ''owner unreachable: '' @ e"
| "forward_error_text (Fwd_Rejected e) = ''owner rejected the write: '' @ e"

record signed_command =
  sc_node :: u16
  sc_body :: string
  sc_issued_at :: int
  sc_nonce :: string
  sc_signature :: string

text \<open>The JSON text of a command, from the serialisation library.\<close>

record command_wire =
  cmd_to_string :: "fed_command \<Rightarrow> string"
  cmd_from_str :: "string \<Rightarrow> fed_command option"

definition command_wire_ok :: "command_wire \<Rightarrow> bool" where
  "command_wire_ok cw \<longleftrightarrow> (\<forall>cmd. cmd_from_str cw (cmd_to_string cw cmd) = Some cmd)"

definition dec_int :: "int \<Rightarrow> string" where
  "dec_int i = (if i < 0 then CHR ''-'' # dec_nat (nat (- i)) else dec_nat (nat i))"

abbreviation newline :: char where
  "newline \<equiv> CHR 0x0A"

definition signing_payload :: "u16 \<Rightarrow> int \<Rightarrow> string \<Rightarrow> string \<Rightarrow> string" where
  "signing_payload n issued_at nonce body =
     ''democrachat:cmd:v1'' @ [newline] @ dec_nat (unat n) @ [newline] @ dec_int issued_at @
     [newline] @ nonce @ [newline] @ body"

text \<open>\<^verbatim>\<open>SignedCommand::sign\<close> reads the clock and makes a nonce, then calls this.\<close>

definition sign_at ::
  "ed25519 \<Rightarrow> command_wire \<Rightarrow> node_keypair \<Rightarrow> fed_command \<Rightarrow> int \<Rightarrow> string \<Rightarrow> signed_command" where
  "sign_at ed cw kp cmd issued_at nonce =
     (let n = node_id_val (kp_node kp);
          body = cmd_to_string cw cmd;
          payload = signing_payload n issued_at nonce body
      in \<lparr> sc_node = n, sc_body = body, sc_issued_at = issued_at, sc_nonce = nonce,
           sc_signature = sign_hex ed kp payload \<rparr>)"

definition signed_inner :: "command_wire \<Rightarrow> signed_command \<Rightarrow> fed_command option" where
  "signed_inner cw sc = cmd_from_str cw (sc_body sc)"

definition verify_signed ::
  "ed25519 \<Rightarrow> command_wire \<Rightarrow> 'r registry \<Rightarrow> 'r \<Rightarrow> signed_command \<Rightarrow> forward_error + fed_command" where
  "verify_signed ed cw reg r sc =
     (case reg_public_key reg r (NodeId (sc_node sc)) of
        Inl e \<Rightarrow> Inl (Fwd_OwnerUnreachable (registry_error_text e))
      | Inr None \<Rightarrow>
          Inl (Fwd_Rejected (''unknown forwarding node '' @ dec_nat (unat (sc_node sc))))
      | Inr (Some key) \<Rightarrow>
          let payload = signing_payload (sc_node sc) (sc_issued_at sc) (sc_nonce sc)
                (sc_body sc)
          in case verify_hex ed key payload (sc_signature sc) of
               Inl _ \<Rightarrow> Inl (Fwd_Rejected ''bad command signature'')
             | Inr _ \<Rightarrow>
                 (case signed_inner cw sc of
                    None \<Rightarrow> Inl (Fwd_Rejected ''malformed command body'')
                  | Some cmd \<Rightarrow> Inr cmd))"

fun target_scopes :: "fed_command \<Rightarrow> scope_resolver \<Rightarrow> owned_scope list" where
  "target_scopes (CastVote proposal _ _) rsv =
     (case proposal_server rsv proposal of None \<Rightarrow> [] | Some s \<Rightarrow> [ScopeServer s])"
| "target_scopes (SendDm sender _ _ _) rsv = [ScopeUserHome sender]"
| "target_scopes (BlockUser blocker blocked) rsv = [ScopeUserHome blocker, ScopeUserHome blocked]"
| "target_scopes (RequestFriend requester addressee) rsv =
     [ScopeUserHome requester, ScopeUserHome addressee]"
| "target_scopes (AcceptFriend accepter requester) rsv =
     [ScopeUserHome accepter, ScopeUserHome requester]"

section \<open>Replays\<close>

definition MAX_COMMAND_SKEW_SECS :: int where
  "MAX_COMMAND_SKEW_SECS = 120"

text \<open>The trait \<^verbatim>\<open>NonceLog\<close>, and its two implementations: a process-local map, and
  the store (which it also saves when the nonce is new).\<close>

type_synonym 's nonce_log =
  "u16 \<Rightarrow> string \<Rightarrow> int \<Rightarrow> int \<Rightarrow> 's \<Rightarrow> (forward_error + bool) \<times> 's"

definition in_memory_remember :: "(u16 \<times> string, int) hashmap nonce_log" where
  "in_memory_remember n nonce now expiry_at seen =
     (let seen = hm_retain (\<lambda>_ expiry. expiry > now) seen
      in (Inr (hm_get seen (n, nonce) = None), hm_insert (n, nonce) expiry_at seen))"

definition store_remember :: "inner nonce_log" where
  "store_remember n nonce now expiry_at st =
     (let (newly, st) = remember_nonce n nonce now expiry_at st in (Inr newly, st))"

definition admit ::
  "'s nonce_log \<Rightarrow> u16 \<Rightarrow> string \<Rightarrow> int \<Rightarrow> int \<Rightarrow> 's \<Rightarrow> (forward_error + unit) \<times> 's" where
  "admit log n nonce issued_at now s =
     (if \<bar>now - issued_at\<bar> > MAX_COMMAND_SKEW_SECS
      then (Inl (Fwd_Rejected ''stale or future-dated command (outside the freshness window)''), s)
      else
        let expiry_at = now + 2 * MAX_COMMAND_SKEW_SECS in
        case log n nonce now expiry_at s of
          (Inl e, s) \<Rightarrow> (Inl e, s)
        | (Inr newly, s) \<Rightarrow>
            (if newly then Inr ()
             else Inl (Fwd_Rejected (''duplicate command (already applied '' @ map char_of [226, 128, 148 :: nat] @ '' replay refused)'')), s))"

section \<open>Running a command on the owner\<close>

fun vote_error_text :: "vote_error \<Rightarrow> string" where
  "vote_error_text (Vote_NoSuchUser u) = ''no such user: '' @ [CHR 0x27] @ u @ [CHR 0x27]"
| "vote_error_text (Vote_NoSuchProposal p) = ''no such proposal: '' @ dec_u64 p"
| "vote_error_text Vote_NotACitizen = ''only a citizen of this server may vote''"
| "vote_error_text Vote_Closed = ''this proposal is closed''"

fun dm_error_text :: "dm_error \<Rightarrow> string" where
  "dm_error_text (Dm_NoSuchUser u) = ''no such user: '' @ [CHR 0x27] @ u @ [CHR 0x27]"
| "dm_error_text Dm_Self = ''cannot send a direct message to yourself''"
| "dm_error_text Dm_NotAllowed = ''you can'' @ [CHR 0x27] @ ''t message this user''"
| "dm_error_text Dm_EmptyBody = ''message body cannot be empty''"

fun social_error_text :: "social_error \<Rightarrow> string" where
  "social_error_text (Social_NoSuchUser u) = ''no such user: '' @ [CHR 0x27] @ u @ [CHR 0x27]"
| "social_error_text Social_Self = ''cannot do that to yourself''"
| "social_error_text Social_NoPendingRequest = ''no pending friend request from that user''"

text \<open>The result of a use case as the result of a command.\<close>

definition ran :: "('e \<Rightarrow> string) \<Rightarrow> ('e + 'a) \<times> inner \<Rightarrow> (forward_error + unit) \<times> inner" where
  "ran txt res = (map_sum (\<lambda>e. Fwd_Rejected (txt e)) (\<lambda>_. ()) (fst res), snd res)"

fun service_execute :: "env \<Rightarrow> fed_command \<Rightarrow> inner \<Rightarrow> (forward_error + unit) \<times> inner" where
  "service_execute env (CastVote proposal voter is_aye) st =
     ran vote_error_text (cast_vote_by_id voter proposal is_aye st)"
| "service_execute env (SendDm sender recipient for_recipient for_sender) st =
     ran dm_error_text (send_sealed_dm_by_id env sender recipient for_recipient for_sender st)"
| "service_execute env (BlockUser blocker blocked) st =
     ran social_error_text (block_user_by_id env blocker blocked st)"
| "service_execute env (RequestFriend requester addressee) st =
     ran social_error_text (request_friend_by_id env requester addressee st)"
| "service_execute env (AcceptFriend accepter requester) st =
     ran social_error_text (accept_friend_by_id accepter requester st)"

text \<open>The loop over the scopes of a command: does this node own one of them?\<close>

fun owns_a_scope :: "'r registry \<Rightarrow> 'r \<Rightarrow> node_id \<Rightarrow> owned_scope list \<Rightarrow> bool \<Rightarrow> forward_error + bool" where
  "owns_a_scope reg r me [] owns = Inr owns"
| "owns_a_scope reg r me (scope # rest) owns =
     (case reg_owner_of reg r scope of
        Inl e \<Rightarrow> Inl (Fwd_OwnerUnreachable (registry_error_text e))
      | Inr (Some ow) \<Rightarrow> owns_a_scope reg r me rest (if ow_owner ow = me then True else owns)
      | Inr None \<Rightarrow> owns_a_scope reg r me rest owns)"

definition execute ::
  "ed25519 \<Rightarrow> command_wire \<Rightarrow> node_id \<Rightarrow> 'r registry \<Rightarrow> 'r \<Rightarrow> scope_resolver \<Rightarrow> 's nonce_log \<Rightarrow>
   (fed_command \<Rightarrow> 's \<Rightarrow> (forward_error + unit) \<times> 's) \<Rightarrow> signed_command \<Rightarrow> int \<Rightarrow> 's \<Rightarrow>
   (forward_error + unit) \<times> 's" where
  "execute ed cw me reg r rsv log executor sc now s =
     (case verify_signed ed cw reg r sc of
        Inl e \<Rightarrow> (Inl e, s)
      | Inr cmd \<Rightarrow>
          let scopes = target_scopes cmd rsv in
          if scopes = [] then (Inl Fwd_Unowned, s)
          else case owns_a_scope reg r me scopes False of
            Inl e \<Rightarrow> (Inl e, s)
          | Inr owns \<Rightarrow>
              if \<not> owns
              then (Inl (Fwd_Rejected (''this node owns none of the command'' @ [CHR 0x27] @ ''s scopes'')), s)
              else case admit log (sc_node sc) (sc_nonce sc) (sc_issued_at sc) now s of
                (Inl e, s) \<Rightarrow> (Inl e, s)
              | (Inr _, s) \<Rightarrow> executor cmd s)"

section \<open>The wire between caller and owner\<close>

text \<open>\<^verbatim>\<open>status_for\<close>: the status the owner answers with; and what the caller makes of
  a status, its printed form and the text of the answer.\<close>

fun status_for :: "forward_error \<Rightarrow> nat" where
  "status_for (Fwd_Rejected _) = 422"
| "status_for Fwd_Unowned = 409"
| "status_for (Fwd_OwnerUnreachable _) = 502"

definition bearer_ok :: "string option \<Rightarrow> string option \<Rightarrow> bool" where
  "bearer_ok expected authorization =
     (case expected of
        None \<Rightarrow> True
      | Some tok \<Rightarrow> (case authorization of None \<Rightarrow> False | Some v \<Rightarrow> v = ''Bearer '' @ tok))"

definition command_handler ::
  "string option \<Rightarrow> string option \<Rightarrow> ('s \<Rightarrow> (forward_error + unit) \<times> 's) \<Rightarrow> 's \<Rightarrow> nat \<times> 's" where
  "command_handler expected authorization run s =
     (if \<not> bearer_ok expected authorization then (401, s)
      else case run s of
        (Inr _, s) \<Rightarrow> (204, s)
      | (Inl e, s) \<Rightarrow> (status_for e, s))"

definition forward_response :: "nat \<Rightarrow> string \<Rightarrow> string \<Rightarrow> forward_error + unit" where
  "forward_response status shown detail =
     (if 200 \<le> status \<and> status \<le> 299 then Inr ()
      else Inl
        (if status = 409 then Fwd_Unowned
         else if 502 \<le> status \<and> status \<le> 504 then Fwd_OwnerUnreachable (''HTTP '' @ shown)
         else Fwd_Rejected (if detail = [] then ''HTTP '' @ shown else detail)))"

section \<open>Routing a write\<close>

text \<open>The owners of the scopes, without repetition.\<close>

fun resolve_owners :: "'r registry \<Rightarrow> 'r \<Rightarrow> owned_scope list \<Rightarrow> node_id list \<Rightarrow> forward_error + node_id list" where
  "resolve_owners reg r [] owners = Inr owners"
| "resolve_owners reg r (scope # rest) owners =
     (case reg_owner_of reg r scope of
        Inl e \<Rightarrow> Inl (Fwd_OwnerUnreachable (registry_error_text e))
      | Inr None \<Rightarrow> Inl Fwd_Unowned
      | Inr (Some ow) \<Rightarrow>
          resolve_owners reg r rest
            (if ow_owner ow \<in> set owners then owners else owners @ [ow_owner ow]))"

text \<open>\<open>local\<close> runs a command on this node, \<open>forward\<close> sends the signed command to a
  peer; both act on the state \<open>'w\<close> of the fleet.\<close>

fun commit_owners ::
  "node_id \<Rightarrow> ('w \<Rightarrow> (forward_error + unit) \<times> 'w) \<Rightarrow> (node_id \<Rightarrow> bool) \<Rightarrow>
   (node_id \<Rightarrow> 'w \<Rightarrow> (forward_error + unit) \<times> 'w) \<Rightarrow> node_id list \<Rightarrow> 'w \<Rightarrow>
   (forward_error + unit) \<times> 'w" where
  "commit_owners me local peer forward [] w = (Inr (), w)"
| "commit_owners me local peer forward (owner # rest) w =
     (case (if owner = me then local w
            else if \<not> peer owner
            then (Inl (Fwd_OwnerUnreachable
                   (''no route to owner node '' @ dec_nat (unat (node_id_val owner)))), w)
            else forward owner w) of
        (Inl e, w) \<Rightarrow> (Inl e, w)
      | (Inr _, w) \<Rightarrow> commit_owners me local peer forward rest w)"

definition submit ::
  "ed25519 \<Rightarrow> command_wire \<Rightarrow> node_keypair \<Rightarrow> node_id \<Rightarrow> 'r registry \<Rightarrow> 'r \<Rightarrow> scope_resolver \<Rightarrow>
   (fed_command \<Rightarrow> 'w \<Rightarrow> (forward_error + unit) \<times> 'w) \<Rightarrow> (node_id \<Rightarrow> bool) \<Rightarrow>
   (node_id \<Rightarrow> signed_command \<Rightarrow> 'w \<Rightarrow> (forward_error + unit) \<times> 'w) \<Rightarrow>
   int \<Rightarrow> string \<Rightarrow> fed_command \<Rightarrow> 'w \<Rightarrow> (forward_error + unit) \<times> 'w" where
  "submit ed cw kp me reg r rsv local peer forward issued_at nonce cmd w =
     (let scopes = target_scopes cmd rsv in
      if scopes = [] then (Inl Fwd_Unowned, w)
      else case resolve_owners reg r scopes [] of
        Inl e \<Rightarrow> (Inl e, w)
      | Inr owners \<Rightarrow>
          let sc = sign_at ed cw kp cmd issued_at nonce
          in commit_owners me (local cmd) peer (\<lambda>n. forward n sc) owners w)"

end
