(* ===== verification/Command_Laws.thy ===== *)
theory Command_Laws
  imports Command_Path
begin

text \<open>
  What the command path guarantees: the signature covers every field, a command
  runs only on an owner of one of its scopes and only when a known node signed
  it, a command that was admitted is refused when it comes again, and a write
  that succeeds has been run once by every owner of its scopes.
\<close>

section \<open>The signed bytes\<close>

lemma dec_nat_digits: "c \<in> set (dec_nat n) \<Longrightarrow> 48 \<le> byte c \<and> byte c \<le> 57"
proof (induction n rule: dec_nat.induct)
  case (1 n)
  show ?case
  proof (cases "n < 10")
    case True
    then show ?thesis using 1(2) by (auto simp: dec_nat.simps [of n])
  next
    case False
    then show ?thesis using 1 by (auto simp: dec_nat.simps [of n])
  qed
qed

lemma digits_value_snoc: "digits_value (ds @ [c]) = 10 * digits_value ds + (byte c - 48)"
  by (simp add: digits_value_def)

lemma digits_value_dec_nat [simp]: "digits_value (dec_nat n) = n"
proof (induction n rule: dec_nat.induct)
  case (1 n)
  show ?case
  proof (cases "n < 10")
    case True
    then show ?thesis by (simp add: dec_nat.simps [of n] digits_value_def)
  next
    case False
    then show ?thesis using 1 by (simp add: dec_nat.simps [of n] digits_value_snoc)
  qed
qed

lemma dec_nat_not_Nil [simp]: "dec_nat n \<noteq> []"
  by (subst dec_nat.simps) simp

text \<open>An id printed in decimal parses back.\<close>

lemma parse_unsigned_dec:
  assumes "n < 2 ^ w"
  shows "parse_unsigned w (dec_nat n) = Some n"
proof -
  have "hd (dec_nat n) \<noteq> CHR ''+''"
    using dec_nat_digits [of "hd (dec_nat n)" n] by (auto simp: hd_in_set)
  then show ?thesis
    using assms dec_nat_digits [of _ n] by (simp add: parse_unsigned_def Let_def list_all_iff)
qed

lemma parse_u64_dec: "parse_u64 (dec_u64 i) = Some i"
proof -
  have "unat i < 2 ^ 64" using unsigned_less [of i] by simp
  then show ?thesis by (simp add: parse_u64_def dec_u64_def parse_unsigned_dec)
qed

lemma dec_nat_inject [simp]: "dec_nat m = dec_nat n \<longleftrightarrow> m = n"
  by (metis digits_value_dec_nat)

lemma dec_int_inject [simp]: "dec_int i = dec_int j \<longleftrightarrow> i = j"
proof -
  have "hd (dec_nat n) \<noteq> CHR ''-''" for n
    using dec_nat_digits [of "hd (dec_nat n)" n] by (auto simp: hd_in_set)
  then have "CHR ''-'' # ds \<noteq> dec_nat n" "dec_nat n \<noteq> CHR ''-'' # ds" for n ds
    by (metis list.sel(1))+
  then show ?thesis by (auto simp: dec_int_def)
qed

lemma no_newline [simp]: "newline \<notin> set (dec_nat n)" "newline \<notin> set (dec_int i)"
  using dec_nat_digits [of newline] by (auto simp: dec_int_def)

lemma join_inject:
  assumes "c \<notin> set xs" "c \<notin> set xs'"
  shows "xs @ c # ys = xs' @ c # ys' \<longleftrightarrow> xs = xs' \<and> ys = ys'"
proof
  assume eq: "xs @ c # ys = xs' @ c # ys'"
  have "takeWhile (\<lambda>x. x \<noteq> c) (xs @ c # ys) = xs" "takeWhile (\<lambda>x. x \<noteq> c) (xs' @ c # ys') = xs'"
    using assms by (auto simp: takeWhile_append)
  then show "xs = xs' \<and> ys = ys'" using eq by auto
qed simp

lemma signing_payload_inject:
  assumes "newline \<notin> set nonce" "newline \<notin> set nonce'"
  shows "signing_payload n i nonce body = signing_payload n' i' nonce' body' \<longleftrightarrow>
    n = n' \<and> i = i' \<and> nonce = nonce' \<and> body = body'"
  using assms by (auto simp: signing_payload_def join_inject dest: word_unat_eq_iff [THEN iffD2])

lemma verify_signed_sign_at:
  assumes "ed_sound ed" "command_wire_ok cw"
    and "reg_public_key reg r (kp_node kp) = Inr (Some (keypair_public ed kp))"
  shows "verify_signed ed cw reg r (sign_at ed cw kp cmd issued_at nonce) = Inr cmd"
  using assms by (simp add: verify_signed_def sign_at_def Let_def signed_inner_def command_wire_ok_def)

section \<open>No replays\<close>

text \<open>What the guard needs of a log of nonces: \<open>seen\<close> gives the expiry of a
  remembered nonce; an expired one counts as new.\<close>

locale nonce_log =
  fixes log :: "'s nonce_log" and wf :: "'s \<Rightarrow> bool" and seen :: "'s \<Rightarrow> u16 \<times> string \<Rightarrow> int option"
  assumes remember_result:
      "wf s \<Longrightarrow> fst (log n nonce now ex s) = Inr (\<forall>e. seen s (n, nonce) = Some e \<longrightarrow> e \<le> now)"
    and remember_seen:
      "wf s \<Longrightarrow> seen (snd (log n nonce now ex s)) k =
        (if k = (n, nonce) then Some ex
         else Option.bind (seen s k) (\<lambda>e. if now < e then Some e else None))"
    and remember_wf: "wf s \<Longrightarrow> wf (snd (log n nonce now ex s))"

text \<open>A stretch of the life of an owner: any attempts, its clock not going back, and
  any other work that leaves the log alone.\<close>

inductive log_run ::
  "'s nonce_log \<Rightarrow> ('s \<Rightarrow> bool) \<Rightarrow> ('s \<Rightarrow> u16 \<times> string \<Rightarrow> int option) \<Rightarrow> int \<Rightarrow> 's \<Rightarrow> int \<Rightarrow> 's \<Rightarrow> bool"
  for log wf seen t s where
  log_start: "log_run log wf seen t s t s"
| log_tried: "log_run log wf seen t s t' s' \<Longrightarrow> t' \<le> now \<Longrightarrow>
    log_run log wf seen t s now (snd (admit log n nonce issued now s'))"
| log_other: "log_run log wf seen t s t' s' \<Longrightarrow> wf s'' \<Longrightarrow> seen s'' = seen s' \<Longrightarrow>
    log_run log wf seen t s t' s''"

context nonce_log
begin

lemma admit_Inr:
  assumes "wf s"
  shows "fst (admit log n nonce issued now s) = Inr () \<longleftrightarrow>
    \<bar>now - issued\<bar> \<le> MAX_COMMAND_SKEW_SECS \<and> (\<forall>e. seen s (n, nonce) = Some e \<longrightarrow> e \<le> now)"
  using remember_result [OF assms, of n nonce now "now + 2 * MAX_COMMAND_SKEW_SECS"]
  by (auto simp: admit_def Let_def split: prod.split sum.split)

lemma admit_state:
  "snd (admit log n nonce issued now s) =
     (if \<bar>now - issued\<bar> \<le> MAX_COMMAND_SKEW_SECS
      then snd (log n nonce now (now + 2 * MAX_COMMAND_SKEW_SECS) s) else s)"
  by (auto simp: admit_def Let_def split: prod.split sum.split)

lemma remembered:
  assumes "log_run log wf seen t s t' s'" "wf s"
    and "seen s k = Some e0" "t + 2 * MAX_COMMAND_SKEW_SECS \<le> e0"
  shows "wf s' \<and> t \<le> t' \<and>
    (t' < t + 2 * MAX_COMMAND_SKEW_SECS \<longrightarrow>
      (\<exists>e. seen s' k = Some e \<and> t + 2 * MAX_COMMAND_SKEW_SECS \<le> e))"
  using assms(1)
proof induction
  case log_start
  then show ?case using assms(2-4) by auto
next
  case (log_tried t' s' now n nonce issued)
  then show ?case
    by (auto simp: admit_state remember_wf remember_seen split: if_splits)
next
  case (log_other t' s' s'')
  then show ?case by simp
qed

text \<open>A command that was admitted is refused ever after, provided it was not issued
  as far in the future as the window allows.\<close>

lemma no_replay:
  assumes "wf s" "fst (admit log n nonce issued t s) = Inr ()"
    and "log_run log wf seen t (snd (admit log n nonce issued t s)) t' s'" "t' \<le> now"
    and "issued < t + MAX_COMMAND_SKEW_SECS"
  shows "fst (admit log n nonce issued now s') \<noteq> Inr ()"
proof -
  let ?s = "snd (admit log n nonce issued t s)"
  have fresh: "\<bar>t - issued\<bar> \<le> MAX_COMMAND_SKEW_SECS" using assms(2) admit_Inr [OF assms(1)] by blast
  then have "wf ?s" "seen ?s (n, nonce) = Some (t + 2 * MAX_COMMAND_SKEW_SECS)"
    using assms(1) by (simp_all add: admit_state remember_wf remember_seen)
  from remembered [OF assms(3) this] have *: "wf s'"
      "t' < t + 2 * MAX_COMMAND_SKEW_SECS \<Longrightarrow>
        \<exists>e. seen s' (n, nonce) = Some e \<and> t + 2 * MAX_COMMAND_SKEW_SECS \<le> e"
    by auto
  show ?thesis
  proof (cases "now < t + 2 * MAX_COMMAND_SKEW_SECS")
    case True
    then show ?thesis using * assms(4) by (force simp: admit_Inr)
  next
    case False
    then show ?thesis using assms(5) *(1) by (auto simp: admit_Inr MAX_COMMAND_SKEW_SECS_def)
  qed
qed

end

interpretation memory_log: nonce_log in_memory_remember hm_ok hm_get
proof unfold_locales
  fix s :: "(u16 \<times> string, int) hashmap" and n nonce now ex k
  assume "hm_ok s"
  then show "fst (in_memory_remember n nonce now ex s) =
      Inr (\<forall>e. hm_get s (n, nonce) = Some e \<longrightarrow> e \<le> now)"
    "hm_get (snd (in_memory_remember n nonce now ex s)) k =
      (if k = (n, nonce) then Some ex
       else Option.bind (hm_get s k) (\<lambda>e. if now < e then Some e else None))"
    "hm_ok (snd (in_memory_remember n nonce now ex s))"
    by (auto simp: in_memory_remember_def Let_def hm_get_retain hm_get_insert hm_ok_insert
        hm_ok_retain split: option.split)
qed

interpretation store_log: nonce_log store_remember tables_ok "\<lambda>st. hm_get (nonces st)"
proof unfold_locales
  fix s :: inner and n nonce now ex k
  assume ok: "tables_ok s"
  then have "hm_ok (nonces s)" by (simp add: tables_ok_def)
  then show "fst (store_remember n nonce now ex s) =
      Inr (\<forall>e. hm_get (nonces s) (n, nonce) = Some e \<longrightarrow> e \<le> now)"
    "hm_get (nonces (snd (store_remember n nonce now ex s))) k =
      (if k = (n, nonce) then Some ex
       else Option.bind (hm_get (nonces s) k) (\<lambda>e. if now < e then Some e else None))"
    by (auto simp: store_remember_def remember_nonce_def Let_def hm_get_retain hm_get_insert
        split: option.split)
  show "tables_ok (snd (store_remember n nonce now ex s))"
    using tables_ok_more_ops(13) [OF ok] by (simp add: store_remember_def split_beta)
qed

section \<open>Running on the owner\<close>

lemma owns_a_scope_Inr:
  "owns_a_scope reg r me scopes owns = Inr b \<Longrightarrow>
   b \<longleftrightarrow> owns \<or> (\<exists>s\<in>set scopes. \<exists>ow. reg_owner_of reg r s = Inr (Some ow) \<and> ow_owner ow = me)"
  by (induction reg r me scopes owns rule: owns_a_scope.induct)
     (auto split: sum.splits option.splits if_splits)

text \<open>The state changes only for a command that is signed by the published key of
  its node and names a scope this node owns; in particular a misrouted command
  does not use up its nonce.\<close>

lemma execute_gated:
  assumes "snd (execute ed cw me reg r rsv log executor sc now s) \<noteq> s \<or>
      fst (execute ed cw me reg r rsv log executor sc now s) = Inr ()"
  shows "\<exists>cmd scope ow. verify_signed ed cw reg r sc = Inr cmd \<and>
    scope \<in> set (target_scopes cmd rsv) \<and> reg_owner_of reg r scope = Inr (Some ow) \<and> ow_owner ow = me"
  using assms owns_a_scope_Inr
  by (fastforce simp: execute_def Let_def split: sum.splits if_splits)

lemma execute_Inr:
  assumes "fst (execute ed cw me reg r rsv log executor sc now s) = Inr ()"
  shows "\<exists>cmd s'. verify_signed ed cw reg r sc = Inr cmd \<and>
    admit log (sc_node sc) (sc_nonce sc) (sc_issued_at sc) now s = (Inr (), s') \<and>
    executor cmd s' = execute ed cw me reg r rsv log executor sc now s"
  using assms
  by (auto simp: execute_def Let_def split: sum.splits if_splits prod.splits)

section \<open>Routing\<close>

lemma resolve_owners_Inr:
  "resolve_owners reg r scopes acc = Inr owners \<Longrightarrow>
   set owners = set acc \<union> {n. \<exists>s\<in>set scopes. \<exists>ow. reg_owner_of reg r s = Inr (Some ow) \<and> ow_owner ow = n} \<and>
   (distinct acc \<longrightarrow> distinct owners) \<and>
   (\<forall>s\<in>set scopes. \<exists>ow. reg_owner_of reg r s = Inr (Some ow))"
proof (induction reg r scopes acc rule: resolve_owners.induct)
  case (2 reg r scope rest owners')
  then obtain ow where ow: "reg_owner_of reg r scope = Inr (Some ow)"
    by (auto split: sum.splits option.splits)
  then show ?case using 2(1) [OF ow refl] 2(2) by (auto split: if_splits)
qed auto

text \<open>A write that succeeds ran on every owner in turn.\<close>

lemma commit_owners_Inr:
  assumes "commit_owners me local peer forward owners w = (Inr (), w')" "owner \<in> set owners"
  shows "\<exists>pre post w0 w1. owners = pre @ owner # post \<and>
    commit_owners me local peer forward pre w = (Inr (), w0) \<and>
    (if owner = me then local w0 else forward owner w0) = (Inr (), w1) \<and>
    commit_owners me local peer forward post w1 = (Inr (), w')"
  using assms
proof (induction owners arbitrary: w)
  case (Cons o' owners)
  obtain w1 where step: "(if o' = me then local w else forward o' w) = (Inr (), w1)"
      "commit_owners me local peer forward owners w1 = (Inr (), w')"
      "commit_owners me local peer forward (o' # pre) w = commit_owners me local peer forward pre w1" for pre
    using Cons.prems(1) by (auto split: prod.splits sum.splits if_splits)
  show ?case
  proof (cases "owner = o'")
    case True
    show ?thesis
      by (rule exI [of _ "[]"], rule exI [of _ owners], rule exI [of _ w], rule exI [of _ w1])
         (use True step(1,2) in \<open>auto split: if_splits\<close>)
  next
    case False
    then have "owner \<in> set owners" using Cons.prems(2) by simp
    from Cons.IH [OF step(2) this] obtain pre post w0 w2 where
      "owners = pre @ owner # post" "commit_owners me local peer forward pre w1 = (Inr (), w0)"
      "(if owner = me then local w0 else forward owner w0) = (Inr (), w2)"
      "commit_owners me local peer forward post w2 = (Inr (), w')"
      by blast
    then show ?thesis
      using step(3) [of pre] by (intro exI [of _ "o' # pre"] exI [of _ post] exI [of _ w0] exI [of _ w2]) simp
  qed
qed simp

lemma commit_owners_invariant:
  assumes "\<And>w w'. P w \<Longrightarrow> local w = (Inr (), w') \<Longrightarrow> P w'"
    "\<And>n w w'. P w \<Longrightarrow> forward n w = (Inr (), w') \<Longrightarrow> P w'"
  shows "commit_owners me local peer forward owners w = (Inr (), w') \<Longrightarrow> P w \<Longrightarrow> P w'"
proof (induction owners arbitrary: w)
  case (Cons o' owners)
  obtain w1 where step: "(if o' = me then local w else forward o' w) = (Inr (), w1)"
      "commit_owners me local peer forward owners w1 = (Inr (), w')"
    using Cons.prems(1) by (auto split: prod.splits sum.splits if_splits)
  have "P w1" using step(1) Cons.prems(2) assms(1) [of w w1] assms(2) [of w o' w1]
    by (auto split: if_splits)
  then show ?case using Cons.IH step(2) by blast
qed simp

end
