(* ===== verification/Rehome.thy ===== *)
theory Rehome
  imports Ownership
begin

text \<open>
  Failover (\<^verbatim>\<open>federation/src/rehome\<close>): which standby takes a scope whose owner is
  gone, and the step of the controller of one node. The controller works on any
  registry; its lemmas are proved from the laws of \<open>ownership_registry\<close>.
\<close>

section \<open>Placement\<close>

definition busier :: "node_load \<Rightarrow> node_load \<Rightarrow> ordering" where
  "busier a b =
     then_cmp (case partial_cmp (requests_per_sec a) (requests_per_sec b) of
                 None \<Rightarrow> Ord_Greater | Some ord \<Rightarrow> ord)
       (cmp (hosted_scopes a) (hosted_scopes b))"

text \<open>\<^verbatim>\<open>Iterator::min_by\<close>: the first of the least elements.\<close>

fun min_by :: "('a \<Rightarrow> 'a \<Rightarrow> ordering) \<Rightarrow> 'a list \<Rightarrow> 'a option" where
  "min_by f [] = None"
| "min_by f (x # xs) = Some (foldl (\<lambda>x y. if f x y = Ord_Greater then y else x) x xs)"

definition status_order :: "node_status \<Rightarrow> node_status \<Rightarrow> ordering" where
  "status_order a b =
     then_cmp (busier (ns_load a) (ns_load b))
       (cmp (node_id_val (ns_node a)) (node_id_val (ns_node b)))"

definition choose_new_owner :: "node_id list \<Rightarrow> node_status list \<Rightarrow> node_id option" where
  "choose_new_owner sbs loads =
     map_option ns_node
       (min_by status_order
         (List.map_filter (\<lambda>sb. find (\<lambda>s. ns_node s = sb) loads) sbs))"

definition choose_new_standby :: "node_id list \<Rightarrow> node_status list \<Rightarrow> node_id option" where
  "choose_new_standby exclude loads =
     map_option ns_node
       (min_by status_order (filter (\<lambda>s. ns_node s \<notin> set exclude) loads))"

section \<open>The controller\<close>

datatype rehome_outcome =
    StillOwned owned_scope
  | Promoted owned_scope u64
  | Yielded owned_scope node_id
  | Stranded owned_scope
  | RehomingDisabled owned_scope

definition consider_scope ::
  "'r registry \<Rightarrow> node_id \<Rightarrow> owned_scope \<Rightarrow> 'r \<Rightarrow> (registry_error + rehome_outcome) \<times> 'r" where
  "consider_scope reg me scope r =
     (case reg_owner_of reg r scope of
        Inl e \<Rightarrow> (Inl e, r)
      | Inr (Some _) \<Rightarrow> (Inr (StillOwned scope), r)
      | Inr None \<Rightarrow>
      (case reg_can_rehome reg r scope of
        Inl e \<Rightarrow> (Inl e, r)
      | Inr False \<Rightarrow> (Inr (RehomingDisabled scope), r)
      | Inr True \<Rightarrow>
      (case reg_standbys reg r scope of
        Inl e \<Rightarrow> (Inl e, r)
      | Inr sbs \<Rightarrow>
      (case reg_live_nodes reg r of
        Inl e \<Rightarrow> (Inl e, r)
      | Inr loads \<Rightarrow>
      (case choose_new_owner sbs loads of
        None \<Rightarrow> (Inr (Stranded scope), r)
      | Some winner \<Rightarrow>
          if winner \<noteq> me then (Inr (Yielded scope winner), r)
          else
            (case reg_claim reg scope me r of
               (Inl e, r) \<Rightarrow> (Inl e, r)
             | (Inr (Claimed epoch), r) \<Rightarrow>
                 (Inr (Promoted scope epoch),
                  case choose_new_standby [me] loads of
                    None \<Rightarrow> r
                  | Some sb \<Rightarrow> snd (reg_set_standby reg scope sb r))
             | (Inr (Held by_node _), r) \<Rightarrow> (Inr (Yielded scope by_node), r)))))))"

fun tick :: "'r registry \<Rightarrow> node_id \<Rightarrow> owned_scope list \<Rightarrow> 'r \<Rightarrow> rehome_outcome list \<times> 'r" where
  "tick reg me [] r = ([], r)"
| "tick reg me (scope # rest) r =
     (let (res, r) = consider_scope reg me scope r;
          (out, r) = tick reg me rest r
      in (case res of Inr o' \<Rightarrow> o' # out | Inl _ \<Rightarrow> out, r))"

section \<open>Placement picks the quietest\<close>

text \<open>\<open>at_most f x y\<close>: the comparison does not put \<open>x\<close> after \<open>y\<close>.\<close>

abbreviation at_most :: "('a \<Rightarrow> 'a \<Rightarrow> ordering) \<Rightarrow> 'a \<Rightarrow> 'a \<Rightarrow> bool" where
  "at_most f x y \<equiv> f x y \<noteq> Ord_Greater"

lemma min_by_foldl:
  assumes trans: "\<And>x y z. x \<in> A \<Longrightarrow> y \<in> A \<Longrightarrow> z \<in> A \<Longrightarrow> at_most f x y \<Longrightarrow> at_most f y z \<Longrightarrow> at_most f x z"
    and total: "\<And>x y. x \<in> A \<Longrightarrow> y \<in> A \<Longrightarrow> at_most f x y \<or> at_most f y x"
  shows "x \<in> A \<Longrightarrow> set xs \<subseteq> A \<Longrightarrow>
    (let m = foldl (\<lambda>x y. if f x y = Ord_Greater then y else x) x xs in
     m \<in> insert x (set xs) \<and> (\<forall>y\<in>insert x (set xs). at_most f m y))"
proof (induction xs arbitrary: x)
  case Nil
  then show ?case using total [of x x] by simp
next
  case (Cons y ys)
  let ?x = "if f x y = Ord_Greater then y else x"
  let ?m = "foldl (\<lambda>x y. if f x y = Ord_Greater then y else x) ?x ys"
  have x: "?x \<in> A" "at_most f ?x x" "at_most f ?x y" "?x \<in> {x, y}"
    using Cons.prems total [of x x] total [of y y] total [of x y] by auto
  have m: "?m \<in> insert ?x (set ys)" "\<forall>z\<in>insert ?x (set ys). at_most f ?m z"
    using Cons.IH [OF x(1)] Cons.prems by (simp_all add: Let_def)
  have "?m \<in> A" using m(1) x(1) Cons.prems by auto
  then have "at_most f ?m x" "at_most f ?m y"
    using trans [of ?m ?x x] trans [of ?m ?x y] m(2) x Cons.prems by auto
  moreover have "?m \<in> insert x (set (y # ys))" using m(1) x(4) by auto
  ultimately show ?case using m(2) by (simp add: Let_def)
qed

lemma min_by_least:
  assumes "\<And>x y z. x \<in> A \<Longrightarrow> y \<in> A \<Longrightarrow> z \<in> A \<Longrightarrow> at_most f x y \<Longrightarrow> at_most f y z \<Longrightarrow> at_most f x z"
    and "\<And>x y. x \<in> A \<Longrightarrow> y \<in> A \<Longrightarrow> at_most f x y \<or> at_most f y x"
    and "set xs \<subseteq> A" "min_by f xs = Some m"
  shows "m \<in> set xs \<and> (\<forall>y\<in>set xs. at_most f m y)"
proof (cases xs)
  case (Cons x ys)
  then show ?thesis
    using min_by_foldl [of A f x ys, OF assms(1,2)] assms(3,4) by (simp add: Let_def)
qed (use assms(4) in simp)

lemma min_by_None [simp]: "min_by f xs = None \<longleftrightarrow> xs = []"
  by (cases xs) simp_all

definition measured :: "node_status set" where
  "measured = {s. requests_per_sec (ns_load s) \<noteq> NaN}"

lemma partial_cmp_refl: "a \<noteq> NaN \<Longrightarrow> partial_cmp a a = Some Ord_Equal"
  by (cases a) simp_all

lemma partial_cmp_total: "a \<noteq> NaN \<Longrightarrow> b \<noteq> NaN \<Longrightarrow> \<exists>c. partial_cmp a b = Some c"
  by (cases a; cases b) simp_all

lemma partial_cmp_swap:
  "partial_cmp a b = Some c \<Longrightarrow> partial_cmp b a =
     Some (case c of Ord_Less \<Rightarrow> Ord_Greater | Ord_Equal \<Rightarrow> Ord_Equal | Ord_Greater \<Rightarrow> Ord_Less)"
  by (cases a; cases b) auto

lemma partial_cmp_trans:
  "partial_cmp a b = Some x \<Longrightarrow> x \<noteq> Ord_Greater \<Longrightarrow> partial_cmp b c = Some y \<Longrightarrow> y \<noteq> Ord_Greater \<Longrightarrow>
   partial_cmp a c =
     Some (if x = Ord_Equal \<and> y = Ord_Equal then Ord_Equal else Ord_Less)"
  by (cases a; cases b; cases c) (auto split: if_splits)

lemma then_cmp_Greater:
  "then_cmp a b = Ord_Greater \<longleftrightarrow> a = Ord_Greater \<or> (a = Ord_Equal \<and> b = Ord_Greater)"
  by (cases a) simp_all

lemma then_cmp_Equal: "then_cmp a b = Ord_Equal \<longleftrightarrow> a = Ord_Equal \<and> b = Ord_Equal"
  by (cases a) simp_all

lemma cmp_iff [simp]:
  "cmp x y = Ord_Greater \<longleftrightarrow> y < x" "cmp x y = Ord_Equal \<longleftrightarrow> x = y" "cmp x y = Ord_Less \<longleftrightarrow> x < y"
  by (auto simp: cmp_def)

lemma status_order_trans:
  assumes "x \<in> measured" "y \<in> measured" "z \<in> measured"
    and "at_most status_order x y" "at_most status_order y z"
  shows "at_most status_order x z"
proof -
  obtain p where p: "partial_cmp (requests_per_sec (ns_load x)) (requests_per_sec (ns_load y)) = Some p"
    using partial_cmp_total assms(1,2) by (auto simp: measured_def)
  obtain q where q: "partial_cmp (requests_per_sec (ns_load y)) (requests_per_sec (ns_load z)) = Some q"
    using partial_cmp_total assms(2,3) by (auto simp: measured_def)
  have "p \<noteq> Ord_Greater" "q \<noteq> Ord_Greater"
    using assms(4,5) p q by (auto simp: status_order_def busier_def then_cmp_Greater)
  from partial_cmp_trans [OF p this(1) q this(2)] show ?thesis
    using assms(4,5) p q
    by (auto simp: status_order_def busier_def then_cmp_Greater then_cmp_Equal split: if_splits)
qed

lemma status_order_total:
  assumes "x \<in> measured" "y \<in> measured"
  shows "at_most status_order x y \<or> at_most status_order y x"
proof -
  obtain p where p: "partial_cmp (requests_per_sec (ns_load x)) (requests_per_sec (ns_load y)) = Some p"
    using partial_cmp_total assms by (auto simp: measured_def)
  show ?thesis
    using partial_cmp_swap [OF p] p
    by (auto simp: status_order_def busier_def then_cmp_Greater then_cmp_Equal split: ordering.splits)
qed

lemma set_map_filter: "set (List.map_filter f xs) = {y. \<exists>x\<in>set xs. f x = Some y}"
  by (induction xs) (auto simp: List.map_filter_simps split: option.splits)

text \<open>The winner is a live standby, and none of the live standbys is quieter.\<close>

lemma choose_new_owner_Some:
  assumes "set loads \<subseteq> measured" "choose_new_owner sbs loads = Some n"
  shows "n \<in> set sbs \<and> (\<exists>s\<in>set loads. ns_node s = n \<and>
    (\<forall>sb\<in>set sbs. \<forall>t. find (\<lambda>s. ns_node s = sb) loads = Some t \<longrightarrow> at_most status_order s t))"
proof -
  let ?live = "List.map_filter (\<lambda>sb. find (\<lambda>s. ns_node s = sb) loads) sbs"
  obtain s where s: "min_by status_order ?live = Some s" "ns_node s = n"
    using assms(2) by (auto simp: choose_new_owner_def)
  have live: "set ?live \<subseteq> set loads" by (auto simp: set_map_filter find_Some_iff)
  then have s': "s \<in> set ?live" "\<forall>t\<in>set ?live. at_most status_order s t"
    using min_by_least [OF status_order_trans status_order_total _ s(1)] assms(1) by auto
  then obtain sb where "sb \<in> set sbs" "find (\<lambda>s. ns_node s = sb) loads = Some s"
    by (auto simp: set_map_filter)
  then have "n \<in> set sbs" "s \<in> set loads"
    using s(2) by (auto simp: find_Some_iff)
  then show ?thesis using s(2) s'(2) by (auto simp: set_map_filter)
qed

lemma choose_new_owner_None:
  "choose_new_owner sbs loads = None \<longleftrightarrow> (\<forall>sb\<in>set sbs. \<forall>s\<in>set loads. ns_node s \<noteq> sb)"
proof -
  have "List.map_filter (\<lambda>sb. find (\<lambda>s. ns_node s = sb) loads) sbs = [] \<longleftrightarrow>
      (\<forall>sb\<in>set sbs. find (\<lambda>s. ns_node s = sb) loads = None)"
    by (induction sbs) (auto simp: List.map_filter_simps split: option.splits)
  then show ?thesis by (auto simp: choose_new_owner_def find_None_iff)
qed

lemma min_by_member: "min_by f xs = Some m \<Longrightarrow> m \<in> set xs"
proof (cases xs)
  case (Cons x ys)
  have "foldl (\<lambda>x y. if f x y = Ord_Greater then y else x) x ys \<in> insert x (set ys)"
  proof (induction ys arbitrary: x)
    case (Cons y ys)
    then show ?case using Cons [of y] Cons [of x] by auto
  qed simp
  moreover assume "min_by f xs = Some m"
  ultimately show ?thesis using Cons by auto
qed simp

lemma choose_new_owner_member:
  "choose_new_owner sbs loads = Some n \<Longrightarrow> n \<in> set sbs \<and> n \<in> ns_node ` set loads"
  by (auto simp: choose_new_owner_def set_map_filter find_Some_iff dest!: min_by_member)

lemma choose_new_standby_member:
  "choose_new_standby exclude loads = Some n \<Longrightarrow> n \<notin> set exclude \<and> n \<in> ns_node ` set loads"
  by (auto simp: choose_new_standby_def dest!: min_by_member)

section \<open>What the controller does\<close>

context ownership_registry
begin

text \<open>A step that does not promote leaves every owner alone, and a step that
  promotes does so only for a free scope, of which the community has not opted
  out, for the standby the placement chose; the scope is then owned by this
  node at an epoch it never had.\<close>

lemma consider_promotes:
  assumes "fst (consider_scope reg me s r) = Inr (Promoted s' e)"
  shows "s' = s \<and> reg_owner_of reg r s = Inr None \<and> reg_can_rehome reg r s = Inr True \<and>
    (\<exists>sbs loads. reg_standbys reg r s = Inr sbs \<and> reg_live_nodes reg r = Inr loads \<and>
      choose_new_owner sbs loads = Some me) \<and> e = high r s + 1 \<and>
    reg_owner_of reg (snd (consider_scope reg me s r)) =
      (reg_owner_of reg r)(s := Inr (Some \<lparr> ow_scope = s, ow_owner = me, ow_epoch = e \<rparr>))"
  using assms claim_free [of r s me]
  by (auto simp: consider_scope_def owners_kept
      split: sum.splits option.splits bool.splits if_splits prod.splits claim_outcome.splits)

lemma consider_leaves:
  assumes "\<nexists>s' e. fst (consider_scope reg me s r) = Inr (Promoted s' e)"
  shows "reg_owner_of reg (snd (consider_scope reg me s r)) = reg_owner_of reg r"
  using assms claim_free [of r s me]
  by (auto simp: consider_scope_def owners_kept
      split: sum.splits option.splits bool.splits if_splits prod.splits claim_outcome.splits)

end

end
