(* ===== verification/Fleet.thy ===== *)
theory Fleet
  imports Command_Laws Rehome Service_Invariant
begin

text \<open>
  The wiring of a federated node (\<^verbatim>\<open>democrachat/src/federation.rs\<close>): which scopes
  it homes and claims, which it may take over, its configured peers; and the
  fleet as a whole, in which a write travels from the node it is made on to the
  owners of its scopes (\<^verbatim>\<open>WriteRouter\<close>, \<^verbatim>\<open>CommandClient\<close>, \<^verbatim>\<open>command_handler\<close>,
  \<^verbatim>\<open>execute\<close>, \<^verbatim>\<open>ServiceCommandExecutor\<close>).
\<close>

section \<open>Scopes of a node\<close>

definition owned_scopes :: "inner \<Rightarrow> node_id \<Rightarrow> owned_scope list" where
  "owned_scopes st n =
     map (\<lambda>s. ScopeServer (server_id_val (s_id s)))
       (filter (\<lambda>s. origin_node (server_id_val (s_id s)) = n) (list_all_servers st)) @
     map (\<lambda>u. ScopeUserHome (user_id_val (u_id u)))
       (filter (\<lambda>u. origin_node (user_id_val (u_id u)) = n) (list_all_users st))"

fun scope_home :: "owned_scope \<Rightarrow> u16" where
  "scope_home (ScopeServer i) = node_id_val (origin_node i)"
| "scope_home (ScopeUserHome i) = node_id_val (origin_node i)"

definition foreign_scopes :: "inner \<Rightarrow> node_id \<Rightarrow> owned_scope list" where
  "foreign_scopes st n =
     map (\<lambda>s. ScopeServer (server_id_val (s_id s)))
       (filter (\<lambda>s. origin_node (server_id_val (s_id s)) \<noteq> n) (list_all_servers st)) @
     map (\<lambda>u. ScopeUserHome (user_id_val (u_id u)))
       (filter (\<lambda>u. origin_node (user_id_val (u_id u)) \<noteq> n) (list_all_users st))"

text \<open>The body of the loop of \<^verbatim>\<open>reconcile_claims\<close>.\<close>

definition claim_scope ::
  "'r registry \<Rightarrow> inner \<Rightarrow> node_id \<Rightarrow> node_id option \<Rightarrow> owned_scope \<Rightarrow> 'r \<Rightarrow> 'r" where
  "claim_scope reg st me standby scope r =
     (case reg_claim reg scope me r of
        (Inl _, r) \<Rightarrow> r
      | (Inr _, r) \<Rightarrow>
          let r = (case scope of
              ScopeServer i \<Rightarrow>
                if (case find (\<lambda>s. server_id_val (s_id s) = i) (list_all_servers st) of
                      None \<Rightarrow> False | Some s \<Rightarrow> s_is_rehoming_disabled s)
                then snd (reg_set_rehoming reg scope False r) else r
            | ScopeUserHome _ \<Rightarrow> r)
          in case standby of None \<Rightarrow> r | Some sb \<Rightarrow> snd (reg_set_standby reg scope sb r))"

definition reconcile_claims :: "'r registry \<Rightarrow> inner \<Rightarrow> node_id \<Rightarrow> 'r \<Rightarrow> 'r" where
  "reconcile_claims reg st me r =
     (let owned = owned_scopes st me;
          r = snd (reg_report_load reg me
                \<lparr> hosted_scopes = of_nat (length owned), requests_per_sec = Fin 0 \<rparr> r);
          standby = (case reg_live_nodes reg r of
              Inl _ \<Rightarrow> None
            | Inr live \<Rightarrow> choose_new_standby [me] live)
      in foldl (\<lambda>r scope. claim_scope reg st me standby scope r) r owned)"

text \<open>One turn of the failover loop: the replicated scopes whose home is not live.\<close>

definition rehoming_round ::
  "'r registry \<Rightarrow> inner \<Rightarrow> node_id \<Rightarrow> 'r \<Rightarrow> rehome_outcome list \<times> 'r" where
  "rehoming_round reg st me r =
     (let live = (case reg_live_nodes reg r of
            Inl _ \<Rightarrow> [] | Inr v \<Rightarrow> map (\<lambda>s. node_id_val (ns_node s)) v);
          candidates = filter (\<lambda>scope. scope_home scope \<notin> set live) (foreign_scopes st me)
      in if candidates = [] then ([], r) else tick reg me candidates r)"

text \<open>\<^verbatim>\<open>str::split\<close> on a character.\<close>

fun split_on :: "char \<Rightarrow> string \<Rightarrow> string list" where
  "split_on c [] = [[]]"
| "split_on c (x # xs) =
     (if x = c then [] # split_on c xs
      else case split_on c xs of [] \<Rightarrow> [[x]] | p # ps \<Rightarrow> (x # p) # ps)"

definition parse_peers :: "string \<Rightarrow> (node_id \<times> string) list" where
  "parse_peers raw =
     List.map_filter (\<lambda>entry.
       case split_once CHR ''='' entry of
         None \<Rightarrow> None
       | Some (n, url) \<Rightarrow>
           map_option (\<lambda>i. (NodeId (of_nat i), trim url)) (parse_unsigned 16 (trim n)))
       (split_on CHR '','' raw)"

section \<open>The fleet\<close>

text \<open>The nodes share a control plane; each has a store, a clock, an environment for
  its services and the bearer token it expects and sends.\<close>

record 'r fleet =
  fl_ed :: ed25519
  fl_wire :: command_wire
  fl_registry :: "'r registry"
  fl_state :: 'r
  fl_env :: "node_id \<Rightarrow> env"
  fl_now :: "node_id \<Rightarrow> int"
  fl_token :: "node_id \<Rightarrow> string option"
  fl_shown :: "nat \<Rightarrow> string"

type_synonym world = "node_id \<Rightarrow> inner"

definition run_local :: "'r fleet \<Rightarrow> node_id \<Rightarrow> fed_command \<Rightarrow> world \<Rightarrow> (forward_error + unit) \<times> world" where
  "run_local fl me cmd w =
     (let (res, st) = service_execute (fl_env fl me) cmd (w me) in (res, w(me := st)))"

text \<open>A signed command posted by \<open>me\<close> to \<open>n\<close>: the owner's handler, its status, and
  what the client reads from it.\<close>

definition deliver ::
  "'r fleet \<Rightarrow> node_id \<Rightarrow> node_id \<Rightarrow> signed_command \<Rightarrow> world \<Rightarrow> (forward_error + unit) \<times> world" where
  "deliver fl me n sc w =
     (let authorization = map_option (\<lambda>tok. ''Bearer '' @ tok) (fl_token fl me);
          (status, st) = command_handler (fl_token fl n) authorization
            (execute (fl_ed fl) (fl_wire fl) n (fl_registry fl) (fl_state fl)
              (store_resolver (w n)) store_remember (service_execute (fl_env fl n)) sc (fl_now fl n))
            (w n)
      in (forward_response status (fl_shown fl status) [], w(n := st)))"

definition fleet_submit ::
  "'r fleet \<Rightarrow> node_keypair \<Rightarrow> node_id \<Rightarrow> (node_id \<Rightarrow> bool) \<Rightarrow> int \<Rightarrow> string \<Rightarrow> fed_command \<Rightarrow> world \<Rightarrow>
   (forward_error + unit) \<times> world" where
  "fleet_submit fl kp me peer issued_at nonce cmd w =
     submit (fl_ed fl) (fl_wire fl) kp me (fl_registry fl) (fl_state fl) (store_resolver (w me))
       (run_local fl me) peer (deliver fl me) issued_at nonce cmd w"

section \<open>Claiming\<close>

lemma owned_or_foreign:
  "set (owned_scopes st n) \<union> set (foreign_scopes st n) =
     (\<lambda>s. ScopeServer (server_id_val (s_id s))) ` set (list_all_servers st) \<union>
     (\<lambda>u. ScopeUserHome (user_id_val (u_id u))) ` set (list_all_users st)"
  "set (owned_scopes st n) \<inter> set (foreign_scopes st n) = {}"
  by (auto simp: owned_scopes_def foreign_scopes_def)

lemma owned_scopes_home: "s \<in> set (owned_scopes st n) \<Longrightarrow> scope_home s = node_id_val n"
  by (auto simp: owned_scopes_def)

lemma foreign_scopes_home: "s \<in> set (foreign_scopes st n) \<Longrightarrow> scope_home s \<noteq> node_id_val n"
  by (auto simp: foreign_scopes_def node_id.expand)

context total_registry
begin

lemma claim_scope_owner:
  "reg_owner_of reg (claim_scope reg st me sb s r) s' =
     (if s' = s \<and> reg_owner_of reg r s = Inr None
      then Inr (Some \<lparr> ow_scope = s, ow_owner = me, ow_epoch = high r s + 1 \<rparr>)
      else reg_owner_of reg r s')"
  "s' \<noteq> s \<Longrightarrow> high (claim_scope reg st me sb s r) s' = high r s'"
proof -
  let ?r = "snd (reg_claim reg s me r)"
  have same: "reg_owner_of reg (claim_scope reg st me sb s r) = reg_owner_of reg ?r"
      "high (claim_scope reg st me sb s r) = high ?r"
    by (auto simp: claim_scope_def Let_def owners_kept high_kept
        split: prod.split sum.split owned_scope.split option.split)
  consider (free) "reg_owner_of reg r s = Inr None"
    | (held) ow where "reg_owner_of reg r s = Inr (Some ow)" | (failed) e where "reg_owner_of reg r s = Inl e"
    by (metis sum.exhaust option.exhaust)
  then have "reg_owner_of reg ?r s' =
       (if s' = s \<and> reg_owner_of reg r s = Inr None
        then Inr (Some \<lparr> ow_scope = s, ow_owner = me, ow_epoch = high r s + 1 \<rparr>)
        else reg_owner_of reg r s') \<and> (s' \<noteq> s \<longrightarrow> high ?r s' = high r s')"
  proof cases
    case free
    then show ?thesis using claim_granted [OF free, of me] by simp
  next
    case held
    then show ?thesis using claim_held [OF held, of me] by simp
  next
    case failed
    then show ?thesis using claim_error [OF failed, of me] by simp
  qed
  then show "reg_owner_of reg (claim_scope reg st me sb s r) s' =
     (if s' = s \<and> reg_owner_of reg r s = Inr None
      then Inr (Some \<lparr> ow_scope = s, ow_owner = me, ow_epoch = high r s + 1 \<rparr>)
      else reg_owner_of reg r s')"
    and "s' \<noteq> s \<Longrightarrow> high (claim_scope reg st me sb s r) s' = high r s'"
    unfolding same by blast+
qed

text \<open>Reconciling claims exactly the free scopes among the node's own, and leaves
  every other owner and epoch as they are.\<close>

lemma reconcile_loop:
  "reg_owner_of reg (foldl (\<lambda>r s. claim_scope reg st me sb s r) r ss) s' =
     (if s' \<in> set ss \<and> reg_owner_of reg r s' = Inr None
      then Inr (Some \<lparr> ow_scope = s', ow_owner = me, ow_epoch = high r s' + 1 \<rparr>)
      else reg_owner_of reg r s')"
proof (induction ss arbitrary: r)
  case (Cons s ss)
  show ?case
    using Cons.IH [of "claim_scope reg st me sb s r"] claim_scope_owner [where st = st and me = me and sb = sb and s = s and r = r and s' = s']
    by (cases "s' = s") auto
qed simp

lemma reconcile_claims_owner:
  "reg_owner_of reg (reconcile_claims reg st me r) s =
     (if s \<in> set (owned_scopes st me) \<and> reg_owner_of reg r s = Inr None
      then Inr (Some \<lparr> ow_scope = s, ow_owner = me, ow_epoch = high r s + 1 \<rparr>)
      else reg_owner_of reg r s)"
  by (simp add: reconcile_claims_def Let_def reconcile_loop owners_kept high_kept)

end

context ownership_registry
begin

lemma tick_promoted:
  assumes "Promoted s e \<in> set (fst (tick reg me scopes r))"
  shows "s \<in> set scopes"
  using assms
proof (induction scopes arbitrary: r)
  case (Cons s' scopes)
  then show ?case
    using consider_promotes [of me s' r s e]
    by (auto simp: Let_def split_beta split: sum.splits)
qed simp

text \<open>Failover takes only scopes whose home is not live.\<close>

lemma rehoming_round_promoted:
  assumes "Promoted s e \<in> set (fst (rehoming_round reg st me r))" "reg_live_nodes reg r = Inr live"
  shows "s \<in> set (foreign_scopes st me) \<and> scope_home s \<notin> (\<lambda>n. node_id_val (ns_node n)) ` set live"
  using assms by (auto simp: rehoming_round_def Let_def split: if_splits dest!: tick_promoted)

end

section \<open>A block reaches both homes\<close>

lemma blocked_between_add_block:
  "store_is_blocked_between (snd (add_block b st)) (b_blocker b) (b_blocked b)"
  by (auto simp: add_block_def store_is_blocked_between_def block_is_between_def record_change_def Let_def)

lemma blocks_kept_add_block: "set (blocks st) \<subseteq> set (blocks (snd (add_block b st)))"
  by (auto simp: add_block_def record_change_def Let_def)

lemma block_user_by_id_cases:
  obtains (refused) e where "block_user_by_id env i j st = (Inl e, st)"
  | (blocked) u v where "get_user st (UserId i) = Some u" "get_user st (UserId j) = Some v"
      "block_user_by_id env i j st =
         (Inr (), snd (add_block (block_new (u_id u) (u_id v) (env_now env)) st))"
proof -
  have "(\<exists>e. block_user_by_id env i j st = (Inl e, st)) \<or>
      (\<exists>u v. get_user st (UserId i) = Some u \<and> get_user st (UserId j) = Some v \<and>
        block_user_by_id env i j st =
          (Inr (), snd (add_block (block_new (u_id u) (u_id v) (env_now env)) st)))"
    by (auto simp: block_user_by_id_def block_between_def split: option.split)
  then show thesis using refused blocked by blast
qed

lemma block_user_by_id_blocks:
  "set (blocks st) \<subseteq> set (blocks (snd (block_user_by_id env i j st)))"
  by (cases rule: block_user_by_id_cases [of env i j st]) (simp_all add: blocks_kept_add_block)

lemma block_user_by_id_blocked:
  assumes "tables_ok st" "fst (block_user_by_id env i j st) = Inr ()"
  shows "store_is_blocked_between (snd (block_user_by_id env i j st)) (UserId i) (UserId j)"
proof (cases rule: block_user_by_id_cases [of env i j st])
  case (blocked u v)
  then have "u_id u = UserId i" "u_id v = UserId j" using get_ids(1) [OF assms(1)] by blast+
  then show ?thesis
    using blocked(3) blocked_between_add_block [of "block_new (UserId i) (UserId j) (env_now env)" st]
    by (simp add: block_new_def)
qed (use assms(2) in simp)

lemma blocked_mono:
  "set (blocks st) \<subseteq> set (blocks st') \<Longrightarrow> store_is_blocked_between st a b \<Longrightarrow> store_is_blocked_between st' a b"
  by (auto simp: store_is_blocked_between_def)

lemma store_remember_blocks:
  "blocks (snd (admit store_remember n nonce issued now st)) = blocks st"
  by (simp add: store_log.admit_state store_remember_def remember_nonce_def Let_def)

lemma admit_tables_ok:
  "tables_ok st \<Longrightarrow> tables_ok (snd (admit store_remember n nonce issued now st))"
  by (simp add: store_log.admit_state store_log.remember_wf)

lemma tables_ok_block_user: "tables_ok st \<Longrightarrow> tables_ok (snd (block_user_by_id env i j st))"
  by (simp add: block_user_by_id_def block_between_def tables_ok_more_ops split: option.split)

lemma forward_response_Inr: "forward_response status shown detail = Inr () \<longleftrightarrow> 200 \<le> status \<and> status \<le> 299"
  by (simp add: forward_response_def)

lemma status_for_error: "\<not> (200 \<le> status_for e \<and> status_for e \<le> 299)"
  by (cases e) simp_all

lemma command_handler_ok:
  "command_handler ex au run s = (status, s') \<Longrightarrow> 200 \<le> status \<Longrightarrow> status \<le> 299 \<Longrightarrow> run s = (Inr (), s')"
  using status_for_error
  by (auto simp: command_handler_def split: if_splits prod.splits sum.splits)

text \<open>What happens at a node that runs the block, whether it was made there or
  delivered: nothing but this node's store changes, no block is lost, and on
  success the two users are blocked there.\<close>

definition blocks_here :: "u64 \<Rightarrow> u64 \<Rightarrow> node_id \<Rightarrow> world \<Rightarrow> world \<Rightarrow> bool" where
  "blocks_here i j n w w' \<longleftrightarrow>
     (\<forall>m. m \<noteq> n \<longrightarrow> w' m = w m) \<and> set (blocks (w n)) \<subseteq> set (blocks (w' n)) \<and> tables_ok (w' n) \<and>
     store_is_blocked_between (w' n) (UserId i) (UserId j)"

lemma ran_Inr [simp]: "ran txt res = (Inr (), st) \<longleftrightarrow> (\<exists>x. fst res = Inr x) \<and> snd res = st"
  by (cases "fst res") (auto simp: ran_def)

lemma run_local_block:
  assumes "run_local fl me (BlockUser i j) w = (Inr (), w')" "tables_ok (w me)"
  shows "blocks_here i j me w w'"
proof -
  let ?res = "block_user_by_id (fl_env fl me) i j (w me)"
  have "fst ?res = Inr ()" "w' = w(me := snd ?res)"
    using assms(1) by (auto simp: run_local_def split: prod.splits)
  then show ?thesis
    using block_user_by_id_blocked [OF assms(2)] block_user_by_id_blocks [of "w me" "fl_env fl me" i j]
      tables_ok_block_user [OF assms(2)]
    by (simp add: blocks_here_def)
qed

lemma deliver_block:
  assumes "deliver fl me n (sign_at ed (fl_wire fl) kp (BlockUser i j) issued nonce) w = (Inr (), w')"
    and "command_wire_ok (fl_wire fl)" "tables_ok (w n)"
  shows "blocks_here i j n w w'"
proof -
  let ?sc = "sign_at ed (fl_wire fl) kp (BlockUser i j) issued nonce"
  let ?run = "execute (fl_ed fl) (fl_wire fl) n (fl_registry fl) (fl_state fl) (store_resolver (w n))
    store_remember (service_execute (fl_env fl n)) ?sc (fl_now fl n)"
  obtain st where st: "?run (w n) = (Inr (), st)" "w' = w(n := st)"
    using assms(1) command_handler_ok [where run = ?run and s = "w n"]
    by (auto simp: deliver_def Let_def forward_response_Inr split: prod.splits)
  obtain cmd st1 where cmd: "verify_signed (fl_ed fl) (fl_wire fl) (fl_registry fl) (fl_state fl) ?sc = Inr cmd"
      "admit store_remember (sc_node ?sc) (sc_nonce ?sc) (sc_issued_at ?sc) (fl_now fl n) (w n) = (Inr (), st1)"
      "service_execute (fl_env fl n) cmd st1 = (Inr (), st)"
    using execute_Inr [of "fl_ed fl" "fl_wire fl" n "fl_registry fl" "fl_state fl"
        "store_resolver (w n)" store_remember "service_execute (fl_env fl n)" ?sc "fl_now fl n" "w n"] st(1)
    by auto
  have "cmd = BlockUser i j"
    using cmd(1) assms(2)
    by (auto simp: verify_signed_def signed_inner_def sign_at_def command_wire_ok_def Let_def
        split: sum.splits option.splits)
  then have run: "fst (block_user_by_id (fl_env fl n) i j st1) = Inr ()"
      "snd (block_user_by_id (fl_env fl n) i j st1) = st"
    using cmd(3) by auto
  have st1: "blocks st1 = blocks (w n)" "tables_ok st1"
    using cmd(2) store_remember_blocks admit_tables_ok [OF assms(3)] by (metis snd_conv)+
  show ?thesis
    using block_user_by_id_blocked [OF st1(2) run(1)] block_user_by_id_blocks [of st1 "fl_env fl n" i j]
      tables_ok_block_user [OF st1(2), of "fl_env fl n" i j] st(2) st1(1) run(2)
    by (simp add: blocks_here_def)
qed

text \<open>So a block that the router reports as done is in force on the home of either
  user, whichever nodes those are.\<close>

lemma fleet_block_committed:
  assumes "fleet_submit fl kp me peer issued nonce (BlockUser i j) w = (Inr (), w')"
    and "command_wire_ok (fl_wire fl)" "\<forall>n. tables_ok (w n)"
    and "s \<in> {ScopeUserHome i, ScopeUserHome j}"
  shows "\<exists>ow. reg_owner_of (fl_registry fl) (fl_state fl) s = Inr (Some ow) \<and>
    store_is_blocked_between (w' (ow_owner ow)) (UserId i) (UserId j)"
proof -
  let ?scopes = "[ScopeUserHome i, ScopeUserHome j]"
  let ?sc = "sign_at (fl_ed fl) (fl_wire fl) kp (BlockUser i j) issued nonce"
  let ?commit = "commit_owners me (run_local fl me (BlockUser i j)) peer (\<lambda>n. deliver fl me n ?sc)"
  let ?inv = "\<lambda>w0 w. (\<forall>n. tables_ok (w n)) \<and> (\<forall>n. set (blocks (w0 n)) \<subseteq> set (blocks (w n)))"
  obtain owners where owners: "resolve_owners (fl_registry fl) (fl_state fl) ?scopes [] = Inr owners"
      and commit: "?commit owners w = (Inr (), w')"
    using assms(1) by (auto simp: fleet_submit_def submit_def Let_def split: sum.splits)
  obtain ow where ow: "reg_owner_of (fl_registry fl) (fl_state fl) s = Inr (Some ow)" "ow_owner ow \<in> set owners"
    using resolve_owners_Inr [OF owners] assms(4) by auto
  obtain pre post w0 w1 where split: "?commit pre w = (Inr (), w0)"
      "(if ow_owner ow = me then run_local fl me (BlockUser i j) w0 else deliver fl me (ow_owner ow) ?sc w0) = (Inr (), w1)"
      "?commit post w1 = (Inr (), w')"
    using commit_owners_Inr [OF commit ow(2)] by blast
  have keep: "?inv v v''" if "?inv v v'" "blocks_here i j n v' v''" for v v' v'' n
    using that by (auto simp: blocks_here_def) (metis subsetD)+
  have inv: "?inv v v'" if "?commit ns v = (Inr (), v')" "?inv v v" for ns v v'
  proof (rule commit_owners_invariant [where P = "?inv v", OF _ _ that])
    show "?inv v u'" if "?inv v u" "run_local fl me (BlockUser i j) u = (Inr (), u')" for u u'
      by (rule keep [OF that(1) run_local_block [OF that(2)]]) (use that(1) in blast)
    show "?inv v u'" if "?inv v u" "deliver fl me n ?sc u = (Inr (), u')" for n u u'
      by (rule keep [OF that(1) deliver_block [OF that(2) assms(2)]]) (use that(1) in blast)
  qed
  have "\<forall>n. tables_ok (w0 n)" using inv [OF split(1)] assms(3) by simp
  then have here: "blocks_here i j (ow_owner ow) w0 w1"
    using split(2) run_local_block deliver_block [OF _ assms(2)] by (metis (full_types))
  then have "\<forall>n. tables_ok (w1 n)" using \<open>\<forall>n. tables_ok (w0 n)\<close> by (auto simp: blocks_here_def) metis
  then have "set (blocks (w1 (ow_owner ow))) \<subseteq> set (blocks (w' (ow_owner ow)))"
    using inv [OF split(3)] by simp
  then show ?thesis
    using ow(1) here blocked_mono by (auto simp: blocks_here_def)
qed

lemma blocked_dm_refused:
  assumes "tables_ok st" "store_is_blocked_between st (UserId i) (UserId j)"
  shows "fst (send_sealed_dm_by_id env i j fr fs st) \<noteq> Inr m"
    "fst (send_sealed_dm_by_id env j i fr fs st) \<noteq> Inr m"
proof -
  have no: "\<not> may_dm st u v" if "store_is_blocked_between st (u_id u) (u_id v)" for u v
    using that
    by (auto simp: may_dm_def Let_def can_dm_iff store_is_blocked_between_def blocks_involving_def
        block_is_between_def)
  have sym: "store_is_blocked_between st (UserId j) (UserId i)"
    using assms(2) by (auto simp: store_is_blocked_between_def block_is_between_sym)
  show "fst (send_sealed_dm_by_id env i j fr fs st) \<noteq> Inr m"
    "fst (send_sealed_dm_by_id env j i fr fs st) \<noteq> Inr m"
    using no assms(2) sym get_ids(1) [OF assms(1)]
    by (auto simp: send_sealed_dm_by_id_def send_sealed_dm_core_def Let_def
        split: option.splits if_splits)
qed

end
