(* ===== verification/Service_Properties.thy ===== *)
theory Service_Properties
  imports Demo Fleet
begin

text \<open>
  The contracts of the services and the store: what a vote does, how a ballot is
  counted and resolved, what a block and a message policy mean, what the change
  feed and a snapshot hold, and that threads are shown whole.
\<close>

section \<open>Votes and ballots\<close>

lemma franchised_member_Some:
  "franchised_member st uid sid = Some m \<longleftrightarrow> get_membership st uid sid = Some m \<and> is_franchised m"
  by (auto simp: franchised_member_def split: option.split)

lemma franchised_member_None:
  "franchised_member st uid sid = None \<longleftrightarrow> (\<nexists>m. get_membership st uid sid = Some m \<and> is_franchised m)"
  by (auto simp: franchised_member_def split: option.split)

text \<open>C18. A vote counts once and the last one counts. Casting a vote succeeds exactly
  when the ballot is open and the voter is a citizen of its server in good
  standing; then the voter's one vote on it is the new one and every other vote
  is as it was. A refused vote changes nothing.\<close>

theorem vote_is_recorded:
  assumes "store_ok st"
  shows "(fst (cast_vote_as voter pid yes st) = Inr () \<longleftrightarrow>
      (\<exists>p m. get_proposal st (ProposalId pid) = Some p \<and> p_status p = Open \<and>
        get_membership st voter (p_server_id p) = Some m \<and> is_franchised m)) \<and>
    (fst (cast_vote_as voter pid yes st) = Inr () \<longrightarrow>
      list_for_proposal (snd (cast_vote_as voter pid yes st)) (ProposalId pid) =
        filter (\<lambda>v. v_voter v \<noteq> voter) (list_for_proposal st (ProposalId pid)) @
        [vote_new (ProposalId pid) voter yes]) \<and>
    (fst (cast_vote_as voter pid yes st) \<noteq> Inr () \<longrightarrow> snd (cast_vote_as voter pid yes st) = st) \<and>
    (\<forall>q. q \<noteq> ProposalId pid \<longrightarrow>
      list_for_proposal (snd (cast_vote_as voter pid yes st)) q = list_for_proposal st q)"
proof -
  have id: "get_proposal st (ProposalId pid) = Some p \<Longrightarrow> p_id p = ProposalId pid" for p
    using get_ids store_ok_tables [OF assms] by blast
  show ?thesis
    using id
    by (auto simp: cast_vote_as_def franchised_member_Some franchised_member_None list_for_proposal_def upsert_vote_def
        record_change_def Let_def vote_new_def split: option.splits
        intro!: filter_cong arg_cong2 [where f = append])
qed

theorem vote_is_recorded_witness:
  "list_for_proposal (snd (cast_vote_as (UserId 2) 1 False demo8)) (ProposalId 1) =
     [vote_new (ProposalId 1) (UserId 2) False]"
proof -
  have "\<exists>p m. get_proposal demo8 (ProposalId 1) = Some p \<and> p_status p = Open \<and>
      get_membership demo8 (UserId 2) (p_server_id p) = Some m \<and> is_franchised m"
    by (simp add: get_proposal_def get_membership_def hm_get_def is_franchised_def is_citizen_def)
  with vote_is_recorded [OF demo_store_ok(8), of "UserId 2" 1 False] show ?thesis
    by (simp add: list_for_proposal_def vote_new_def)
qed

definition vote_weight :: "inner \<Rightarrow> server \<Rightarrow> timestamp \<Rightarrow> vote \<Rightarrow> nat" where
  "vote_weight st s now v = (case ballot_weight st s now (v_voter v) of None \<Rightarrow> 0 | Some w \<Rightarrow> unat w)"

lemma vote_weight_le: "vote_weight st s now v \<le> 16"
  using weight_of_bounds by (simp add: vote_weight_def ballot_weight_def split: option.split)

lemma tally_foldl:
  assumes "unat (aye t) + unat (nay t) + 16 * length vs < 2 ^ 64"
  shows "unat (aye (foldl (tally_step st s now) t vs)) =
      unat (aye t) + (\<Sum>v\<leftarrow>filter v_is_aye vs. vote_weight st s now v) \<and>
    unat (nay (foldl (tally_step st s now) t vs)) =
      unat (nay t) + (\<Sum>v\<leftarrow>filter (\<lambda>v. \<not> v_is_aye v) vs. vote_weight st s now v)"
  using assms
proof (induction vs arbitrary: t)
  case (Cons v vs)
  let ?t = "tally_step st s now t v"
  have w: "vote_weight st s now v \<le> 16" by (rule vote_weight_le)
  have step: "unat (aye ?t) = unat (aye t) + (if v_is_aye v then vote_weight st s now v else 0)"
      "unat (nay ?t) = unat (nay t) + (if v_is_aye v then 0 else vote_weight st s now v)"
    using w Cons.prems
    by (auto simp: tally_step_def vote_weight_def unat_add_exact split: option.split)
  then have "unat (aye ?t) + unat (nay ?t) + 16 * length vs < 2 ^ 64"
    using w Cons.prems by simp
  from Cons.IH [OF this] step show ?case by simp
qed simp

text \<open>C17. The tally is the exact sum of the weights of the voters in good standing. While
  fewer than 2^60 votes are cast the 64-bit counters never wrap, and the two
  sides together are at most sixteen times the number of votes.\<close>

theorem tally_is_exact:
  assumes "length (list_for_proposal st (p_id p)) < 2 ^ 60"
  shows "unat (aye (weighted_tally st s p now)) =
      (\<Sum>v\<leftarrow>filter v_is_aye (list_for_proposal st (p_id p)). vote_weight st s now v) \<and>
    unat (nay (weighted_tally st s p now)) =
      (\<Sum>v\<leftarrow>filter (\<lambda>v. \<not> v_is_aye v) (list_for_proposal st (p_id p)). vote_weight st s now v) \<and>
    unat (aye (weighted_tally st s p now)) + unat (nay (weighted_tally st s p now)) \<le>
      16 * length (list_for_proposal st (p_id p))"
proof -
  let ?vs = "list_for_proposal st (p_id p)"
  have "(\<Sum>v\<leftarrow>filter v_is_aye vs. vote_weight st s now v) +
      (\<Sum>v\<leftarrow>filter (\<lambda>v. \<not> v_is_aye v) vs. vote_weight st s now v) \<le> 16 * length vs" for vs
  proof (induction vs)
    case (Cons v vs)
    then show ?case using vote_weight_le [of st s now v] by simp
  qed simp
  moreover have "unat (aye \<lparr>aye = 0, nay = 0\<rparr>) + unat (nay \<lparr>aye = 0, nay = 0\<rparr>) + 16 * length ?vs < 2 ^ 64"
    using assms by simp
  ultimately show ?thesis
    using tally_foldl [of "\<lparr>aye = 0, nay = 0\<rparr>" ?vs st s now] by (simp add: weighted_tally_def)
qed

theorem tally_is_exact_witness:
  "unat (aye (weighted_tally demo8 town kind_rule (Timestamp 0))) =
     vote_weight demo8 town (Timestamp 0) (vote_new (ProposalId 1) (UserId 2) True)"
  using tally_is_exact [of demo8 kind_rule town "Timestamp 0"]
  by (simp add: list_for_proposal_def vote_new_def)

text \<open>C19. Resolution is complete and idempotent. After resolving a server's ballots no
  ballot of it is past its closing time and still open, none is in force and not
  applied, and resolving again at the same moment changes nothing.\<close>

theorem resolution_settles:
  assumes "store_ok st"
  shows "resolve_due env sl (resolve_due env sl st) = resolve_due env sl st \<and>
    (\<forall>s pid p. find_by_slug st (trim sl) = Some s \<longrightarrow>
       get_proposal (resolve_due env sl st) pid = Some p \<longrightarrow> p_server_id p = s_id s \<longrightarrow>
       \<not> (p_status p = Open \<and> p_closes_at p \<le> env_now env) \<and>
       (\<forall>e. p_status p = Passed e \<longrightarrow> e \<le> env_now env \<longrightarrow> p_is_applied p))"
  using resolve_due_twice [OF assms] resolve_due_settled [OF assms]
  by (auto simp: settled_def due_def matured_def)

theorem resolution_settles_witness: "resolve_due (demo_env 33) ''town'' demo9 = demo9"
  using resolution_settles [OF demo_store_ok(8), of "demo_env 33" "''town''"]
  by (simp add: demo9_def)

text \<open>C15. A ballot's outcome is final. Over any run a ballot keeps its server, proposer,
  question and voting window; once it is closed its outcome never changes, and
  once applied it stays applied.\<close>

theorem ballots_are_final:
  assumes "live st" "evolves st st'" "get_proposal st pid = Some p"
  shows "\<exists>p'. get_proposal st' pid = Some p' \<and> p_server_id p' = p_server_id p \<and>
    p_proposer p' = p_proposer p \<and> p_kind p' = p_kind p \<and> p_opened_at p' = p_opened_at p \<and>
    p_closes_at p' = p_closes_at p \<and> (p_status p \<noteq> Open \<longrightarrow> p_status p' = p_status p) \<and>
    (p_is_applied p \<longrightarrow> p_is_applied p')"
  using evolves_kept(3) [OF assms(2,1)] assms(3) unfolding ballots_kept_def same_ballot_def by blast

theorem ballots_are_final_witness:
  "\<exists>p'. get_proposal demo8 (ProposalId 1) = Some p' \<and> p_kind p' = AddRule ''be kind''"
proof -
  have ev: "evolves demo7 demo8"
    unfolding demo8_def by (rule evolves_call [OF evolves_refl demo_capacity(4)])
  have "get_proposal demo7 (ProposalId 1) = Some kind_rule" by (simp add: get_proposal_def hm_get_def)
  from ballots_are_final [OF demo_live(7) ev this] show ?thesis by auto
qed

section \<open>Blocks and direct messages\<close>

definition demo_blocked :: inner where
  "demo_blocked = exec (demo_env 0) (Cmd_block_user_by_id 1 2) demo2"

lemma demo_blocked_facts:
  "live demo_blocked" "capacity demo_blocked" "store_is_blocked_between demo_blocked (UserId 1) (UserId 2)"
proof -
  have f: "blocks demo_blocked = [block_new (UserId 1) (UserId 2) (Timestamp 0)]"
      "next_user demo_blocked = 2" "next_server demo_blocked = 0" "next_message demo_blocked = 0"
      "next_proposal demo_blocked = 0"
    by (simp_all add: demo_blocked_def block_user_by_id_def block_between_def add_block_def
        record_change_def demo_step)
  show "capacity demo_blocked" by (rule capacity_small) (simp_all add: f)
  show "live demo_blocked"
    unfolding demo_blocked_def by (intro live_call demo_live(2) capacity_small) simp_all
  show "store_is_blocked_between demo_blocked (UserId 1) (UserId 2)"
    by (simp add: store_is_blocked_between_def f block_is_between_def block_new_def)
qed

text \<open>C35. A block is for good and silences both sides. Over any run a block stays, and
  while it stands neither of the two can send the other a direct message: the
  call is refused whatever it carries.\<close>

theorem blocks_are_permanent:
  assumes "live st" "evolves st st'" "store_is_blocked_between st (UserId i) (UserId j)"
  shows "store_is_blocked_between st' (UserId i) (UserId j) \<and>
    fst (send_sealed_dm_by_id env i j fr fs st') \<noteq> Inr m \<and>
    fst (send_sealed_dm_by_id env j i fr fs st') \<noteq> Inr m"
proof -
  have b: "store_is_blocked_between st' (UserId i) (UserId j)"
    using blocked_mono [OF evolves_blocks [OF assms(2,1)] assms(3)] .
  have "tables_ok st'"
    using live_ok [OF live_evolves [OF assms(2,1)]] store_ok_tables by blast
  with b show ?thesis using blocked_dm_refused [of st' i j] by blast
qed

theorem blocks_are_permanent_witness:
  "\<exists>e. fst (send_sealed_dm_by_id (demo_env 1) 2 1 ''a'' ''b'' demo_blocked) = Inl e"
  using blocks_are_permanent [OF demo_blocked_facts(1) evolves_refl demo_blocked_facts(3)]
  by (metis sum.exhaust)

text \<open>Who may write to whom. A sealed message is accepted exactly when both accounts
  exist and differ, both ciphertexts are non-empty, no block stands between the
  two, and a recipient who takes messages from friends only is a friend of the
  sender. A refused message leaves the store as it was.\<close>

theorem dm_gate:
  assumes "store_ok st"
  shows "((\<exists>m. fst (send_sealed_dm_by_id env i j fr fs st) = Inr m) \<longleftrightarrow>
      (\<exists>u v. get_user st (UserId i) = Some u \<and> get_user st (UserId j) = Some v \<and> i \<noteq> j \<and>
        trim fr \<noteq> [] \<and> trim fs \<noteq> [] \<and> \<not> store_is_blocked_between st (UserId i) (UserId j) \<and>
        (u_dm_policy v = FriendsOnly \<longrightarrow>
          (\<exists>f\<in>set (friends st). are_friends f \<and> friendship_is_between f (UserId i) (UserId j))))) \<and>
    ((\<exists>e. fst (send_sealed_dm_by_id env i j fr fs st) = Inl e) \<longrightarrow>
      snd (send_sealed_dm_by_id env i j fr fs st) = st)"
proof -
  have ids: "get_user st uid = Some u \<Longrightarrow> u_id u = uid" for uid u
    using get_ids(1) store_ok_tables [OF assms] by blast
  have may: "may_dm st u v \<longleftrightarrow> \<not> store_is_blocked_between st (u_id u) (u_id v) \<and>
      (u_dm_policy v = FriendsOnly \<longrightarrow>
        (\<exists>f\<in>set (friends st). are_friends f \<and> friendship_is_between f (u_id u) (u_id v)))" for u v
    by (auto simp: may_dm_def Let_def can_dm_iff store_is_blocked_between_def blocks_involving_def
        friends_involving_def block_is_between_def friendship_is_between_def)
  show ?thesis
    using ids
    by (auto simp: send_sealed_dm_by_id_def send_sealed_dm_core_def Let_def may split_beta
        split: option.splits if_splits)
qed

theorem dm_gate_witness: "\<exists>m. fst (send_sealed_dm_by_id (demo_env 0) 2 1 ''hi'' ''hi'' demo2) = Inr m"
proof -
  have "\<exists>u v. get_user demo2 (UserId 2) = Some u \<and> get_user demo2 (UserId 1) = Some v \<and> (2 :: u64) \<noteq> 1 \<and>
      trim ''hi'' \<noteq> [] \<and> trim ''hi'' \<noteq> [] \<and> \<not> store_is_blocked_between demo2 (UserId 2) (UserId 1) \<and>
      (u_dm_policy v = FriendsOnly \<longrightarrow>
        (\<exists>f\<in>set (friends demo2). are_friends f \<and> friendship_is_between f (UserId 2) (UserId 1)))"
    by (simp add: get_user_def hm_get_def store_is_blocked_between_def)
  with dm_gate [OF demo_store_ok(2), of "demo_env 0" 2 1 "''hi''" "''hi''"] show ?thesis by blast
qed

section \<open>Threads\<close>

lemma channel_messages_for_on_file:
  assumes "channel_messages_for env h sl ch st = Inr ms"
  shows "set ms \<subseteq> set (hm_values (messages st)) \<and> (unique_by msg_id (hm_values (messages st)) \<longrightarrow> unique_by msg_id ms)"
proof -
  obtain cid P where ms: "ms = filter P (list_for_channel st cid)"
    using assms
    by (auto simp: channel_messages_for_def channel_messages_def Let_def split: option.splits sum.splits)
  have "unique_by msg_id (list_for_channel st cid)" if "unique_by msg_id (hm_values (messages st))"
    using unique_by_filter [OF that, of "\<lambda>m. msg_channel_id m = cid"]
    by (simp add: list_for_channel_def unique_by_def distinct_map inj_on_def)
  then show ?thesis by (auto simp: ms list_for_channel_def)
qed

text \<open>C36. Threads are shown whole. Whatever a viewer may see of a channel, arranging it
  into reply trees ends and shows exactly those messages, none lost and none
  invented, even where a parent is hidden from the viewer.\<close>

theorem threads_are_complete:
  assumes "live st" "channel_messages_for env h sl ch st = Inr ms"
  shows "\<exists>ns. build_message_tree ms = Some ns \<and> set (flatten_forest ns) = set ms"
proof -
  have ok: "store_ok st" "ids_ok st" using live_ok [OF assms(1)] by blast+
  have "unique_by msg_id (hm_values (messages st))"
    using store_ok_tables [OF ok(1)] by (auto simp: tables_ok_def intro: hm_keyed_unique)
  then have "unique_by msg_id ms" "set ms \<subseteq> set (hm_values (messages st))"
    using channel_messages_for_on_file [OF assms(2)] by blast+
  moreover from this(2) ok(2) have "parents_first ms" by (auto simp: ids_ok_def parents_first_def)
  ultimately show ?thesis by (intro build_message_tree_complete)
qed

definition general :: channel where
  "general = channel_new (ChannelId 1) (ServerId 1) ''general'' [] (Timestamp 2592000)"

lemma general_simps [simp]: "ch_id general = ChannelId 1" "ch_server_id general = ServerId 1"
    "ch_name general = ''general''" "\<not> ch_is_encrypted general"
  by (simp_all add: general_def channel_new_def)

definition demo_channel :: inner where
  "demo_channel = exec (demo_env 30) (Cmd_create_channel ''ann'' ''town'' ''general'' []) demo6"

definition demo_posted :: inner where
  "demo_posted = exec (demo_env 30) (Cmd_post_message ''ann'' ''town'' ''general'' ''hi'' []) demo_channel"

lemma demo_channel_fields [simp]:
  "users demo_channel = [(UserId 1, ann), (UserId 2, bob)]" "servers demo_channel = [(ServerId 1, town)]"
  "memberships demo_channel = [((UserId 1, ServerId 1), ann_in_town), ((UserId 2, ServerId 1), bob_citizen)]"
  "channels demo_channel = [(ChannelId 1, general)]" "messages demo_channel = []"
  "node demo_channel = NodeId 0" "next_user demo_channel = 2" "next_server demo_channel = 1"
  "next_message demo_channel = 0" "next_proposal demo_channel = 0"
  by (simp_all add: demo_channel_def create_channel_def find_by_name_def demo_step is_citizen_def
      is_franchised_def founder_may_provision_def general_simps flip: general_def)

definition hello :: message where
  "hello = (message_new (MessageId 1) (ChannelId 1) (ServerId 1) (UserId 1) ''hi'' None (Timestamp 2592000))
     \<lparr>msg_attachments := []\<rparr>"

lemma demo_posted_fields [simp]:
  "users demo_posted = [(UserId 1, ann), (UserId 2, bob)]" "servers demo_posted = [(ServerId 1, town)]"
  "memberships demo_posted = [((UserId 1, ServerId 1), ann_in_town), ((UserId 2, ServerId 1), bob_citizen)]"
  "channels demo_posted = [(ChannelId 1, general)]" "messages demo_posted = [(MessageId 1, hello)]"
  by (simp_all add: demo_posted_def post_message_with_attachments_def resolve_poster_def insert_message_def
      find_by_name_def demo_step hello_def message_new_def)

theorem threads_are_complete_witness:
  "\<exists>ms ns. channel_messages_for (demo_env 30) ''bob'' ''town'' ''general'' demo_posted = Inr ms \<and>
     ms \<noteq> [] \<and> build_message_tree ms = Some ns \<and> set (flatten_forest ns) = set ms"
proof -
  have "live demo_channel"
    unfolding demo_channel_def by (intro live_call demo_live(6) capacity_small) simp_all
  then have "live demo_posted"
    unfolding demo_posted_def by (intro live_call capacity_small) simp_all
  moreover obtain ms where "channel_messages_for (demo_env 30) ''bob'' ''town'' ''general'' demo_posted = Inr ms"
      "ms \<noteq> []"
    by (simp add: channel_messages_for_def channel_messages_def list_for_channel_def visible_to_def
        find_by_name_def shows_message_to_def ann_in_town_def bob_citizen_def bob_in_town_def
        less_eq_timestamp_def demo_step hello_def message_new_def)
  ultimately show ?thesis using threads_are_complete by metis
qed

text \<open>The feed is the outbox, page by page. In a well-formed store the changes after
  a cursor are those at the positions after it, in order: pages follow on from
  each other without a gap or a repetition.\<close>

theorem feed_pages:
  assumes "store_ok st" "length (outbox st) < 2 ^ 64"
  shows "changes_since st after limit = take (unat limit) (drop (unat after) (outbox st)) \<and>
    (\<forall>r\<in>set (changes_since st after limit). after < cr_seq r)"
proof -
  have seq: "i < length (outbox st) \<Longrightarrow> unat (cr_seq (outbox st ! i)) = Suc i" for i
    using assms by (simp add: store_ok_def feed_ok_def unat_of_nat_exact del: of_nat_Suc)
  have "filter (\<lambda>r. after < cr_seq r) (outbox st) = drop (unat after) (outbox st)"
  proof -
    have "filter (\<lambda>r. k < unat (cr_seq r)) xs = drop (k - n) xs"
      if "\<And>i. i < length xs \<Longrightarrow> unat (cr_seq (xs ! i)) = Suc (n + i)" for xs k n
      using that
    proof (induction xs arbitrary: n)
      case (Cons x xs)
      have "filter (\<lambda>r. k < unat (cr_seq r)) xs = drop (k - Suc n) xs"
        using Cons.prems [of "Suc i" for i] by (intro Cons.IH) auto
      moreover have "unat (cr_seq x) = Suc n" using Cons.prems [of 0] by simp
      ultimately show ?case
        by (cases "k \<le> n") (auto simp: not_le Suc_diff_Suc [symmetric] drop_Cons split: nat.split)
    qed simp
    from this [of "outbox st" 0 "unat after"] seq show ?thesis
      by (simp add: word_less_nat_alt)
  qed
  then have "changes_since st after limit = take (unat limit) (drop (unat after) (outbox st))"
    by (simp add: changes_since_def)
  moreover have "\<forall>r\<in>set (changes_since st after limit). after < cr_seq r"
    by (auto simp: changes_since_def dest: in_set_takeD)
  ultimately show ?thesis by blast
qed

theorem feed_pages_witness:
  "store_ok demo2 \<and> changes_since demo2 1 9 = take 9 (drop 1 (outbox demo2)) \<and> length (outbox demo2) = 2"
proof -
  have "length (outbox demo2) = 2"
    by (simp add: demo2_def demo1_def demo0_def with_node_def empty_store_def register_account_def demo_step)
  with feed_pages [OF demo_store_ok(2), of 1 9] demo_store_ok(2) show ?thesis by simp
qed

text \<open>A restart loses nothing but what is local to the process. Reading back a
  snapshot gives the same accounts, servers, ballots, votes, messages and all
  other tables and counters; only media bytes, the outbox, the cursors and the
  node's number, set again at start-up, are dropped.\<close>

theorem snapshot_round_trip:
  assumes "store_ok st"
  shows "from_snapshot (to_snapshot st) =
    st\<lparr>media := [], media_seq := 0, node := NodeId 0, outbox := [], next_outbox := 0, cursors := []\<rparr>"
  by (rule snapshot_roundtrip [OF store_ok_tables [OF assms]])

theorem snapshot_round_trip_witness: "users (from_snapshot (to_snapshot demo8)) = [(UserId 1, ann), (UserId 2, bob)]"
  using snapshot_round_trip [OF demo_store_ok(8)] by simp

text \<open>A verification link works once and not after its time. Following a link that
  is on file and not expired verifies the account it was issued for; following
  it again finds nothing, and so does following an expired or unknown one.\<close>

theorem verification_links:
  assumes "store_ok st" "now = seconds (env_now env)"
  shows "(\<forall>u st'. verify_email env tok st = (Some u, st') \<longrightarrow>
      (\<exists>uid e. hm_get (verification_tokens st) (hash_token env tok) = Some (uid, e) \<and> now < e \<and>
        u_id u = uid \<and> u_email_verified u \<and> get_user st' uid = Some u)) \<and>
    fst (verify_email env tok (snd (verify_email env tok st))) = None"
proof -
  have ok: "hm_ok (verification_tokens st)" using store_ok_tables [OF assms(1)] by (simp add: tables_ok_def)
  have ids: "get_user st uid = Some u \<Longrightarrow> u_id u = uid" for uid u
    using get_ids(1) store_ok_tables [OF assms(1)] by blast
  let ?k = "hash_token env tok"
  let ?live = "hm_retain (\<lambda>_ (_, expiry). expiry > now) (verification_tokens st)"
  have after: "verification_tokens (snd (verify_email env tok st)) = hm_remove ?k ?live"
    by (simp add: verify_email_def take_token_def Let_def assms(2) update_user_def insert_user_def
        record_change_def split: option.split)
  have "hm_get (hm_retain P (hm_remove ?k ?live)) ?k = None" for P
    using ok by (simp add: hm_get_retain hm_ok_retain hm_ok_remove hm_get_remove)
  then have "fst (verify_email env tok (snd (verify_email env tok st))) = None"
    unfolding verify_email_def [of env tok "snd (verify_email env tok st)"]
    by (simp add: take_token_def Let_def after)
  moreover have "\<exists>uid e. hm_get (verification_tokens st) ?k = Some (uid, e) \<and> now < e \<and>
        u_id u = uid \<and> u_email_verified u \<and> get_user st' uid = Some u"
    if v: "verify_email env tok st = (Some u, st')" for u st'
  proof -
    obtain uid e where e: "hm_get (verification_tokens st) ?k = Some (uid, e)" "now < e"
      using v ok
      by (auto simp: verify_email_def take_token_def Let_def hm_get_retain assms(2) split: option.splits if_splits)
    then have "\<exists>u0. get_user st uid = Some u0 \<and> u = u0\<lparr>u_email_verified := True\<rparr> \<and> get_user st' (u_id u) = Some u"
      using v ok
      by (auto simp: verify_email_def take_token_def Let_def hm_get_retain assms(2) update_user_def
          get_user_insert get_user_def split: option.splits)
    then show ?thesis using e ids by fastforce
  qed
  ultimately show ?thesis by blast
qed

theorem verification_links_witness:
  "\<exists>st u st'. verify_email (demo_env 0) ''x'' st = (Some u, st') \<and> u_email_verified u \<and>
     fst (verify_email (demo_env 0) ''x'' st') = None"
proof -
  let ?st = "add_token (hash_token (demo_env 0) ''x'') (UserId 2) 100 demo2"
  have ok: "store_ok ?st" using store_ok_ops [OF demo_store_ok(2)] by simp
  have tokens: "verification_tokens demo2 = []"
    by (simp add: demo2_def demo1_def demo0_def with_node_def empty_store_def register_account_def demo_step)
  obtain u st' where v: "verify_email (demo_env 0) ''x'' ?st = (Some u, st')"
    by (simp add: verify_email_def take_token_def add_token_def hm_retain_def Let_def demo_step tokens)
  from verification_links [OF ok refl, of "demo_env 0" "''x''"] v show ?thesis by fastforce
qed

end
