(* ===== verification/Replication.thy ===== *)
theory Replication
  imports Feed_Laws Store_Laws
begin

text \<open>
  The consumer of the feed: applying one authorized row to the replica
  (\<^verbatim>\<open>apply_row\<close>, \<^verbatim>\<open>apply_incoming\<close> of \<^verbatim>\<open>adapter-store-memory/src/lib.rs\<close>), a batch
  (\<^verbatim>\<open>federation/src/ingest.rs\<close>) and the ordered batch with its cursor
  (\<^verbatim>\<open>adapter-federation/src/replicator.rs\<close>, \<^verbatim>\<open>http/poll_peer.rs\<close>).
\<close>

section \<open>Rows and their JSON\<close>

text \<open>What the serialisation library generates for the domain types: the JSON of a
  row (\<^verbatim>\<open>to_value\<close>) and a parser per type (\<^verbatim>\<open>from_value\<close>), with its error text.\<close>

record serde =
  sd_value :: "row \<Rightarrow> json"
  sd_user :: "json \<Rightarrow> string + user"
  sd_server :: "json \<Rightarrow> string + server"
  sd_invite :: "json \<Rightarrow> string + invite"
  sd_membership :: "json \<Rightarrow> string + membership"
  sd_channel :: "json \<Rightarrow> string + channel"
  sd_message :: "json \<Rightarrow> string + message"
  sd_reaction :: "json \<Rightarrow> string + reaction"
  sd_proposal :: "json \<Rightarrow> string + proposal"
  sd_vote :: "json \<Rightarrow> string + vote"
  sd_emoji :: "json \<Rightarrow> string + emoji"
  sd_emoji_vote :: "json \<Rightarrow> string + emoji_vote"
  sd_rule :: "json \<Rightarrow> string + rule"
  sd_dm :: "json \<Rightarrow> string + dm_message"
  sd_block :: "json \<Rightarrow> string + block"
  sd_friendship :: "json \<Rightarrow> string + friendship"
  sd_user_keys :: "json \<Rightarrow> string + user_keys"
  sd_grant :: "json \<Rightarrow> string + channel_key_grant"
  sd_role :: "json \<Rightarrow> string + role"
  sd_role_assignment :: "json \<Rightarrow> string + role_assignment"

text \<open>What the code relies on: the JSON of a row parses back to it.\<close>

fun row_faithful :: "serde \<Rightarrow> row \<Rightarrow> bool" where
  "row_faithful sd (UserRow x) = (sd_user sd (sd_value sd (UserRow x)) = Inr x)"
| "row_faithful sd (ServerRow x) = (sd_server sd (sd_value sd (ServerRow x)) = Inr x)"
| "row_faithful sd (InviteRow x) = (sd_invite sd (sd_value sd (InviteRow x)) = Inr x)"
| "row_faithful sd (MembershipRow x) = (sd_membership sd (sd_value sd (MembershipRow x)) = Inr x)"
| "row_faithful sd (ChannelRow x) = (sd_channel sd (sd_value sd (ChannelRow x)) = Inr x)"
| "row_faithful sd (MessageRow x) = (sd_message sd (sd_value sd (MessageRow x)) = Inr x)"
| "row_faithful sd (ReactionRow x) = (sd_reaction sd (sd_value sd (ReactionRow x)) = Inr x)"
| "row_faithful sd (ReactionKeyRow _ _ _) = True"
| "row_faithful sd (ProposalRow x) = (sd_proposal sd (sd_value sd (ProposalRow x)) = Inr x)"
| "row_faithful sd (VoteRow x) = (sd_vote sd (sd_value sd (VoteRow x)) = Inr x)"
| "row_faithful sd (EmojiRow x) = (sd_emoji sd (sd_value sd (EmojiRow x)) = Inr x)"
| "row_faithful sd (EmojiVoteRow x) = (sd_emoji_vote sd (sd_value sd (EmojiVoteRow x)) = Inr x)"
| "row_faithful sd (RuleRow x) = (sd_rule sd (sd_value sd (RuleRow x)) = Inr x)"
| "row_faithful sd (DmRow x) = (sd_dm sd (sd_value sd (DmRow x)) = Inr x)"
| "row_faithful sd (BlockRow x) = (sd_block sd (sd_value sd (BlockRow x)) = Inr x)"
| "row_faithful sd (FriendshipRow x) = (sd_friendship sd (sd_value sd (FriendshipRow x)) = Inr x)"
| "row_faithful sd (UserKeysRow x) = (sd_user_keys sd (sd_value sd (UserKeysRow x)) = Inr x)"
| "row_faithful sd (GrantRow x) = (sd_grant sd (sd_value sd (GrantRow x)) = Inr x)"
| "row_faithful sd (RoleRow x) = (sd_role sd (sd_value sd (RoleRow x)) = Inr x)"
| "row_faithful sd (RoleAssignmentRow x) =
     (sd_role_assignment sd (sd_value sd (RoleAssignmentRow x)) = Inr x)"

section \<open>Applying a row\<close>

text \<open>\<^verbatim>\<open>row!(T)\<close>: parse, or return the error with nothing written.\<close>

definition with_row :: "string + 'a \<Rightarrow> ('a \<Rightarrow> inner) \<Rightarrow> string + inner" where
  "with_row r f = (case r of Inl e \<Rightarrow> Inl e | Inr x \<Rightarrow> Inr (f x))"

definition unknown_entity :: "string \<Rightarrow> string + inner" where
  "unknown_entity other = Inl (''unknown replicated entity `'' @ other @ ''`'')"

definition apply_row :: "serde \<Rightarrow> signed_part \<Rightarrow> inner \<Rightarrow> string + inner" where
  "apply_row sd part st =
     (let p = sp_payload part; e = sp_entity part; op = sp_op part;
          u64_field = (\<lambda>k. Option.bind (json_get p k) as_u64);
          str_field = (\<lambda>k. Option.bind (json_get p k) as_str)
      in
      if e = ''users'' then with_row (sd_user sd p) (\<lambda>u. case op of
          Upsert \<Rightarrow> st\<lparr>users := hm_insert (u_id u) u (users st)\<rparr>
        | Delete \<Rightarrow> st\<lparr>users := hm_remove (u_id u) (users st)\<rparr>)
      else if e = ''servers'' then with_row (sd_server sd p) (\<lambda>s. case op of
          Upsert \<Rightarrow> st\<lparr>servers := hm_insert (s_id s) s (servers st)\<rparr>
        | Delete \<Rightarrow> st\<lparr>servers := hm_remove (s_id s) (servers st)\<rparr>)
      else if e = ''invites'' \<and> op = Upsert then with_row (sd_invite sd p) (\<lambda>i.
          st\<lparr>invites := hm_insert (i_code_hash i) i (invites st)\<rparr>)
      else if e = ''memberships'' then with_row (sd_membership sd p) (\<lambda>m. case op of
          Upsert \<Rightarrow> st\<lparr>memberships := hm_insert (m_user_id m, m_server_id m) m (memberships st)\<rparr>
        | Delete \<Rightarrow> st\<lparr>memberships := hm_remove (m_user_id m, m_server_id m) (memberships st)\<rparr>)
      else if e = ''channels'' then with_row (sd_channel sd p) (\<lambda>c. case op of
          Upsert \<Rightarrow> st\<lparr>channels := hm_insert (ch_id c) c (channels st)\<rparr>
        | Delete \<Rightarrow> st\<lparr>channels := hm_remove (ch_id c) (channels st),
                      messages := hm_retain (\<lambda>_ m. msg_channel_id m \<noteq> ch_id c) (messages st)\<rparr>)
      else if e = ''messages'' then with_row (sd_message sd p) (\<lambda>m. case op of
          Upsert \<Rightarrow> st\<lparr>messages := hm_insert (msg_id m) m (messages st)\<rparr>
        | Delete \<Rightarrow> st\<lparr>messages := hm_remove (msg_id m) (messages st)\<rparr>)
      else if e = ''reactions'' \<and> op = Upsert then with_row (sd_reaction sd p) (\<lambda>r.
          if \<exists>x\<in>set (reactions st). same_reaction x (re_message_id r) (re_user r) (re_emoji r)
          then st else st\<lparr>reactions := reactions st @ [r]\<rparr>)
      else if e = ''reactions'' \<and> op = Delete then
          Inr (st\<lparr>reactions := filter (\<lambda>r.
            \<not> (Some (message_id_val (re_message_id r)) = u64_field ''message_id'' \<and>
               Some (user_id_val (re_user r)) = u64_field ''user'' \<and>
               Some (re_emoji r) = str_field ''emoji'')) (reactions st)\<rparr>)
      else if e = ''proposals'' then with_row (sd_proposal sd p) (\<lambda>pr. case op of
          Upsert \<Rightarrow> st\<lparr>proposals := hm_insert (p_id pr) pr (proposals st)\<rparr>
        | Delete \<Rightarrow> st\<lparr>proposals := hm_remove (p_id pr) (proposals st)\<rparr>)
      else if e = ''votes'' \<and> op = Upsert then with_row (sd_vote sd p) (\<lambda>v.
          st\<lparr>votes := filter (\<lambda>x. \<not> (v_proposal_id x = v_proposal_id v \<and> v_voter x = v_voter v))
               (votes st) @ [v]\<rparr>)
      else if e = ''emojis'' \<and> op = Upsert then with_row (sd_emoji sd p) (\<lambda>x.
          st\<lparr>emojis := hm_insert (e_id x) x (emojis st)\<rparr>)
      else if e = ''emoji_votes'' \<and> op = Upsert then with_row (sd_emoji_vote sd p) (\<lambda>v.
          st\<lparr>emoji_votes := filter (\<lambda>x. \<not> (ev_emoji_id x = ev_emoji_id v \<and> ev_voter x = ev_voter v))
               (emoji_votes st) @ [v]\<rparr>)
      else if e = ''rules'' then with_row (sd_rule sd p) (\<lambda>r. case op of
          Upsert \<Rightarrow> st\<lparr>rules := hm_insert (r_id r) r (rules st)\<rparr>
        | Delete \<Rightarrow> st\<lparr>rules := hm_remove (r_id r) (rules st)\<rparr>)
      else if e = ''dms'' \<and> op = Upsert then with_row (sd_dm sd p) (\<lambda>m.
          if \<exists>x\<in>set (dms st). dm_ident x = dm_ident m then st else st\<lparr>dms := dms st @ [m]\<rparr>)
      else if e = ''blocks'' \<and> op = Upsert then with_row (sd_block sd p) (\<lambda>b.
          if \<exists>x\<in>set (blocks st). b_blocker x = b_blocker b \<and> b_blocked x = b_blocked b
          then st else st\<lparr>blocks := blocks st @ [b]\<rparr>)
      else if e = ''friendships'' \<and> op = Upsert then with_row (sd_friendship sd p) (\<lambda>f.
          st\<lparr>friends := filter (\<lambda>x. \<not> friendship_is_between x (f_requester f) (f_addressee f))
               (friends st) @ [f]\<rparr>)
      else if e = ''user_keys'' \<and> op = Upsert then with_row (sd_user_keys sd p) (\<lambda>k.
          st\<lparr>key_directory := hm_insert (k_user_id k) k (key_directory st)\<rparr>)
      else if e = ''channel_grants'' \<and> op = Upsert then with_row (sd_grant sd p) (\<lambda>g.
          st\<lparr>channel_grants := hm_insert (g_channel_id g, g_epoch g, g_member g) g (channel_grants st)\<rparr>)
      else if e = ''roles'' then with_row (sd_role sd p) (\<lambda>r. case op of
          Upsert \<Rightarrow> st\<lparr>roles := hm_insert (ro_id r) r (roles st)\<rparr>
        | Delete \<Rightarrow> st\<lparr>roles := hm_remove (ro_id r) (roles st),
                      role_assignments := filter (\<lambda>a. ra_role_id a \<noteq> ro_id r) (role_assignments st)\<rparr>)
      else if e = ''role_assignments'' then with_row (sd_role_assignment sd p) (\<lambda>a. case op of
          Upsert \<Rightarrow>
            if \<exists>x\<in>set (role_assignments st). ra_role_id x = ra_role_id a \<and> ra_user x = ra_user a
            then st else st\<lparr>role_assignments := role_assignments st @ [a]\<rparr>
        | Delete \<Rightarrow> st\<lparr>role_assignments :=
            filter (\<lambda>x. \<not> (ra_role_id x = ra_role_id a \<and> ra_user x = ra_user a)) (role_assignments st)\<rparr>)
      else unknown_entity e)"

definition apply_incoming :: "serde \<Rightarrow> signed_part \<Rightarrow> inner \<Rightarrow> (string + unit) \<times> inner" where
  "apply_incoming sd part st =
     (case apply_row sd part st of Inl e \<Rightarrow> (Inl e, st) | Inr st \<Rightarrow> (Inr (), st))"

section \<open>Batches\<close>

record ingested =
  in_applied :: u64
  in_rejected :: "auth_error list"
  in_apply_errors :: "string list"

definition ingested_default :: ingested where
  "ingested_default = \<lparr> in_applied = 0, in_rejected = [], in_apply_errors = [] \<rparr>"

text \<open>\<^verbatim>\<open>federation::ingest\<close>, with the store as the sink; parents are looked up in a
  fixed resolver.\<close>

fun ingest ::
  "ed25519 \<Rightarrow> wire \<Rightarrow> serde \<Rightarrow> 'r registry \<Rightarrow> 'r \<Rightarrow> scope_resolver \<Rightarrow> change_event list \<Rightarrow>
   ingested \<Rightarrow> inner \<Rightarrow> ingested \<times> inner" where
  "ingest ed w sd reg r rsv [] out st = (out, st)"
| "ingest ed w sd reg r rsv (ev # evs) out st =
     (let (out, st) =
        (case authorize ed w reg r rsv ev of
           Inl e \<Rightarrow> (out\<lparr>in_rejected := in_rejected out @ [e]\<rparr>, st)
         | Inr part \<Rightarrow>
             (case apply_incoming sd part st of
                (Inr _, st) \<Rightarrow> (out\<lparr>in_applied := in_applied out + 1\<rparr>, st)
              | (Inl e, st) \<Rightarrow> (out\<lparr>in_apply_errors := in_apply_errors out @ [e]\<rparr>, st)))
      in ingest ed w sd reg r rsv evs out st)"

text \<open>The loop of \<^verbatim>\<open>Replicator::ingest\<close>. The resolver reads the replica as it is when
  each event is judged.\<close>

fun replicate ::
  "ed25519 \<Rightarrow> wire \<Rightarrow> serde \<Rightarrow> 'r registry \<Rightarrow> 'r \<Rightarrow> change_event list \<Rightarrow>
   ingested \<Rightarrow> u64 \<Rightarrow> inner \<Rightarrow> ingested \<times> u64 \<times> inner" where
  "replicate ed w sd reg r [] out handled st = (out, handled, st)"
| "replicate ed w sd reg r (ev # evs) out handled st =
     (let seq = (case peek w ev of Inr p \<Rightarrow> sp_seq p | Inl _ \<Rightarrow> 0) in
      case authorize ed w reg r (store_resolver st) ev of
        Inr part \<Rightarrow>
          let (res, st) = apply_incoming sd part st;
              out = (case res of
                  Inr _ \<Rightarrow> out\<lparr>in_applied := in_applied out + 1\<rparr>
                | Inl e \<Rightarrow> out\<lparr>in_apply_errors := in_apply_errors out @ [e]\<rparr>)
          in replicate ed w sd reg r evs out (max handled (sp_seq part)) st
      | Inl e \<Rightarrow>
          let out = out\<lparr>in_rejected := in_rejected out @ [e]\<rparr> in
          if is_transient e then (out, handled, st)
          else replicate ed w sd reg r evs out (max handled seq) st)"

definition replicator_ingest ::
  "ed25519 \<Rightarrow> wire \<Rightarrow> serde \<Rightarrow> 'r registry \<Rightarrow> 'r \<Rightarrow> node_id \<Rightarrow> change_event list \<Rightarrow> inner \<Rightarrow>
   ingested \<times> inner" where
  "replicator_ingest ed w sd reg r peer events st =
     (let (out, handled, st) =
        replicate ed w sd reg r events ingested_default (replication_cursor st peer) st
      in (out, advance_cursor peer handled st))"

text \<open>\<open>pull\<close> is the answer of the peer to a request for its feed.\<close>

definition poll_peer ::
  "ed25519 \<Rightarrow> wire \<Rightarrow> serde \<Rightarrow> 'r registry \<Rightarrow> 'r \<Rightarrow> node_id \<Rightarrow>
   (u64 \<Rightarrow> u64 \<Rightarrow> string + change_event list) \<Rightarrow> u64 \<Rightarrow> inner \<Rightarrow> (string + u64) \<times> inner" where
  "poll_peer ed w sd reg r peer pull limit st =
     (case pull (replication_cursor st peer) limit of
        Inl e \<Rightarrow> (Inl e, st)
      | Inr [] \<Rightarrow> (Inr 0, st)
      | Inr events \<Rightarrow>
          let (out, st) = replicator_ingest ed w sd reg r peer events st
          in (Inr (in_applied out), st))"

end
