(* ===== verification/Replica.thy ===== *)
theory Replica
  imports Replication System
begin

text \<open>
  Replicas follow their owner. \<open>in_sync\<close> relates the store of an owner and a
  replica that hold the same rows; the order of the vectors may differ, since an
  updated friendship keeps its place at the owner and moves to the end at a
  replica. Every call that changes the store appends to the outbox exactly the
  rows a replica has to apply to be in sync again.
\<close>

section \<open>The rows of a store\<close>

definition in_sync :: "inner \<Rightarrow> inner \<Rightarrow> bool" where
  "in_sync st rep \<longleftrightarrow> hm_ok (messages rep) \<and>
     hm_get (users rep) = hm_get (users st) \<and> hm_get (servers rep) = hm_get (servers st) \<and>
     hm_get (memberships rep) = hm_get (memberships st) \<and>
     hm_get (channels rep) = hm_get (channels st) \<and> hm_get (messages rep) = hm_get (messages st) \<and>
     hm_get (proposals rep) = hm_get (proposals st) \<and> hm_get (emojis rep) = hm_get (emojis st) \<and>
     hm_get (rules rep) = hm_get (rules st) \<and> hm_get (roles rep) = hm_get (roles st) \<and>
     hm_get (invites rep) = hm_get (invites st) \<and>
     hm_get (key_directory rep) = hm_get (key_directory st) \<and>
     hm_get (channel_grants rep) = hm_get (channel_grants st) \<and>
     set (reactions rep) = set (reactions st) \<and> set (votes rep) = set (votes st) \<and>
     set (emoji_votes rep) = set (emoji_votes st) \<and> set (dms rep) = set (dms st) \<and>
     set (blocks rep) = set (blocks st) \<and> set (friends rep) = set (friends st) \<and>
     set (role_assignments rep) = set (role_assignments st)"

text \<open>What a replica does with one record of the feed, and with a batch.\<close>

definition apply_change :: "serde \<Rightarrow> inner \<Rightarrow> change_record \<Rightarrow> inner" where
  "apply_change sd rep rec =
     (case apply_row sd (feed_part (sd_value sd) rec) rep of Inr rep' \<Rightarrow> rep' | Inl _ \<Rightarrow> rep)"

definition catch_up :: "serde \<Rightarrow> inner \<Rightarrow> change_record list \<Rightarrow> inner" where
  "catch_up sd rep recs = foldl (apply_change sd) rep recs"

lemma catch_up_simps [simp]:
  "catch_up sd rep [] = rep" "catch_up sd rep (rec # recs) = catch_up sd (apply_change sd rep rec) recs"
  "catch_up sd rep (recs @ recs') = catch_up sd (catch_up sd rep recs) recs'"
  by (simp_all add: catch_up_def)

text \<open>\<open>replays sd st st'\<close>: from \<open>st\<close> to \<open>st'\<close> the outbox grew by records that bring
  a replica of \<open>st\<close> in sync with \<open>st'\<close>.\<close>

definition base_ok :: "inner \<Rightarrow> bool" where
  "base_ok st \<longleftrightarrow> tables_ok st \<and> vectors_ok st"

definition replays :: "serde \<Rightarrow> inner \<Rightarrow> inner \<Rightarrow> bool" where
  "replays sd st st' \<longleftrightarrow>
     base_ok st \<longrightarrow> base_ok st' \<and>
     (\<exists>recs. outbox st' = outbox st @ recs \<and>
       (\<forall>rep. in_sync st rep \<longrightarrow> list_all (\<lambda>rec. row_faithful sd (cr_payload rec)) recs \<longrightarrow>
          in_sync st' (catch_up sd rep recs)))"

lemma replays_refl [intro]: "replays sd st st"
  by (simp add: replays_def exI [of _ "[]"])

lemma replays_trans:
  assumes "replays sd st st'" "replays sd st' st''"
  shows "replays sd st st''"
proof -
  have "\<exists>recs. outbox st'' = outbox st @ recs \<and>
      (\<forall>rep. in_sync st rep \<longrightarrow> list_all (\<lambda>rec. row_faithful sd (cr_payload rec)) recs \<longrightarrow>
        in_sync st'' (catch_up sd rep recs))" if ok: "base_ok st"
  proof -
    obtain r1 where r1: "outbox st' = outbox st @ r1" "base_ok st'"
        "\<And>rep. in_sync st rep \<Longrightarrow> list_all (\<lambda>rec. row_faithful sd (cr_payload rec)) r1 \<Longrightarrow>
          in_sync st' (catch_up sd rep r1)"
      using assms(1) ok by (auto simp: replays_def)
    obtain r2 where r2: "outbox st'' = outbox st' @ r2"
        "\<And>rep. in_sync st' rep \<Longrightarrow> list_all (\<lambda>rec. row_faithful sd (cr_payload rec)) r2 \<Longrightarrow>
          in_sync st'' (catch_up sd rep r2)"
      using assms(2) r1(2) by (auto simp: replays_def)
    show ?thesis
      by (rule exI [of _ "r1 @ r2"]) (simp add: r1(1) r2(1), auto intro!: r2(2) r1(3))
  qed
  then show ?thesis using assms by (auto simp: replays_def)
qed

text \<open>A call that changes no replicated row.\<close>

lemma replays_quiet:
  assumes "replays sd st0 st" "base_ok st \<Longrightarrow> base_ok st'" "outbox st' = outbox st"
    "\<And>rep. in_sync st rep \<Longrightarrow> in_sync st' rep"
  shows "replays sd st0 st'"
proof (rule replays_trans [OF assms(1)])
  show "replays sd st st'"
    unfolding replays_def using assms(2-4) by (auto intro!: exI [of _ "[]"])
qed

text \<open>A call that writes one record.\<close>

lemma replays_one:
  assumes "replays sd st0 st" "base_ok st \<Longrightarrow> base_ok st'" "outbox st' = outbox st @ [rec]"
    "\<And>rep. base_ok st \<Longrightarrow> in_sync st rep \<Longrightarrow> row_faithful sd (cr_payload rec) \<Longrightarrow>
       in_sync st' (apply_change sd rep rec)"
  shows "replays sd st0 st'"
proof (rule replays_trans [OF assms(1)])
  show "replays sd st st'"
    unfolding replays_def using assms(2-4) by (auto intro!: exI [of _ "[rec]"])
qed

lemma hm_get_insert_fun: "hm_get (hm_insert k v m) = (hm_get m)(k \<mapsto> v)"
  by (simp add: fun_eq_iff hm_get_insert)

lemma hm_get_remove_fun: "hm_get (hm_remove k m) = (hm_get m)(k := None)"
  by (simp add: fun_eq_iff hm_get_remove)

lemma hm_get_retain_same:
  "hm_ok m \<Longrightarrow> hm_ok m' \<Longrightarrow> hm_get m = hm_get m' \<Longrightarrow> hm_get (hm_retain P m) = hm_get (hm_retain P m')"
  by (simp add: fun_eq_iff hm_get_retain)

lemmas change_simps = apply_change_def apply_row_def feed_part_def with_row_def Let_def

section \<open>Each write of the store\<close>

lemma base_ok_ops:
  assumes "base_ok st"
  shows "base_ok (insert_user u st)" "base_ok (insert_server s st)" "base_ok (upsert_membership m st)"
    "base_ok (insert_channel c st)" "base_ok (store_insert_message msg st)"
    "base_ok (insert_proposal p st)" "base_ok (insert_emoji e st)" "base_ok (insert_rule ru st)"
    "base_ok (put_keys k st)" "base_ok (put_grant g st)" "base_ok (add_invite i st)"
    "base_ok (insert_role ro st)" "base_ok (insert_dm dm st)" "base_ok (upsert_vote v st)"
    "base_ok (upsert_emoji_vote ev st)"
  using assms
  by (simp_all add: base_ok_def tables_ok_ops tables_ok_more_ops vectors_ok_ops vectors_ok_votes)

lemma replays_insert:
  assumes "replays sd st0 st"
  shows "replays sd st0 (insert_user u st)" "replays sd st0 (insert_server s st)"
    "replays sd st0 (upsert_membership m st)" "replays sd st0 (insert_channel c st)"
    "replays sd st0 (store_insert_message msg st)" "replays sd st0 (insert_proposal p st)"
    "replays sd st0 (insert_emoji e st)" "replays sd st0 (insert_rule ru st)"
    "replays sd st0 (put_keys k st)" "replays sd st0 (put_grant g st)"
    "replays sd st0 (add_invite i st)" "replays sd st0 (insert_role ro st)"
  by (rule replays_one [OF assms], erule base_ok_ops, simp add: store_defs Let_def,
      simp add: store_defs Let_def change_simps in_sync_def hm_get_insert_fun hm_ok_insert)+

lemma replays_update:
  assumes "replays sd st0 st"
  shows "replays sd st0 (update_user u st)" "replays sd st0 (update_server s st)"
    "replays sd st0 (update_message msg st)" "replays sd st0 (update_proposal p st)"
  using replays_insert [OF assms] by (simp_all add: update_is_insert)

lemma replays_votes:
  assumes "replays sd st0 st"
  shows "replays sd st0 (upsert_vote v st)" "replays sd st0 (upsert_emoji_vote ev st)"
  by (rule replays_one [OF assms], erule base_ok_ops, simp add: store_defs Let_def,
      simp add: store_defs Let_def change_simps in_sync_def)+

lemma replays_insert_dm:
  assumes "replays sd st0 st" "\<forall>x\<in>set (dms st). dm_ident x \<noteq> dm_ident dm"
  shows "replays sd st0 (insert_dm dm st)"
  by (rule replays_one [OF assms(1)], erule base_ok_ops, simp add: store_defs Let_def,
      use assms(2) in \<open>simp add: store_defs Let_def change_simps in_sync_def\<close>)

lemma replays_reactions:
  assumes "replays sd st0 st"
  shows "replays sd st0 (snd (add_reaction r st))" "replays sd st0 (snd (remove_reaction mid uid em st))"
proof -
  have ok: "base_ok st \<Longrightarrow> base_ok (snd (add_reaction r st))"
      "base_ok st \<Longrightarrow> base_ok (snd (remove_reaction mid uid em st))"
    by (simp_all add: base_ok_def tables_ok_ops vectors_ok_reactions)
  show "replays sd st0 (snd (add_reaction r st))"
  proof (cases "\<exists>x\<in>set (reactions st). same_reaction x (re_message_id r) (re_user r) (re_emoji r)")
    case True
    then show ?thesis using assms by (simp add: add_reaction_def)
  next
    case False
    show ?thesis
      by (rule replays_one [OF assms ok(1)], assumption,
          use False in \<open>simp add: add_reaction_def store_defs Let_def\<close>,
          use False in \<open>simp add: add_reaction_def store_defs Let_def change_simps in_sync_def\<close>)
  qed
  show "replays sd st0 (snd (remove_reaction mid uid em st))"
  proof (cases "\<exists>x\<in>set (reactions st). same_reaction x mid uid em")
    case True
    then have gone: "length (filter (\<lambda>r. \<not> same_reaction r mid uid em) (reactions st)) \<noteq> length (reactions st)"
      by (auto simp: length_filter_conv_card dest: less_imp_neq [OF length_filter_less])
    show ?thesis
      by (rule replays_one [OF assms ok(2)], assumption,
          use gone in \<open>simp add: remove_reaction_def store_defs Let_def\<close>,
          use gone in \<open>auto simp: remove_reaction_def store_defs Let_def change_simps in_sync_def
            same_reaction_def message_id.expand user_id.expand\<close>)
  next
    case False
    then have "filter (\<lambda>r. \<not> same_reaction r mid uid em) (reactions st) = reactions st"
      by (simp add: filter_id_conv)
    then show ?thesis using assms by (simp add: remove_reaction_def Let_def)
  qed
qed

lemma set_replace_first_unique:
  assumes "unique_by k xs" "\<And>x. P x \<longleftrightarrow> k x = k y" "\<exists>x\<in>set xs. P x"
  shows "set (replace_first P y xs) = {x\<in>set xs. \<not> P x} \<union> {y}"
  using assms(1,3)
proof (induction xs)
  case (Cons a xs)
  have "unique_by k xs" "k a \<notin> k ` set xs" using Cons.prems(1) by (simp_all add: unique_by_def)
  then show ?case using Cons assms(2) by (cases "P a") (auto simp: image_iff)
qed simp

lemma replace_first_id: "\<forall>x\<in>set xs. \<not> P x \<Longrightarrow> replace_first P y xs = xs"
  by (induction xs) auto

lemma replays_social:
  assumes "replays sd st0 st"
  shows "replays sd st0 (snd (add_block b st))" "replays sd st0 (snd (add_friend f st))"
    "replays sd st0 (update_friend f st)"
proof -
  have ok: "base_ok st \<Longrightarrow> base_ok (snd (add_block b st))" "base_ok st \<Longrightarrow> base_ok (snd (add_friend f st))"
      "base_ok st \<Longrightarrow> base_ok (update_friend f st)"
    by (simp_all add: base_ok_def tables_ok_more_ops vectors_ok_social)
  let ?dup = "\<exists>x\<in>set (blocks st). b_blocker x = b_blocker b \<and> b_blocked x = b_blocked b"
  show "replays sd st0 (snd (add_block b st))"
  proof (cases ?dup)
    case False
    show ?thesis
      by (rule replays_one [OF assms ok(1)], assumption,
          use False in \<open>simp add: add_block_def store_defs Let_def\<close>,
          use False in \<open>auto simp: add_block_def store_defs Let_def change_simps in_sync_def\<close>)
  qed (use assms in \<open>simp add: add_block_def\<close>)
  let ?P = "\<lambda>x. friendship_is_between x (f_requester f) (f_addressee f)"
  show "replays sd st0 (snd (add_friend f st))"
  proof (cases "\<exists>x\<in>set (friends st). ?P x")
    case False
    show ?thesis
      by (rule replays_one [OF assms ok(2)], assumption,
          use False in \<open>simp add: add_friend_def store_defs Let_def\<close>,
          use False in \<open>auto simp: add_friend_def store_defs Let_def change_simps in_sync_def\<close>)
  qed (use assms in \<open>simp add: add_friend_def\<close>)
  show "replays sd st0 (update_friend f st)"
  proof (cases "\<exists>x\<in>set (friends st). ?P x")
    case True
    have found: "set (replace_first ?P f (friends st)) = {x\<in>set (friends st). \<not> ?P x} \<union> {f}" if "base_ok st"
      using that True
      by (intro set_replace_first_unique [where k = "\<lambda>f. {f_requester f, f_addressee f}"])
         (auto simp: base_ok_def vectors_ok_def pair_set_eq)
    show ?thesis
      by (rule replays_one [OF assms ok(3)], assumption,
          use True in \<open>simp add: update_friend_def store_defs Let_def\<close>,
          use True found in \<open>auto simp: update_friend_def store_defs Let_def change_simps in_sync_def\<close>)
  next
    case False
    then show ?thesis using assms by (simp add: update_friend_def Let_def replace_first_id)
  qed
qed

lemma base_ok_removes:
  assumes "base_ok st"
  shows "base_ok (snd (remove_channel cid st))" "base_ok (snd (remove_rule rid st))"
    "base_ok (snd (remove_role roid st))" "base_ok (revoke h st)" "base_ok (snd (assign a st))"
    "base_ok (snd (unassign roid uid st))"
  using assms
  by (simp_all add: base_ok_def tables_ok_ops tables_ok_more_ops vectors_ok_ops vectors_ok_roles)

lemma base_ok_keys:
  assumes "base_ok st"
  shows "hm_get (channels st) cid = Some c \<Longrightarrow> ch_id c = cid" "hm_get (rules st) rid = Some ru \<Longrightarrow> r_id ru = rid"
    "hm_get (roles st) roid = Some ro \<Longrightarrow> ro_id ro = roid"
    "hm_get (invites st) h = Some i \<Longrightarrow> i_code_hash i = h" "hm_ok (messages st)"
  using assms hm_keyed_get [of ch_id] hm_keyed_get [of r_id] hm_keyed_get [of ro_id]
    hm_keyed_get [of i_code_hash]
  by (auto simp: base_ok_def tables_ok_def hm_keyed_ok)

lemma replays_remove_channel:
  assumes "replays sd st0 st"
  shows "replays sd st0 (snd (remove_channel cid st))"
proof (cases "hm_get (channels st) cid")
  case (Some c)
  show ?thesis
    by (rule replays_one [OF assms base_ok_removes(1)], assumption,
        use Some in \<open>simp add: remove_channel_def store_defs Let_def\<close>,
        use Some in \<open>simp add: remove_channel_def store_defs Let_def change_simps in_sync_def
          hm_get_remove_fun hm_ok_retain base_ok_keys hm_get_retain_same\<close>)
qed (use assms in \<open>simp add: remove_channel_def\<close>)

lemma replays_remove_rule:
  assumes "replays sd st0 st"
  shows "replays sd st0 (snd (remove_rule rid st))"
proof (cases "hm_get (rules st) rid")
  case (Some c)
  show ?thesis
    by (rule replays_one [OF assms base_ok_removes(2)], assumption,
        use Some in \<open>simp add: remove_rule_def store_defs Let_def\<close>,
        use Some in \<open>simp add: remove_rule_def store_defs Let_def change_simps in_sync_def
          hm_get_remove_fun base_ok_keys\<close>)
qed (use assms in \<open>simp add: remove_rule_def\<close>)

lemma replays_remove_role:
  assumes "replays sd st0 st"
  shows "replays sd st0 (snd (remove_role roid st))"
proof (cases "hm_get (roles st) roid")
  case (Some c)
  show ?thesis
    by (rule replays_one [OF assms base_ok_removes(3)], assumption,
        use Some in \<open>simp add: remove_role_def store_defs Let_def\<close>,
        use Some in \<open>simp add: remove_role_def store_defs Let_def change_simps in_sync_def
          hm_get_remove_fun base_ok_keys\<close>)
qed (use assms in \<open>simp add: remove_role_def\<close>)

lemma replays_revoke:
  assumes "replays sd st0 st"
  shows "replays sd st0 (revoke h st)"
proof (cases "hm_get (invites st) h")
  case (Some c)
  show ?thesis
    by (rule replays_one [OF assms base_ok_removes(4)], assumption,
        use Some in \<open>simp add: revoke_def store_defs Let_def\<close>,
        use Some in \<open>simp add: revoke_def store_defs Let_def change_simps in_sync_def
          hm_get_insert_fun\<close>)
qed (use assms in \<open>simp add: revoke_def\<close>)

lemma replays_assignments:
  assumes "replays sd st0 st"
  shows "replays sd st0 (snd (assign a st))" "replays sd st0 (snd (unassign roid uid st))"
proof -
  show "replays sd st0 (snd (assign a st))"
  proof (cases "\<exists>x\<in>set (role_assignments st). ra_role_id x = ra_role_id a \<and> ra_user x = ra_user a")
    case False
    show ?thesis
      by (rule replays_one [OF assms base_ok_removes(5)], assumption,
          use False in \<open>simp add: assign_def store_defs Let_def\<close>,
          use False in \<open>auto simp: assign_def store_defs Let_def change_simps in_sync_def\<close>)
  qed (use assms in \<open>simp add: assign_def\<close>)
  show "replays sd st0 (snd (unassign roid uid st))"
  proof (cases "find (\<lambda>a. ra_role_id a = roid \<and> ra_user a = uid) (role_assignments st)")
    case (Some x)
    then have x: "ra_role_id x = roid" "ra_user x = uid" by (auto simp: find_Some_iff)
    show ?thesis
      by (rule replays_one [OF assms base_ok_removes(6)], assumption,
          use Some x in \<open>simp add: unassign_def store_defs Let_def\<close>,
          use Some x in \<open>simp add: unassign_def store_defs Let_def change_simps in_sync_def\<close>)
  qed (use assms in \<open>simp add: unassign_def\<close>)
qed

section \<open>Writes outside the feed\<close>

lemma base_ok_quiet:
  assumes "base_ok st"
  shows "base_ok (snd (next_user_id st))" "base_ok (snd (next_server_id st))"
    "base_ok (snd (next_channel_id st))" "base_ok (snd (next_message_id st))"
    "base_ok (snd (next_proposal_id st))" "base_ok (snd (next_rule_id st))"
    "base_ok (snd (next_dm_id st))" "base_ok (snd (next_role_id st))"
    "base_ok (snd (next_emoji_id st))" "base_ok (add_token th u t st)"
    "base_ok (snd (take_token th t st))" "base_ok (snd (put_media n ct bs st))"
    "base_ok (delete_media key st)" "base_ok (snd (remember_nonce nn nc t ex st))"
    "base_ok (advance_cursor peer sq st)"
  using assms
  by (simp_all add: base_ok_def tables_ok_more_ops vectors_ok_ops)

lemma replays_quiet_ops:
  assumes "replays sd st0 st"
  shows "replays sd st0 (snd (next_user_id st))" "replays sd st0 (snd (next_server_id st))"
    "replays sd st0 (snd (next_channel_id st))" "replays sd st0 (snd (next_message_id st))"
    "replays sd st0 (snd (next_proposal_id st))" "replays sd st0 (snd (next_rule_id st))"
    "replays sd st0 (snd (next_dm_id st))" "replays sd st0 (snd (next_role_id st))"
    "replays sd st0 (snd (next_emoji_id st))" "replays sd st0 (add_token th u t st)"
    "replays sd st0 (snd (take_token th t st))" "replays sd st0 (snd (put_media n ct bs st))"
    "replays sd st0 (delete_media key st)" "replays sd st0 (snd (remember_nonce nn nc t ex st))"
    "replays sd st0 (advance_cursor peer sq st)"
  by (rule replays_quiet [OF assms], erule base_ok_quiet,
      simp add: next_defs add_token_def take_token_def put_media_def delete_media_def
        remember_nonce_def advance_cursor_def Let_def,
      simp add: next_defs add_token_def take_token_def put_media_def delete_media_def
        remember_nonce_def advance_cursor_def Let_def in_sync_def)+

lemmas replays_intros = replays_refl replays_insert replays_update replays_votes replays_reactions
  replays_social replays_remove_channel replays_remove_rule replays_remove_role replays_revoke
  replays_assignments replays_quiet_ops

section \<open>Each call\<close>

lemma replays_accounts:
  "replays sd st (snd (register_account env h st))"
  "replays sd st (snd (register_with_password env raw h em pw st))"
  "replays sd st (snd (verify_email env tok st))" "replays sd st (snd (issue_resend env raw h st))"
  "replays sd st (snd (set_password env h pw st))"
  "replays sd st (snd (found_server_with_visibility env h nm priv st))"
  "replays sd st (snd (create_invite env code h sl st))"
  "replays sd st (snd (accept_invite env h code st))" "replays sd st (snd (revoke_invite h sl ch st))"
  "replays sd st (snd (join_server env h sl st))" "replays sd st (snd (try_enfranchise env h sl st))"
  "replays sd st (snd (set_contribution h sl c st))"
  by (simp_all add: register_account_def register_with_password_def verify_email_def issue_resend_def
      set_password_def found_server_with_visibility_def create_invite_def accept_invite_def
      revoke_invite_def join_server_def try_enfranchise_def set_contribution_def Let_def split_beta
      replays_intros split: option.split sum.split)

lemma replays_chat:
  "replays sd st (snd (create_channel env h sl nm tp st))"
  "replays sd st (snd (post_message_with_attachments env h sl ch b att st))"
  "replays sd st (snd (store_media n ct bs st))"
  "replays sd st (snd (post_sealed_message env h sl ch ct ep par st))"
  "replays sd st (snd (reply_message env h pid b st))"
  "replays sd st (snd (edit_message env h mid b st))"
  "replays sd st (snd (set_history_sharing h sl bo st))"
  by (simp_all add: create_channel_def post_message_with_attachments_def store_media_def
      post_sealed_message_def reply_message_def edit_message_def insert_message_def
      set_history_sharing_def Let_def split_beta replays_intros split: option.split sum.split)

lemma replays_delete_medias:
  "replays sd st0 st \<Longrightarrow> replays sd st0 (foldl (\<lambda>st a. delete_media (a_key a) st) st as)"
  by (induction as arbitrary: st) (simp_all add: replays_quiet_ops)

lemma replays_adjust_contribution:
  "replays sd st0 st \<Longrightarrow> replays sd st0 (adjust_contribution uid sid d st)"
  by (simp add: adjust_contribution_def replays_intros split: option.split)

lemma replays_more_chat:
  "replays sd st (snd (delete_message h mid st))"
  "replays sd st (snd (react h mid em st))" "replays sd st (snd (unreact h mid em st))"
  by (simp_all add: delete_message_def react_def unreact_def Let_def split_beta replays_intros
      replays_delete_medias replays_adjust_contribution split: option.split sum.split)

lemma replays_social_calls:
  "replays sd st (snd (set_dm_policy h pol st))" "replays sd st (snd (block_user env a b st))"
  "replays sd st (snd (block_user_by_id env i j st))" "replays sd st (snd (request_friend env a b st))"
  "replays sd st (snd (request_friend_by_id env i j st))" "replays sd st (snd (accept_friend a b st))"
  "replays sd st (snd (accept_friend_by_id i j st))"
  by (simp_all add: set_dm_policy_def block_user_def block_user_by_id_def block_between_def
      request_friend_def request_friend_by_id_def request_friend_between_def accept_friend_def
      accept_friend_by_id_def accept_friend_between_def Let_def split_beta replays_intros
      split: option.split)

text \<open>A direct message takes a fresh id.\<close>

definition dm_id_free :: "inner \<Rightarrow> bool" where
  "dm_id_free st \<longleftrightarrow> (\<forall>x\<in>set (dms st). dm_ident x \<noteq> fst (next_dm_id st))"

lemma replays_dm:
  assumes "dm_id_free st"
  shows "replays sd st (snd (send_sealed_dm env f t fr fs st))"
    "replays sd st (snd (send_sealed_dm_by_id env i j fr fs st))"
proof -
  have core: "replays sd st (snd (send_sealed_dm_core env a b fr fs st))" for a b
    using assms
    by (auto simp: send_sealed_dm_core_def dm_id_free_def Let_def split_beta dm_message_new_def
        intro!: replays_insert_dm replays_intros) (simp_all add: next_dm_id_def Let_def)
  then show "replays sd st (snd (send_sealed_dm env f t fr fs st))"
    "replays sd st (snd (send_sealed_dm_by_id env i j fr fs st))"
    by (simp_all add: send_sealed_dm_def send_sealed_dm_by_id_def replays_refl split: option.split)
qed

lemma replays_content:
  "replays sd st (snd (add_emoji env h sl nm url st))" "replays sd st (snd (vote_emoji h sl eid up st))"
  "replays sd st (snd (publish_keys dec h pk ws st))"
  "replays sd st (snd (enable_channel_encryption h sl ch mode st))"
  "replays sd st (snd (grant_channel_key g sl ch ep m k st))"
  by (simp_all add: add_emoji_def vote_emoji_def publish_keys_def enable_channel_encryption_def
      grant_channel_key_def Let_def split_beta replays_intros split: option.split sum.split)

lemma replays_ballots:
  "replays sd st (snd (open_proposal env h sl k st))" "replays sd st (snd (cast_vote h pid ay st))"
  "replays sd st (snd (cast_vote_by_id v pid ay st))"
  by (simp_all add: open_proposal_def cast_vote_def cast_vote_by_id_def cast_vote_as_def Let_def
      split_beta replays_intros split: option.split)

lemma replays_update_with:
  "replays sd st0 st \<Longrightarrow> replays sd st0 (update_server_with sid f st)"
  "replays sd st0 st \<Longrightarrow> replays sd st0 (update_membership_with uid sid g st)"
  by (simp_all add: update_server_with_def update_membership_with_def replays_intros
      split: option.split)

lemma replays_apply_kind: "replays sd st0 st \<Longrightarrow> replays sd st0 (apply_kind sid now k st)"
  by (cases k) (simp_all add: Let_def split_beta replays_intros replays_update_with split: option.split)

lemma replays_resolve_step:
  "replays sd st0 st \<Longrightarrow> replays sd st0 (resolve_step s c ph now st p)"
  by (simp add: resolve_step_def close_if_due_def apply_if_matured_def apply_effect_def Let_def
      replays_intros replays_apply_kind split: proposal_status.split)

lemma replays_resolve_due: "replays sd st (resolve_due env sl st)"
proof -
  have "replays sd st0 (foldl (resolve_step s c ph now) st ps)" if "replays sd st0 st" for st0 st s c ph now ps
    using that by (induction ps arbitrary: st) (simp_all add: replays_resolve_step)
  then show ?thesis
    by (simp add: resolve_due_def Let_def replays_refl split: option.split)
qed

lemma exec_replays:
  assumes "dm_id_free st" "cmd \<noteq> Cmd_restart"
  shows "replays sd st (exec env cmd st)"
  using assms(2)
  by (cases cmd)
     (simp_all add: replays_accounts replays_chat replays_more_chat replays_social_calls
       replays_dm [OF assms(1)] replays_content replays_ballots replays_resolve_due
       replays_quiet_ops replays_refl)

end
