(* ===== verification/Replicator.thy ===== *)
theory Replicator
  imports Replication
begin

text \<open>
  What the consumer guarantees: only authorized rows reach the replica, applying
  a row never writes to the outbox and keeps the tables well formed, applying it
  twice changes nothing more, and the cursor passes no event that is still to be
  retried.
\<close>

section \<open>One row\<close>

lemma with_row_Inr: "with_row r f = Inr st' \<longleftrightarrow> (\<exists>x. r = Inr x \<and> st' = f x)"
  by (auto simp: with_row_def split: sum.split)

lemma unknown_entity_Inr [simp]: "unknown_entity e \<noteq> Inr st"
  by (simp add: unknown_entity_def)

lemma with_rowE:
  assumes "with_row r f = Inr st'" obtains x where "r = Inr x" "st' = f x"
  using assms by (auto simp: with_row_Inr)

lemma if_InrE:
  assumes "(if c then a else b) = Inr x" obtains "c" "a = Inr x" | "\<not> c" "b = Inr x"
  using assms by (auto split: if_splits)

text \<open>Nothing outside the replicated tables changes; in particular an applied row is
  not echoed into this node's own feed.\<close>

lemma apply_row_frame:
  assumes "apply_row sd part st = Inr st'"
  shows "outbox st' = outbox st \<and> next_outbox st' = next_outbox st \<and> cursors st' = cursors st \<and>
    nonces st' = nonces st \<and> verification_tokens st' = verification_tokens st \<and>
    node st' = node st \<and> media st' = media st"
  using assms unfolding apply_row_def Let_def
  by (elim if_InrE with_rowE) (auto split: change_op.split)

lemma apply_row_tables_ok:
  assumes "apply_row sd part st = Inr st'" "tables_ok st"
  shows "tables_ok st'"
  using assms(1) unfolding apply_row_def Let_def
  by (elim if_InrE with_rowE)
     (use assms(2) in \<open>auto simp: tables_ok_def hm_keyed_insert hm_keyed_remove hm_keyed_retain
       split: change_op.split\<close>)

text \<open>Delivering a row a second time changes nothing.\<close>

lemma hm_insert_twice [simp]: "hm_insert k v (hm_insert k v m) = hm_insert k v m"
  unfolding hm_insert_def by (induction m) auto

lemma hm_remove_twice [simp]: "hm_remove k (hm_remove k m) = hm_remove k m"
  by (simp add: hm_remove_def)

lemma hm_retain_twice [simp]: "hm_retain P (hm_retain P m) = hm_retain P m"
  by (simp add: hm_retain_def)

lemma if_Inr_eqE:
  assumes "(if c then a else b) = Inr x"
  obtains "c = True" "a = Inr x" | "c = False" "b = Inr x"
  using assms by (auto split: if_splits)


lemma Inr_symE:
  assumes "Inr a = Inr b" obtains "b = a"
  using assms by simp

lemma apply_row_twice:
  assumes "apply_row sd part st = Inr st'"
  shows "apply_row sd part st' = Inr st'"
proof (cases "sp_op part")
  case Upsert
  show ?thesis
    using assms unfolding apply_row_def Let_def Upsert change_op.case
    by (elim if_Inr_eqE with_rowE Inr_symE,
        simp_all (no_asm_simp) only: if_True if_False with_row_def sum.case cong: if_weak_cong)
       (simp_all (no_asm_simp) add: same_reaction_def friendship_is_between_def)
next
  case Delete
  show ?thesis
    using assms unfolding apply_row_def Let_def Delete change_op.case
    by (elim if_Inr_eqE with_rowE Inr_symE,
        simp_all (no_asm_simp) only: if_True if_False with_row_def sum.case cong: if_weak_cong)
       (simp_all (no_asm_simp) add: same_reaction_def friendship_is_between_def)
qed

section \<open>Batches\<close>

lemma apply_incoming_frame:
  "outbox (snd (apply_incoming sd part st)) = outbox st"
  "cursors (snd (apply_incoming sd part st)) = cursors st"
  "tables_ok st \<Longrightarrow> tables_ok (snd (apply_incoming sd part st))"
  using apply_row_frame [of sd part st] apply_row_tables_ok [of sd part st]
  by (auto simp: apply_incoming_def split: sum.split)

text \<open>Whatever a peer sends, the replica changes only by rows that passed the gate.\<close>

text \<open>The rows a batch wrote, one after the other.\<close>

definition apply_parts :: "serde \<Rightarrow> inner \<Rightarrow> signed_part list \<Rightarrow> inner" where
  "apply_parts sd st parts = foldl (\<lambda>st part. snd (apply_incoming sd part st)) st parts"

lemma apply_parts_simps [simp]:
  "apply_parts sd st [] = st"
  "apply_parts sd st (part # parts) = apply_parts sd (snd (apply_incoming sd part st)) parts"
  by (simp_all add: apply_parts_def)

lemma replicate_gated:
  "\<exists>parts. snd (snd (replicate ed w sd reg r evs out handled st)) = apply_parts sd st parts \<and>
     (\<forall>i<length parts. \<exists>ev\<in>set evs.
        authorize ed w reg r (store_resolver (apply_parts sd st (take i parts))) ev = Inr (parts ! i))"
proof (induction evs arbitrary: out handled st)
  case Nil
  then show ?case by (simp add: exI [of _ "[]"])
next
  case (Cons ev evs)
  show ?case
  proof (cases "authorize ed w reg r (store_resolver st) ev")
    case (Inr part)
    let ?st = "snd (apply_incoming sd part st)"
    obtain out' where step: "replicate ed w sd reg r (ev # evs) out handled st =
        replicate ed w sd reg r evs out' (max handled (sp_seq part)) ?st"
      using Inr by (simp add: Let_def split_beta)
    obtain parts where "snd (snd (replicate ed w sd reg r evs out' (max handled (sp_seq part)) ?st)) =
          apply_parts sd ?st parts"
        "\<forall>i<length parts. \<exists>ev\<in>set evs.
           authorize ed w reg r (store_resolver (apply_parts sd ?st (take i parts))) ev = Inr (parts ! i)"
      using Cons.IH by blast
    then show ?thesis
      unfolding step using Inr by (intro exI [of _ "part # parts"]) (auto simp: less_Suc_eq_0_disj)
  next
    case (Inl e)
    show ?thesis
    proof (cases "is_transient e")
      case True
      then show ?thesis using Inl by (intro exI [of _ "[]"]) (simp add: Let_def)
    next
      case False
      obtain out' handled' where step: "replicate ed w sd reg r (ev # evs) out handled st =
          replicate ed w sd reg r evs out' handled' st"
        using Inl False by (simp add: Let_def)
      obtain parts where "snd (snd (replicate ed w sd reg r evs out' handled' st)) =
            apply_parts sd st parts"
          "\<forall>i<length parts. \<exists>ev\<in>set evs.
             authorize ed w reg r (store_resolver (apply_parts sd st (take i parts))) ev = Inr (parts ! i)"
        using Cons.IH by blast
      then show ?thesis
        unfolding step by (intro exI [of _ parts]) auto
    qed
  qed
qed

text \<open>The cursor never moves back, and stays before an event that is to be retried.\<close>

lemma replicate_handled_mono:
  "handled \<le> fst (snd (replicate ed w sd reg r evs out handled st))"
  by (induction evs arbitrary: out handled st)
     (auto simp: Let_def split_beta split: sum.split intro: order.trans [OF max.cobounded1])

lemma replicate_handled_bound:
  assumes "handled < q" "\<forall>ev\<in>set evs. \<forall>part. peek w ev = Inr part \<longrightarrow> sp_seq part < q" "0 < q"
  shows "fst (snd (replicate ed w sd reg r evs out handled st)) < q"
  using assms(1,2)
proof (induction evs arbitrary: out handled st)
  case (Cons ev evs)
  have "sp_seq part < q" if "authorize ed w reg r rsv ev = Inr part" for part rsv
    using that Cons.prems(2) by (auto simp: authorize_Inr peek_def)
  moreover have "(case peek w ev of Inr p \<Rightarrow> sp_seq p | Inl _ \<Rightarrow> 0) < q"
    using Cons.prems(2) assms(3) by (auto split: sum.split)
  ultimately show ?case
    using Cons by (auto simp: Let_def split_beta max_def split: sum.split)
qed simp

lemma replicate_append_stops:
  assumes "\<And>rsv. \<exists>e. authorize ed w reg r rsv ev = Inl e \<and> is_transient e"
  shows "fst (snd (replicate ed w sd reg r (evs @ ev # rest) out handled st)) =
    fst (snd (replicate ed w sd reg r evs out handled st))"
proof (induction evs arbitrary: out handled st)
  case Nil
  obtain e where "authorize ed w reg r (store_resolver st) ev = Inl e" "is_transient e"
    using assms by blast
  then show ?case by (simp add: Let_def)
next
  case (Cons ev' evs)
  then show ?case by (simp add: Let_def split_beta split: sum.split)
qed

end
