(* ===== verification/Web_Edge.thy ===== *)
theory Web_Edge
  imports Fleet Chat_Service
begin

text \<open>
  The edge of a node: session cookies (\<^verbatim>\<open>app/src/session\<close>,
  \<^verbatim>\<open>adapter-web/src/auth.rs\<close>), the CSRF check and the rate limiter
  (\<^verbatim>\<open>adapter-web/src/middleware\<close>), the origin check of the websocket
  (\<^verbatim>\<open>adapter-web/src/ws.rs\<close>) and the keys of media files
  (\<^verbatim>\<open>adapter-media-fs/src/lib.rs\<close>). HMAC-SHA256 is a parameter.
\<close>

section \<open>Sessions\<close>

text \<open>The comparison of the library runs over equal lengths only.\<close>

definition constant_time_eq :: "'a list \<Rightarrow> 'a list \<Rightarrow> bool" where
  "constant_time_eq a b = (if length a \<noteq> length b then False else list_all2 (=) a b)"

lemma constant_time_eq_iff [simp]: "constant_time_eq a b \<longleftrightarrow> a = b"
  by (auto simp: constant_time_eq_def list.rel_eq)

definition to_le_bytes :: "u64 \<Rightarrow> u8 list" where
  "to_le_bytes x = map (\<lambda>i. ucast (drop_bit (8 * i) x)) [0..<8]"

type_synonym hmac = "string \<Rightarrow> u8 list \<Rightarrow> u8 list"

definition session_mac :: "hmac \<Rightarrow> string \<Rightarrow> u64 \<Rightarrow> int \<Rightarrow> u8 list" where
  "session_mac hm key uid expires_at =
     hm key (to_le_bytes uid @ to_le_bytes (word_of_int expires_at))"

definition session_sign :: "hmac \<Rightarrow> string \<Rightarrow> u64 \<Rightarrow> int \<Rightarrow> string" where
  "session_sign hm key uid expires_at =
     dec_u64 uid @ CHR ''.'' # dec_int expires_at @ CHR ''.'' # to_hex (session_mac hm key uid expires_at)"

definition parse_i64 :: "string \<Rightarrow> int option" where
  "parse_i64 s =
     (if s \<noteq> [] \<and> hd s = CHR ''-''
      then (if tl s \<noteq> [] \<and> hd (tl s) = CHR ''+'' then None
            else Option.bind (parse_unsigned 64 (tl s)) (\<lambda>n. if n \<le> 2 ^ 63 then Some (- int n) else None))
      else Option.bind (parse_unsigned 64 s) (\<lambda>n. if n < 2 ^ 63 then Some (int n) else None))"

definition hex_decode :: "string \<Rightarrow> u8 list option" where
  "hex_decode s =
     (if odd (length s) then None
      else case hex_chunks [] s of Inl _ \<Rightarrow> None | Inr bs \<Rightarrow> Some bs)"

definition session_verify :: "hmac \<Rightarrow> string \<Rightarrow> string \<Rightarrow> (u64 \<times> int) option" where
  "session_verify hm key token =
     (case split_once CHR ''.'' token of
        None \<Rightarrow> None
      | Some (uid, rest) \<Rightarrow>
      (case parse_u64 uid of
        None \<Rightarrow> None
      | Some uid \<Rightarrow>
      (case split_once CHR ''.'' rest of
        None \<Rightarrow> None
      | Some (ex, sig) \<Rightarrow>
      (case parse_i64 ex of
        None \<Rightarrow> None
      | Some expires_at \<Rightarrow>
          let expected = session_mac hm key uid expires_at in
          case hex_decode sig of
            None \<Rightarrow> None
          | Some given \<Rightarrow>
              if constant_time_eq given expected then Some (uid, expires_at) else None))))"

text \<open>The value of a cookie in a \<^verbatim>\<open>Cookie\<close> header.\<close>

definition cookie_value :: "string option \<Rightarrow> string \<Rightarrow> string option" where
  "cookie_value header name =
     Option.bind header (\<lambda>raw.
       case List.map_filter (\<lambda>kv.
           case split_once CHR ''='' kv of
             None \<Rightarrow> None
           | Some (k, v) \<Rightarrow> if trim k = name then Some (trim v) else None)
         (split_on CHR '';'' raw) of
         [] \<Rightarrow> None | v # _ \<Rightarrow> Some v)"

definition SESSION_COOKIE :: string where "SESSION_COOKIE = ''sid''"
definition CSRF_COOKIE :: string where "CSRF_COOKIE = ''dc_csrf''"
definition SESSION_TTL_SECONDS :: int where "SESSION_TTL_SECONDS = 30 * 24 * 60 * 60"

definition current_actor :: "hmac \<Rightarrow> string \<Rightarrow> env \<Rightarrow> inner \<Rightarrow> string option \<Rightarrow> string option" where
  "current_actor hm key env st cookies =
     Option.bind (cookie_value cookies SESSION_COOKIE) (\<lambda>token.
     Option.bind (session_verify hm key token) (\<lambda>(uid, expires_at).
       if expires_at < seconds (env_now env) then None
       else map_option u_handle (get_user st (UserId uid))))"

definition session_cookie :: "hmac \<Rightarrow> string \<Rightarrow> env \<Rightarrow> bool \<Rightarrow> u64 \<Rightarrow> string" where
  "session_cookie hm key env secure uid =
     SESSION_COOKIE @ ''='' @
     session_sign hm key uid (seconds (env_now env) + SESSION_TTL_SECONDS) @
     ''; Path=/; HttpOnly; SameSite=Lax; Max-Age='' @ dec_int SESSION_TTL_SECONDS @
     (if secure then ''; Secure'' else [])"

section \<open>Requests\<close>

definition csrf_passes :: "string \<Rightarrow> string option \<Rightarrow> string option \<Rightarrow> bool" where
  "csrf_passes method cookies csrf_header =
     (if method \<in> set [''POST'', ''PUT'', ''PATCH'', ''DELETE''] then
        (case (cookie_value cookies CSRF_COOKIE, csrf_header) of
           (Some c, Some h) \<Rightarrow> c \<noteq> [] \<and> constant_time_eq c h
         | _ \<Rightarrow> False)
      else True)"

text \<open>\<^verbatim>\<open>origin.split("://").nth(1)\<close>: what stands between the first separator and the
  next, the whole text where there is none.\<close>

fun until_scheme :: "string \<Rightarrow> string \<times> string option" where
  "until_scheme (a # b # c # rest) =
     (if [a, b, c] = ''://'' then ([], Some rest)
      else let (pre, post) = until_scheme (b # c # rest) in (a # pre, post))"
| "until_scheme s = (s, None)"

definition origin_ok :: "string option \<Rightarrow> string option \<Rightarrow> bool" where
  "origin_ok origin host =
     (case origin of
        None \<Rightarrow> True
      | Some o' \<Rightarrow>
          let origin_host = (case snd (until_scheme o') of None \<Rightarrow> o' | Some rest \<Rightarrow> fst (until_scheme rest));
              h = (case host of None \<Rightarrow> [] | Some h \<Rightarrow> h)
          in h \<noteq> [] \<and> origin_host = h)"

datatype rate_bucket = Auth | Write

definition AUTH_MAX :: nat where "AUTH_MAX = 10"
definition WRITE_MAX :: nat where "WRITE_MAX = 120"

text \<open>Instants are counted in nanoseconds.\<close>

definition WINDOW :: int where "WINDOW = 60 * 1000000000"
definition PRUNE_THRESHOLD :: nat where "PRUNE_THRESHOLD = 10000"

fun bucket_limit :: "rate_bucket \<Rightarrow> nat" where
  "bucket_limit Auth = AUTH_MAX"
| "bucket_limit Write = WRITE_MAX"

record window =
  w_count :: nat
  w_reset_at :: int

type_synonym 'ip limiter = "('ip \<times> rate_bucket, window) hashmap"

definition bucket_for :: "string \<Rightarrow> rate_bucket" where
  "bucket_for path =
     (if path = ''/api/login'' \<or> path = ''/api/register'' \<or> path = ''/api/resend'' then Auth else Write)"

definition check :: "'ip \<Rightarrow> rate_bucket \<Rightarrow> int \<Rightarrow> 'ip limiter \<Rightarrow> (int + unit) \<times> 'ip limiter" where
  "check ip bk now ws =
     (let ws = (if length ws > PRUNE_THRESHOLD then hm_retain (\<lambda>_ w. w_reset_at w > now) ws else ws);
          w = (case hm_get ws (ip, bk) of
                 None \<Rightarrow> \<lparr> w_count = 0, w_reset_at = now + WINDOW \<rparr> | Some w \<Rightarrow> w);
          w = (if w_reset_at w \<le> now then \<lparr> w_count = 0, w_reset_at = now + WINDOW \<rparr> else w)
      in if w_count w \<ge> bucket_limit bk
         then (Inl (max ((w_reset_at w - now) div 1000000000) 1), hm_insert (ip, bk) w ws)
         else (Inr (), hm_insert (ip, bk) (w\<lparr>w_count := w_count w + 1\<rparr>) ws))"

text \<open>The middleware: the seconds to wait, or the request goes on.\<close>

definition rate_limit :: "string \<Rightarrow> string \<Rightarrow> 'ip \<Rightarrow> int \<Rightarrow> 'ip limiter \<Rightarrow> int option \<times> 'ip limiter" where
  "rate_limit method path ip now ws =
     (if method = ''POST'' then
        (case check ip (bucket_for path) now ws of
           (Inl retry, ws) \<Rightarrow> (Some retry, ws)
         | (Inr _, ws) \<Rightarrow> (None, ws))
      else (None, ws))"

section \<open>Media keys\<close>

definition is_ascii_hexdigit :: "char \<Rightarrow> bool" where
  "is_ascii_hexdigit c \<longleftrightarrow> to_digit_16 c \<noteq> None"

definition path_for :: "string \<Rightarrow> string \<Rightarrow> string option" where
  "path_for dir key =
     (if key = [] \<or> length key > 64 \<or> \<not> list_all is_ascii_hexdigit key then None
      else Some (dir @ CHR ''/'' # key))"

end
