(* ===== verification/Web_Laws.thy ===== *)
theory Web_Laws
  imports Web_Edge
begin

text \<open>
  What the edge promises: a session token names its user and expiry and only a
  holder of the key can make one, an expired token is nobody's, and the rate
  limiter admits a bounded number of requests of a key in any minute.
\<close>

section \<open>Sessions\<close>

lemma dot_free [simp]: "CHR ''.'' \<notin> set (dec_nat n)" "CHR ''.'' \<notin> set (dec_int i)"
  using dec_nat_digits [of "CHR ''.''"] by (auto simp: dec_int_def)

lemma parse_i64_dec:
  assumes "- (2 ^ 63) \<le> i" "i < 2 ^ 63"
  shows "parse_i64 (dec_int i) = Some i"
proof -
  have hd: "hd (dec_nat n) \<noteq> CHR ''-''" "hd (dec_nat n) \<noteq> CHR ''+''" for n
    using dec_nat_digits [of "hd (dec_nat n)" n] by (auto simp: hd_in_set)
  have "nat i < 2 ^ 63" "nat (- i) \<le> 2 ^ 63" using assms by auto
  then show ?thesis
    using hd by (auto simp: parse_i64_def dec_int_def parse_unsigned_dec)
qed

lemma hex_decode_to_hex [simp]: "hex_decode (to_hex bs) = Some bs"
  by (simp add: hex_decode_def)

lemma split_dot: "CHR ''.'' \<notin> set a \<Longrightarrow> split_once CHR ''.'' (a @ CHR ''.'' # b) = Some (a, b)"
  by (simp add: split_once_Some)

lemma session_round:
  assumes "- (2 ^ 63) \<le> e" "e < 2 ^ 63"
  shows "session_verify hm key (session_sign hm key uid e) = Some (uid, e)"
  using assms parse_u64_dec [of uid]
  by (simp add: session_verify_def session_sign_def split_dot parse_i64_dec dec_u64_def Let_def)

lemma session_verify_mac:
  assumes "session_verify hm key token = Some (uid, e)"
  shows "\<exists>sig. hex_decode sig = Some (session_mac hm key uid e) \<and>
    (\<exists>a b. token = a @ CHR ''.'' # b @ CHR ''.'' # sig \<and> parse_u64 a = Some uid \<and> parse_i64 b = Some e)"
  using assms unfolding session_verify_def Let_def
  by (fastforce split: option.splits prod.splits if_splits simp: split_once_Some)

lemma parse_i64_range: "parse_i64 s = Some i \<Longrightarrow> - (2 ^ 63) \<le> i \<and> i < 2 ^ 63"
  by (auto simp: parse_i64_def bind_eq_Some_conv split: if_splits)

text \<open>The message under the MAC determines the user and the expiry.\<close>

lemma le_bytes_bit:
  assumes "to_le_bytes x = to_le_bytes y"
  shows "x = y"
proof (rule bit_word_eqI)
  fix n :: nat
  assume n: "n < LENGTH(64)"
  have "(to_le_bytes x ! (n div 8)) = (to_le_bytes y ! (n div 8))" using assms by simp
  then have "(ucast (drop_bit (8 * (n div 8)) x) :: u8) = ucast (drop_bit (8 * (n div 8)) y)"
    using n by (simp add: to_le_bytes_def less_mult_imp_div_less)
  then have "bit (ucast (drop_bit (8 * (n div 8)) x) :: u8) (n mod 8) =
      bit (ucast (drop_bit (8 * (n div 8)) y) :: u8) (n mod 8)" by simp
  then show "bit x n = bit y n" by (simp add: bit_simps)
qed

lemma length_to_le_bytes [simp]: "length (to_le_bytes x) = 8"
  by (simp add: to_le_bytes_def)

lemma word_of_int_i64_inject:
  assumes "- (2 ^ 63) \<le> a" "a < 2 ^ 63" "- (2 ^ 63) \<le> b" "b < 2 ^ 63"
    and "(word_of_int a :: u64) = word_of_int b"
  shows "a = b"
proof -
  have "a mod 18446744073709551616 = b mod 18446744073709551616"
    using assms(5) by (simp add: word_of_int_eq_iff take_bit_eq_mod)
  then have "(a - b) mod 18446744073709551616 = 0" by (simp add: mod_diff_eq [symmetric])
  then obtain k where "a - b = 18446744073709551616 * k" by (auto simp: mod_eq_0_iff_dvd dvd_def)
  moreover from this assms(1-4) have "k = 0" by simp
  ultimately show ?thesis by simp
qed

lemma session_message_inject:
  assumes "- (2 ^ 63) \<le> a" "a < 2 ^ 63" "- (2 ^ 63) \<le> b" "b < 2 ^ 63"
  shows "to_le_bytes u @ to_le_bytes (word_of_int a) = to_le_bytes v @ to_le_bytes (word_of_int b) \<longleftrightarrow>
    u = v \<and> a = b"
  using word_of_int_i64_inject [OF assms] le_bytes_bit by (auto simp: append_eq_append_conv)

lemma current_actor_Some:
  assumes "current_actor hm key env st cookies = Some h"
  shows "\<exists>token uid e u. cookie_value cookies SESSION_COOKIE = Some token \<and>
    session_verify hm key token = Some (uid, e) \<and> seconds (env_now env) \<le> e \<and>
    get_user st (UserId uid) = Some u \<and> u_handle u = h"
  using assms by (auto simp: current_actor_def bind_eq_Some_conv not_less split: if_splits)

section \<open>The rate limiter\<close>

text \<open>A run of the limiter: the hits in order, and how many of one key it admits.\<close>

type_synonym 'ip hit = "('ip \<times> rate_bucket) \<times> int"

fun limiter_run :: "'ip hit list \<Rightarrow> 'ip limiter \<Rightarrow> 'ip limiter" where
  "limiter_run [] ws = ws"
| "limiter_run (((ip, bk), now) # hs) ws = limiter_run hs (snd (check ip bk now ws))"

fun admitted :: "'ip \<times> rate_bucket \<Rightarrow> 'ip hit list \<Rightarrow> 'ip limiter \<Rightarrow> nat" where
  "admitted k [] ws = 0"
| "admitted k (((ip, bk), now) # hs) ws =
     (case check ip bk now ws of (r, ws') \<Rightarrow>
       (if (ip, bk) = k \<and> r = Inr () then 1 else 0) + admitted k hs ws')"

definition limiter_ok :: "'ip limiter \<Rightarrow> bool" where
  "limiter_ok ws \<longleftrightarrow> hm_ok ws \<and> (\<forall>k w. hm_get ws k = Some w \<longrightarrow> 1 \<le> w_count w)"

text \<open>What the limiter may still admit of a key up to the instant \<open>T\<close>.\<close>

definition allowance :: "'ip \<times> rate_bucket \<Rightarrow> int \<Rightarrow> int \<Rightarrow> 'ip limiter \<Rightarrow> nat" where
  "allowance k T now ws =
     (case hm_get ws k of
        None \<Rightarrow> bucket_limit (snd k)
      | Some w \<Rightarrow>
          if w_reset_at w \<le> now then bucket_limit (snd k)
          else if T \<le> w_reset_at w then bucket_limit (snd k) - w_count w
          else bucket_limit (snd k) - w_count w + bucket_limit (snd k))"

lemma bucket_limit_pos: "0 < bucket_limit b"
  by (cases b) (simp_all add: AUTH_MAX_def WRITE_MAX_def)

lemma allowance_mono: "now \<le> now' \<Longrightarrow> now' < T \<Longrightarrow> allowance k T now' ws \<le> allowance k T now ws"
  by (auto simp: allowance_def split: option.splits)

definition pruned :: "int \<Rightarrow> 'ip limiter \<Rightarrow> 'ip limiter" where
  "pruned now ws = (if length ws > PRUNE_THRESHOLD then hm_retain (\<lambda>_ w. w_reset_at w > now) ws else ws)"

lemma allowance_pruned: "hm_ok ws \<Longrightarrow> allowance k T now (pruned now ws) = allowance k T now ws"
  by (auto simp: allowance_def pruned_def hm_get_retain split: option.splits)

lemma limiter_ok_pruned: "limiter_ok ws \<Longrightarrow> limiter_ok (pruned now ws)"
  by (auto simp: limiter_ok_def pruned_def hm_get_retain split: option.splits)

definition current_window :: "'ip \<times> rate_bucket \<Rightarrow> int \<Rightarrow> 'ip limiter \<Rightarrow> window" where
  "current_window k now ws =
     (case hm_get ws k of
        None \<Rightarrow> \<lparr> w_count = 0, w_reset_at = now + WINDOW \<rparr>
      | Some w \<Rightarrow> if w_reset_at w \<le> now then \<lparr> w_count = 0, w_reset_at = now + WINDOW \<rparr> else w)"

lemma check_window:
  "check ip bk now ws =
     (let ws' = pruned now ws; w = current_window (ip, bk) now ws' in
      if bucket_limit bk \<le> w_count w
      then (Inl (max ((w_reset_at w - now) div 1000000000) 1), hm_insert (ip, bk) w ws')
      else (Inr (), hm_insert (ip, bk) (w\<lparr>w_count := w_count w + 1\<rparr>) ws'))"
  by (simp add: check_def pruned_def current_window_def Let_def WINDOW_def split: option.splits)

lemma check_limiter_ok:
  assumes "limiter_ok ws"
  shows "limiter_ok (snd (check ip bk now ws))"
proof -
  have ok: "limiter_ok (pruned now ws)" using assms by (rule limiter_ok_pruned)
  have "bucket_limit bk \<le> w_count w \<Longrightarrow> 1 \<le> w_count w" for w
    using bucket_limit_pos [of bk] by simp
  then show ?thesis
    using ok by (auto simp: check_window Let_def limiter_ok_def hm_get_insert)
qed

lemma check_allowance:
  assumes "hm_ok ws" "now < T" "T \<le> now + WINDOW"
  shows "(if (ip, bk) = k \<and> fst (check ip bk now ws) = Inr () then 1 else 0) +
    allowance k T now (snd (check ip bk now ws)) \<le> allowance k T now ws"
proof -
  let ?ws = "pruned now ws"
  let ?w = "current_window (ip, bk) now ?ws"
  have "(if (ip, bk) = k \<and> fst (check ip bk now ws) = Inr () then 1 else 0) +
      allowance k T now (snd (check ip bk now ws)) \<le> allowance k T now ?ws"
  proof (cases "(ip, bk) = k")
    case True
    then show ?thesis
      using assms(2,3) bucket_limit_pos [of bk]
      by (auto simp: check_window Let_def allowance_def current_window_def hm_get_insert
          split: option.splits)
  next
    case False
    then show ?thesis by (auto simp: check_window Let_def allowance_def hm_get_insert)
  qed
  then show ?thesis using allowance_pruned [OF assms(1)] by metis
qed

lemma admitted_allowance:
  "limiter_ok ws \<Longrightarrow> sorted (map snd hs) \<Longrightarrow> \<forall>h\<in>set hs. now \<le> snd h \<and> snd h < T \<Longrightarrow> T \<le> now + WINDOW \<Longrightarrow>
   admitted k hs ws \<le> allowance k T now ws"
proof (induction k hs ws arbitrary: now rule: admitted.induct)
  case (2 k ip bk t hs ws)
  let ?c = "check ip bk t ws"
  have t: "now \<le> t" "t < T" "T \<le> t + WINDOW" using "2.prems" by auto
  have "admitted k hs (snd ?c) \<le> allowance k T t (snd ?c)"
    using "2.prems" t by (intro "2.IH" [of "fst ?c"]) (auto intro: check_limiter_ok)
  moreover have "(if (ip, bk) = k \<and> fst ?c = Inr () then 1 else 0) + allowance k T t (snd ?c)
      \<le> allowance k T t ws"
    using "2.prems"(1) t by (intro check_allowance) (auto simp: limiter_ok_def)
  moreover have "allowance k T t ws \<le> allowance k T now ws" using t by (intro allowance_mono)
  ultimately show ?case by (simp add: case_prod_unfold)
qed simp

lemma allowance_bound:
  assumes "limiter_ok ws"
  shows "allowance k T now ws < 2 * bucket_limit (snd k)"
proof (cases "hm_get ws k")
  case (Some w)
  then have "1 \<le> w_count w" using assms unfolding limiter_ok_def by blast
  then have "bucket_limit (snd k) - w_count w < bucket_limit (snd k)"
    using bucket_limit_pos [of "snd k"] by (intro diff_less) auto
  then show ?thesis using Some bucket_limit_pos [of "snd k"] by (simp add: allowance_def)
qed (use bucket_limit_pos [of "snd k"] in \<open>simp add: allowance_def\<close>)

lemma limiter_run_ok: "limiter_ok ws \<Longrightarrow> limiter_ok (limiter_run hs ws)"
  by (induction hs ws rule: limiter_run.induct) (auto intro: check_limiter_ok)

lemma limiter_ok_Nil [simp]: "limiter_ok []"
  by (simp add: limiter_ok_def)

lemma admitted_span:
  assumes "limiter_ok ws" "sorted (map snd hs)" "\<forall>h\<in>set hs. t \<le> snd h \<and> snd h < t + WINDOW"
  shows "admitted k hs ws < 2 * bucket_limit (snd k)"
  using admitted_allowance [OF assms(1,2,3), of k] allowance_bound [OF assms(1)]
  by (meson le_less_trans order_refl)

section \<open>Media keys\<close>

lemma hexdigit_not_separator: "is_ascii_hexdigit c \<Longrightarrow> c \<noteq> CHR ''/'' \<and> c \<noteq> CHR ''.''"
  by (auto simp: is_ascii_hexdigit_def to_digit_16_def)

lemma path_for_Some:
  "path_for dir key = Some p \<Longrightarrow>
   p = dir @ CHR ''/'' # key \<and> key \<noteq> [] \<and> CHR ''/'' \<notin> set key \<and> CHR ''.'' \<notin> set key"
  by (auto simp: path_for_def list_all_iff dest: hexdigit_not_separator split: if_splits)

end
