(* ===== verification/Fleet_Demo.thy ===== *)
theory Fleet_Demo
  imports Demo Fleet Replica Replicator Web_Laws "HOL-Library.Countable"
begin

text \<open>
  Instances of what the federation code takes from elsewhere, to evaluate its
  theorems on: a signature scheme that is sound, texts of parts and commands
  that parse back (numbering the countable types), a serialisation of one
  account, and a fleet of two nodes.
\<close>

section \<open>Signatures\<close>

definition demo_ed :: ed25519 where
  "demo_ed =
     \<lparr> ed_public = (\<lambda>seed. take 32 (seed @ List.replicate 32 0)),
       ed_sign = (\<lambda>seed msg. take 64 (map of_char msg @ List.replicate 64 0)),
       ed_valid = (\<lambda>_. True),
       ed_verify_strict = (\<lambda>key msg sig. sig = take 64 (map of_char msg @ List.replicate 64 0)) \<rparr>"

lemma demo_ed_sound: "ed_sound demo_ed"
  by (simp add: ed_sound_def demo_ed_def min_def)

definition demo_keys :: node_keypair where
  "demo_keys = from_seed (NodeId 1) (List.replicate 32 7)"

lemma demo_keys_node [simp]: "kp_node demo_keys = NodeId 1"
  by (simp add: demo_keys_def from_seed_def)

section \<open>Texts\<close>

instance event_scope :: countable
  by countable_datatype

instance change_op :: countable
  by countable_datatype

instance f64 :: countable
  by countable_datatype

instance json_number :: countable
  by countable_datatype

instance json :: countable
  by countable_datatype

instance fed_command :: countable
  by countable_datatype

instance signed_part_ext :: (countable) countable
  by (rule countable_classI [of "\<lambda>p. to_nat (sp_node p, sp_epoch p, sp_seq p, sp_scope p, sp_entity p,
      sp_op p, sp_payload p, signed_part.more p)"]) simp

definition demo_wire :: wire where
  "demo_wire = \<lparr> part_to_string = (\<lambda>p. List.replicate (to_nat p) CHR ''x''),
     part_from_str = (\<lambda>s. Some (from_nat (length s))) \<rparr>"

lemma demo_wire_ok: "wire_ok demo_wire"
  by (simp add: wire_ok_def demo_wire_def)

definition demo_commands :: command_wire where
  "demo_commands = \<lparr> cmd_to_string = (\<lambda>c. List.replicate (to_nat c) CHR ''x''),
     cmd_from_str = (\<lambda>s. Some (from_nat (length s))) \<rparr>"

lemma demo_commands_ok: "command_wire_ok demo_commands"
  by (simp add: command_wire_ok_def demo_commands_def)

section \<open>The registry\<close>

text \<open>Node 1 has published its key and owns Town and Ann's home; node 2 owns Bob's.\<close>

definition demo_reg :: registry_state where
  "demo_reg =
     \<lparr> rs_owners = [(ScopeServer 1, (NodeId 1, 1)), (ScopeUserHome 1, (NodeId 1, 1)),
         (ScopeUserHome 2, (NodeId 2, 1))],
       rs_max_epoch = [(ScopeServer 1, 1), (ScopeUserHome 1, 1), (ScopeUserHome 2, 1)],
       rs_keys = [(1, public_to_hex (keypair_public demo_ed demo_keys))],
       rs_loads = [], rs_standbys = [], rs_rehoming_disabled = [] \<rparr>"

lemma demo_reg_ok: "registry_ok demo_reg"
  by (auto simp: registry_ok_def demo_reg_def hm_get_def split: if_splits)

lemma demo_reg_owners [simp]:
  "owner_of demo_reg (ScopeServer 1) =
     Inr (Some \<lparr> ow_scope = ScopeServer 1, ow_owner = NodeId 1, ow_epoch = 1 \<rparr>)"
  "owner_of demo_reg (ScopeUserHome 1) =
     Inr (Some \<lparr> ow_scope = ScopeUserHome 1, ow_owner = NodeId 1, ow_epoch = 1 \<rparr>)"
  "owner_of demo_reg (ScopeUserHome 2) =
     Inr (Some \<lparr> ow_scope = ScopeUserHome 2, ow_owner = NodeId 2, ow_epoch = 1 \<rparr>)"
  by (simp_all add: owner_of_def demo_reg_def hm_get_def)

lemma demo_reg_key [simp]:
  "public_key demo_ed demo_reg (NodeId 1) = Inr (Some (keypair_public demo_ed demo_keys))"
proof -
  have "hm_get (rs_keys demo_reg) 1 = Some (public_to_hex (keypair_public demo_ed demo_keys))"
    by (simp add: demo_reg_def hm_get_def)
  moreover have "pk_node (keypair_public demo_ed demo_keys) = NodeId 1" by (simp add: keypair_public_def)
  ultimately show ?thesis
    using public_key_round [OF demo_ed_sound, of demo_keys] by (simp add: public_key_def)
qed

section \<open>An event\<close>

definition demo_part :: signed_part where
  "demo_part = \<lparr> sp_node = 1, sp_epoch = 1, sp_seq = 1, sp_scope = Global, sp_entity = ''servers'',
     sp_op = Upsert, sp_payload = JObject [(''id'', JNumber (PosInt 1))] \<rparr>"

end
