(* ===== verification/Federation_Properties.thy ===== *)
theory Federation_Properties
  imports Fleet_Demo
begin

text \<open>
  The promises of the federation: ownership is fenced, only the owner's rows
  enter a replica, a replica that applies the feed is in sync with its source,
  a forwarded command runs once and only where it belongs.
\<close>

section \<open>Ownership\<close>

text \<open>C12. Ownership is fenced. Over any sequence of calls on the registry by any nodes,
  whoever owns a scope later is the same owner at the same epoch or holds a
  strictly higher epoch, and a key once published for a node stays that node's
  key.\<close>

theorem epochs_fence:
  assumes "registry_ok r" "registry_run (in_memory_registry ed) r r'"
    and "owner_of r s = Inr (Some ow)" "owner_of r' s = Inr (Some ow')"
    and "public_key ed r n = Inr (Some k)"
  shows "(ow' = ow \<or> ow_epoch ow < ow_epoch ow') \<and> public_key ed r' n = Inr (Some k)"
  using mem.fencing [OF assms(2,1)] mem.keys_permanent [OF assms(2)] assms(3-5) by simp

definition demo_handover :: registry_state where
  "demo_handover = snd (claim (ScopeServer 1) (NodeId 2) (snd (release (ScopeServer 1) (NodeId 1) demo_reg)))"

lemma demo_handover_facts:
  "registry_run (in_memory_registry demo_ed) demo_reg demo_handover"
  "owner_of demo_handover (ScopeServer 1) =
     Inr (Some \<lparr> ow_scope = ScopeServer 1, ow_owner = NodeId 2, ow_epoch = 2 \<rparr>)"
proof -
  have rel: "hm_get (rs_owners (snd (release (ScopeServer 1) (NodeId 1) demo_reg))) (ScopeServer 1) = None"
      "max_epoch (snd (release (ScopeServer 1) (NodeId 1) demo_reg)) (ScopeServer 1) = 1"
    by (simp_all add: release_def demo_reg_def hm_get_def hm_remove_def max_epoch_def)
  then show "owner_of demo_handover (ScopeServer 1) =
      Inr (Some \<lparr> ow_scope = ScopeServer 1, ow_owner = NodeId 2, ow_epoch = 2 \<rparr>)"
    by (simp add: demo_handover_def claim_def owner_of_def Let_def)
  have "registry_run (in_memory_registry demo_ed) demo_reg (snd (release (ScopeServer 1) (NodeId 1) demo_reg))"
    using run_release [OF run_start, of "in_memory_registry demo_ed"] by simp
  from run_claim [OF this, of "ScopeServer 1" "NodeId 2"] rel
  show "registry_run (in_memory_registry demo_ed) demo_reg demo_handover"
    by (simp add: demo_handover_def claim_def Let_def)
qed

theorem epochs_fence_witness:
  "public_key demo_ed demo_handover (NodeId 1) = Inr (Some (keypair_public demo_ed demo_keys))"
  using epochs_fence [OF demo_reg_ok demo_handover_facts(1) demo_reg_owners(1) demo_handover_facts(2) demo_reg_key]
  by blast

text \<open>C3. An event is accepted exactly when it is authentic and its author owns what it
  changes: it carries a signature valid under the key published for the node it
  names, and that node is the current owner, at an epoch not older than the
  current one, of the scope its payload belongs to. What the envelope says of
  its scope plays no part.\<close>

theorem authorization_exact:
  "(authorize ed w reg r rsv ev = Inr part \<longleftrightarrow>
     (\<exists>key sig s ow. part_from_str w (ev_body ev) = Some part \<and>
       reg_public_key reg r (NodeId (sp_node part)) = Inr (Some key) \<and>
       pk_node key = NodeId (sp_node part) \<and>
       from_hex 64 (ev_signature ev) ''signature'' = Inr sig \<and>
       ed_verify_strict ed (pk_verifying key) (ev_body ev) sig \<and>
       derive_scope rsv part = Inr s \<and> reg_owner_of reg r s = Inr (Some ow) \<and>
       ow_owner ow = NodeId (sp_node part) \<and> ow_epoch ow \<le> sp_epoch part)) \<and>
   derive_scope rsv (part\<lparr>sp_scope := claimed\<rparr>) = derive_scope rsv part"
  by (rule conjI [OF authorize_Inr derive_scope_envelope(3)])

text \<open>A handover silences the old owner. An event accepted at the epoch of its owner
  is refused, for good and not to be retried, once the scope has another
  ownership.\<close>

theorem superseded_events_refused:
  assumes "registry_ok r" "registry_run (in_memory_registry ed) r r'"
    and "authorize ed w (in_memory_registry ed) r rsv ev = Inr part" "derive_scope rsv part = Inr s"
    and "owner_of r s = Inr (Some ow)" "sp_epoch part = ow_epoch ow"
    and "owner_of r' s = Inr (Some ow')" "ow' \<noteq> ow"
  shows "\<exists>e. authorize ed w (in_memory_registry ed) r' rsv ev = Inl e \<and> \<not> is_transient e"
  using mem.superseded_event_refused [OF assms(1-4)] assms(5-8) by fastforce

lemma demo_part_scope: "derive_scope rsv demo_part = Inr (ScopeServer 1)"
  by (simp add: derive_scope_def classify_def demo_part_def payload_u64_def Let_def)

lemma demo_part_authorized:
  "authorize demo_ed demo_wire (in_memory_registry demo_ed) demo_reg rsv
     (sign_event demo_ed demo_wire demo_keys demo_part) = Inr demo_part"
  by (simp add: authorize_signed [OF demo_ed_sound demo_wire_ok] demo_part_scope)
     (simp add: demo_part_def)

theorem superseded_events_refused_witness:
  "\<exists>e. authorize demo_ed demo_wire (in_memory_registry demo_ed) demo_handover
      \<lparr> proposal_server = (\<lambda>_. None), message_server = (\<lambda>_. None) \<rparr>
      (sign_event demo_ed demo_wire demo_keys demo_part) = Inl e \<and> \<not> is_transient e"
  by (rule superseded_events_refused [OF demo_reg_ok demo_handover_facts(1) demo_part_authorized
        demo_part_scope demo_reg_owners(1) _ demo_handover_facts(2)])
     (simp_all add: demo_part_def)

section \<open>The feed\<close>

text \<open>C32. The feed is signed record by record. With its cache of epochs, filled as the
  batch goes, the producer sends the same events as when it asks the registry
  anew for every record; and it sends none for a scope it does not own.\<close>

theorem sign_feed_equivalence:
  "sign_feed ed w enc source kp reg r rsv after_seq limit =
     List.map_filter (\<lambda>rec.
       Option.bind (feed_scope rsv (feed_part enc rec)) (\<lambda>owned.
       map_option (\<lambda>epoch. sign_event ed w kp
           ((feed_part enc rec)\<lparr>sp_epoch := epoch, sp_scope := event_scope_from owned\<rparr>))
         (my_epoch reg r (kp_node kp) owned)))
       (source after_seq limit)"
  unfolding sign_feed_reference sign_record_def ..

text \<open>C31. What an owner sends is accepted. Every event of a feed, read by a peer that
  sees the same registry and parents, is authorized, and the part that comes out
  is the record that went in, stamped with the sender and its current epoch.\<close>

theorem feed_round_trip:
  assumes "ed_sound ed" "wire_ok w"
    and "reg_public_key reg r (kp_node kp) = Inr (Some (keypair_public ed kp))"
    and "ev \<in> set (sign_feed ed w enc source kp reg r rsv after_seq limit)"
  shows "\<exists>rec s e. rec \<in> set (source after_seq limit) \<and> my_epoch reg r (kp_node kp) s = Some e \<and>
    authorize ed w reg r rsv ev =
      Inr ((feed_part enc rec)\<lparr>sp_node := node_id_val (kp_node kp), sp_epoch := e,
        sp_scope := event_scope_from s\<rparr>)"
proof -
  obtain rec where rec: "rec \<in> set (source after_seq limit)" "sign_record ed w enc kp reg r rsv rec = Some ev"
    using assms(4) by (auto simp: sign_feed_reference set_map_filter)
  from authorize_feed_record [OF assms(1-3) rec(2)] rec(1) show ?thesis by blast
qed

definition demo_record :: change_record where
  "demo_record = \<lparr> cr_seq = 1, cr_entity = ''servers'', cr_op = Upsert, cr_payload = ServerRow town \<rparr>"

definition demo_feed :: "change_event list" where
  "demo_feed = sign_feed demo_ed demo_wire (\<lambda>_. JObject [(''id'', JNumber (PosInt 1))])
     (\<lambda>_ _. [demo_record]) demo_keys (in_memory_registry demo_ed) demo_reg (store_resolver demo3) 0 9"

lemma demo_feed_not_Nil: "demo_feed \<noteq> []"
proof -
  have "feed_scope (store_resolver demo3) (feed_part (\<lambda>_. JObject [(''id'', JNumber (PosInt 1))]) demo_record)
      = Some (ScopeServer 1)"
    by (simp add: feed_scope_def classify_def feed_part_def demo_record_def payload_u64_def Let_def)
  moreover have "my_epoch (in_memory_registry demo_ed) demo_reg (NodeId 1) (ScopeServer 1) = Some 1"
    by (simp add: my_epoch_def)
  ultimately show ?thesis
    by (simp add: demo_feed_def sign_feed_reference sign_record_def map_filter_simps)
qed

theorem feed_round_trip_witness:
  "demo_feed \<noteq> [] \<and> (\<exists>part. authorize demo_ed demo_wire (in_memory_registry demo_ed) demo_reg
     (store_resolver demo3) (hd demo_feed) = Inr part)"
proof -
  have "hd demo_feed \<in> set demo_feed" using demo_feed_not_Nil by simp
  with feed_round_trip [OF demo_ed_sound demo_wire_ok, of "in_memory_registry demo_ed" demo_reg demo_keys
      "hd demo_feed" "\<lambda>_. JObject [(''id'', JNumber (PosInt 1))]" "\<lambda>_ _. [demo_record]" "store_resolver demo3" 0 9]
  show ?thesis using demo_feed_not_Nil by (auto simp: demo_feed_def)
qed

end
