(* ===== verification/Etcd_Registry.thy ===== *)
theory Etcd_Registry
  imports Command_Laws
begin

text \<open>
  The control plane kept in etcd (\<^verbatim>\<open>adapter-control-etcd/src/lib.rs\<close>). The etcd
  client is a library and etcd a service: they are the parameter \<open>etcd_client\<close>,
  and what the code relies on of them is \<open>etcd_documented\<close>. An operation is a
  program of etcd calls, since other nodes act between any two calls of one
  operation.
\<close>

section \<open>Keys\<close>

definition scope_key :: "owned_scope \<Rightarrow> string" where
  "scope_key scope =
     (case scope of ScopeServer i \<Rightarrow> ''s/'' @ dec_u64 i | ScopeUserHome i \<Rightarrow> ''u/'' @ dec_u64 i)"

definition key_of :: "node_id \<Rightarrow> string" where
  "key_of n = ''democrachat/keys/'' @ dec_nat (unat (node_id_val n))"

definition node_of :: "node_id \<Rightarrow> string" where
  "node_of n = ''democrachat/nodes/'' @ dec_nat (unat (node_id_val n))"

definition holder_of :: "owned_scope \<Rightarrow> string" where
  "holder_of scope = ''democrachat/owners/'' @ scope_key scope @ ''/holder''"

definition epoch_of :: "owned_scope \<Rightarrow> string" where
  "epoch_of scope = ''democrachat/owners/'' @ scope_key scope @ ''/epoch''"

definition standbys_of :: "owned_scope \<Rightarrow> string" where
  "standbys_of scope = ''democrachat/owners/'' @ scope_key scope @ ''/standbys''"

definition rehoming_of :: "owned_scope \<Rightarrow> string" where
  "rehoming_of scope = ''democrachat/rehoming/'' @ scope_key scope"

section \<open>Texts\<close>

text \<open>The wire form of a load, and the JSON texts, from the serialisation library:
  writing and reading may each fail.\<close>

record load_wire =
  lw_hosted_scopes :: u32
  lw_requests_per_sec :: f64

definition load_wire_from :: "node_load \<Rightarrow> load_wire" where
  "load_wire_from l =
     \<lparr> lw_hosted_scopes = hosted_scopes l, lw_requests_per_sec = requests_per_sec l \<rparr>"

definition node_load_from :: "load_wire \<Rightarrow> node_load" where
  "node_load_from w =
     \<lparr> hosted_scopes = lw_hosted_scopes w, requests_per_sec = lw_requests_per_sec w \<rparr>"

record etcd_json =
  standbys_to_string :: "u16 list \<Rightarrow> string + string"
  standbys_from_str :: "string \<Rightarrow> string + u16 list"
  load_to_string :: "load_wire \<Rightarrow> string + string"
  load_from_slice :: "string \<Rightarrow> string + load_wire"

text \<open>\<^verbatim>\<open>str::parse\<close> with the text of its error: the first character that is not a
  digit, or the first digit that leaves the range.\<close>

fun parse_fault :: "nat \<Rightarrow> nat \<Rightarrow> string \<Rightarrow> string" where
  "parse_fault w acc [] = ''invalid digit found in string''"
| "parse_fault w acc (c # cs) =
     (if byte c < 48 \<or> 57 < byte c then ''invalid digit found in string''
      else if 2 ^ w \<le> 10 * acc + (byte c - 48) then ''number too large to fit in target type''
      else parse_fault w (10 * acc + (byte c - 48)) cs)"

definition parse_int :: "nat \<Rightarrow> string \<Rightarrow> registry_error + nat" where
  "parse_int w s =
     (case parse_unsigned w s of
        Some n \<Rightarrow> Inr n
      | None \<Rightarrow>
          Inl (RegistryError
            (if s = [] then ''cannot parse integer from empty string''
             else parse_fault w 0 (if hd s = CHR ''+'' then tl s else s))))"

section \<open>The client\<close>

text \<open>The calls of the etcd client the adapter makes. Comparisons are for equality. A
  read of a key gives its value and modification revision; a read of a prefix the
  keys and values below it.\<close>

datatype txn_compare =
    Create_revision string int
  | Mod_revision string int
  | Value_equal string string

datatype txn_op =
    Op_put string string "int option"
  | Op_delete string

record 'c etcd_client =
  et_get :: "'c \<Rightarrow> string \<Rightarrow> string + (string \<times> int) option"
  et_prefix :: "'c \<Rightarrow> string \<Rightarrow> string + (string \<times> string) list"
  et_put :: "string \<Rightarrow> string \<Rightarrow> int option \<Rightarrow> 'c \<Rightarrow> (string + unit) \<times> 'c"
  et_delete :: "string \<Rightarrow> 'c \<Rightarrow> (string + unit) \<times> 'c"
  et_txn :: "txn_compare list \<Rightarrow> txn_op list \<Rightarrow> 'c \<Rightarrow> (string + bool) \<times> 'c"

text \<open>A program: the next call, and what to do with its answer.\<close>

datatype 'a prog =
    Ret 'a
  | Get string "string + (string \<times> int) option \<Rightarrow> 'a prog"
  | Get_prefix string "string + (string \<times> string) list \<Rightarrow> 'a prog"
  | Put string string "int option" "string + unit \<Rightarrow> 'a prog"
  | Delete string "string + unit \<Rightarrow> 'a prog"
  | Commit "txn_compare list" "txn_op list" "string + bool \<Rightarrow> 'a prog"

text \<open>One call against the cluster, and a whole program with nobody acting between its
  calls.\<close>

fun advance :: "'c etcd_client \<Rightarrow> 'a prog \<Rightarrow> 'c \<Rightarrow> 'a prog \<times> 'c" where
  "advance cl (Ret a) c = (Ret a, c)"
| "advance cl (Get k f) c = (f (et_get cl c k), c)"
| "advance cl (Get_prefix p f) c = (f (et_prefix cl c p), c)"
| "advance cl (Put k v l f) c = (let (r, c') = et_put cl k v l c in (f r, c'))"
| "advance cl (Delete k f) c = (let (r, c') = et_delete cl k c in (f r, c'))"
| "advance cl (Commit cs ops f) c = (let (r, c') = et_txn cl cs ops c in (f r, c'))"

primrec run_prog :: "'c etcd_client \<Rightarrow> 'a prog \<Rightarrow> 'c \<Rightarrow> 'a \<times> 'c" where
  "run_prog cl (Ret a) = (\<lambda>c. (a, c))"
| "run_prog cl (Get k f) = (\<lambda>c. run_prog cl (f (et_get cl c k)) c)"
| "run_prog cl (Get_prefix p f) = (\<lambda>c. run_prog cl (f (et_prefix cl c p)) c)"
| "run_prog cl (Put k v l f) = (\<lambda>c. let (r, c') = et_put cl k v l c in run_prog cl (f r) c')"
| "run_prog cl (Delete k f) = (\<lambda>c. let (r, c') = et_delete cl k c in run_prog cl (f r) c')"
| "run_prog cl (Commit cs ops f) = (\<lambda>c. let (r, c') = et_txn cl cs ops c in run_prog cl (f r) c')"

text \<open>The operators \<^verbatim>\<open>?\<close> and \<^verbatim>\<open>map_err(err)?\<close>.\<close>

definition try_ok :: "registry_error + 'a \<Rightarrow> ('a \<Rightarrow> (registry_error + 'b) prog) \<Rightarrow> (registry_error + 'b) prog" where
  "try_ok r f = (case r of Inl e \<Rightarrow> Ret (Inl e) | Inr x \<Rightarrow> f x)"

definition try_err :: "string + 'a \<Rightarrow> ('a \<Rightarrow> (registry_error + 'b) prog) \<Rightarrow> (registry_error + 'b) prog" where
  "try_err r f = (case r of Inl e \<Rightarrow> Ret (Inl (RegistryError e)) | Inr x \<Rightarrow> f x)"

definition get_str ::
  "string \<Rightarrow> ((string \<times> int) option \<Rightarrow> (registry_error + 'b) prog) \<Rightarrow> (registry_error + 'b) prog" where
  "get_str k f = Get k (\<lambda>r. try_err r f)"

section \<open>The operations\<close>

text \<open>A node's handle on the registry: who it is and the lease it writes under.\<close>

record etcd_self =
  es_node :: node_id
  es_lease_id :: int

definition etcd_owner_of :: "owned_scope \<Rightarrow> (registry_error + ownership option) prog" where
  "etcd_owner_of scope =
     get_str (holder_of scope) (\<lambda>held.
       case held of
         None \<Rightarrow> Ret (Inr None)
       | Some (holder, _) \<Rightarrow>
           try_ok (parse_int 16 holder) (\<lambda>owner.
             get_str (epoch_of scope) (\<lambda>found.
               try_ok (case found of Some (e, _) \<Rightarrow> parse_int 64 e | None \<Rightarrow> Inr 0) (\<lambda>epoch.
                 Ret (Inr (Some \<lparr> ow_scope = scope, ow_owner = NodeId (of_nat owner),
                   ow_epoch = of_nat epoch \<rparr>))))))"

text \<open>The three stages of an attempt: the scope is held, the epoch is to be read, the
  claim is to be committed.\<close>

definition claim_held_epoch :: "owned_scope \<Rightarrow> nat \<Rightarrow> (registry_error + claim_outcome) prog" where
  "claim_held_epoch scope by_node =
     get_str (epoch_of scope) (\<lambda>found.
       let epoch = (case found of
           None \<Rightarrow> 0 | Some (e, _) \<Rightarrow> (case parse_int 64 e of Inl _ \<Rightarrow> 0 | Inr n \<Rightarrow> n))
       in Ret (Inr (Held (NodeId (of_nat by_node)) (of_nat epoch))))"

definition claim_commit ::
  "etcd_self \<Rightarrow> owned_scope \<Rightarrow> node_id \<Rightarrow> (registry_error + claim_outcome) prog \<Rightarrow> u64 \<Rightarrow> int \<Rightarrow>
   (registry_error + claim_outcome) prog" where
  "claim_commit self scope n retry cur_epoch epoch_rev =
     (let next_epoch = cur_epoch + 1 in
      Commit [Create_revision (holder_of scope) 0, Mod_revision (epoch_of scope) epoch_rev]
        [Op_put (holder_of scope) (dec_nat (unat (node_id_val n))) (Some (es_lease_id self)),
         Op_put (epoch_of scope) (dec_u64 next_epoch) None]
        (\<lambda>r. try_err r (\<lambda>succeeded. if succeeded then Ret (Inr (Claimed next_epoch)) else retry)))"

definition claim_free_epoch ::
  "etcd_self \<Rightarrow> owned_scope \<Rightarrow> node_id \<Rightarrow> (registry_error + claim_outcome) prog \<Rightarrow>
   (registry_error + claim_outcome) prog" where
  "claim_free_epoch self scope n retry =
     get_str (epoch_of scope) (\<lambda>found.
       case found of
         Some (e, epoch_rev) \<Rightarrow>
           try_ok (parse_int 64 e) (\<lambda>cur. claim_commit self scope n retry (of_nat cur) epoch_rev)
       | None \<Rightarrow> claim_commit self scope n retry 0 0)"

primrec claim_attempts ::
  "etcd_self \<Rightarrow> owned_scope \<Rightarrow> node_id \<Rightarrow> nat \<Rightarrow> (registry_error + claim_outcome) prog" where
  "claim_attempts self scope n 0 =
     Ret (Inl (RegistryError ''claim contended out after retries''))"
| "claim_attempts self scope n (Suc k) =
     get_str (holder_of scope) (\<lambda>held.
       case held of
         Some (holder, _) \<Rightarrow> try_ok (parse_int 16 holder) (claim_held_epoch scope)
       | None \<Rightarrow> claim_free_epoch self scope n (claim_attempts self scope n k))"

definition etcd_claim ::
  "etcd_self \<Rightarrow> owned_scope \<Rightarrow> node_id \<Rightarrow> (registry_error + claim_outcome) prog" where
  "etcd_claim self scope n = claim_attempts self scope n 8"

definition etcd_release :: "owned_scope \<Rightarrow> node_id \<Rightarrow> (registry_error + unit) prog" where
  "etcd_release scope n =
     Commit [Value_equal (holder_of scope) (dec_nat (unat (node_id_val n)))]
       [Op_delete (holder_of scope)]
       (\<lambda>r. try_err r (\<lambda>_. Ret (Inr ())))"

definition etcd_set_standby ::
  "etcd_json \<Rightarrow> etcd_self \<Rightarrow> owned_scope \<Rightarrow> node_id \<Rightarrow> (registry_error + unit) prog" where
  "etcd_set_standby js self scope n =
     get_str (standbys_of scope) (\<lambda>found.
       try_err (case found of Some (json, _) \<Rightarrow> standbys_from_str js json | None \<Rightarrow> Inr []) (\<lambda>lst.
         if node_id_val n \<in> set lst then Ret (Inr ())
         else try_err (standbys_to_string js (lst @ [node_id_val n])) (\<lambda>json.
           Commit [Value_equal (holder_of scope) (dec_nat (unat (node_id_val (es_node self))))]
             [Op_put (standbys_of scope) json None]
             (\<lambda>r. try_err r (\<lambda>succeeded.
               if succeeded then Ret (Inr ())
               else Ret (Inl (RegistryError
                 ''refusing to set a standby: this node is not the scope's current owner'')))))))"

definition etcd_standbys :: "etcd_json \<Rightarrow> owned_scope \<Rightarrow> (registry_error + node_id list) prog" where
  "etcd_standbys js scope =
     get_str (standbys_of scope) (\<lambda>found.
       case found of
         None \<Rightarrow> Ret (Inr [])
       | Some (json, _) \<Rightarrow> try_err (standbys_from_str js json) (\<lambda>lst. Ret (Inr (map NodeId lst))))"

definition etcd_can_rehome :: "owned_scope \<Rightarrow> (registry_error + bool) prog" where
  "etcd_can_rehome scope = get_str (rehoming_of scope) (\<lambda>found. Ret (Inr (found = None)))"

definition etcd_set_rehoming :: "owned_scope \<Rightarrow> bool \<Rightarrow> (registry_error + unit) prog" where
  "etcd_set_rehoming scope enabled =
     (if enabled then Delete (rehoming_of scope) (\<lambda>r. try_err r (\<lambda>_. Ret (Inr ())))
      else Put (rehoming_of scope) ''off'' None (\<lambda>r. try_err r (\<lambda>_. Ret (Inr ()))))"

definition etcd_renew :: "node_id \<Rightarrow> (registry_error + unit) prog" where
  "etcd_renew n = Ret (Inr ())"

definition publish_commit :: "node_id \<Rightarrow> string \<Rightarrow> (registry_error + unit) prog" where
  "publish_commit n public_hex =
     Commit [Create_revision (key_of n) 0] [Op_put (key_of n) public_hex None]
       (\<lambda>r. try_err r (\<lambda>succeeded.
         if succeeded then Ret (Inr ())
         else Ret (Inl (RegistryError
           ''node key was published concurrently; refusing to overwrite it''))))"

definition etcd_publish_key :: "node_id \<Rightarrow> string \<Rightarrow> (registry_error + unit) prog" where
  "etcd_publish_key n public_hex =
     get_str (key_of n) (\<lambda>found.
       case found of
         Some (existing, _) \<Rightarrow>
           Ret (if existing = public_hex then Inr ()
                else Inl (RegistryError
                  ''node key already published; refusing to overwrite it (first-write-wins)''))
       | None \<Rightarrow> publish_commit n public_hex)"

definition etcd_public_key :: "ed25519 \<Rightarrow> node_id \<Rightarrow> (registry_error + node_public_key option) prog" where
  "etcd_public_key ed n =
     get_str (key_of n) (\<lambda>found.
       case found of
         None \<Rightarrow> Ret (Inr None)
       | Some (h, _) \<Rightarrow>
           Ret (map_sum (\<lambda>e. RegistryError (fed_error_text e)) Some (public_from_hex ed n h)))"

definition etcd_report_load ::
  "etcd_json \<Rightarrow> etcd_self \<Rightarrow> node_id \<Rightarrow> node_load \<Rightarrow> (registry_error + unit) prog" where
  "etcd_report_load js self n load =
     try_err (load_to_string js (load_wire_from load)) (\<lambda>json.
       Put (node_of n) json (Some (es_lease_id self)) (\<lambda>r. try_err r (\<lambda>_. Ret (Inr ()))))"

text \<open>\<^verbatim>\<open>key.rsplit('/').next()\<close>.\<close>

definition last_segment :: "string \<Rightarrow> string" where
  "last_segment key = rev (takeWhile (\<lambda>c. c \<noteq> CHR ''/'') (rev key))"

fun read_loads ::
  "etcd_json \<Rightarrow> (string \<times> string) list \<Rightarrow> node_status list \<Rightarrow> registry_error + node_status list" where
  "read_loads js [] out = Inr out"
| "read_loads js ((key, val) # kvs) out =
     (case parse_unsigned 16 (last_segment key) of
        None \<Rightarrow> read_loads js kvs out
      | Some i \<Rightarrow>
          (case load_from_slice js val of
             Inl e \<Rightarrow> Inl (RegistryError e)
           | Inr load \<Rightarrow>
               read_loads js kvs
                 (out @ [\<lparr> ns_node = NodeId (of_nat i), ns_load = node_load_from load \<rparr>])))"

definition etcd_live_nodes :: "etcd_json \<Rightarrow> (registry_error + node_status list) prog" where
  "etcd_live_nodes js =
     Get_prefix ''democrachat/nodes/'' (\<lambda>r. try_err r (\<lambda>kvs. Ret (read_loads js kvs [])))"

text \<open>The trait object \<^verbatim>\<open>Arc<EtcdRegistry>\<close> of one node, each operation run without
  interruption.\<close>

definition etcd_registry ::
  "'c etcd_client \<Rightarrow> etcd_json \<Rightarrow> ed25519 \<Rightarrow> etcd_self \<Rightarrow> 'c registry" where
  "etcd_registry cl js ed self =
     \<lparr> reg_owner_of = (\<lambda>c s. fst (run_prog cl (etcd_owner_of s) c)),
       reg_claim = (\<lambda>s n. run_prog cl (etcd_claim self s n)),
       reg_release = (\<lambda>s n. run_prog cl (etcd_release s n)),
       reg_set_standby = (\<lambda>s n. run_prog cl (etcd_set_standby js self s n)),
       reg_standbys = (\<lambda>c s. fst (run_prog cl (etcd_standbys js s) c)),
       reg_can_rehome = (\<lambda>c s. fst (run_prog cl (etcd_can_rehome s) c)),
       reg_set_rehoming = (\<lambda>s b. run_prog cl (etcd_set_rehoming s b)),
       reg_renew = (\<lambda>n. run_prog cl (etcd_renew n)),
       reg_publish_key = (\<lambda>n h. run_prog cl (etcd_publish_key n h)),
       reg_public_key = (\<lambda>c n. fst (run_prog cl (etcd_public_key ed n) c)),
       reg_report_load = (\<lambda>n l. run_prog cl (etcd_report_load js self n l)),
       reg_live_nodes = (\<lambda>c. fst (run_prog cl (etcd_live_nodes js) c)) \<rparr>"

end
