(* ===== verification/Etcd_Laws.thy ===== *)
theory Etcd_Laws
  imports Etcd_Registry
begin

text \<open>
  What the adapter guarantees when many nodes use one cluster. \<open>etcd_documented\<close>
  is the documented behaviour of etcd: revisions, atomic transactions, and calls
  that may fail with or without an effect. \<open>etcd_step\<close> interleaves the calls of
  the operations of any number of nodes with the expiry of leases and with nodes
  that die in the middle of an operation.
\<close>

section \<open>The cluster\<close>

text \<open>A key of the cluster, with the revisions at which it was created and last
  written. The views below read the state of the cluster as such a key space and
  its current revision.\<close>

record kv =
  kv_value :: string
  kv_create :: int
  kv_mod :: int
  kv_lease :: "int option"

type_synonym keyspace = "string \<Rightarrow> kv option"

definition create_rev :: "keyspace \<Rightarrow> string \<Rightarrow> int" where
  "create_rev w k = (case w k of None \<Rightarrow> 0 | Some x \<Rightarrow> kv_create x)"

definition mod_rev :: "keyspace \<Rightarrow> string \<Rightarrow> int" where
  "mod_rev w k = (case w k of None \<Rightarrow> 0 | Some x \<Rightarrow> kv_mod x)"

definition value_at :: "keyspace \<Rightarrow> string \<Rightarrow> string option" where
  "value_at w k = map_option kv_value (w k)"

fun compare_holds :: "keyspace \<Rightarrow> txn_compare \<Rightarrow> bool" where
  "compare_holds w (Create_revision k r) \<longleftrightarrow> create_rev w k = r"
| "compare_holds w (Mod_revision k r) \<longleftrightarrow> mod_rev w k = r"
| "compare_holds w (Value_equal k v) \<longleftrightarrow> value_at w k = Some v"

fun apply_op :: "int \<Rightarrow> txn_op \<Rightarrow> keyspace \<Rightarrow> keyspace" where
  "apply_op now (Op_put k v l) w =
     w(k \<mapsto> \<lparr> kv_value = v, kv_create = (if w k = None then now else create_rev w k),
       kv_mod = now, kv_lease = l \<rparr>)"
| "apply_op now (Op_delete k) w = w(k := None)"

definition apply_ops :: "int \<Rightarrow> txn_op list \<Rightarrow> keyspace \<Rightarrow> keyspace" where
  "apply_ops now ops w = fold (apply_op now) ops w"

lemma apply_ops_simps [simp]:
  "apply_ops now [] w = w" "apply_ops now (x # ops) w = apply_ops now ops (apply_op now x w)"
  by (simp_all add: apply_ops_def)

text \<open>What a call did to the cluster: nothing, or its writes at the next revision. A
  call that failed may have been carried out all the same.\<close>

definition untouched :: "('c \<Rightarrow> keyspace) \<Rightarrow> ('c \<Rightarrow> int) \<Rightarrow> 'c \<Rightarrow> 'c \<Rightarrow> bool" where
  "untouched view now c c' \<longleftrightarrow> view c' = view c \<and> now c \<le> now c'"

definition wrote :: "('c \<Rightarrow> keyspace) \<Rightarrow> ('c \<Rightarrow> int) \<Rightarrow> txn_op list \<Rightarrow> 'c \<Rightarrow> 'c \<Rightarrow> bool" where
  "wrote view now ops c c' \<longleftrightarrow> view c' = apply_ops (now c + 1) ops (view c) \<and> now c \<le> now c'"

definition write_answer ::
  "('c \<Rightarrow> keyspace) \<Rightarrow> ('c \<Rightarrow> int) \<Rightarrow> txn_op list \<Rightarrow> 'c \<Rightarrow> (string + unit) \<times> 'c \<Rightarrow> bool" where
  "write_answer view now ops c res \<longleftrightarrow>
     (case fst res of
        Inr _ \<Rightarrow> wrote view now ops c (snd res)
      | Inl _ \<Rightarrow> untouched view now c (snd res) \<or> wrote view now ops c (snd res))"

definition txn_answer ::
  "('c \<Rightarrow> keyspace) \<Rightarrow> ('c \<Rightarrow> int) \<Rightarrow> txn_compare list \<Rightarrow> txn_op list \<Rightarrow> 'c \<Rightarrow> (string + bool) \<times> 'c \<Rightarrow> bool" where
  "txn_answer view now cs ops c res \<longleftrightarrow>
     (let holds = list_all (compare_holds (view c)) cs in
      case fst res of
        Inr succeeded \<Rightarrow>
          succeeded = holds \<and> (if succeeded then wrote view now ops c (snd res) else untouched view now c (snd res))
      | Inl _ \<Rightarrow> untouched view now c (snd res) \<or> (holds \<and> wrote view now ops c (snd res)))"

text \<open>Every key was created at a positive revision, and last written between that and
  the current one; a read that is answered gives the key as it is.\<close>

definition etcd_documented :: "'c etcd_client \<Rightarrow> ('c \<Rightarrow> keyspace) \<Rightarrow> ('c \<Rightarrow> int) \<Rightarrow> bool" where
  "etcd_documented cl view now \<longleftrightarrow>
     (\<forall>c. 0 \<le> now c) \<and>
     (\<forall>c k x. view c k = Some x \<longrightarrow> 0 < kv_create x \<and> kv_create x \<le> kv_mod x \<and> kv_mod x \<le> now c) \<and>
     (\<forall>c k x. et_get cl c k = Inr x \<longrightarrow> x = map_option (\<lambda>x. (kv_value x, kv_mod x)) (view c k)) \<and>
     (\<forall>c p kvs. et_prefix cl c p = Inr kvs \<longrightarrow> distinct (map fst kvs) \<and>
        set kvs = {(k, v). take (length p) k = p \<and> value_at (view c) k = Some v}) \<and>
     (\<forall>k v l c. write_answer view now [Op_put k v l] c (et_put cl k v l c)) \<and>
     (\<forall>k c. write_answer view now [Op_delete k] c (et_delete cl k c)) \<and>
     (\<forall>cs ops c. txn_answer view now cs ops c (et_txn cl cs ops c))"

text \<open>The call a program makes next, if it is a write.\<close>

fun next_write :: "'a prog \<Rightarrow> (txn_compare list \<times> txn_op list) option" where
  "next_write (Put k v l f) = Some ([], [Op_put k v l])"
| "next_write (Delete k f) = Some ([], [Op_delete k])"
| "next_write (Commit cs ops f) = Some (cs, ops)"
| "next_write _ = None"

lemma advance_effect:
  assumes "etcd_documented cl view now" "advance cl p c = (p', c')"
  shows "now c \<le> now c' \<and>
    (view c' = view c \<or>
     (\<exists>cs ops. next_write p = Some (cs, ops) \<and> list_all (compare_holds (view c)) cs \<and>
        view c' = apply_ops (now c + 1) ops (view c)))"
proof (cases p)
  case (Put k v l f)
  have "write_answer view now [Op_put k v l] c (et_put cl k v l c)"
    using assms(1) by (simp add: etcd_documented_def)
  then show ?thesis
    using assms(2) Put
    by (auto simp: write_answer_def untouched_def wrote_def split: sum.splits prod.splits)
next
  case (Delete k f)
  have "write_answer view now [Op_delete k] c (et_delete cl k c)"
    using assms(1) by (simp add: etcd_documented_def)
  then show ?thesis
    using assms(2) Delete
    by (auto simp: write_answer_def untouched_def wrote_def split: sum.splits prod.splits)
next
  case (Commit cs ops f)
  have "txn_answer view now cs ops c (et_txn cl cs ops c)"
    using assms(1) by (simp add: etcd_documented_def)
  then show ?thesis
    using assms(2) Commit
    by (auto simp: txn_answer_def Let_def untouched_def wrote_def split: sum.splits prod.splits if_splits)
qed (use assms(2) in auto)

lemma documented_get:
  "etcd_documented cl view now \<Longrightarrow> et_get cl c k = Inr x \<Longrightarrow>
   x = map_option (\<lambda>x. (kv_value x, kv_mod x)) (view c k)"
  unfolding etcd_documented_def by blast

lemma documented_mod:
  "etcd_documented cl view now \<Longrightarrow> view c k = Some x \<Longrightarrow> 0 < kv_mod x \<and> kv_mod x \<le> now c"
  unfolding etcd_documented_def by (meson less_le_trans)

lemma documented_create: "etcd_documented cl view now \<Longrightarrow> view c k = Some x \<Longrightarrow> create_rev (view c) k \<noteq> 0"
  unfolding etcd_documented_def create_rev_def by (metis less_irrefl option.case(2))

lemma documented_now: "etcd_documented cl view now \<Longrightarrow> 0 \<le> now c"
  unfolding etcd_documented_def by blast

lemma documented_txn:
  "etcd_documented cl view now \<Longrightarrow> txn_answer view now cs ops c (et_txn cl cs ops c)"
  unfolding etcd_documented_def by blast

section \<open>Keys\<close>

lemma scope_key_inject [simp]: "scope_key s = scope_key s' \<longleftrightarrow> s = s'"
proof -
  have "dec_u64 i = dec_u64 j \<Longrightarrow> i = j" for i j :: u64
    by (metis option.inject parse_u64_dec)
  then show ?thesis by (cases s; cases s') (auto simp: scope_key_def)
qed

lemma last_dec: "48 \<le> byte (last (dec_nat n)) \<and> byte (last (dec_nat n)) \<le> 57"
  by (rule dec_nat_digits) (rule last_in_set, simp)

lemma last_scope_key: "48 \<le> byte (last (scope_key s)) \<and> byte (last (scope_key s)) \<le> 57" "scope_key s \<noteq> []"
  using last_dec by (auto simp: scope_key_def dec_u64_def split: owned_scope.splits)

text \<open>The last character tells the kinds of keys apart, but for the three that end in a
  number, which differ in their beginning.\<close>

lemma key_last:
  "last (holder_of s) = CHR ''r''" "last (epoch_of s) = CHR ''h''" "last (standbys_of s) = CHR ''s''"
  "byte (last (rehoming_of s)) \<le> 57" "byte (last (key_of n)) \<le> 57" "byte (last (node_of n)) \<le> 57"
  using last_scope_key [of s] last_dec [of "unat (node_id_val n)"]
  by (simp_all add: holder_of_def epoch_of_def standbys_of_def rehoming_of_def key_of_def node_of_def)

lemma key_inject [simp]:
  "holder_of s = holder_of s' \<longleftrightarrow> s = s'" "epoch_of s = epoch_of s' \<longleftrightarrow> s = s'"
  "standbys_of s = standbys_of s' \<longleftrightarrow> s = s'" "rehoming_of s = rehoming_of s' \<longleftrightarrow> s = s'"
  "key_of n = key_of n' \<longleftrightarrow> n = n'" "node_of n = node_of n' \<longleftrightarrow> n = n'"
  by (auto simp: holder_of_def epoch_of_def standbys_of_def rehoming_of_def key_of_def node_of_def
      word_unat_eq_iff [symmetric] node_id.expand)

lemma key_distinct [simp]:
  "holder_of s \<noteq> epoch_of s'" "holder_of s \<noteq> standbys_of s'" "holder_of s \<noteq> rehoming_of s'"
  "holder_of s \<noteq> key_of n" "holder_of s \<noteq> node_of n" "epoch_of s \<noteq> standbys_of s'"
  "epoch_of s \<noteq> rehoming_of s'" "epoch_of s \<noteq> key_of n" "epoch_of s \<noteq> node_of n"
  "standbys_of s \<noteq> rehoming_of s'" "standbys_of s \<noteq> key_of n" "standbys_of s \<noteq> node_of n"
  "rehoming_of s \<noteq> key_of n" "rehoming_of s \<noteq> node_of n'" "key_of n \<noteq> node_of n'"
proof -
  have digit: "57 < v \<Longrightarrow> byte (last (rehoming_of s)) \<noteq> v" "57 < v \<Longrightarrow> byte (last (key_of n)) \<noteq> v"
      "57 < v \<Longrightarrow> byte (last (node_of n)) \<noteq> v" for v s n
    using key_last(4-6) by (metis not_le)+
  show "holder_of s \<noteq> epoch_of s'" "holder_of s \<noteq> standbys_of s'" "holder_of s \<noteq> rehoming_of s'"
    "holder_of s \<noteq> key_of n" "holder_of s \<noteq> node_of n" "epoch_of s \<noteq> standbys_of s'"
    "epoch_of s \<noteq> rehoming_of s'" "epoch_of s \<noteq> key_of n" "epoch_of s \<noteq> node_of n"
    "standbys_of s \<noteq> rehoming_of s'" "standbys_of s \<noteq> key_of n" "standbys_of s \<noteq> node_of n"
    by (rule notI, drule arg_cong [where f = "\<lambda>k. byte (last k)"],
        simp add: key_last(1-3) digit digit [symmetric])+
  show "rehoming_of s \<noteq> key_of n" "rehoming_of s \<noteq> node_of n'" "key_of n \<noteq> node_of n'"
    by (simp_all add: rehoming_of_def key_of_def node_of_def)
qed

lemmas key_distinct' [simp] = key_distinct [symmetric]

end
