(* ===== verification/Etcd_Interleaving.thy ===== *)
theory Etcd_Interleaving
  imports Etcd_Laws
begin

text \<open>
  Many nodes on one cluster: each runs an operation one etcd call at a time, leases
  expire, calls fail, nodes die half way. The fencing epochs, the published keys
  and the lists of standbys survive all of it.
\<close>

section \<open>Requests in flight\<close>

datatype request =
    Rq_claim owned_scope node_id
  | Rq_release owned_scope node_id
  | Rq_set_standby owned_scope node_id
  | Rq_set_rehoming owned_scope bool
  | Rq_publish_key node_id string
  | Rq_report_load node_id node_load
  | Rq_owner_of owned_scope

datatype answer =
    Ans_unit "registry_error + unit"
  | Ans_claim "registry_error + claim_outcome"
  | Ans_owner "registry_error + ownership option"

fun etcd_call :: "etcd_json \<Rightarrow> etcd_self \<Rightarrow> request \<Rightarrow> answer prog" where
  "etcd_call js self (Rq_claim s n) = map_prog Ans_claim (etcd_claim self s n)"
| "etcd_call js self (Rq_release s n) = map_prog Ans_unit (etcd_release s n)"
| "etcd_call js self (Rq_set_standby s n) = map_prog Ans_unit (etcd_set_standby js self s n)"
| "etcd_call js self (Rq_set_rehoming s b) = map_prog Ans_unit (etcd_set_rehoming s b)"
| "etcd_call js self (Rq_publish_key n h) = map_prog Ans_unit (etcd_publish_key n h)"
| "etcd_call js self (Rq_report_load n l) = map_prog Ans_unit (etcd_report_load js self n l)"
| "etcd_call js self (Rq_owner_of s) = map_prog Ans_owner (etcd_owner_of s)"

text \<open>The cluster, the operations running on it, and what has been answered so far.\<close>

record 'c etcd_world =
  w_cluster :: 'c
  w_running :: "nat \<Rightarrow> (etcd_self \<times> request \<times> answer prog) option"
  w_log :: "(etcd_self \<times> request \<times> answer) list"

definition settle ::
  "nat \<Rightarrow> etcd_self \<Rightarrow> request \<Rightarrow> answer prog \<Rightarrow> 'c etcd_world \<Rightarrow> 'c etcd_world" where
  "settle i self rq p w =
     (case p of
        Ret a \<Rightarrow> w\<lparr>w_running := (w_running w)(i := None), w_log := w_log w @ [(self, rq, a)]\<rparr>
      | _ \<Rightarrow> w\<lparr>w_running := (w_running w)(i \<mapsto> (self, rq, p))\<rparr>)"

definition epoch_at :: "keyspace \<Rightarrow> owned_scope \<Rightarrow> u64" where
  "epoch_at w s =
     (case w (epoch_of s) of
        None \<Rightarrow> 0
      | Some x \<Rightarrow> (case parse_int 64 (kv_value x) of Inl _ \<Rightarrow> 0 | Inr n \<Rightarrow> of_nat n))"

text \<open>The keys written under a lease go when it expires.\<close>

definition expire :: "int \<Rightarrow> keyspace \<Rightarrow> keyspace" where
  "expire l w k =
     (case w k of None \<Rightarrow> None | Some x \<Rightarrow> if kv_lease x = Some l then None else Some x)"

text \<open>A step: an operation begins, one of those running makes its next call, a node
  dies, or a lease expires. As everywhere, no scope runs out of epochs.\<close>

inductive etcd_step ::
  "'c etcd_client \<Rightarrow> ('c \<Rightarrow> keyspace) \<Rightarrow> ('c \<Rightarrow> int) \<Rightarrow> etcd_json \<Rightarrow>
   'c etcd_world \<Rightarrow> 'c etcd_world \<Rightarrow> bool"
  for cl view now js where
  step_begin: "w_running w i = None \<Longrightarrow>
    etcd_step cl view now js w (settle i self rq (etcd_call js self rq) w)"
| step_turn: "w_running w i = Some (self, rq, p) \<Longrightarrow> advance cl p (w_cluster w) = (p', c') \<Longrightarrow>
    (\<And>s. epoch_at (view (w_cluster w)) s + 1 \<noteq> 0) \<Longrightarrow>
    etcd_step cl view now js w (settle i self rq p' (w\<lparr>w_cluster := c'\<rparr>))"
| step_die: "etcd_step cl view now js w (w\<lparr>w_running := (w_running w)(i := None)\<rparr>)"
| step_expire: "view c' = expire l (view (w_cluster w)) \<Longrightarrow> now (w_cluster w) \<le> now c' \<Longrightarrow>
    etcd_step cl view now js w (w\<lparr>w_cluster := c'\<rparr>)"

definition etcd_run ::
  "'c etcd_client \<Rightarrow> ('c \<Rightarrow> keyspace) \<Rightarrow> ('c \<Rightarrow> int) \<Rightarrow> etcd_json \<Rightarrow>
   'c etcd_world \<Rightarrow> 'c etcd_world \<Rightarrow> bool" where
  "etcd_run cl view now js = (etcd_step cl view now js)\<^sup>*\<^sup>*"

definition at_rest :: "'c \<Rightarrow> 'c etcd_world" where
  "at_rest c = \<lparr> w_cluster = c, w_running = (\<lambda>_. None), w_log = [] \<rparr>"

section \<open>Programs whose writes are harmless\<close>

text \<open>Every write the program can come to, whatever it is answered, satisfies \<open>ok\<close>.\<close>

primrec writes_ok :: "(txn_compare list \<Rightarrow> txn_op list \<Rightarrow> bool) \<Rightarrow> 'a prog \<Rightarrow> bool" where
  "writes_ok ok (Ret a) = True"
| "writes_ok ok (Get k f) = (\<forall>r. writes_ok ok (f r))"
| "writes_ok ok (Get_prefix k f) = (\<forall>r. writes_ok ok (f r))"
| "writes_ok ok (Put k v l f) = (ok [] [Op_put k v l] \<and> (\<forall>r. writes_ok ok (f r)))"
| "writes_ok ok (Delete k f) = (ok [] [Op_delete k] \<and> (\<forall>r. writes_ok ok (f r)))"
| "writes_ok ok (Commit cs ops f) = (ok cs ops \<and> (\<forall>r. writes_ok ok (f r)))"

lemma writes_ok_map [simp]: "writes_ok ok (map_prog g p) = writes_ok ok p"
  by (induction p) auto

lemma writes_ok_try [simp]:
  "writes_ok ok (try_ok r f) \<longleftrightarrow> (\<forall>x. r = Inr x \<longrightarrow> writes_ok ok (f x))"
  "writes_ok ok (try_err r' f') \<longleftrightarrow> (\<forall>x. r' = Inr x \<longrightarrow> writes_ok ok (f' x))"
  by (auto simp: try_ok_def try_err_def split: sum.split)

lemma writes_ok_get_str [simp]: "writes_ok ok (get_str k f) \<longleftrightarrow> (\<forall>x. writes_ok ok (f x))"
  by (auto simp: get_str_def)

lemma writes_ok_advance:
  "writes_ok ok p \<Longrightarrow> advance cl p c = (p', c') \<Longrightarrow> writes_ok ok p'"
  by (cases p) (auto split: prod.splits)

lemma writes_ok_next: "writes_ok ok p \<Longrightarrow> next_write p = Some (cs, ops) \<Longrightarrow> ok cs ops"
  by (cases p) auto

lemma writes_ok_mono: "writes_ok ok p \<Longrightarrow> (\<And>cs ops. ok cs ops \<Longrightarrow> ok' cs ops) \<Longrightarrow> writes_ok ok' p"
  by (induction p) auto

text \<open>What each operation writes.\<close>

fun request_writes :: "etcd_self \<Rightarrow> request \<Rightarrow> txn_compare list \<Rightarrow> txn_op list \<Rightarrow> bool" where
  "request_writes self (Rq_claim s n) cs ops \<longleftrightarrow>
     (\<exists>e r. cs = [Create_revision (holder_of s) 0, Mod_revision (epoch_of s) r] \<and>
        ops = [Op_put (holder_of s) (dec_nat (unat (node_id_val n))) (Some (es_lease_id self)),
               Op_put (epoch_of s) (dec_u64 e) None])"
| "request_writes self (Rq_release s n) cs ops \<longleftrightarrow>
     cs = [Value_equal (holder_of s) (dec_nat (unat (node_id_val n)))] \<and> ops = [Op_delete (holder_of s)]"
| "request_writes self (Rq_set_standby s n) cs ops \<longleftrightarrow>
     (\<exists>json. cs = [Value_equal (holder_of s) (dec_nat (unat (node_id_val (es_node self))))] \<and>
        ops = [Op_put (standbys_of s) json None])"
| "request_writes self (Rq_set_rehoming s b) cs ops \<longleftrightarrow>
     cs = [] \<and> (ops = [Op_delete (rehoming_of s)] \<or> ops = [Op_put (rehoming_of s) ''off'' None])"
| "request_writes self (Rq_publish_key n h) cs ops \<longleftrightarrow>
     cs = [Create_revision (key_of n) 0] \<and> ops = [Op_put (key_of n) h None]"
| "request_writes self (Rq_report_load n l) cs ops \<longleftrightarrow>
     cs = [] \<and> (\<exists>json. ops = [Op_put (node_of n) json (Some (es_lease_id self))])"
| "request_writes self (Rq_owner_of s) cs ops \<longleftrightarrow> False"

lemma claim_stages_writes:
  "writes_ok (request_writes self (Rq_claim s n)) retry \<Longrightarrow>
   writes_ok (request_writes self (Rq_claim s n)) (claim_commit self s n retry e r)"
  "writes_ok (request_writes self (Rq_claim s n)) retry \<Longrightarrow>
   writes_ok (request_writes self (Rq_claim s n)) (claim_free_epoch self s n retry)"
  "writes_ok (request_writes self (Rq_claim s n)) (claim_held_epoch s b)"
  by (auto simp: claim_commit_def claim_free_epoch_def claim_held_epoch_def Let_def split: option.split)

lemma claim_attempts_writes: "writes_ok (request_writes self (Rq_claim s n)) (claim_attempts self s n k)"
  by (induction k) (auto simp: claim_stages_writes simp del: request_writes.simps split: option.split)

lemma etcd_call_writes: "writes_ok (request_writes self rq) (etcd_call js self rq)"
  by (cases rq) (auto simp: etcd_claim_def claim_attempts_writes etcd_release_def etcd_set_standby_def
      etcd_set_rehoming_def etcd_publish_key_def publish_commit_def etcd_report_load_def etcd_owner_of_def
      split: option.split)

lemma settle_simps [simp]:
  "w_cluster (settle i self rq p w) = w_cluster w"
  "w_log (settle i self rq p w) =
     w_log w @ (case p of Ret a \<Rightarrow> [(self, rq, a)] | _ \<Rightarrow> [])"
  "w_running (settle i self rq p w) =
     (w_running w)(i := (case p of Ret a \<Rightarrow> None | _ \<Rightarrow> Some (self, rq, p)))"
  by (simp_all add: settle_def split: prog.split)

text \<open>In a run from rest, whatever is running writes what its request writes.\<close>

lemma running_writes:
  assumes "etcd_run cl view now js (at_rest c) w" "w_running w i = Some (self, rq, p)"
  shows "writes_ok (request_writes self rq) p"
  using assms unfolding etcd_run_def
proof (induction arbitrary: i self rq p rule: rtranclp_induct)
  case base
  then show ?case by (simp add: at_rest_def)
next
  case (step w w')
  from step.hyps(2) show ?case
  proof cases
    case (step_begin j self' rq')
    then show ?thesis
      using step.IH step.prems etcd_call_writes by (auto split: if_splits prog.splits)
  next
    case (step_turn j self' rq' p' p'' c')
    have "writes_ok (request_writes self' rq') p''"
      using writes_ok_advance [OF step.IH [OF step_turn(2)] step_turn(3)] .
    then show ?thesis
      using step_turn(1) step.IH step.prems by (auto split: if_splits prog.splits)
  qed (use step.IH step.prems in \<open>auto split: if_splits\<close>)
qed

section \<open>The stages of a claim\<close>

text \<open>What a node that has read the epoch knows: as long as the key has the revision it
  read, the epoch is the one it read.\<close>

definition informed ::
  "('c \<Rightarrow> keyspace) \<Rightarrow> ('c \<Rightarrow> int) \<Rightarrow> owned_scope \<Rightarrow> u64 \<Rightarrow> int \<Rightarrow> 'c \<Rightarrow> bool" where
  "informed view now s e r c \<longleftrightarrow>
     r \<le> now c \<and> (mod_rev (view c) (epoch_of s) = r \<longrightarrow> epoch_at (view c) s = e)"

definition claim_stage ::
  "('c \<Rightarrow> keyspace) \<Rightarrow> ('c \<Rightarrow> int) \<Rightarrow> etcd_self \<Rightarrow> owned_scope \<Rightarrow> node_id \<Rightarrow> 'c \<Rightarrow>
   (registry_error + claim_outcome) prog \<Rightarrow> bool" where
  "claim_stage view now self s n c q \<longleftrightarrow>
     (\<exists>k. let again = claim_attempts self s n k in
        q = again \<or> q = claim_free_epoch self s n again \<or>
        (\<exists>e r. q = claim_commit self s n again e r \<and> informed view now s e r c)) \<or>
     (\<exists>b. q = claim_held_epoch s b) \<or> (\<exists>a. q = Ret a)"

lemma claim_stage_simps [simp]:
  "claim_stage view now self s n c (Ret a)" "claim_stage view now self s n c (claim_held_epoch s b)"
  "claim_stage view now self s n c (claim_attempts self s n k)"
  "claim_stage view now self s n c (claim_free_epoch self s n (claim_attempts self s n k))"
  "informed view now s e r c \<Longrightarrow>
   claim_stage view now self s n c (claim_commit self s n (claim_attempts self s n k) e r)"
  by (auto simp: claim_stage_def Let_def)

lemma claim_stage_cases:
  assumes "claim_stage view now self s n c q"
  obtains (ended) a where "q = Ret a"
  | (fresh) k where "q = claim_attempts self s n k"
  | (peek) k where "q = claim_free_epoch self s n (claim_attempts self s n k)"
  | (commit) k e r where "q = claim_commit self s n (claim_attempts self s n k) e r" "informed view now s e r c"
  | (held) b where "q = claim_held_epoch s b"
  using assms unfolding claim_stage_def Let_def by blast

lemma stage_not_Ret [simp]:
  "claim_free_epoch self s n again \<noteq> Ret a" "claim_held_epoch s b \<noteq> Ret a"
  "claim_commit self s n again e r \<noteq> Ret a" "claim_attempts self s n k \<noteq> Ret (Inr x)"
  by (simp_all add: claim_free_epoch_def claim_held_epoch_def claim_commit_def get_str_def Let_def)
     (cases k, simp_all add: get_str_def)

lemma stage_next_write [simp]:
  "next_write (claim_free_epoch self s n again) = None" "next_write (claim_held_epoch s b) = None"
  "next_write (claim_attempts self s n k) = None"
  by (simp_all add: claim_free_epoch_def claim_held_epoch_def get_str_def)
     (cases k, simp_all add: get_str_def)

lemma epoch_at_parse:
  "w (epoch_of s) = Some x \<Longrightarrow> parse_int 64 (kv_value x) = Inr m \<Longrightarrow> epoch_at w s = of_nat m"
  by (simp add: epoch_at_def)

lemma informed_read:
  assumes "etcd_documented cl view now" "view c (epoch_of s) = Some x" "parse_int 64 (kv_value x) = Inr m"
  shows "informed view now s (of_nat m) (kv_mod x) c"
  using documented_mod [OF assms(1,2)] assms(2,3) by (simp add: informed_def epoch_at_parse)

lemma informed_absent:
  assumes "etcd_documented cl view now" "view c (epoch_of s) = None"
  shows "informed view now s 0 0 c"
  using assms(2) documented_now [OF assms(1)] by (simp add: informed_def epoch_at_def)

text \<open>What a claim that comes to its end has done.\<close>

definition granted ::
  "('c \<Rightarrow> keyspace) \<Rightarrow> owned_scope \<Rightarrow> node_id \<Rightarrow> u64 \<Rightarrow> 'c \<Rightarrow> 'c \<Rightarrow> bool" where
  "granted view s n e c c' \<longleftrightarrow>
     epoch_at (view c) s + 1 = e \<and> epoch_at (view c') s = e \<and>
     value_at (view c') (holder_of s) = Some (dec_nat (unat (node_id_val n)))"

lemma parse_int_dec [simp]:
  "parse_int 64 (dec_u64 e) = Inr (unat e)"
  "parse_int 16 (dec_nat (unat (node_id_val n))) = Inr (unat (node_id_val n))"
proof -
  have "unat e < 2 ^ 64" "unat (node_id_val n) < 2 ^ 16"
    using unsigned_less [of e] unsigned_less [of "node_id_val n"] by simp_all
  then show "parse_int 64 (dec_u64 e) = Inr (unat e)"
    "parse_int 16 (dec_nat (unat (node_id_val n))) = Inr (unat (node_id_val n))"
    by (simp_all add: parse_int_def dec_u64_def parse_unsigned_dec)
qed

lemma epoch_at_upd [simp]:
  "epoch_at (w(k \<mapsto> x)) s =
     (if k = epoch_of s then (case parse_int 64 (kv_value x) of Inl _ \<Rightarrow> 0 | Inr m \<Rightarrow> of_nat m)
      else epoch_at w s)"
  "epoch_at (w(k := None)) s = (if k = epoch_of s then 0 else epoch_at w s)"
  by (simp_all add: epoch_at_def)

lemma value_at_upd [simp]:
  "value_at (w(k \<mapsto> x)) k' = (if k' = k then Some (kv_value x) else value_at w k')"
  "value_at (w(k := None)) k' = (if k' = k then None else value_at w k')"
  by (simp_all add: value_at_def)

lemma claim_commit_advance:
  assumes "etcd_documented cl view now" "informed view now s e r c"
    and "advance cl (claim_commit self s n again e r) c = (q', c')"
  shows "(\<exists>err. q' = Ret (Inl err)) \<or> q' = again \<or>
    (q' = Ret (Inr (Claimed (e + 1))) \<and> granted view s n (e + 1) c c')"
proof -
  let ?cs = "[Create_revision (holder_of s) 0, Mod_revision (epoch_of s) r]"
  let ?ops = "[Op_put (holder_of s) (dec_nat (unat (node_id_val n))) (Some (es_lease_id self)),
      Op_put (epoch_of s) (dec_u64 (e + 1)) None]"
  show ?thesis
    using assms(2,3) documented_txn [OF assms(1), of ?cs ?ops c]
    by (auto simp: claim_commit_def Let_def txn_answer_def try_err_def wrote_def granted_def informed_def
        split: sum.splits prod.splits if_splits)
qed

lemma claim_stage_advance:
  assumes "etcd_documented cl view now" "claim_stage view now self s n c q"
    and "advance cl q c = (q', c')" "\<nexists>a. q = Ret a"
  shows "claim_stage view now self s n c' q' \<and> (\<forall>e. q' = Ret (Inr (Claimed e)) \<longrightarrow> granted view s n e c c')"
proof -
  show ?thesis
    using assms(2)
  proof (cases rule: claim_stage_cases)
    case (ended a)
    then show ?thesis using assms(4) by simp
  next
    case (fresh k)
    then show ?thesis
      using assms(3,4)
      by (cases k) (auto simp: get_str_def try_err_def try_ok_def split: sum.splits option.splits)
  next
    case (peek k)
    then have c': "c' = c" using assms(3) by (auto simp: claim_free_epoch_def get_str_def)
    show ?thesis
    proof (cases "et_get cl c (epoch_of s)")
      case (Inr x)
      note got = documented_get [OF assms(1) Inr]
      then show ?thesis
        using peek assms(3) Inr c' informed_read [OF assms(1)] informed_absent [OF assms(1)]
        by (auto simp: claim_free_epoch_def get_str_def try_err_def try_ok_def claim_commit_def [of self s n _ 0 0, symmetric]
            split: sum.splits option.splits)
    qed (use peek assms(3) in \<open>auto simp: claim_free_epoch_def get_str_def try_err_def\<close>)
  next
    case (commit k e r)
    then show ?thesis
      using claim_commit_advance [OF assms(1) commit(2) assms(3) [unfolded commit(1)]] by auto
  next
    case (held b)
    then show ?thesis
      using assms(3)
      by (auto simp: claim_held_epoch_def get_str_def try_err_def Let_def split: sum.splits)
  qed
qed

end
