(* ===== verification/Etcd_Fencing.thy ===== *)
theory Etcd_Fencing
  imports Etcd_Interleaving
begin

text \<open>
  The invariants of a run of the cluster, and what follows: the epochs of a scope
  are handed out once and in order, a published key stays, and only the owner of a
  scope names its standbys.
\<close>

section \<open>What a step does to the cluster\<close>

text \<open>Epochs, keys and lists of standbys are not written under a lease.\<close>

definition cluster_ok :: "keyspace \<Rightarrow> bool" where
  "cluster_ok w \<longleftrightarrow>
     (\<forall>s x. w (epoch_of s) = Some x \<longrightarrow> kv_lease x = None) \<and>
     (\<forall>n x. w (key_of n) = Some x \<longrightarrow> kv_lease x = None) \<and>
     (\<forall>s x. w (standbys_of s) = Some x \<longrightarrow> kv_lease x = None)"

definition drift :: "('c \<Rightarrow> keyspace) \<Rightarrow> ('c \<Rightarrow> int) \<Rightarrow> 'c \<Rightarrow> 'c \<Rightarrow> bool" where
  "drift view now c c' \<longleftrightarrow> now c \<le> now c' \<and>
     (view c' = view c \<or> (\<exists>l. view c' = expire l (view c)) \<or>
      (\<exists>self rq cs ops. request_writes self rq cs ops \<and> list_all (compare_holds (view c)) cs \<and>
         view c' = apply_ops (now c + 1) ops (view c)))"

lemma expire_kept: "(\<And>x. w k = Some x \<Longrightarrow> kv_lease x = None) \<Longrightarrow> expire l w k = w k"
  by (auto simp: expire_def split: option.split)

lemma expire_value: "value_at (expire l w) k \<in> {None, value_at w k}"
  by (auto simp: expire_def value_at_def split: option.split)

lemma expire_epoch [simp]: "cluster_ok w \<Longrightarrow> expire l w (epoch_of s) = w (epoch_of s)"
  "cluster_ok w \<Longrightarrow> expire l w (key_of n) = w (key_of n)"
  "cluster_ok w \<Longrightarrow> expire l w (standbys_of s) = w (standbys_of s)"
  by (auto simp: cluster_ok_def intro!: expire_kept)

lemma cluster_ok_writes:
  "request_writes self rq cs ops \<Longrightarrow> cluster_ok w \<Longrightarrow> cluster_ok (apply_ops t ops w)"
  by (cases rq) (auto simp: cluster_ok_def split: if_splits)

lemma cluster_ok_expire: "cluster_ok w \<Longrightarrow> cluster_ok (expire l w)"
  by (auto simp: cluster_ok_def expire_def split: option.splits if_splits)

lemma cluster_ok_drift: "drift view now c c' \<Longrightarrow> cluster_ok (view c) \<Longrightarrow> cluster_ok (view c')"
  by (auto simp: drift_def cluster_ok_expire cluster_ok_writes)

lemma request_epoch:
  "request_writes self rq cs ops \<Longrightarrow> \<nexists>n. rq = Rq_claim s n \<Longrightarrow>
   apply_ops t ops w (epoch_of s) = w (epoch_of s) \<and>
   value_at (apply_ops t ops w) (holder_of s) \<in> {None, value_at w (holder_of s)}"
  by (cases rq) (auto simp: value_at_def)

lemma request_epoch_claim:
  "request_writes self (Rq_claim s n) cs ops \<Longrightarrow> mod_rev (apply_ops t ops w) (epoch_of s) = t"
  by (auto simp: mod_rev_def)

lemma epoch_at_cong: "w' (epoch_of s) = w (epoch_of s) \<Longrightarrow> epoch_at w' s = epoch_at w s"
  by (simp add: epoch_at_def)

lemma mod_rev_cong: "w' k = w k \<Longrightarrow> mod_rev w' k = mod_rev w k"
  by (simp add: mod_rev_def)

lemma informed_drift:
  assumes "drift view now c c'" "cluster_ok (view c)" "informed view now s e r c"
  shows "informed view now s e r c'"
proof -
  consider (same) "view c' (epoch_of s) = view c (epoch_of s)"
    | (newer) "mod_rev (view c') (epoch_of s) = now c + 1"
  proof -
    have "view c' (epoch_of s) = view c (epoch_of s) \<or> mod_rev (view c') (epoch_of s) = now c + 1"
      if "request_writes self rq cs ops" "view c' = apply_ops (now c + 1) ops (view c)" for self rq cs ops
      using request_epoch [OF that(1), of s] request_epoch_claim that
      by (cases "\<exists>n. rq = Rq_claim s n") auto
    moreover have "view c' (epoch_of s) = view c (epoch_of s)" if "view c' = view c \<or> view c' = expire l (view c)" for l
      using that assms(2) by auto
    ultimately show thesis using assms(1) same newer unfolding drift_def by blast
  qed
  then show ?thesis
  proof cases
    case same
    then show ?thesis
      using assms(1,3) epoch_at_cong [of "view c'" s "view c"] mod_rev_cong [of "view c'" "epoch_of s" "view c"]
      by (simp add: same informed_def drift_def)
  next
    case newer
    then show ?thesis using assms(1,3) by (simp add: informed_def drift_def)
  qed
qed

lemma claim_stage_drift:
  assumes "drift view now c c'" "cluster_ok (view c)" "claim_stage view now self s n c q"
  shows "claim_stage view now self s n c' q"
  using assms(3) informed_drift [OF assms(1,2)] unfolding claim_stage_def Let_def by blast

section \<open>The invariant of a run\<close>

definition running_ok :: "('c \<Rightarrow> keyspace) \<Rightarrow> ('c \<Rightarrow> int) \<Rightarrow> 'c etcd_world \<Rightarrow> bool" where
  "running_ok view now w \<longleftrightarrow>
     (\<forall>i self rq p. w_running w i = Some (self, rq, p) \<longrightarrow>
        writes_ok (request_writes self rq) p \<and> (\<nexists>a. p = Ret a) \<and>
        (\<forall>s n. rq = Rq_claim s n \<longrightarrow>
           (\<exists>q. p = map_prog Ans_claim q \<and> claim_stage view now self s n (w_cluster w) q)))"

lemma advance_map: "advance cl (map_prog g q) c = (map_prog g (fst (advance cl q c)), snd (advance cl q c))"
  by (cases q) (simp_all split: prod.split)

lemma turn_drift:
  assumes "etcd_documented cl view now" "writes_ok (request_writes self rq) p"
    and "advance cl p c = (p', c')"
  shows "drift view now c c'"
  using advance_effect [OF assms(1,3)] writes_ok_next [OF assms(2)] unfolding drift_def by blast

lemma step_drift:
  assumes "etcd_documented cl view now" "running_ok view now w" "etcd_step cl view now js w w'"
  shows "drift view now (w_cluster w) (w_cluster w')"
  using assms(3)
proof cases
  case (step_turn i self rq p p' c')
  note run = assms(2) [unfolded running_ok_def, rule_format, OF step_turn(2)]
  show ?thesis
    using turn_drift [OF assms(1) run [THEN conjunct1] step_turn(3)] step_turn(1) by simp
qed (auto simp: drift_def)

lemma running_ok_settle:
  assumes "running_ok view now w" "drift view now (w_cluster w) c'" "cluster_ok (view (w_cluster w))"
    and "writes_ok (request_writes self rq) p"
    and "\<And>s n. rq = Rq_claim s n \<Longrightarrow> \<exists>q. p = map_prog Ans_claim q \<and> claim_stage view now self s n c' q"
  shows "running_ok view now (settle i self rq p (w\<lparr>w_cluster := c'\<rparr>))"
  unfolding running_ok_def
proof (intro allI impI)
  fix j self' rq' p'
  assume run: "w_running (settle i self rq p (w\<lparr>w_cluster := c'\<rparr>)) j = Some (self', rq', p')"
  show "writes_ok (request_writes self' rq') p' \<and> (\<nexists>a. p' = Ret a) \<and>
    (\<forall>s n. rq' = Rq_claim s n \<longrightarrow> (\<exists>q. p' = map_prog Ans_claim q \<and>
       claim_stage view now self' s n (w_cluster (settle i self rq p (w\<lparr>w_cluster := c'\<rparr>))) q))"
  proof (cases "j = i")
    case True
    then show ?thesis using run assms(4,5) by (auto split: prog.splits)
  next
    case False
    then have "w_running w j = Some (self', rq', p')" using run by simp
    then show ?thesis
      using assms(1) claim_stage_drift [OF assms(2,3)] unfolding running_ok_def settle_simps by fastforce
  qed
qed

lemma etcd_call_stage: "\<exists>q. etcd_call js self (Rq_claim s n) = map_prog Ans_claim q \<and> claim_stage view now self s n c q"
  by (auto simp: etcd_claim_def)

lemma map_prog_Ret: "map_prog g q = Ret a \<longleftrightarrow> (\<exists>b. q = Ret b \<and> a = g b)"
  "Ret a = map_prog g q \<longleftrightarrow> (\<exists>b. q = Ret b \<and> a = g b)"
  by (cases q; auto)+

lemma running_ok_step:
  assumes "etcd_documented cl view now" "running_ok view now w" "cluster_ok (view (w_cluster w))"
    and "etcd_step cl view now js w w'"
  shows "running_ok view now w'"
  using assms(4)
proof cases
  case (step_begin i self rq)
  have "running_ok view now (settle i self rq (etcd_call js self rq) (w\<lparr>w_cluster := w_cluster w\<rparr>))"
    using assms(2,3) etcd_call_writes etcd_call_stage
    by (intro running_ok_settle) (auto simp: drift_def simp del: etcd_call.simps)
  then show ?thesis using step_begin(1) by simp
next
  case (step_turn i self rq p p' c')
  note run = assms(2) [unfolded running_ok_def, rule_format, OF step_turn(2)]
  have "\<exists>q'. p' = map_prog Ans_claim q' \<and> claim_stage view now self s n c' q'" if rq: "rq = Rq_claim s n" for s n
  proof -
    obtain q where q: "p = map_prog Ans_claim q" "claim_stage view now self s n (w_cluster w) q"
      using run rq by blast
    moreover have "\<nexists>a. q = Ret a" using run q(1) by auto
    ultimately show ?thesis
      using claim_stage_advance [OF assms(1) q(2), of "fst (advance cl q (w_cluster w))"] step_turn(3)
      by (auto simp: advance_map)
  qed
  then show ?thesis
    using step_turn(1) run turn_drift [OF assms(1) _ step_turn(3)] writes_ok_advance [OF _ step_turn(3)] assms(2,3)
    by (auto intro!: running_ok_settle)
next
  case (step_die i)
  then show ?thesis using assms(2) by (auto simp: running_ok_def)
next
  case (step_expire c' l)
  then have "drift view now (w_cluster w) c'" by (auto simp: drift_def)
  from claim_stage_drift [OF this assms(3)] show ?thesis
    using assms(2) step_expire(1) unfolding running_ok_def by fastforce
qed

lemma run_ok:
  assumes "etcd_documented cl view now" "cluster_ok (view c)" "etcd_run cl view now js (at_rest c) w"
  shows "running_ok view now w \<and> cluster_ok (view (w_cluster w))"
  using assms(3) unfolding etcd_run_def
proof (induction rule: rtranclp_induct)
  case base
  then show ?case using assms(2) by (simp add: at_rest_def running_ok_def)
next
  case (step w w')
  then show ?case
    using running_ok_step [OF assms(1)] cluster_ok_drift [OF step_drift [OF assms(1)]] by blast
qed

section \<open>Epochs\<close>

text \<open>The claims on a scope that were granted, in the order in which the nodes were told.\<close>

fun claim_entry :: "owned_scope \<Rightarrow> etcd_self \<times> request \<times> answer \<Rightarrow> (node_id \<times> u64) option" where
  "claim_entry s (self, Rq_claim s' n, Ans_claim (Inr (Claimed e))) = (if s' = s then Some (n, e) else None)"
| "claim_entry s _ = None"

definition claims_of :: "owned_scope \<Rightarrow> 'c etcd_world \<Rightarrow> (node_id \<times> u64) list" where
  "claims_of s w = List.map_filter (claim_entry s) (w_log w)"

lemma claim_entry_Some:
  "claim_entry s (self, rq, a) = Some (n, e) \<longleftrightarrow> rq = Rq_claim s n \<and> a = Ans_claim (Inr (Claimed e))"
  by (cases "(s, self, rq, a)" rule: claim_entry.cases) auto

lemma map_filter_append: "List.map_filter f (xs @ ys) = List.map_filter f xs @ List.map_filter f ys"
  by (simp add: List.map_filter_def)

lemma claims_of_settle:
  "claims_of s (settle i self rq p w) =
     claims_of s w @ (case p of Ret a \<Rightarrow> List.map_filter (claim_entry s) [(self, rq, a)] | _ \<Rightarrow> [])"
  by (simp add: claims_of_def map_filter_append split: prog.split)

lemma claims_of_update [simp]:
  "claims_of s (w\<lparr>w_cluster := c\<rparr>) = claims_of s w" "claims_of s (w\<lparr>w_running := r\<rparr>) = claims_of s w"
  by (simp_all add: claims_of_def)

text \<open>What a step does to one scope: nothing but, perhaps, losing its holder; or one
  claim wins it, with the next epoch.\<close>

definition quiet :: "('c \<Rightarrow> keyspace) \<Rightarrow> owned_scope \<Rightarrow> 'c etcd_world \<Rightarrow> 'c etcd_world \<Rightarrow> bool" where
  "quiet view s w w' \<longleftrightarrow>
     epoch_at (view (w_cluster w')) s = epoch_at (view (w_cluster w)) s \<and>
     value_at (view (w_cluster w')) (holder_of s) \<in> {None, value_at (view (w_cluster w)) (holder_of s)} \<and>
     claims_of s w' = claims_of s w"

definition won ::
  "('c \<Rightarrow> keyspace) \<Rightarrow> owned_scope \<Rightarrow> node_id \<Rightarrow> 'c etcd_world \<Rightarrow> 'c etcd_world \<Rightarrow> bool" where
  "won view s n w w' \<longleftrightarrow>
     granted view s n (epoch_at (view (w_cluster w)) s + 1) (w_cluster w) (w_cluster w') \<and>
     claims_of s w' \<in> {claims_of s w, claims_of s w @ [(n, epoch_at (view (w_cluster w)) s + 1)]}"

lemma claim_turn:
  assumes "etcd_documented cl view now" "claim_stage view now self s n c q"
    and "advance cl q c = (q', c')" "\<nexists>a. q = Ret a"
  shows "(view c' = view c \<and> (\<nexists>e. q' = Ret (Inr (Claimed e)))) \<or>
    (granted view s n (epoch_at (view c) s + 1) c c' \<and>
     (\<forall>e. q' = Ret (Inr (Claimed e)) \<longrightarrow> e = epoch_at (view c) s + 1))"
proof (cases "view c' = view c")
  case True
  have "\<not> granted view s n e c c'" for e
    using True by (simp add: granted_def)
  then show ?thesis using True claim_stage_advance [OF assms] by blast
next
  case False
  then obtain cs ops where eff: "next_write q = Some (cs, ops)" "list_all (compare_holds (view c)) cs"
      "view c' = apply_ops (now c + 1) ops (view c)"
    using advance_effect [OF assms(1,3)] by blast
  obtain k e r where q: "q = claim_commit self s n (claim_attempts self s n k) e r" "informed view now s e r c"
    using assms(2)
  proof (cases rule: claim_stage_cases)
    case (commit k e r)
    then show thesis using that by blast
  qed (use eff(1) in simp_all)
  then have "granted view s n (epoch_at (view c) s + 1) c c'"
    using eff(2,3) q(2) eff(1) [unfolded q(1)]
    by (clarsimp simp: claim_commit_def Let_def granted_def informed_def)
  moreover have "e' = epoch_at (view c) s + 1" if "q' = Ret (Inr (Claimed e'))" for e'
    using claim_stage_advance [OF assms, THEN conjunct2, rule_format, OF that] by (simp add: granted_def)
  ultimately show ?thesis by blast
qed

lemma expire_quiet:
  "cluster_ok w \<Longrightarrow> epoch_at (expire l w) s = epoch_at w s \<and>
   value_at (expire l w) (holder_of s) \<in> {None, value_at w (holder_of s)}"
  using expire_value expire_epoch(1) by (simp add: epoch_at_def)

lemma turn_scope:
  assumes "etcd_documented cl view now" "running_ok view now w"
    and "w_running w i = Some (self, rq, p)" "advance cl p (w_cluster w) = (p', c')"
  shows "quiet view s w (settle i self rq p' (w\<lparr>w_cluster := c'\<rparr>)) \<or>
    (\<exists>n. won view s n w (settle i self rq p' (w\<lparr>w_cluster := c'\<rparr>)))"
proof -
  note run = assms(2) [unfolded running_ok_def, rule_format, OF assms(3)]
  have eff: "view c' = view (w_cluster w) \<or> (\<exists>cs ops. request_writes self rq cs ops \<and>
      view c' = apply_ops (now (w_cluster w) + 1) ops (view (w_cluster w)))"
    using advance_effect [OF assms(1,4)] writes_ok_next [of "request_writes self rq"] run by blast
  show ?thesis
  proof (cases "\<exists>n. rq = Rq_claim s n")
    case True
    then obtain n q where q: "rq = Rq_claim s n" "p = map_prog Ans_claim q"
        "claim_stage view now self s n (w_cluster w) q" using run by blast
    then obtain q' where q': "p' = map_prog Ans_claim q'" "advance cl q (w_cluster w) = (q', c')"
      using assms(4) by (auto simp: advance_map intro!: prod_eqI)
    have "\<nexists>a. q = Ret a" using run q(2) by auto
    note turn = claim_turn [OF assms(1) q(3) q'(2) this]
    have new: "claims_of s (settle i self rq p' (w\<lparr>w_cluster := c'\<rparr>)) =
        claims_of s w @ (case q' of Ret (Inr (Claimed e)) \<Rightarrow> [(n, e)] | _ \<Rightarrow> [])"
      using q(1) q'(1)
      by (cases q') (auto simp: claims_of_settle map_filter_simps split: sum.split claim_outcome.split)
    show ?thesis
      using turn new
      by (cases "\<exists>e. q' = Ret (Inr (Claimed e))")
         (auto simp: quiet_def won_def split: prog.splits sum.splits claim_outcome.splits)
  next
    case False
    have "claims_of s (settle i self rq p' (w\<lparr>w_cluster := c'\<rparr>)) = claims_of s w"
      using False by (auto simp: claims_of_settle map_filter_simps claim_entry_Some
          split: prog.split option.split)
    moreover have "view c' (epoch_of s) = view (w_cluster w) (epoch_of s) \<and>
        value_at (view c') (holder_of s) \<in> {None, value_at (view (w_cluster w)) (holder_of s)}"
      using eff by (elim disjE exE conjE) (simp, metis request_epoch False)
    ultimately show ?thesis by (simp add: quiet_def epoch_at_def)
  qed
qed

lemma step_scope:
  assumes "etcd_documented cl view now" "running_ok view now w" "cluster_ok (view (w_cluster w))"
    and "etcd_step cl view now js w w'"
  shows "quiet view s w w' \<or>
    (epoch_at (view (w_cluster w)) s + 1 \<noteq> 0 \<and> (\<exists>n. won view s n w w'))"
  using assms(4)
proof cases
  case (step_begin i self rq)
  have "\<nexists>e. etcd_call js self rq = Ret (Ans_claim (Inr (Claimed e)))"
    by (cases rq) (auto simp: etcd_claim_def map_prog_Ret)
  then have "claims_of s w' = claims_of s w"
    unfolding step_begin(1) claims_of_settle
    by (auto simp: map_filter_simps claim_entry_Some split: prog.split option.split)
  then show ?thesis using step_begin(1) by (simp add: quiet_def)
next
  case (step_turn i self rq p p' c')
  show ?thesis using turn_scope [OF assms(1,2) step_turn(2,3), of s] step_turn(1) step_turn(4) [of s] by blast
next
  case (step_die i)
  then show ?thesis by (simp add: quiet_def)
next
  case (step_expire c' l)
  then show ?thesis using expire_quiet [OF assms(3), of l s] by (simp add: quiet_def)
qed

text \<open>The state of a scope in a run that began at epoch \<open>e0\<close>: the grants are in strictly
  increasing order, none is above the epoch on record, and the one at that epoch, if
  it is still on record, names the holder.\<close>

definition fenced :: "('c \<Rightarrow> keyspace) \<Rightarrow> owned_scope \<Rightarrow> u64 \<Rightarrow> 'c etcd_world \<Rightarrow> bool" where
  "fenced view s e0 w \<longleftrightarrow>
     sorted_wrt (<) (e0 # map snd (claims_of s w)) \<and>
     (\<forall>(n, e)\<in>set (claims_of s w). e \<le> epoch_at (view (w_cluster w)) s \<and>
        (e = epoch_at (view (w_cluster w)) s \<longrightarrow>
           value_at (view (w_cluster w)) (holder_of s) \<in> {None, Some (dec_nat (unat (node_id_val n)))})) \<and>
     e0 \<le> epoch_at (view (w_cluster w)) s"

lemma fenced_quiet: "quiet view s w w' \<Longrightarrow> fenced view s e0 w \<Longrightarrow> fenced view s e0 w'"
  by (fastforce simp: quiet_def fenced_def)

lemma succ_greater: "(e :: u64) + 1 \<noteq> 0 \<Longrightarrow> e' \<le> e \<Longrightarrow> e' < e + 1"
  by (simp add: word_less_nat_alt word_le_nat_alt unatSuc add.commute)

lemma fenced_won:
  assumes "won view s n w w'" "fenced view s e0 w" "epoch_at (view (w_cluster w)) s + 1 \<noteq> 0"
  shows "fenced view s e0 w'"
proof -
  let ?e = "epoch_at (view (w_cluster w)) s"
  have at: "epoch_at (view (w_cluster w')) s = ?e + 1"
      "value_at (view (w_cluster w')) (holder_of s) = Some (dec_nat (unat (node_id_val n)))"
    using assms(1) by (simp_all add: won_def granted_def)
  have below: "e' < ?e + 1" if "e' \<in> set (e0 # map snd (claims_of s w))" for e'
    using that assms(2) succ_greater [OF assms(3)] by (auto simp: fenced_def)
  then have "sorted_wrt (<) (e0 # map snd (claims_of s w'))"
    using assms(1,2) by (auto simp: won_def fenced_def sorted_wrt_append)
  moreover have "e \<le> ?e + 1 \<and> (e = ?e + 1 \<longrightarrow> m = n)" if "(m, e) \<in> set (claims_of s w')" for m e
  proof -
    have "(m, e) \<in> set (claims_of s w) \<or> (m = n \<and> e = ?e + 1)" using that assms(1) by (auto simp: won_def)
    then show ?thesis using below [of e] by force
  qed
  moreover have "e0 \<le> ?e + 1" using below [of e0] by simp
  ultimately show ?thesis by (auto simp: fenced_def at)
qed

lemma run_fenced:
  assumes "etcd_documented cl view now" "cluster_ok (view c)" "etcd_run cl view now js (at_rest c) w"
  shows "fenced view s (epoch_at (view c) s) w"
  using assms(3) unfolding etcd_run_def
proof (induction rule: rtranclp_induct)
  case base
  then show ?case by (simp add: fenced_def at_rest_def claims_of_def map_filter_simps)
next
  case (step w w')
  have "running_ok view now w \<and> cluster_ok (view (w_cluster w))"
    using run_ok [OF assms(1,2)] step.hyps(1) by (simp add: etcd_run_def)
  then show ?case
    using step_scope [OF assms(1) _ _ step.hyps(2)] step.IH fenced_quiet fenced_won by blast
qed

section \<open>Published keys\<close>

text \<open>The first key published for a node is written only where there was none.\<close>

lemma key_kept_drift:
  assumes "etcd_documented cl view now" "drift view now c c'" "cluster_ok (view c)"
    and "view c (key_of n) = Some x"
  shows "view c' (key_of n) = Some x"
proof -
  note present = documented_create [where view = view, OF assms(1,4)]
  have "apply_ops t ops (view c) (key_of n) = view c (key_of n)"
    if "request_writes self rq cs ops" "list_all (compare_holds (view c)) cs" for self rq cs ops t
    using that present by (cases rq) auto
  then have "view c' (key_of n) = view c (key_of n)"
    using assms(2) expire_epoch(2) [OF assms(3)] unfolding drift_def by (elim conjE disjE exE) simp_all
  then show ?thesis using assms(4) by simp
qed

definition publish_stage :: "node_id \<Rightarrow> string \<Rightarrow> (registry_error + unit) prog \<Rightarrow> bool" where
  "publish_stage n h q \<longleftrightarrow> q = etcd_publish_key n h \<or> q = publish_commit n h \<or> (\<exists>a. q = Ret a)"

lemma publish_stage_simps [simp]:
  "publish_stage n h (Ret a)" "publish_stage n h (publish_commit n h)" "publish_stage n h (etcd_publish_key n h)"
  "publish_commit n h \<noteq> Ret a"
  by (simp_all add: publish_stage_def) (simp add: publish_commit_def)

lemma publish_turn:
  assumes "etcd_documented cl view now" "publish_stage n h q" "advance cl q c = (q', c')" "\<nexists>a. q = Ret a"
  shows "publish_stage n h q' \<and> (q' = Ret (Inr ()) \<longrightarrow> value_at (view c') (key_of n) = Some h)"
proof (cases "q = etcd_publish_key n h")
  case True
  have "q' = (case et_get cl c (key_of n) of
      Inl e \<Rightarrow> Ret (Inl (RegistryError e)) | Inr None \<Rightarrow> publish_commit n h
    | Inr (Some (existing, _)) \<Rightarrow> Ret (if existing = h then Inr () else Inl (RegistryError
        ''node key already published; refusing to overwrite it (first-write-wins)'')))" "c' = c"
    using assms(3) unfolding True
    by (auto simp: etcd_publish_key_def get_str_def try_err_def split: sum.split option.split)
  then show ?thesis
    using documented_get [OF assms(1), of c "key_of n"]
    by (cases "view c (key_of n)") (auto simp: value_at_def split: sum.split option.split)
next
  case False
  then have q: "q = publish_commit n h" using assms(2,4) by (auto simp: publish_stage_def)
  show ?thesis
    using assms(3) [unfolded q] documented_txn [OF assms(1), of "[Create_revision (key_of n) 0]" "[Op_put (key_of n) h None]" c]
    by (auto simp: publish_commit_def try_err_def txn_answer_def Let_def wrote_def
        split: sum.splits prod.splits if_splits)
qed

definition published_ok :: "('c \<Rightarrow> keyspace) \<Rightarrow> 'c etcd_world \<Rightarrow> bool" where
  "published_ok view w \<longleftrightarrow>
     (\<forall>i self n h p. w_running w i = Some (self, Rq_publish_key n h, p) \<longrightarrow>
        (\<exists>q. p = map_prog Ans_unit q \<and> publish_stage n h q)) \<and>
     (\<forall>self n h. (self, Rq_publish_key n h, Ans_unit (Inr ())) \<in> set (w_log w) \<longrightarrow>
        value_at (view (w_cluster w)) (key_of n) = Some h)"

lemma value_kept_drift:
  assumes "etcd_documented cl view now" "drift view now c c'" "cluster_ok (view c)"
    and "value_at (view c) (key_of n) = Some h"
  shows "value_at (view c') (key_of n) = Some h"
  using assms(4) key_kept_drift [OF assms(1-3)] by (fastforce simp: value_at_def)

lemma published_ok_settle:
  assumes "published_ok view w"
    and "\<And>n h. value_at (view (w_cluster w)) (key_of n) = Some h \<Longrightarrow> value_at (view c') (key_of n) = Some h"
    and "\<And>n h. rq = Rq_publish_key n h \<Longrightarrow> \<exists>q. p = map_prog Ans_unit q \<and> publish_stage n h q \<and>
       (q = Ret (Inr ()) \<longrightarrow> value_at (view c') (key_of n) = Some h)"
  shows "published_ok view (settle i self rq p (w\<lparr>w_cluster := c'\<rparr>))"
  using assms(1,2) assms(3) [THEN exE]
  by (auto simp: published_ok_def map_prog_Ret split: prog.splits if_splits dest!: assms(3))

lemma publish_not_Ret [simp]: "etcd_publish_key n h \<noteq> Ret a"
  by (simp add: etcd_publish_key_def get_str_def)

lemma published_ok_step:
  assumes "etcd_documented cl view now" "running_ok view now w" "cluster_ok (view (w_cluster w))"
    and "published_ok view w" "etcd_step cl view now js w w'"
  shows "published_ok view w'"
proof -
  note kept = value_kept_drift [OF assms(1) step_drift [OF assms(1,2,5)] assms(3)]
  from assms(5) show ?thesis
  proof cases
    case (step_begin i self rq)
    have "published_ok view (settle i self rq (etcd_call js self rq) (w\<lparr>w_cluster := w_cluster w\<rparr>))"
      using assms(4)
      by (rule published_ok_settle) (simp, metis etcd_call.simps(5) publish_stage_simps(3) publish_not_Ret)
    then show ?thesis using step_begin(1) by simp
  next
    case (step_turn i self rq p p' c')
    have "\<exists>q'. p' = map_prog Ans_unit q' \<and> publish_stage n h q' \<and>
        (q' = Ret (Inr ()) \<longrightarrow> value_at (view c') (key_of n) = Some h)" if rq: "rq = Rq_publish_key n h" for n h
    proof -
      obtain q where q: "p = map_prog Ans_unit q" "publish_stage n h q"
        using assms(4) step_turn(2) rq unfolding published_ok_def by blast
      have "\<nexists>a. q = Ret a"
        using assms(2) [unfolded running_ok_def, rule_format, OF step_turn(2)] q(1) by auto
      note over = publish_turn [OF assms(1) q(2) surjective_pairing this]
      have "p' = map_prog Ans_unit (fst (advance cl q (w_cluster w)))" "c' = snd (advance cl q (w_cluster w))"
        using step_turn(3) q(1) by (simp_all add: advance_map)
      then show ?thesis using over by blast
    qed
    then show ?thesis
      unfolding step_turn(1) using assms(4) kept [unfolded step_turn(1)] by (intro published_ok_settle) auto
  next
    case (step_die i)
    then show ?thesis using assms(4) unfolding published_ok_def by (auto split: if_splits)
  next
    case (step_expire c' l)
    then show ?thesis using assms(4) kept by (auto simp: published_ok_def)
  qed
qed

lemma run_published:
  assumes "etcd_documented cl view now" "cluster_ok (view c)" "etcd_run cl view now js (at_rest c) w"
  shows "published_ok view w"
  using assms(3) unfolding etcd_run_def
proof (induction rule: rtranclp_induct)
  case base
  then show ?case by (simp add: published_ok_def at_rest_def)
next
  case (step w w')
  have "running_ok view now w \<and> cluster_ok (view (w_cluster w))"
    using run_ok [OF assms(1,2)] step.hyps(1) by (simp add: etcd_run_def)
  then show ?case using published_ok_step [OF assms(1) _ _ step.IH step.hyps(2)] by blast
qed

lemma run_key_kept:
  assumes "etcd_documented cl view now" "cluster_ok (view c)" "etcd_run cl view now js (at_rest c) w"
    and "etcd_run cl view now js w w'" "value_at (view (w_cluster w)) (key_of n) = Some h"
  shows "value_at (view (w_cluster w')) (key_of n) = Some h"
  using assms(4,5,3) unfolding etcd_run_def
proof (induction rule: rtranclp_induct)
  case (step u u')
  have "etcd_run cl view now js (at_rest c) u"
    using step.prems(2) step.hyps(1) by (simp add: etcd_run_def)
  then show ?case
    using value_kept_drift [OF assms(1) step_drift [OF assms(1) _ step.hyps(2)]] run_ok [OF assms(1,2)]
      step.IH step.prems by blast
qed simp

section \<open>Standbys\<close>

lemma request_standbys:
  assumes "request_writes self rq cs ops" "apply_ops t ops w (standbys_of s) \<noteq> w (standbys_of s)"
  obtains n where "rq = Rq_set_standby s n"
    "cs = [Value_equal (holder_of s) (dec_nat (unat (node_id_val (es_node self))))]"
  using assms by (cases rq) (auto split: if_splits)

lemma step_standbys:
  assumes "etcd_documented cl view now" "cluster_ok (view c)" "etcd_run cl view now js (at_rest c) w"
    and "etcd_step cl view now js w w'"
    and "view (w_cluster w') (standbys_of s) \<noteq> view (w_cluster w) (standbys_of s)"
  shows "\<exists>i self n p. w_running w i = Some (self, Rq_set_standby s n, p) \<and>
    value_at (view (w_cluster w)) (holder_of s) = Some (dec_nat (unat (node_id_val (es_node self))))"
  using assms(4)
proof cases
  case (step_turn i self rq p p' c')
  have "view c' (standbys_of s) \<noteq> view (w_cluster w) (standbys_of s)" using assms(5) step_turn(1) by simp
  then obtain cs ops where w: "next_write p = Some (cs, ops)" "list_all (compare_holds (view (w_cluster w))) cs"
      "view c' = apply_ops (now (w_cluster w) + 1) ops (view (w_cluster w))"
    using advance_effect [OF assms(1) step_turn(3)] by auto
  have rw: "request_writes self rq cs ops"
    using writes_ok_next [OF running_writes [OF assms(3) step_turn(2)] w(1)] .
  obtain n where n: "rq = Rq_set_standby s n"
      "cs = [Value_equal (holder_of s) (dec_nat (unat (node_id_val (es_node self))))]"
    using request_standbys [OF rw, of "now (w_cluster w) + 1" "view (w_cluster w)" s] w(3)
      \<open>view c' (standbys_of s) \<noteq> view (w_cluster w) (standbys_of s)\<close> by auto
  show ?thesis using step_turn(2) n w(2) by auto
next
  case (step_expire c' l)
  have "cluster_ok (view (w_cluster w))" using run_ok [OF assms(1-3)] by simp
  then show ?thesis using step_expire assms(5) by simp
qed (use assms(5) in simp_all)

end
