(* ===== verification/Etcd_Contract.thy ===== *)
theory Etcd_Contract
  imports Etcd_Fencing
begin

text \<open>
  The etcd registry keeps the promise of the trait. Where the cluster answers and
  nobody acts between the calls of one operation, each operation is a function of
  the key space, and the laws of \<open>ownership_registry\<close> hold of it; so everything
  proved of a registry inside that locale holds of this one.
\<close>

section \<open>One operation at a time\<close>

definition etcd_answers :: "'c etcd_client \<Rightarrow> bool" where
  "etcd_answers cl \<longleftrightarrow>
     (\<forall>c k e. et_get cl c k \<noteq> Inl e) \<and> (\<forall>k v l c e. fst (et_put cl k v l c) \<noteq> Inl e) \<and>
     (\<forall>k c e. fst (et_delete cl k c) \<noteq> Inl e) \<and> (\<forall>cs ops c e. fst (et_txn cl cs ops c) \<noteq> Inl e)"

abbreviation found_at :: "keyspace \<Rightarrow> string \<Rightarrow> (string \<times> int) option" where
  "found_at w k \<equiv> map_option (\<lambda>x. (kv_value x, kv_mod x)) (w k)"

lemma run_get_str:
  assumes "etcd_documented cl view now" "etcd_answers cl"
  shows "run_prog cl (get_str k f) c = run_prog cl (f (found_at (view c) k)) c"
proof -
  obtain x where "et_get cl c k = Inr x" using assms(2) unfolding etcd_answers_def by (metis sum.exhaust)
  then show ?thesis using documented_get [OF assms(1)] by (simp add: get_str_def try_err_def)
qed

text \<open>What a transaction gives, and the cluster it leaves.\<close>

lemma run_commit:
  assumes "etcd_documented cl view now" "etcd_answers cl"
  obtains c' where
    "run_prog cl (Commit cs ops f) c =
       run_prog cl (f (Inr (list_all (compare_holds (view c)) cs))) c'"
    "view c' = (if list_all (compare_holds (view c)) cs then apply_ops (now c + 1) ops (view c) else view c)"
proof -
  obtain b c' where t: "et_txn cl cs ops c = (Inr b, c')"
    using assms(2) unfolding etcd_answers_def by (metis prod.collapse sum.exhaust)
  have "txn_answer view now cs ops c (et_txn cl cs ops c)" by (rule documented_txn [OF assms(1)])
  then show thesis
    using that [of c'] t by (auto simp: txn_answer_def Let_def wrote_def untouched_def split: if_splits)
qed

lemma run_put:
  assumes "etcd_documented cl view now" "etcd_answers cl"
  obtains c' where "run_prog cl (Put k v l f) c = run_prog cl (f (Inr ())) c'"
    "view c' = apply_ops (now c + 1) [Op_put k v l] (view c)"
proof -
  obtain u c' where t: "et_put cl k v l c = (Inr u, c')"
    using assms(2) unfolding etcd_answers_def by (metis prod.collapse sum.exhaust)
  have "write_answer view now [Op_put k v l] c (et_put cl k v l c)"
    using assms(1) unfolding etcd_documented_def by blast
  then show thesis using that [of c'] t by (simp add: write_answer_def wrote_def)
qed

lemma run_delete:
  assumes "etcd_documented cl view now" "etcd_answers cl"
  obtains c' where "run_prog cl (Delete k f) c = run_prog cl (f (Inr ())) c'"
    "view c' = apply_ops (now c + 1) [Op_delete k] (view c)"
proof -
  obtain u c' where t: "et_delete cl k c = (Inr u, c')"
    using assms(2) unfolding etcd_answers_def by (metis prod.collapse sum.exhaust)
  have "write_answer view now [Op_delete k] c (et_delete cl k c)"
    using assms(1) unfolding etcd_documented_def by blast
  then show thesis using that [of c'] t by (simp add: write_answer_def wrote_def)
qed

section \<open>Owners\<close>

text \<open>Who owns a scope, as the key space has it.\<close>

definition owner_from :: "owned_scope \<Rightarrow> string option \<Rightarrow> string option \<Rightarrow> registry_error + ownership option" where
  "owner_from s holder epoch =
     (case holder of
        None \<Rightarrow> Inr None
      | Some h \<Rightarrow>
          (case parse_int 16 h of
             Inl e \<Rightarrow> Inl e
           | Inr n \<Rightarrow>
               (case (case epoch of None \<Rightarrow> Inr 0 | Some e \<Rightarrow> parse_int 64 e) of
                  Inl e \<Rightarrow> Inl e
                | Inr m \<Rightarrow> Inr (Some \<lparr> ow_scope = s, ow_owner = NodeId (of_nat n), ow_epoch = of_nat m \<rparr>))))"

definition owner_view :: "keyspace \<Rightarrow> owned_scope \<Rightarrow> registry_error + ownership option" where
  "owner_view w s = owner_from s (value_at w (holder_of s)) (value_at w (epoch_of s))"

lemmas owner_view_unfold = owner_view_def owner_from_def

lemma owner_view_cong:
  "value_at w' (holder_of s) = value_at w (holder_of s) \<Longrightarrow>
   value_at w' (epoch_of s) = value_at w (epoch_of s) \<Longrightarrow> owner_view w' s = owner_view w s"
  by (simp add: owner_view_def)

lemma run_owner_of:
  assumes "etcd_documented cl view now" "etcd_answers cl"
  shows "fst (run_prog cl (etcd_owner_of s) c) = owner_view (view c) s"
  by (auto simp: etcd_owner_of_def run_get_str [OF assms] owner_view_unfold value_at_def try_ok_def
      split: option.split sum.split)

lemma owner_view_Some:
  "owner_view w s = Inr (Some ow) \<Longrightarrow> ow_scope ow = s \<and> ow_epoch ow = epoch_at w s"
  by (auto simp: owner_view_unfold epoch_at_def value_at_def split: option.splits sum.splits)

text \<open>A claim, by what the key space holds.\<close>

lemma first_attempt:
  "etcd_claim self s n = get_str (holder_of s) (\<lambda>held.
     case held of
       Some (holder, _) \<Rightarrow> try_ok (parse_int 16 holder) (claim_held_epoch s)
     | None \<Rightarrow> claim_free_epoch self s n (claim_attempts self s n 7))"
  using claim_attempts.simps(2) [of self s n 7] by (simp add: etcd_claim_def del: claim_attempts.simps)

lemma run_claim_held:
  assumes "etcd_documented cl view now" "etcd_answers cl" "value_at (view c) (holder_of s) \<noteq> None"
  shows "snd (run_prog cl (etcd_claim self s n) c) = c"
    and "owner_view (view c) s = Inr (Some ow) \<Longrightarrow>
      fst (run_prog cl (etcd_claim self s n) c) = Inr (Held (ow_owner ow) (ow_epoch ow))"
proof -
  have run: "run_prog cl (etcd_claim self s n) c =
      run_prog cl (try_ok (parse_int 16 (the (value_at (view c) (holder_of s)))) (claim_held_epoch s)) c"
    using assms(3) by (auto simp: first_attempt run_get_str [OF assms(1,2)] value_at_def split: option.split)
  show "snd (run_prog cl (etcd_claim self s n) c) = c"
    unfolding run by (auto simp: try_ok_def claim_held_epoch_def run_get_str [OF assms(1,2)] Let_def split: sum.split)
  show "owner_view (view c) s = Inr (Some ow) \<Longrightarrow>
      fst (run_prog cl (etcd_claim self s n) c) = Inr (Held (ow_owner ow) (ow_epoch ow))"
    unfolding run
    by (auto simp: try_ok_def claim_held_epoch_def run_get_str [OF assms(1,2)] Let_def owner_view_unfold value_at_def
        split: sum.splits option.splits)
qed

lemma run_claim_free:
  assumes "etcd_documented cl view now" "etcd_answers cl" "view c (holder_of s) = None"
  shows "(\<exists>e. fst (run_prog cl (etcd_claim self s n) c) = Inl e) \<and>
      view (snd (run_prog cl (etcd_claim self s n) c)) = view c \<or>
    fst (run_prog cl (etcd_claim self s n) c) = Inr (Claimed (epoch_at (view c) s + 1)) \<and>
    view (snd (run_prog cl (etcd_claim self s n) c)) =
      apply_ops (now c + 1)
        [Op_put (holder_of s) (dec_nat (unat (node_id_val n))) (Some (es_lease_id self)),
         Op_put (epoch_of s) (dec_u64 (epoch_at (view c) s + 1)) None] (view c)"
proof -
  let ?again = "claim_attempts self s n 7"
  have run: "run_prog cl (etcd_claim self s n) c = run_prog cl (claim_free_epoch self s n ?again) c"
    using assms(3) by (simp add: first_attempt run_get_str [OF assms(1,2)])
  have commit: "fst (run_prog cl (claim_commit self s n ?again e r) c) = Inr (Claimed (e + 1)) \<and>
      view (snd (run_prog cl (claim_commit self s n ?again e r) c)) =
        apply_ops (now c + 1)
          [Op_put (holder_of s) (dec_nat (unat (node_id_val n))) (Some (es_lease_id self)),
           Op_put (epoch_of s) (dec_u64 (e + 1)) None] (view c)"
    if "mod_rev (view c) (epoch_of s) = r" for e r
  proof -
    let ?cs = "[Create_revision (holder_of s) 0, Mod_revision (epoch_of s) r]"
    let ?ops = "[Op_put (holder_of s) (dec_nat (unat (node_id_val n))) (Some (es_lease_id self)),
        Op_put (epoch_of s) (dec_u64 (e + 1)) None]"
    let ?f = "\<lambda>r. try_err r (\<lambda>succeeded. if succeeded then Ret (Inr (Claimed (e + 1))) else ?again)"
    have holds: "list_all (compare_holds (view c)) ?cs" using that assms(3) by (simp add: create_rev_def)
    obtain c' where "run_prog cl (Commit ?cs ?ops ?f) c = run_prog cl (?f (Inr (list_all (compare_holds (view c)) ?cs))) c'"
        "view c' = (if list_all (compare_holds (view c)) ?cs then apply_ops (now c + 1) ?ops (view c) else view c)"
      by (rule run_commit [OF assms(1,2)])
    then have "run_prog cl (Commit ?cs ?ops ?f) c = (Inr (Claimed (e + 1)), c')"
        "view c' = apply_ops (now c + 1) ?ops (view c)"
      unfolding if_P [OF holds] eqTrueI [OF holds] by (simp_all add: try_err_def)
    then show ?thesis by (simp only: claim_commit_def Let_def fst_conv snd_conv simp_thms)
  qed
  show ?thesis
  proof (cases "view c (epoch_of s)")
    case None
    then show ?thesis
      using commit [of 0 0] run by (simp add: claim_free_epoch_def run_get_str [OF assms(1,2)] mod_rev_def epoch_at_def)
  next
    case (Some x)
    then show ?thesis
      using commit [of "kv_mod x"] run
      by (auto simp: claim_free_epoch_def run_get_str [OF assms(1,2)] mod_rev_def epoch_at_def try_ok_def split: sum.split)
  qed
qed

section \<open>The other operations\<close>

lemma run_release:
  assumes "etcd_documented cl view now" "etcd_answers cl"
  shows "view (snd (run_prog cl (etcd_release s n) c)) =
    (if value_at (view c) (holder_of s) = Some (dec_nat (unat (node_id_val n)))
     then (view c)(holder_of s := None) else view c)"
proof -
  let ?cs = "[Value_equal (holder_of s) (dec_nat (unat (node_id_val n)))]"
  let ?f = "\<lambda>r. try_err r (\<lambda>_. Ret (Inr ()))"
  obtain c' where "run_prog cl (Commit ?cs [Op_delete (holder_of s)] ?f) c =
        run_prog cl (?f (Inr (list_all (compare_holds (view c)) ?cs))) c'"
      "view c' = (if list_all (compare_holds (view c)) ?cs
        then apply_ops (now c + 1) [Op_delete (holder_of s)] (view c) else view c)"
    by (rule run_commit [OF assms])
  then show ?thesis unfolding etcd_release_def by (simp add: try_err_def del: run_prog.simps) (simp add: try_err_def)
qed

text \<open>Each of the others writes at most one key, of its own kind.\<close>

definition writes_at :: "('c \<Rightarrow> keyspace) \<Rightarrow> string \<Rightarrow> 'c \<Rightarrow> 'c \<Rightarrow> bool" where
  "writes_at view k c c' \<longleftrightarrow> (\<forall>k'. k' \<noteq> k \<longrightarrow> view c' k' = view c k')"

lemma writes_at_refl [simp]: "writes_at view k c c"
  by (simp add: writes_at_def)

lemma run_try_err:
  "snd (run_prog cl (try_err r f) c) = (case r of Inl e \<Rightarrow> c | Inr x \<Rightarrow> snd (run_prog cl (f x) c))"
  by (simp add: try_err_def split: sum.split)

lemma commit_writes_at:
  assumes "etcd_documented cl view now" "etcd_answers cl"
    and "\<And>b. \<exists>a. f (Inr b) = Ret a"
  shows "writes_at view k c (snd (run_prog cl (Commit cs [Op_put k v l] f) c))"
proof -
  obtain c' where c': "run_prog cl (Commit cs [Op_put k v l] f) c =
        run_prog cl (f (Inr (list_all (compare_holds (view c)) cs))) c'"
      "view c' = (if list_all (compare_holds (view c)) cs then apply_ops (now c + 1) [Op_put k v l] (view c) else view c)"
    by (rule run_commit [OF assms(1,2)])
  obtain a where "f (Inr (list_all (compare_holds (view c)) cs)) = Ret a" using assms(3) by blast
  then show ?thesis using c' by (simp add: writes_at_def del: run_prog.simps(6))
qed

lemma run_set_standby:
  assumes "etcd_documented cl view now" "etcd_answers cl"
  shows "writes_at view (standbys_of s) c (snd (run_prog cl (etcd_set_standby js self s n) c))"
  unfolding etcd_set_standby_def run_get_str [OF assms]
  by (auto simp: run_try_err simp del: run_prog.simps(6) split: sum.split
      intro!: commit_writes_at [OF assms]) (auto simp: try_err_def)

lemma run_set_rehoming:
  assumes "etcd_documented cl view now" "etcd_answers cl"
  shows "writes_at view (rehoming_of s) c (snd (run_prog cl (etcd_set_rehoming s b) c))"
proof (cases b)
  case True
  obtain c' where "run_prog cl (Delete (rehoming_of s) (\<lambda>r. try_err r (\<lambda>_. Ret (Inr ())))) c =
        run_prog cl (try_err (Inr ()) (\<lambda>_. Ret (Inr ()))) c'"
      "view c' = apply_ops (now c + 1) [Op_delete (rehoming_of s)] (view c)"
    by (rule run_delete [OF assms])
  then show ?thesis using True by (simp add: etcd_set_rehoming_def writes_at_def try_err_def del: run_prog.simps(5))
next
  case False
  obtain c' where "run_prog cl (Put (rehoming_of s) ''off'' None (\<lambda>r. try_err r (\<lambda>_. Ret (Inr ())))) c =
        run_prog cl (try_err (Inr ()) (\<lambda>_. Ret (Inr ()))) c'"
      "view c' = apply_ops (now c + 1) [Op_put (rehoming_of s) ''off'' None] (view c)"
    by (rule run_put [OF assms])
  then show ?thesis using False by (simp add: etcd_set_rehoming_def writes_at_def try_err_def del: run_prog.simps(4))
qed

lemma run_report_load:
  assumes "etcd_documented cl view now" "etcd_answers cl"
  shows "writes_at view (node_of n) c (snd (run_prog cl (etcd_report_load js self n l) c))"
proof -
  have "writes_at view (node_of n) c (snd (run_prog cl (Put (node_of n) json le (\<lambda>r. try_err r (\<lambda>_. Ret (Inr ())))) c))"
    for json le
  proof -
    obtain c' where "run_prog cl (Put (node_of n) json le (\<lambda>r. try_err r (\<lambda>_. Ret (Inr ())))) c =
          run_prog cl (try_err (Inr ()) (\<lambda>_. Ret (Inr ()))) c'"
        "view c' = apply_ops (now c + 1) [Op_put (node_of n) json le] (view c)"
      by (rule run_put [OF assms])
    then show ?thesis by (simp add: writes_at_def try_err_def del: run_prog.simps(4))
  qed
  then show ?thesis by (simp add: etcd_report_load_def run_try_err del: run_prog.simps(4) split: sum.split)
qed

lemma run_publish_key:
  assumes "etcd_documented cl view now" "etcd_answers cl"
  shows "writes_at view (key_of n) c (snd (run_prog cl (etcd_publish_key n h) c)) \<and>
    (value_at (view c) (key_of n) \<noteq> None \<longrightarrow> snd (run_prog cl (etcd_publish_key n h) c) = c)"
proof (cases "view c (key_of n)")
  case None
  have "writes_at view (key_of n) c (snd (run_prog cl (publish_commit n h) c))"
    unfolding publish_commit_def by (rule commit_writes_at [OF assms]) (simp add: try_err_def)
  then show ?thesis using None by (simp add: etcd_publish_key_def run_get_str [OF assms] value_at_def)
next
  case (Some x)
  then show ?thesis by (simp add: etcd_publish_key_def run_get_str [OF assms])
qed

lemma run_public_key:
  assumes "etcd_documented cl view now" "etcd_answers cl"
  shows "fst (run_prog cl (etcd_public_key ed n) c) =
    (case value_at (view c) (key_of n) of
       None \<Rightarrow> Inr None
     | Some h \<Rightarrow> map_sum (\<lambda>e. RegistryError (fed_error_text e)) Some (public_from_hex ed n h))"
  by (simp add: etcd_public_key_def run_get_str [OF assms] value_at_def split: option.split)

lemma owner_view_writes_at:
  assumes "writes_at view k c c'" "\<And>s. k \<noteq> holder_of s" "\<And>s. k \<noteq> epoch_of s"
  shows "owner_view (view c') = owner_view (view c)"
proof
  fix s
  have "view c' (holder_of s) = view c (holder_of s)" "view c' (epoch_of s) = view c (epoch_of s)"
    using assms by (metis writes_at_def)+
  then show "owner_view (view c') s = owner_view (view c) s" by (intro owner_view_cong) (simp_all add: value_at_def)
qed

lemma epoch_writes_at: "writes_at view k c c' \<Longrightarrow> (\<And>s. k \<noteq> epoch_of s) \<Longrightarrow> epoch_at (view c') = epoch_at (view c)"
  by (rule ext, rule epoch_at_cong) (metis writes_at_def)

lemma key_writes_at:
  "writes_at view k c c' \<Longrightarrow> k \<noteq> key_of n \<Longrightarrow> value_at (view c') (key_of n) = value_at (view c) (key_of n)"
  by (metis writes_at_def value_at_def)

section \<open>The laws\<close>

lemma etcd_registry_owner:
  assumes "etcd_documented cl view now" "etcd_answers cl"
  shows "reg_owner_of (etcd_registry cl js ed self) c = owner_view (view c)"
  by (rule ext) (simp add: etcd_registry_def run_owner_of [OF assms])

lemma etcd_registry_simps [simp]:
  "reg_claim (etcd_registry cl js ed self) s n = run_prog cl (etcd_claim self s n)"
  "reg_release (etcd_registry cl js ed self) s n = run_prog cl (etcd_release s n)"
  "reg_set_standby (etcd_registry cl js ed self) s n = run_prog cl (etcd_set_standby js self s n)"
  "reg_set_rehoming (etcd_registry cl js ed self) s b = run_prog cl (etcd_set_rehoming s b)"
  "reg_renew (etcd_registry cl js ed self) n = run_prog cl (etcd_renew n)"
  "reg_publish_key (etcd_registry cl js ed self) n h = run_prog cl (etcd_publish_key n h)"
  "reg_public_key (etcd_registry cl js ed self) c n = fst (run_prog cl (etcd_public_key ed n) c)"
  "reg_report_load (etcd_registry cl js ed self) n l = run_prog cl (etcd_report_load js self n l)"
  by (simp_all add: etcd_registry_def)

lemma owner_view_None [simp]: "owner_view w s = Inr None \<longleftrightarrow> w (holder_of s) = None"
  by (auto simp: owner_view_unfold value_at_def split: option.split sum.split)

lemma owner_view_claim:
  "owner_view (apply_ops t [Op_put (holder_of s) (dec_nat (unat (node_id_val n))) l,
       Op_put (epoch_of s) (dec_u64 e) None] w) =
     (owner_view w)(s := Inr (Some \<lparr> ow_scope = s, ow_owner = n, ow_epoch = e \<rparr>))"
proof
  fix s'
  show "owner_view (apply_ops t [Op_put (holder_of s) (dec_nat (unat (node_id_val n))) l,
        Op_put (epoch_of s) (dec_u64 e) None] w) s' =
      ((owner_view w)(s := Inr (Some \<lparr> ow_scope = s, ow_owner = n, ow_epoch = e \<rparr>))) s'"
    by (cases "s' = s") (simp_all add: owner_view_def, simp_all add: owner_from_def)
qed

lemma owner_view_release:
  "owner_view (w(holder_of s := None)) = (owner_view w)(s := Inr None)"
proof
  fix s'
  show "owner_view (w(holder_of s := None)) s' = ((owner_view w)(s := Inr None)) s'"
    by (cases "s' = s") (simp_all add: owner_view_def, simp_all add: owner_from_def)
qed

lemma claim_epochs:
  "epoch_at (apply_ops t [Op_put (holder_of s) v l, Op_put (epoch_of s) (dec_u64 e) None] w) =
     (epoch_at w)(s := e)"
  by (rule ext) simp

lemma claim_keys:
  "value_at (apply_ops t [Op_put (holder_of s) v l, Op_put (epoch_of s) (dec_u64 e) None] w) (key_of m) =
     value_at w (key_of m)"
  by simp

lemma owner_view_holder:
  "value_at w (holder_of s) = Some (dec_nat (unat (node_id_val n))) \<Longrightarrow> owner_view w s = Inr (Some ow) \<Longrightarrow>
   ow_owner ow = n"
  by (auto simp: owner_view_unfold split: option.splits sum.splits)

lemma claim_key:
  assumes "etcd_documented cl view now" "etcd_answers cl"
  shows "value_at (view (snd (run_prog cl (etcd_claim self s n) c))) (key_of m) = value_at (view c) (key_of m)"
proof (cases "view c (holder_of s)")
  case None
  from run_claim_free [OF assms this, of self n] show ?thesis
    by (elim disjE conjE) (simp_all only: claim_keys)
next
  case (Some x)
  then show ?thesis using run_claim_held(1) [OF assms, of c s] by (simp add: value_at_def)
qed

lemma release_key:
  assumes "etcd_documented cl view now" "etcd_answers cl"
  shows "value_at (view (snd (run_prog cl (etcd_release s n) c))) (key_of m) = value_at (view c) (key_of m)"
  by (simp add: run_release [OF assms])

lemma etcd_keeps_contract:
  assumes "etcd_documented cl view now" "etcd_answers cl"
  shows "ownership_registry (etcd_registry cl js ed self) (\<lambda>_. True) (\<lambda>c. epoch_at (view c))"
proof -
  note own = etcd_registry_owner [OF assms, of js ed self]
  note publish = run_publish_key [OF assms, THEN conjunct1]
  note owners = owner_view_writes_at [OF run_set_standby [OF assms]]
    owner_view_writes_at [OF run_set_rehoming [OF assms]]
    owner_view_writes_at [OF run_report_load [OF assms]] owner_view_writes_at [OF publish]
  note epochs = epoch_writes_at [OF run_set_standby [OF assms]] epoch_writes_at [OF run_set_rehoming [OF assms]]
    epoch_writes_at [OF run_report_load [OF assms]] epoch_writes_at [OF publish]
  note keys = claim_key [OF assms] release_key [OF assms] key_writes_at [OF run_set_standby [OF assms]]
    key_writes_at [OF run_set_rehoming [OF assms]] key_writes_at [OF run_report_load [OF assms]]
  have published: "value_at (view c) (key_of m) = Some g \<Longrightarrow>
      value_at (view (snd (run_prog cl (etcd_publish_key n h) c))) (key_of m) = Some g" for c m g n h
    using run_publish_key [OF assms, of n c h] key_writes_at [where k = "key_of n" and n = m, OF publish, of h c]
    by (cases "m = n") auto
  show ?thesis
  proof (unfold_locales, goal_cases)
    case (1 c s ow)
    then show ?case using owner_view_Some by (simp add: own)
  next
    case (2 c s ow n)
    then have "value_at (view c) (holder_of s) \<noteq> None" by (auto simp: own owner_view_unfold split: option.splits)
    from run_claim_held [OF assms this] 2 show ?case by (metis etcd_registry_simps(1) own prod.collapse)
  next
    case (3 c s n)
    then have "view c (holder_of s) = None" by (simp add: own)
    from run_claim_free [OF assms this, of self n] show ?case
      unfolding own etcd_registry_simps by (elim disjE conjE) (simp_all only: owner_view_claim claim_epochs simp_thms)
  next
    case (4 c s e n)
    then have "value_at (view c) (holder_of s) \<noteq> None" by (auto simp: own owner_view_unfold split: option.splits)
    from run_claim_held(1) [OF assms this] show ?case by simp
  next
    case (5 s n c)
    show ?case
    proof (cases "value_at (view c) (holder_of s) = Some (dec_nat (unat (node_id_val n)))")
      case True
      then show ?thesis
        using owner_view_holder [OF True]
        by (simp add: own run_release [OF assms] owner_view_release epoch_writes_at fun_eq_iff)
    next
      case False
      then show ?thesis by (simp add: own run_release [OF assms])
    qed
  next
    fix c m k s n b h l
    let ?reg = "etcd_registry cl js ed self"
    assume k: "reg_public_key ?reg c m = Inr (Some k)"
    then have "value_at (view c) (key_of m) \<noteq> None" by (auto simp: run_public_key [OF assms] split: option.splits)
    then show "reg_public_key ?reg (snd (reg_claim ?reg s n c)) m = Inr (Some k) \<and>
       reg_public_key ?reg (snd (reg_release ?reg s n c)) m = Inr (Some k) \<and>
       reg_public_key ?reg (snd (reg_set_standby ?reg s n c)) m = Inr (Some k) \<and>
       reg_public_key ?reg (snd (reg_set_rehoming ?reg s b c)) m = Inr (Some k) \<and>
       reg_public_key ?reg (snd (reg_renew ?reg n c)) m = Inr (Some k) \<and>
       reg_public_key ?reg (snd (reg_publish_key ?reg n h c)) m = Inr (Some k) \<and>
       reg_public_key ?reg (snd (reg_report_load ?reg n l c)) m = Inr (Some k)"
      using k published by (auto simp: run_public_key [OF assms] keys etcd_renew_def)
  qed (simp_all add: own owners epochs etcd_renew_def)
qed

end
