(* ===== verification/Etcd_Demo.thy ===== *)
theory Etcd_Demo
  imports Etcd_Contract
begin

text \<open>
  A key-value store with revisions that behaves as documented, to evaluate the
  theorems about etcd on, and a run on it: node 1 reads who owns a scope while its
  own lease expires and node 2 takes the scope over.
\<close>

section \<open>A store\<close>

type_synonym kv_store = "(string \<times> kv) list \<times> int"

definition kv_now :: "kv_store \<Rightarrow> int" where
  "kv_now c = max 0 (snd c)"

definition kv_fit :: "int \<Rightarrow> kv \<Rightarrow> bool" where
  "kv_fit t x \<longleftrightarrow> 0 < kv_create x \<and> kv_create x \<le> kv_mod x \<and> kv_mod x \<le> t"

definition kv_view :: "kv_store \<Rightarrow> keyspace" where
  "kv_view c k =
     (case map_of (fst c) k of None \<Rightarrow> None | Some x \<Rightarrow> if kv_fit (kv_now c) x then Some x else None)"

definition kv_clean :: "kv_store \<Rightarrow> (string \<times> kv) list" where
  "kv_clean c = filter (\<lambda>(k, x). kv_view c k = Some x) (fst c)"

fun kv_op :: "int \<Rightarrow> txn_op \<Rightarrow> (string \<times> kv) list \<Rightarrow> (string \<times> kv) list" where
  "kv_op t (Op_put k v le) l =
     (k, \<lparr> kv_value = v, kv_create = (case map_of l k of None \<Rightarrow> t | Some x \<Rightarrow> kv_create x),
           kv_mod = t, kv_lease = le \<rparr>) # l"
| "kv_op t (Op_delete k) l = filter (\<lambda>(k', x). k' \<noteq> k) l"

definition kv_apply :: "txn_op list \<Rightarrow> kv_store \<Rightarrow> kv_store" where
  "kv_apply ops c = (fold (kv_op (kv_now c + 1)) ops (kv_clean c), kv_now c + 1)"

definition kv_client :: "kv_store etcd_client" where
  "kv_client =
     \<lparr> et_get = (\<lambda>c k. Inr (map_option (\<lambda>x. (kv_value x, kv_mod x)) (kv_view c k))),
       et_prefix = (\<lambda>c p. Inr (map (\<lambda>k. (k, kv_value (the (kv_view c k))))
         (filter (\<lambda>k. take (length p) k = p \<and> kv_view c k \<noteq> None) (remdups (map fst (fst c)))))),
       et_put = (\<lambda>k v le c. (Inr (), kv_apply [Op_put k v le] c)),
       et_delete = (\<lambda>k c. (Inr (), kv_apply [Op_delete k] c)),
       et_txn = (\<lambda>cs ops c. if list_all (compare_holds (kv_view c)) cs then (Inr True, kv_apply ops c)
         else (Inr False, c)) \<rparr>"

lemma map_of_filter_view:
  "map_of (filter (\<lambda>(k, x). V k = Some x) l) k =
     (case V k of None \<Rightarrow> None | Some x \<Rightarrow> if (k, x) \<in> set l then Some x else None)"
  by (induction l) (auto split: option.split)

lemma kv_view_listed: "kv_view c k = Some x \<Longrightarrow> (k, x) \<in> set (fst c)"
  by (auto simp: kv_view_def map_of_SomeD split: option.splits if_splits)

lemma map_of_clean: "map_of (kv_clean c) = kv_view c"
  by (rule ext) (auto simp: kv_clean_def map_of_filter_view kv_view_listed split: option.split)

lemma map_of_filter_key: "map_of (filter (\<lambda>(k', x). k' \<noteq> k) l) = (map_of l)(k := None)"
  by (induction l) auto

lemma map_of_kv_op: "map_of (kv_op t op l) = apply_op t op (map_of l)"
  by (cases op) (auto simp: map_of_filter_key create_rev_def split: option.split)

lemma map_of_kv_ops: "map_of (fold (kv_op t) ops l) = apply_ops t ops (map_of l)"
  by (induction ops arbitrary: l) (simp_all add: map_of_kv_op)

lemma kv_fit_op:
  "0 < t \<Longrightarrow> (\<And>k x. w k = Some x \<Longrightarrow> kv_fit t x) \<Longrightarrow> apply_op t op w k = Some x \<Longrightarrow> kv_fit t x"
  by (cases op) (auto simp: kv_fit_def create_rev_def split: if_splits, force+)

lemma kv_fit_ops:
  "0 < t \<Longrightarrow> (\<And>k x. w k = Some x \<Longrightarrow> kv_fit t x) \<Longrightarrow> apply_ops t ops w k = Some x \<Longrightarrow> kv_fit t x"
proof (induction ops arbitrary: w k x)
  case (Cons op ops)
  show ?case
    by (rule Cons.IH [of "apply_op t op w"]) (use Cons.prems kv_fit_op in \<open>fastforce+\<close>)
qed simp

lemma kv_wrote: "wrote kv_view kv_now ops c (kv_apply ops c)"
proof -
  have now: "kv_now (l, kv_now c + 1) = kv_now c + 1" for l by (simp add: kv_now_def)
  have "0 < kv_now c + 1" by (simp add: kv_now_def)
  moreover have "kv_fit (kv_now c + 1) x" if "kv_view c k = Some x" for k x
    using that by (auto simp: kv_view_def kv_fit_def split: option.splits if_splits)
  ultimately have "kv_fit (kv_now c + 1) x" if "apply_ops (kv_now c + 1) ops (kv_view c) k = Some x" for k x
    using kv_fit_ops that by blast
  then have "kv_view (kv_apply ops c) k = apply_ops (kv_now c + 1) ops (kv_view c) k" for k
    by (cases "apply_ops (kv_now c + 1) ops (kv_view c) k")
      (simp_all add: kv_view_def [of "(_, kv_now c + 1)"] kv_apply_def map_of_kv_ops map_of_clean now)
  then show ?thesis by (auto simp: wrote_def now kv_apply_def)
qed

lemma kv_documented: "etcd_documented kv_client kv_view kv_now"
  unfolding etcd_documented_def
proof (intro conjI allI impI)
  fix c k x
  show "kv_view c k = Some x \<Longrightarrow> 0 < kv_create x" "kv_view c k = Some x \<Longrightarrow> kv_create x \<le> kv_mod x"
    "kv_view c k = Some x \<Longrightarrow> kv_mod x \<le> kv_now c"
    by (auto simp: kv_view_def kv_fit_def split: option.splits if_splits)
next
  fix c p kvs
  assume "et_prefix kv_client c p = Inr kvs"
  then have kvs: "kvs = map (\<lambda>k. (k, kv_value (the (kv_view c k))))
      (filter (\<lambda>k. take (length p) k = p \<and> kv_view c k \<noteq> None) (remdups (map fst (fst c))))"
    by (simp add: kv_client_def)
  show "distinct (map fst kvs)" by (simp add: kvs comp_def)
  have "kv_view c k = Some x \<Longrightarrow> k \<in> fst ` set (fst c)" for k x
    by (auto simp: kv_view_def image_iff split: option.splits if_splits dest: map_of_SomeD intro: rev_bexI)
  then show "set kvs = {(k, v). take (length p) k = p \<and> value_at (kv_view c) k = Some v}"
    by (auto simp: kvs value_at_def image_iff)
qed (auto simp: kv_client_def write_answer_def txn_answer_def Let_def untouched_def kv_wrote kv_now_def)

lemma kv_answers: "etcd_answers kv_client"
  by (simp add: etcd_answers_def kv_client_def)

section \<open>A run\<close>

definition kv_expire :: "int \<Rightarrow> kv_store \<Rightarrow> kv_store" where
  "kv_expire l c = (filter (\<lambda>(k, x). expire l (kv_view c) k = Some x) (fst c), kv_now c)"

lemma kv_expire_view: "kv_view (kv_expire l c) = expire l (kv_view c)" "kv_now (kv_expire l c) = kv_now c"
proof -
  show now: "kv_now (kv_expire l c) = kv_now c" by (simp add: kv_expire_def kv_now_def)
  have listed: "kv_view c k = Some x \<and> kv_fit (kv_now c) x" if "expire l (kv_view c) k = Some x" for k x
    using that by (auto simp: expire_def kv_view_def split: option.splits if_splits)
  show "kv_view (kv_expire l c) = expire l (kv_view c)"
  proof
    fix k
    have "map_of (fst (kv_expire l c)) k = expire l (kv_view c) k"
      using listed [of k] kv_view_listed [of c k] by (auto simp: kv_expire_def map_of_filter_view split: option.split)
    then show "kv_view (kv_expire l c) k = expire l (kv_view c) k"
      using listed [of k] by (simp add: kv_view_def [of "kv_expire l c"] now split: option.split)
  qed
qed

definition take_turn :: "nat \<Rightarrow> kv_store etcd_world \<Rightarrow> kv_store etcd_world" where
  "take_turn i w =
     (case w_running w i of
        None \<Rightarrow> w
      | Some (self, rq, p) \<Rightarrow>
          (let (p', c') = advance kv_client p (w_cluster w) in settle i self rq p' (w\<lparr>w_cluster := c'\<rparr>)))"

text \<open>No number on file is near the end of the epochs.\<close>

definition small_numbers :: "kv_store \<Rightarrow> bool" where
  "small_numbers c = list_all (\<lambda>(k, x). case parse_int 64 (kv_value x) of Inl _ \<Rightarrow> True | Inr n \<Rightarrow> n < 1000) (fst c)"

lemma small_epochs:
  assumes "small_numbers c"
  shows "epoch_at (kv_view c) s + 1 \<noteq> 0"
proof -
  have small: "of_nat n + 1 \<noteq> (0 :: u64)" if "n < 1000" for n :: nat
  proof -
    have "unat (of_nat n + 1 :: u64) = n + 1"
      using that by (simp add: unat_word_ariths unat_of_nat take_bit_eq_mod)
    then show ?thesis by (metis add_is_0 one_neq_zero unat_0)
  qed
  show ?thesis
  proof (cases "kv_view c (epoch_of s)")
    case (Some x)
    then have "(epoch_of s, x) \<in> set (fst c)" by (rule kv_view_listed)
    then have "case parse_int 64 (kv_value x) of Inl _ \<Rightarrow> True | Inr n \<Rightarrow> n < 1000"
      using assms by (auto simp: small_numbers_def list_all_iff)
    then show ?thesis using Some small by (auto simp: epoch_at_def split: sum.splits)
  qed (simp add: epoch_at_def)
qed

lemma etcd_run_refl: "etcd_run cl view now js w w"
  by (simp add: etcd_run_def)

lemma etcd_run_step: "etcd_run cl view now js w w' \<Longrightarrow> etcd_step cl view now js w' w'' \<Longrightarrow> etcd_run cl view now js w w''"
  by (simp add: etcd_run_def rtranclp.rtrancl_into_rtrancl)

lemma etcd_run_turn:
  assumes "etcd_run kv_client kv_view kv_now js w w'" "small_numbers (w_cluster w')"
  shows "etcd_run kv_client kv_view kv_now js w (take_turn i w')"
proof (cases "w_running w' i")
  case (Some a)
  then obtain self rq p where a: "w_running w' i = Some (self, rq, p)" by (cases a) auto
  obtain p' c' where adv: "advance kv_client p (w_cluster w') = (p', c')"
    by (cases "advance kv_client p (w_cluster w')")
  show ?thesis
    using etcd_run_step [OF assms(1), OF step_turn [where view = kv_view, OF a adv small_epochs [OF assms(2)]]] a adv
    by (simp add: take_turn_def)
qed (simp add: take_turn_def assms(1))

text \<open>A codec for the lists and loads of the demonstration, which knows one list.\<close>

definition demo_js :: etcd_json where
  "demo_js =
     \<lparr> standbys_to_string = (\<lambda>_. Inr ''[2]''), standbys_from_str = (\<lambda>_. Inr [2]),
       load_to_string = (\<lambda>_. Inl ''unused''), load_from_slice = (\<lambda>_. Inl ''unused'') \<rparr>"

definition demo_node :: "u16 \<Rightarrow> etcd_self" where
  "demo_node i = \<lparr> es_node = NodeId i, es_lease_id = 100 + uint i \<rparr>"

definition demo_kv :: kv_store where
  "demo_kv =
     ([(holder_of (ScopeServer 1), \<lparr> kv_value = ''1'', kv_create = 1, kv_mod = 1, kv_lease = Some 101 \<rparr>),
       (epoch_of (ScopeServer 1), \<lparr> kv_value = ''1'', kv_create = 1, kv_mod = 1, kv_lease = None \<rparr>)], 1)"

definition demo_begin :: "nat \<Rightarrow> u16 \<Rightarrow> request \<Rightarrow> kv_store etcd_world \<Rightarrow> kv_store etcd_world" where
  "demo_begin i n rq w = settle i (demo_node n) rq (etcd_call demo_js (demo_node n) rq) w"

text \<open>Node 1 has read that it holds the scope.\<close>

definition demo_read :: "kv_store etcd_world" where
  "demo_read = take_turn 0 (demo_begin 0 1 (Rq_owner_of (ScopeServer 1)) (at_rest demo_kv))"

text \<open>Its lease expires, and node 2 claims the scope: it finds no holder, reads the
  epoch, and commits.\<close>

definition demo_expired :: "kv_store etcd_world" where
  "demo_expired = demo_read\<lparr>w_cluster := kv_expire 101 (w_cluster demo_read)\<rparr>"

definition demo_claim1 :: "kv_store etcd_world" where
  "demo_claim1 = take_turn 1 (demo_begin 1 2 (Rq_claim (ScopeServer 1) (NodeId 2)) demo_expired)"

definition demo_claim2 :: "kv_store etcd_world" where
  "demo_claim2 = take_turn 1 demo_claim1"

definition demo_claim3 :: "kv_store etcd_world" where
  "demo_claim3 = take_turn 1 demo_claim2"

text \<open>Node 1 reads the epoch.\<close>

definition demo_torn :: "kv_store etcd_world" where
  "demo_torn = take_turn 0 demo_claim3"

lemma demo_texts [simp]:
  "parse_int 16 ''1'' = Inr 1" "parse_int 16 ''2'' = Inr 2" "parse_int 64 ''1'' = Inr 1" "parse_int 64 ''2'' = Inr 2"
  "dec_nat (Suc 0) = ''1''" "dec_u64 2 = ''2''" "dec_nat 2 = ''2''"
proof -
  have "char_of (49 :: nat) = CHR ''1''" by code_simp
  then show "dec_nat (Suc 0) = ''1''" by (simp add: dec_nat.simps)
  have "char_of (50 :: nat) = CHR ''2''" by code_simp
  then show "dec_u64 2 = ''2''" "dec_nat 2 = ''2''" by (simp_all add: dec_u64_def dec_nat.simps)
qed (simp_all add: parse_int_def parse_unsigned_def digits_value_def)

lemmas demo_simps = take_turn_def demo_begin_def demo_kv_def demo_node_def settle_def at_rest_def
  etcd_owner_of_def get_str_def try_err_def try_ok_def kv_client_def kv_view_def kv_now_def kv_fit_def

lemmas demo_run_simps = demo_simps demo_read_def demo_expired_def first_attempt
  claim_free_epoch_def claim_commit_def kv_expire_def expire_def kv_apply_def kv_clean_def Let_def comp_def
  create_rev_def mod_rev_def

lemma demo_small:
  "small_numbers (w_cluster (demo_begin 0 1 (Rq_owner_of (ScopeServer 1)) (at_rest demo_kv)))"
  "small_numbers (w_cluster (demo_begin 1 2 (Rq_claim (ScopeServer 1) (NodeId 2)) demo_expired))"
  "small_numbers (w_cluster demo_claim1)" "small_numbers (w_cluster demo_claim2)"
  "small_numbers (w_cluster demo_claim3)"
  by (simp_all add: small_numbers_def demo_run_simps demo_claim1_def demo_claim2_def demo_claim3_def)

lemma demo_torn_log:
  "w_log demo_torn =
     [(demo_node 2, Rq_claim (ScopeServer 1) (NodeId 2), Ans_claim (Inr (Claimed 2))),
      (demo_node 1, Rq_owner_of (ScopeServer 1),
       Ans_owner (Inr (Some \<lparr> ow_scope = ScopeServer 1, ow_owner = NodeId 1, ow_epoch = 2 \<rparr>)))]"
  by (simp add: demo_run_simps demo_claim1_def demo_claim2_def demo_claim3_def demo_torn_def)

lemma demo_kv_facts:
  "cluster_ok (kv_view demo_kv)" "kv_view demo_kv (epoch_of (ScopeServer 1)) \<noteq> None"
  "value_at (kv_view demo_kv) (holder_of (ScopeServer 1)) = Some ''1''"
  "epoch_at (kv_view demo_kv) (ScopeServer 1) = 1"
  by (auto simp: cluster_ok_def demo_kv_def kv_view_def kv_fit_def kv_now_def value_at_def epoch_at_def
      split: if_splits)

lemma demo_begin_run:
  "etcd_run kv_client kv_view kv_now demo_js w w' \<Longrightarrow> w_running w' i = None \<Longrightarrow>
   etcd_run kv_client kv_view kv_now demo_js w (demo_begin i n rq w')"
  unfolding demo_begin_def by (rule etcd_run_step [OF _ step_begin])

lemma demo_torn_run: "etcd_run kv_client kv_view kv_now demo_js (at_rest demo_kv) demo_torn"
proof -
  have "etcd_run kv_client kv_view kv_now demo_js (at_rest demo_kv) demo_read"
    unfolding demo_read_def by (intro etcd_run_turn demo_begin_run etcd_run_refl demo_small(1)) (simp add: at_rest_def)
  then have "etcd_run kv_client kv_view kv_now demo_js (at_rest demo_kv) demo_expired"
    unfolding demo_expired_def
    by (rule etcd_run_step) (rule step_expire, simp_all add: kv_expire_view)
  then have "etcd_run kv_client kv_view kv_now demo_js (at_rest demo_kv)
      (demo_begin 1 2 (Rq_claim (ScopeServer 1) (NodeId 2)) demo_expired)"
    by (rule demo_begin_run) (simp add: demo_run_simps)
  then show ?thesis
    unfolding demo_torn_def demo_claim3_def demo_claim2_def demo_claim1_def
    by (intro etcd_run_turn demo_small [unfolded demo_claim3_def demo_claim2_def demo_claim1_def])
qed

section \<open>Two shorter runs\<close>

text \<open>Node 2 publishes its key, and node 1 designates node 2 as a standby.\<close>

definition demo_publishing :: "nat \<Rightarrow> kv_store etcd_world" where
  "demo_publishing k =
     (take_turn 0 ^^ k) (demo_begin 0 2 (Rq_publish_key (NodeId 2) ''aa'') (at_rest demo_kv))"

definition demo_appointing :: "nat \<Rightarrow> kv_store etcd_world" where
  "demo_appointing k =
     (take_turn 0 ^^ k) (demo_begin 0 1 (Rq_set_standby (ScopeServer 1) (NodeId 2)) (at_rest demo_kv))"

lemmas demo_short_simps = demo_publishing_def demo_appointing_def etcd_publish_key_def publish_commit_def
  etcd_set_standby_def demo_js_def numeral_2_eq_2

lemma demo_short_small:
  "small_numbers (w_cluster (demo_publishing 0))" "small_numbers (w_cluster (demo_publishing (Suc 0)))"
  "small_numbers (w_cluster (demo_appointing 0))" "small_numbers (w_cluster (demo_appointing (Suc 0)))"
  by (simp_all add: small_numbers_def demo_run_simps demo_short_simps)

lemma demo_short_start:
  "etcd_run kv_client kv_view kv_now demo_js (at_rest demo_kv) (demo_publishing 0)"
  "etcd_run kv_client kv_view kv_now demo_js (at_rest demo_kv) (demo_appointing 0)"
  by (simp_all add: demo_publishing_def demo_appointing_def) (intro demo_begin_run etcd_run_refl, simp add: at_rest_def)+

lemma demo_short_runs:
  "etcd_run kv_client kv_view kv_now demo_js (at_rest demo_kv) (demo_publishing 2)"
  "etcd_run kv_client kv_view kv_now demo_js (at_rest demo_kv) (demo_appointing (Suc 0))"
proof -
  have next_turn: "demo_publishing (Suc k) = take_turn 0 (demo_publishing k)"
      "demo_appointing (Suc k) = take_turn 0 (demo_appointing k)" for k
    by (simp_all add: demo_publishing_def demo_appointing_def)
  show "etcd_run kv_client kv_view kv_now demo_js (at_rest demo_kv) (demo_publishing 2)"
    "etcd_run kv_client kv_view kv_now demo_js (at_rest demo_kv) (demo_appointing (Suc 0))"
    unfolding numeral_2_eq_2 next_turn
    using demo_short_start demo_short_small by (auto intro!: etcd_run_turn simp: next_turn)
qed

lemma demo_published:
  "(demo_node 2, Rq_publish_key (NodeId 2) ''aa'', Ans_unit (Inr ())) \<in> set (w_log (demo_publishing 2))"
  by (simp add: demo_run_simps demo_short_simps)

text \<open>The turn in which the list is written.\<close>

lemma demo_appointed:
  "etcd_step kv_client kv_view kv_now demo_js (demo_appointing (Suc 0)) (demo_appointing 2)"
  "kv_view (w_cluster (demo_appointing 2)) (standbys_of (ScopeServer 1)) \<noteq>
     kv_view (w_cluster (demo_appointing (Suc 0))) (standbys_of (ScopeServer 1))"
  "value_at (kv_view (w_cluster (demo_appointing 2))) (standbys_of (ScopeServer 1)) = Some ''[2]''"
proof -
  let ?w = "demo_appointing (Suc 0)"
  obtain self rq p where r: "w_running ?w 0 = Some (self, rq, p)"
    by (simp add: demo_run_simps demo_short_simps)
  obtain p' c' where adv: "advance kv_client p (w_cluster ?w) = (p', c')"
    by (cases "advance kv_client p (w_cluster ?w)")
  have "demo_appointing 2 = take_turn 0 ?w" by (simp add: demo_appointing_def numeral_2_eq_2)
  then show "etcd_step kv_client kv_view kv_now demo_js ?w (demo_appointing 2)"
    using step_turn [where view = kv_view and now = kv_now and js = demo_js, OF r adv small_epochs [OF demo_short_small(4)]]
    by (simp add: take_turn_def r adv)
  show "kv_view (w_cluster (demo_appointing 2)) (standbys_of (ScopeServer 1)) \<noteq>
     kv_view (w_cluster (demo_appointing (Suc 0))) (standbys_of (ScopeServer 1))"
    "value_at (kv_view (w_cluster (demo_appointing 2))) (standbys_of (ScopeServer 1)) = Some ''[2]''"
    by (simp_all add: demo_run_simps demo_short_simps value_at_def)
qed

end
