(* ===== verification/Etcd_Properties.thy ===== *)
theory Etcd_Properties
  imports Etcd_Demo Fleet_Demo
begin

text \<open>
  What the control plane in etcd promises the fleet: one owner per epoch however
  the calls of the nodes interleave, keys and standbys nobody else can change, an
  end to every claim, and the laws every registry obeys; and what its two-step
  read of an owner does not promise.
\<close>

text \<open>C13. Epochs in etcd are fenced. Whatever the nodes of a fleet do on one cluster, with
  their etcd calls interleaved in any order, calls that fail with or without an
  effect, leases that expire and nodes that die half way: the epochs granted for a
  scope are strictly increasing, none is above the one on record, and a node that was
  granted the epoch on record is the only one that can be the holder.\<close>

theorem etcd_claims_are_fenced:
  assumes "etcd_documented cl view now" "cluster_ok (view c)" "etcd_run cl view now js (at_rest c) w"
  shows "sorted_wrt (<) (epoch_at (view c) s # map snd (claims_of s w)) \<and>
    (\<forall>n e. (n, e) \<in> set (claims_of s w) \<longrightarrow> e \<le> epoch_at (view (w_cluster w)) s \<and>
       (e = epoch_at (view (w_cluster w)) s \<longrightarrow>
          value_at (view (w_cluster w)) (holder_of s) \<in> {None, Some (dec_nat (unat (node_id_val n)))}))"
  using run_fenced [OF assms, of s] by (auto simp: fenced_def)

theorem etcd_claims_are_fenced_witness:
  "2 \<le> epoch_at (kv_view (w_cluster demo_torn)) (ScopeServer 1)"
proof -
  have "(NodeId 2, 2) \<in> set (claims_of (ScopeServer 1) demo_torn)"
    by (simp add: claims_of_def demo_torn_log map_filter_simps)
  from etcd_claims_are_fenced [OF kv_documented demo_kv_facts(1) demo_torn_run, THEN conjunct2, rule_format, OF this]
  show ?thesis by (rule conjunct1)
qed

text \<open>The first key published for a node is its key for good. Of two nodes that
  publish keys under one name and are both told it worked, both published the same
  key, whatever happens between and around their calls; and from then on that key is
  on record.\<close>

theorem etcd_keys_first_write_wins:
  assumes "etcd_documented cl view now" "cluster_ok (view c)" "etcd_run cl view now js (at_rest c) w"
    and "(self, Rq_publish_key n h, Ans_unit (Inr ())) \<in> set (w_log w)" "etcd_run cl view now js w w'"
  shows "value_at (view (w_cluster w')) (key_of n) = Some h \<and>
    (\<forall>self' h'. (self', Rq_publish_key n h', Ans_unit (Inr ())) \<in> set (w_log w) \<longrightarrow> h' = h)"
proof -
  have ok: "published_ok view w" by (rule run_published [OF assms(1-3)])
  then have "value_at (view (w_cluster w)) (key_of n) = Some h"
    using assms(4) unfolding published_ok_def by blast
  then show ?thesis
    using ok run_key_kept [OF assms(1-3,5)] unfolding published_ok_def by force
qed

theorem etcd_keys_first_write_wins_witness:
  "value_at (kv_view (w_cluster (demo_publishing 2))) (key_of (NodeId 2)) = Some ''aa''"
  using etcd_keys_first_write_wins [OF kv_documented demo_kv_facts(1) demo_short_runs(1) demo_published etcd_run_refl]
  by blast

text \<open>Only the owner of a scope names its heirs. A step of the fleet that changes the
  list of standbys of a scope is a step of a node that is on record as the holder of
  the scope at that moment.\<close>

theorem etcd_standbys_by_owner:
  assumes "etcd_documented cl view now" "cluster_ok (view c)" "etcd_run cl view now js (at_rest c) w"
    and "etcd_step cl view now js w w'"
    and "view (w_cluster w') (standbys_of s) \<noteq> view (w_cluster w) (standbys_of s)"
  shows "\<exists>i self n p. w_running w i = Some (self, Rq_set_standby s n, p) \<and>
    value_at (view (w_cluster w)) (holder_of s) = Some (dec_nat (unat (node_id_val (es_node self))))"
  by (rule step_standbys [OF assms])

theorem etcd_standbys_by_owner_witness:
  "\<exists>self :: etcd_self. value_at (kv_view (w_cluster (demo_appointing (Suc 0)))) (holder_of (ScopeServer 1)) =
     Some (dec_nat (unat (node_id_val (es_node self))))"
  using etcd_standbys_by_owner [OF kv_documented demo_kv_facts(1) demo_short_runs(2) demo_appointed(1,2)] by blast

text \<open>A claim always ends. Whatever the cluster looks like at each of its calls, and
  whatever it answers, a claim has its outcome after at most three calls for each of
  its eight attempts: contention between nodes cannot keep it busy for ever.\<close>

lemma ended_stays: "foldl (\<lambda>q c. fst (advance cl q c)) (Ret a) cs = Ret a"
  by (induction cs) simp_all

lemma attempts_end:
  "3 * k \<le> length cs \<Longrightarrow> \<exists>a. foldl (\<lambda>q c. fst (advance cl q c)) (claim_attempts self s n k) cs = Ret a"
proof (induction k arbitrary: cs)
  case 0
  then show ?case by (simp add: ended_stays)
next
  case (Suc k)
  then obtain c1 c2 c3 ds where cs: "cs = c1 # c2 # c3 # ds" "3 * k \<le> length ds"
    by (auto simp: Suc_le_length_iff numeral_3_eq_3)
  let ?go = "\<lambda>q cs. foldl (\<lambda>q c. fst (advance cl q c)) q cs"
  have commit: "\<exists>a. ?go (claim_commit self s n (claim_attempts self s n k) e r) (c3 # ds) = Ret a" for e r
    using Suc.IH [OF cs(2)]
    by (auto simp: claim_commit_def Let_def try_err_def split_beta ended_stays split: sum.split)
  have read: "\<exists>a. ?go (claim_free_epoch self s n (claim_attempts self s n k)) (c2 # c3 # ds) = Ret a"
    using commit
    by (simp add: claim_free_epoch_def get_str_def try_err_def try_ok_def ended_stays split: sum.split option.split)
  have held: "\<exists>a. ?go (claim_held_epoch s b) (c2 # c3 # ds) = Ret a" for b
    by (simp add: claim_held_epoch_def get_str_def try_err_def Let_def ended_stays split: sum.split)
  show ?case
    unfolding cs(1) using read held
    by (simp add: get_str_def try_err_def try_ok_def ended_stays split: sum.split option.split)
qed

theorem etcd_claims_end:
  assumes "24 \<le> length cs"
  shows "\<exists>a. foldl (\<lambda>q c. fst (advance cl q c)) (etcd_claim self s n) cs = Ret a"
  unfolding etcd_claim_def by (rule attempts_end) (use assms in simp)

theorem etcd_claims_end_witness:
  "\<exists>a. foldl (\<lambda>q c. fst (advance kv_client q c)) (etcd_claim (demo_node 1) (ScopeServer 1) (NodeId 1))
     (List.replicate 24 demo_kv) = Ret a"
  by (rule etcd_claims_end) simp

text \<open>C14. The registry in etcd is a registry. Where the cluster answers and no node acts
  between the calls of one operation, it obeys every law a client of the trait relies
  on, with the epoch on record as the highest the scope ever had: so it fences over
  any sequence of operations just as the in-memory registry does.\<close>

theorem etcd_refines_the_trait:
  assumes "etcd_documented cl view now" "etcd_answers cl"
    and "registry_run (etcd_registry cl js ed self) c c'"
    and "reg_owner_of (etcd_registry cl js ed self) c s = Inr (Some ow)"
    and "reg_owner_of (etcd_registry cl js ed self) c' s = Inr (Some ow')"
  shows "ownership_registry (etcd_registry cl js ed self) (\<lambda>_. True) (\<lambda>c. epoch_at (view c)) \<and>
    (ow' = ow \<or> ow_epoch ow < ow_epoch ow')"
  using etcd_keeps_contract [OF assms(1,2)]
    ownership_registry.fencing [OF etcd_keeps_contract [OF assms(1,2)] assms(3) TrueI assms(4,5)] by blast

text \<open>Node 1 hands a scope over to node 2.\<close>

definition demo_handed :: kv_store where
  "demo_handed =
     (let reg = etcd_registry kv_client demo_js demo_ed (demo_node 2);
          released = snd (reg_release reg (ScopeServer 1) (NodeId 1) demo_kv)
      in snd (reg_claim reg (ScopeServer 1) (NodeId 2) released))"

lemma demo_handed_facts:
  "registry_run (etcd_registry kv_client demo_js demo_ed (demo_node 2)) demo_kv demo_handed"
  "reg_owner_of (etcd_registry kv_client demo_js demo_ed (demo_node 2)) demo_kv (ScopeServer 1) =
     Inr (Some \<lparr> ow_scope = ScopeServer 1, ow_owner = NodeId 1, ow_epoch = 1 \<rparr>)"
  "reg_owner_of (etcd_registry kv_client demo_js demo_ed (demo_node 2)) demo_handed (ScopeServer 1) =
     Inr (Some \<lparr> ow_scope = ScopeServer 1, ow_owner = NodeId 2, ow_epoch = 2 \<rparr>)"
proof -
  let ?reg = "etcd_registry kv_client demo_js demo_ed (demo_node 2)"
  let ?released = "snd (reg_release ?reg (ScopeServer 1) (NodeId 1) demo_kv)"
  have "fst (reg_claim ?reg (ScopeServer 1) (NodeId 2) ?released) \<noteq> Inr (Claimed 0)"
    by (simp add: demo_run_simps etcd_release_def value_at_def)
  then show "registry_run ?reg demo_kv demo_handed"
    unfolding demo_handed_def Let_def by (intro registry_run.intros)
  show "reg_owner_of ?reg demo_kv (ScopeServer 1) =
      Inr (Some \<lparr> ow_scope = ScopeServer 1, ow_owner = NodeId 1, ow_epoch = 1 \<rparr>)"
    unfolding etcd_registry_owner [OF kv_documented kv_answers]
    by (simp add: owner_view_unfold value_at_def demo_run_simps)
  show "reg_owner_of ?reg demo_handed (ScopeServer 1) =
      Inr (Some \<lparr> ow_scope = ScopeServer 1, ow_owner = NodeId 2, ow_epoch = 2 \<rparr>)"
    unfolding etcd_registry_owner [OF kv_documented kv_answers]
    by (simp add: owner_view_unfold value_at_def demo_handed_def demo_run_simps etcd_release_def)
qed

theorem etcd_refines_the_trait_witness:
  "ownership_registry (etcd_registry kv_client demo_js demo_ed (demo_node 2)) (\<lambda>_. True)
     (\<lambda>c. epoch_at (kv_view c))"
  using etcd_refines_the_trait [OF kv_documented kv_answers demo_handed_facts] by (rule conjunct1)


end
