(* ===== verification/Replication_Properties.thy ===== *)
theory Replication_Properties
  imports Fleet_Demo
begin

text \<open>
  What a replica may rely on, and what a forwarded command and a web request go
  through: the properties of replication, of the command path, of failover and
  of the edge of a node.
\<close>

section \<open>Replicas\<close>

text \<open>C4. A replica follows its owner. The records a call adds to the outbox, whatever
  the call, bring every replica that was in sync with the node before the call
  in sync with it after, table by table.\<close>

theorem replica_follows_owner:
  assumes "store_ok st" "dm_id_free st" "cmd \<noteq> Cmd_restart" "in_sync st rep"
    and "recs = drop (length (outbox st)) (outbox (exec env cmd st))"
    and "list_all (\<lambda>rec. row_faithful sd (cr_payload rec)) recs"
  shows "outbox (exec env cmd st) = outbox st @ recs \<and> in_sync (exec env cmd st) (catch_up sd rep recs)"
proof -
  have "base_ok st" using assms(1) by (simp add: base_ok_def store_ok_def)
  then obtain rs where "outbox (exec env cmd st) = outbox st @ rs"
      "list_all (\<lambda>rec. row_faithful sd (cr_payload rec)) rs \<longrightarrow> in_sync (exec env cmd st) (catch_up sd rep rs)"
    using exec_replays [OF assms(2,3), of sd env] assms(4) unfolding replays_def by blast
  with assms(5,6) show ?thesis by simp
qed

definition demo_serde :: serde where
  "demo_serde =
     \<lparr> sd_value = (\<lambda>_. JNull), sd_user = (\<lambda>_. Inr bob), sd_server = (\<lambda>_. Inl ''''),
       sd_invite = (\<lambda>_. Inl ''''), sd_membership = (\<lambda>_. Inl ''''), sd_channel = (\<lambda>_. Inl ''''),
       sd_message = (\<lambda>_. Inl ''''), sd_reaction = (\<lambda>_. Inl ''''), sd_proposal = (\<lambda>_. Inl ''''),
       sd_vote = (\<lambda>_. Inl ''''), sd_emoji = (\<lambda>_. Inl ''''), sd_emoji_vote = (\<lambda>_. Inl ''''),
       sd_rule = (\<lambda>_. Inl ''''), sd_dm = (\<lambda>_. Inl ''''), sd_block = (\<lambda>_. Inl ''''),
       sd_friendship = (\<lambda>_. Inl ''''), sd_user_keys = (\<lambda>_. Inl ''''), sd_grant = (\<lambda>_. Inl ''''),
       sd_role = (\<lambda>_. Inl ''''), sd_role_assignment = (\<lambda>_. Inl '''') \<rparr>"

lemma demo1_outbox: "outbox demo1 = [\<lparr> cr_seq = 1, cr_entity = ''users'', cr_op = Upsert, cr_payload = UserRow ann \<rparr>]"
  by (simp add: demo1_def demo0_def with_node_def empty_store_def register_account_def demo_step
      record_change_def flip: ann_def)

lemma demo2_outbox: "outbox demo2 = outbox demo1 @
    [\<lparr> cr_seq = next_outbox demo1 + 1, cr_entity = ''users'', cr_op = Upsert, cr_payload = UserRow bob \<rparr>]"
  by (simp add: demo2_def register_account_def demo_step record_change_def flip: bob_def)

theorem replica_follows_owner_witness:
  "in_sync demo2 (catch_up demo_serde demo1 (drop 1 (outbox demo2))) \<and> length (outbox demo2) = 2"
proof -
  have dms: "dms demo1 = []"
    by (simp add: demo1_def demo0_def with_node_def empty_store_def register_account_def demo_step)
  have len: "length (outbox demo1) = 1" by (simp add: demo1_outbox)
  have "in_sync demo1 demo1" by (simp add: in_sync_def hm_ok_def)
  moreover have "exec (demo_env 0) (Cmd_register_account ''bob'') demo1 = demo2"
    unfolding demo2_def ..
  moreover have "drop 1 (outbox demo2) = drop (length (outbox demo1)) (outbox demo2)" by (simp add: len)
  moreover have "list_all (\<lambda>rec. row_faithful demo_serde (cr_payload rec)) (drop 1 (outbox demo2))"
    by (simp add: demo2_outbox len demo_serde_def)
  moreover have "dm_id_free demo1" by (simp add: dm_id_free_def dms)
  moreover have "length (outbox demo2) = 2" by (simp add: demo2_outbox len)
  ultimately show ?thesis
    using replica_follows_owner [OF demo_store_ok(1), where cmd = "Cmd_register_account ''bob''"
        and env = "demo_env 0" and rep = demo1 and sd = demo_serde and recs = "drop 1 (outbox demo2)"]
    by simp
qed

text \<open>Applying a row twice is applying it once, so a page read again does no harm, and
  applying never writes to the outbox, so replicated rows do not travel on: no
  loops between peers. Well-formed tables stay well-formed.\<close>

theorem apply_is_idempotent:
  assumes "apply_row sd part st = Inr st'"
  shows "apply_row sd part st' = Inr st' \<and> outbox st' = outbox st \<and> cursors st' = cursors st \<and>
    node st' = node st \<and> (tables_ok st \<longrightarrow> tables_ok st')"
  using apply_row_twice [OF assms] apply_row_frame [OF assms] apply_row_tables_ok [OF assms] by blast

theorem apply_is_idempotent_witness:
  "\<exists>st'. apply_row demo_serde (feed_part (sd_value demo_serde) (hd (drop 1 (outbox demo2)))) demo1 = Inr st' \<and>
     get_user st' (UserId 2) = Some bob \<and>
     apply_row demo_serde (feed_part (sd_value demo_serde) (hd (drop 1 (outbox demo2)))) st' = Inr st'"
proof -
  let ?p = "feed_part (sd_value demo_serde) (hd (drop 1 (outbox demo2)))"
  have "length (outbox demo1) = 1" by (simp add: demo1_outbox)
  then have "apply_row demo_serde ?p demo1 = Inr (demo1\<lparr>users := hm_insert (UserId 2) bob (users demo1)\<rparr>)"
    by (simp add: demo2_outbox apply_row_def feed_part_def with_row_def demo_serde_def)
  from this apply_is_idempotent [OF this] show ?thesis by (auto simp: get_user_def)
qed



text \<open>An event that may yet become acceptable is never skipped. Where an event is
  refused for a reason that can pass, the batch stops there: the events after it
  are not looked at and the cursor stays below it, so the next pull begins with
  it again.\<close>

theorem transient_refusals_are_retried:
  assumes "\<And>rsv. \<exists>e. authorize ed w reg r rsv ev = Inl e \<and> is_transient e"
    and "\<forall>e\<in>set evs. \<forall>part. peek w e = Inr part \<longrightarrow> sp_seq part < q" "replication_cursor st peer < q"
  shows "replication_cursor (snd (replicator_ingest ed w sd reg r peer (evs @ ev # rest) st)) peer < q"
proof -
  let ?c = "replication_cursor st peer"
  let ?res = "replicate ed w sd reg r (evs @ ev # rest) ingested_default ?c st"
  have "0 < q" using assms(3) by (metis word_gt_0 word_not_simps(1))
  then have lt: "fst (snd ?res) < q"
    unfolding replicate_append_stops [OF assms(1)] by (rule replicate_handled_bound [OF assms(3,2)])
  have "cursors (apply_parts sd s parts) = cursors s" for s parts
    by (induction parts arbitrary: s) (simp_all add: apply_incoming_frame)
  then have c: "replication_cursor (snd (snd ?res)) peer = ?c"
    using replicate_gated [of ed w sd reg r "evs @ ev # rest" ingested_default ?c st]
    by (auto simp: replication_cursor_def)
  show ?thesis
    using lt assms(3) c
    by (simp add: replicator_ingest_def split_beta replication_cursor_def advance_cursor_def Let_def
        max_def split: option.splits)
qed

theorem transient_refusals_are_retried_witness:
  "replication_cursor (snd (replicator_ingest demo_ed demo_wire demo_serde (in_memory_registry demo_ed)
     new_registry (NodeId 1) [sign_event demo_ed demo_wire demo_keys demo_part] demo1)) (NodeId 1) < 1"
proof -
  let ?ev = "sign_event demo_ed demo_wire demo_keys demo_part"
  have "public_key demo_ed new_registry (NodeId 1) = Inr None"
    by (simp add: public_key_def new_registry_def)
  then have refused: "\<exists>e. authorize demo_ed demo_wire (in_memory_registry demo_ed) new_registry rsv ?ev = Inl e \<and>
      is_transient e" for rsv
    by (simp add: authorize_def peek_sign_event [OF demo_wire_ok])
  have "cursors demo1 = []"
    by (simp add: demo1_def demo0_def with_node_def empty_store_def register_account_def demo_step)
  then have "replication_cursor demo1 (NodeId 1) < 1"
    by (simp add: replication_cursor_def)
  then show ?thesis
    using transient_refusals_are_retried [OF refused, where evs = "[]" and rest = "[]" and q = 1 and st = demo1
        and peer = "NodeId 1" and sd = demo_serde] by simp
qed

text \<open>C40. A page of records none of which the producer can sign is an empty page, and the
  replica's cursor stays where it is: with as many such records in a row as the
  page is long, replication from that peer stops.\<close>

theorem unsignable_page_stalls:
  assumes "\<forall>rec\<in>set (source (replication_cursor st peer) limit). sign_record ed w enc kp preg pr rsv rec = None"
  shows "poll_peer ed w sd reg r peer
     (\<lambda>since lim. Inr (sign_feed ed w enc source kp preg pr rsv since lim)) limit st = (Inr 0, st)"
proof -
  have "List.map_filter (sign_record ed w enc kp preg pr rsv) (source (replication_cursor st peer) limit) = []"
    using assms by (simp add: map_filter_def filter_empty_conv)
  then show ?thesis by (simp add: poll_peer_def sign_feed_reference)
qed

theorem unsignable_page_stalls_witness:
  "poll_peer demo_ed demo_wire demo_serde (in_memory_registry demo_ed) demo_reg (NodeId 1)
     (\<lambda>since lim. Inr (sign_feed demo_ed demo_wire (\<lambda>_. JNull) (changes_since demo2) demo_keys
        (in_memory_registry demo_ed) demo_reg (store_resolver demo2) since lim)) 500 demo1 = (Inr 0, demo1)"
  by (rule unsignable_page_stalls)
     (simp add: sign_record_def feed_scope_def classify_def payload_u64_def feed_part_def Let_def
       changes_since_def demo2_outbox demo1_outbox)

end
