(* ===== verification/Edge_Properties.thy ===== *)
theory Edge_Properties
  imports Fleet_Demo
begin

text \<open>
  What comes into a node from outside: commands forwarded by other nodes, the
  loops that keep scopes owned, and the requests of browsers.
\<close>

section \<open>Forwarded commands\<close>

text \<open>C29. A forwarded command is admitted once. After an owner has admitted a command, no
  later attempt with the same node and nonce is admitted, whatever else the owner
  does, as long as the command was not dated a full two minutes ahead of the
  owner's clock. The log is the store, and survives in its snapshot.\<close>

theorem commands_run_once:
  assumes "tables_ok st" "fst (admit store_remember n nonce issued t st) = Inr ()"
    and "log_run store_remember tables_ok (\<lambda>st. hm_get (nonces st)) t
           (snd (admit store_remember n nonce issued t st)) t' st'"
    and "t' \<le> now" "issued < t + MAX_COMMAND_SKEW_SECS"
  shows "fst (admit store_remember n nonce issued now st') \<noteq> Inr () \<and> nonces (from_snapshot (to_snapshot st')) = nonces st'"
proof -
  have "tables_ok st'"
    using assms(3) store_log.remember_wf assms(1)
    by (induction rule: log_run.induct) (simp_all add: store_log.admit_state)
  then show ?thesis using store_log.no_replay [OF assms] snapshot_roundtrip [of st'] by simp
qed

lemma demo1_fresh: "fst (admit store_remember 1 ''n'' i t demo1) = Inr () \<longleftrightarrow> \<bar>t - i\<bar> \<le> 120"
proof -
  have "nonces demo1 = []"
    by (simp add: demo1_def demo0_def with_node_def empty_store_def register_account_def demo_step)
  then show ?thesis
    using store_log.admit_Inr [OF store_ok_tables [OF demo_store_ok(1)], of 1 "''n''" i t]
    by (simp add: MAX_COMMAND_SKEW_SECS_def)
qed

theorem commands_run_once_witness:
  "fst (admit store_remember 1 ''n'' 0 9 (snd (admit store_remember 1 ''n'' 0 5 demo1))) \<noteq> Inr ()"
proof -
  have ok: "fst (admit store_remember 1 ''n'' 0 5 demo1) = Inr ()" by (simp add: demo1_fresh)
  show ?thesis
    by (rule conjunct1, rule commands_run_once [OF store_ok_tables [OF demo_store_ok(1)] ok log_start])
       (simp_all add: MAX_COMMAND_SKEW_SECS_def)
qed

text \<open>C39. The proviso is needed: a command dated two minutes ahead is admitted again four
  minutes later, when its nonce is forgotten and it is just fresh enough.\<close>

theorem replay_at_the_edge:
  assumes "tables_ok st" "hm_get (nonces st) (n, nonce) = None"
  shows "fst (admit store_remember n nonce (t + 120) t st) = Inr () \<and>
    fst (admit store_remember n nonce (t + 120) (t + 240) (snd (admit store_remember n nonce (t + 120) t st))) = Inr ()"
  using assms
  by (simp add: store_log.admit_Inr store_log.admit_state store_log.remember_wf store_log.remember_seen
      MAX_COMMAND_SKEW_SECS_def)

theorem replay_at_the_edge_witness:
  "fst (admit store_remember 1 ''n'' 120 0 demo1) = Inr () \<and>
   fst (admit store_remember 1 ''n'' 120 240 (snd (admit store_remember 1 ''n'' 120 0 demo1))) = Inr ()"
proof -
  have "hm_get (nonces demo1) (1, ''n'') = None"
    by (simp add: demo1_def demo0_def with_node_def empty_store_def register_account_def demo_step)
  from replay_at_the_edge [OF store_ok_tables [OF demo_store_ok(1)] this, of 0] show ?thesis by simp
qed

lemma verify_signed_Inr:
  "verify_signed ed cw reg r sc = Inr cmd \<longleftrightarrow>
     (\<exists>key. reg_public_key reg r (NodeId (sc_node sc)) = Inr (Some key) \<and>
        verify_hex ed key (signing_payload (sc_node sc) (sc_issued_at sc) (sc_nonce sc) (sc_body sc))
          (sc_signature sc) = Inr () \<and>
        cmd_from_str cw (sc_body sc) = Some cmd)"
  by (auto simp: verify_signed_def signed_inner_def Let_def split: sum.splits option.splits)

text \<open>C21. A node acts only on signed commands that belong to it. If running a forwarded
  command succeeds, or changes anything at all, then its text, date and nonce are
  signed by the key published for the node it names and the node running it owns
  one of the scopes the command is about. A misrouted command does not even use
  up its nonce.\<close>

theorem commands_are_gated:
  assumes "execute ed cw me reg r rsv log executor sc now s = (res, s')" "res = Inr () \<or> s' \<noteq> s"
  shows "\<exists>cmd key scope ow. reg_public_key reg r (NodeId (sc_node sc)) = Inr (Some key) \<and>
    verify_hex ed key (signing_payload (sc_node sc) (sc_issued_at sc) (sc_nonce sc) (sc_body sc))
      (sc_signature sc) = Inr () \<and>
    cmd_from_str cw (sc_body sc) = Some cmd \<and>
    scope \<in> set (target_scopes cmd rsv) \<and> reg_owner_of reg r scope = Inr (Some ow) \<and> ow_owner ow = me"
proof -
  have "snd (execute ed cw me reg r rsv log executor sc now s) \<noteq> s \<or>
      fst (execute ed cw me reg r rsv log executor sc now s) = Inr ()"
    using assms by auto
  from execute_gated [OF this] show ?thesis unfolding verify_signed_Inr by blast
qed

text \<open>The block of Bob by Ann, signed by node 1 and run by Bob's home.\<close>

definition demo_command :: signed_command where
  "demo_command = sign_at demo_ed demo_commands demo_keys (BlockUser 1 2) 0 ''n''"

definition demo_run :: "inner \<Rightarrow> (forward_error + unit) \<times> inner" where
  "demo_run = execute demo_ed demo_commands (NodeId 2) (in_memory_registry demo_ed) demo_reg
     (store_resolver demo2) store_remember (service_execute (demo_env 0)) demo_command 0"

lemma demo_command_simps [simp]:
  "sc_node demo_command = 1" "sc_nonce demo_command = ''n''" "sc_issued_at demo_command = 0"
  by (simp_all add: demo_command_def sign_at_def Let_def)

lemma demo_run_ok: "fst (demo_run demo2) = Inr ()"
proof -
  have v: "verify_signed demo_ed demo_commands (in_memory_registry demo_ed) demo_reg demo_command = Inr (BlockUser 1 2)"
    unfolding demo_command_def
    by (rule verify_signed_sign_at [OF demo_ed_sound demo_commands_ok]) simp
  have n: "nonces demo2 = []"
    by (simp add: demo2_def demo1_def demo0_def with_node_def empty_store_def register_account_def demo_step)
  have a: "admit store_remember 1 ''n'' 0 0 demo2 = (Inr (), demo2\<lparr>nonces := [((1, ''n''), 240)]\<rparr>)"
    by (simp add: admit_def store_remember_def remember_nonce_def Let_def MAX_COMMAND_SKEW_SECS_def n
        hm_retain_def hm_get_def hm_insert_def)
  show ?thesis
    by (simp add: demo_run_def execute_def v a ran_def block_user_by_id_def block_between_def
        get_user_def hm_get_def split_beta)
qed

theorem commands_are_gated_witness:
  "\<exists>key scope ow. reg_public_key (in_memory_registry demo_ed) demo_reg (NodeId 1) = Inr (Some key) \<and>
     reg_owner_of (in_memory_registry demo_ed) demo_reg scope = Inr (Some ow) \<and> ow_owner ow = NodeId 2"
proof -
  have "demo_run demo2 = (Inr (), snd (demo_run demo2))" using demo_run_ok by (metis prod.collapse)
  from commands_are_gated [OF this [unfolded demo_run_def]] show ?thesis by auto
qed

text \<open>C30. A block made through the fleet holds at both homes. When submitting a block
  succeeds, each of the two users' homes has an owner and the block is on file at
  it, whichever node it was made on and whether the two homes are one or two.\<close>

theorem blocks_reach_both_homes:
  assumes "fleet_submit fl kp me peer issued nonce (BlockUser i j) w = (Inr (), w')"
    and "command_wire_ok (fl_wire fl)" "\<forall>n. tables_ok (w n)"
  shows "\<forall>s\<in>{ScopeUserHome i, ScopeUserHome j}. \<exists>ow.
    reg_owner_of (fl_registry fl) (fl_state fl) s = Inr (Some ow) \<and>
    store_is_blocked_between (w' (ow_owner ow)) (UserId i) (UserId j)"
  using fleet_block_committed [OF assms] by blast

definition demo_fleet :: "registry_state fleet" where
  "demo_fleet =
     \<lparr> fl_ed = demo_ed, fl_wire = demo_commands, fl_registry = in_memory_registry demo_ed,
       fl_state = demo_reg, fl_env = (\<lambda>_. demo_env 0), fl_now = (\<lambda>_. 0), fl_token = (\<lambda>_. None),
       fl_shown = (\<lambda>_. []) \<rparr>"

theorem blocks_reach_both_homes_witness:
  "\<exists>w'. fleet_submit demo_fleet demo_keys (NodeId 1) (\<lambda>_. True) 0 ''n'' (BlockUser 1 2) (\<lambda>_. demo2) = (Inr (), w') \<and>
     store_is_blocked_between (w' (NodeId 1)) (UserId 1) (UserId 2) \<and>
     store_is_blocked_between (w' (NodeId 2)) (UserId 1) (UserId 2)"
proof -
  obtain st where st: "demo_run demo2 = (Inr (), st)" using demo_run_ok by (metis prod.collapse)
  have run: "run_local demo_fleet (NodeId 1) (BlockUser 1 2) w = (Inr (), w(NodeId 1 := snd (block_user_by_id (demo_env 0) 1 2 (w (NodeId 1)))))"
    if "w (NodeId 1) = demo2" for w
    using that by (simp add: run_local_def demo_fleet_def ran_def block_user_by_id_def block_between_def
        get_user_def hm_get_def)
  have del: "deliver demo_fleet (NodeId 1) (NodeId 2) demo_command w = (Inr (), w(NodeId 2 := st))"
    if "w (NodeId 2) = demo2" for w
    using that st
    by (simp add: deliver_def demo_fleet_def command_handler_def bearer_ok_def forward_response_def
        flip: demo_run_def)
  let ?w = "(\<lambda>_. demo2)(NodeId 1 := snd (block_user_by_id (demo_env 0) 1 2 demo2), NodeId 2 := st)"
  have "fleet_submit demo_fleet demo_keys (NodeId 1) (\<lambda>_. True) 0 ''n'' (BlockUser 1 2) (\<lambda>_. demo2) = (Inr (), ?w)"
    unfolding fleet_submit_def submit_def
    using run [of "\<lambda>_. demo2"] del [of "(\<lambda>_. demo2)(NodeId 1 := snd (block_user_by_id (demo_env 0) 1 2 demo2))"]
    by (simp add: demo_fleet_def flip: demo_command_def)
  moreover from blocks_reach_both_homes [OF this] demo_commands_ok store_ok_tables [OF demo_store_ok(2)]
  have "store_is_blocked_between (?w (NodeId 1)) (UserId 1) (UserId 2) \<and>
      store_is_blocked_between (?w (NodeId 2)) (UserId 1) (UserId 2)"
    by (simp add: demo_fleet_def)
  ultimately show ?thesis by blast
qed

section \<open>Keeping scopes owned\<close>


definition demo_down :: registry_state where
  "demo_down =
     \<lparr> rs_owners = [], rs_max_epoch = [(ScopeServer 1, 1)], rs_keys = [],
       rs_loads = [(2, \<lparr> hosted_scopes = 0, requests_per_sec = Fin 0 \<rparr>)],
       rs_standbys = [(ScopeServer 1, [2])], rs_rehoming_disabled = [] \<rparr>"



text \<open>The loop only ever records an opt-out: a community that votes its re-homing back
  on stays opted out at the registry.\<close>

lemma claim_scope_opt_out:
  "can_rehome r s = Inr False \<Longrightarrow> can_rehome (claim_scope (in_memory_registry ed) st me sb scope r) s = Inr False"
  by (auto simp: claim_scope_def claim_def set_rehoming_def set_standby_def can_rehome_def Let_def
      split: option.splits owned_scope.splits prod.splits)

theorem opt_out_is_never_lifted:
  assumes "can_rehome r s = Inr False"
  shows "can_rehome (reconcile_claims (in_memory_registry ed) st me r) s = Inr False"
proof -
  have "can_rehome (foldl (\<lambda>r scope. claim_scope (in_memory_registry ed) st me sb scope r) r' ss) s = Inr False"
    if "can_rehome r' s = Inr False" for sb r' ss
    using that by (induction ss arbitrary: r') (simp_all add: claim_scope_opt_out)
  moreover have "can_rehome (snd (report_load n l r)) s = Inr False" for n l
    using assms by (simp add: report_load_def can_rehome_def)
  ultimately show ?thesis by (simp add: reconcile_claims_def Let_def)
qed

section \<open>Browsers\<close>

text \<open>A session token is what the server signed. A token made for a user and an expiry
  verifies as exactly those; whatever verifies carries the MAC of the user and the
  expiry it is read as, and no two pairs have the same message under the MAC; and
  a request acts for a user only with such a token that has not expired.\<close>

theorem session_tokens:
  assumes "- (2 ^ 63) \<le> e" "e < 2 ^ 63"
  shows "session_verify hm key (session_sign hm key uid e) = Some (uid, e) \<and>
    (\<forall>token v x. session_verify hm key token = Some (v, x) \<longrightarrow>
       (\<exists>a b sig. token = a @ CHR ''.'' # b @ CHR ''.'' # sig \<and> parse_u64 a = Some v \<and> parse_i64 b = Some x \<and>
          hex_decode sig = Some (hm key (to_le_bytes v @ to_le_bytes (word_of_int x))) \<and>
          (to_le_bytes v @ to_le_bytes (word_of_int x) = to_le_bytes uid @ to_le_bytes (word_of_int e) \<longrightarrow>
             v = uid \<and> x = e))) \<and>
    (\<forall>h cookies. current_actor hm key env st cookies = Some h \<longrightarrow>
       (\<exists>token v x u. cookie_value cookies SESSION_COOKIE = Some token \<and>
          session_verify hm key token = Some (v, x) \<and> seconds (env_now env) \<le> x \<and>
          get_user st (UserId v) = Some u \<and> u_handle u = h))"
proof (intro conjI allI impI)
  show "session_verify hm key (session_sign hm key uid e) = Some (uid, e)"
    by (rule session_round [OF assms])
next
  fix token v x
  assume v: "session_verify hm key token = Some (v, x)"
  from session_verify_mac [OF v] obtain a b sig where
    sig: "hex_decode sig = Some (session_mac hm key v x)" "token = a @ CHR ''.'' # b @ CHR ''.'' # sig"
      "parse_u64 a = Some v" "parse_i64 b = Some x" by blast
  have "to_le_bytes v @ to_le_bytes (word_of_int x) = to_le_bytes uid @ to_le_bytes (word_of_int e) \<longrightarrow>
      v = uid \<and> x = e"
    using session_message_inject [OF _ _ assms, of x v uid] parse_i64_range [OF sig(4)] by blast
  with sig show "\<exists>a b sig. token = a @ CHR ''.'' # b @ CHR ''.'' # sig \<and> parse_u64 a = Some v \<and>
      parse_i64 b = Some x \<and> hex_decode sig = Some (hm key (to_le_bytes v @ to_le_bytes (word_of_int x))) \<and>
      (to_le_bytes v @ to_le_bytes (word_of_int x) = to_le_bytes uid @ to_le_bytes (word_of_int e) \<longrightarrow>
         v = uid \<and> x = e)"
    unfolding session_mac_def by blast
next
  fix h cookies
  assume "current_actor hm key env st cookies = Some h"
  from current_actor_Some [OF this]
  show "\<exists>token v x u. cookie_value cookies SESSION_COOKIE = Some token \<and>
      session_verify hm key token = Some (v, x) \<and> seconds (env_now env) \<le> x \<and>
      get_user st (UserId v) = Some u \<and> u_handle u = h" .
qed

theorem session_tokens_witness:
  "session_verify (\<lambda>key msg. rev msg) ''k'' (session_sign (\<lambda>key msg. rev msg) ''k'' 42 1000) = Some (42, 1000)"
  using session_tokens [of 1000 "\<lambda>key msg. rev msg" "''k''" 42] by simp

text \<open>C37. No address gets more than its share. However requests are spaced and whatever
  other addresses do, in any stretch of time shorter than a window the limiter
  admits fewer than twice the limit of a bucket from one address.\<close>

theorem rate_limit_bound:
  assumes "sorted (map snd hs)" "\<forall>h\<in>set hs. t \<le> snd h \<and> snd h < t + WINDOW"
  shows "admitted k hs (limiter_run pre []) < 2 * bucket_limit (snd k)"
  by (rule admitted_span [OF limiter_run_ok [OF limiter_ok_Nil] assms])

theorem rate_limit_bound_witness:
  "admitted (7 :: nat, Auth) (List.replicate 40 ((7, Auth), 5)) (limiter_run [] []) < 20"
  using rate_limit_bound [of "List.replicate 40 ((7 :: nat, Auth), 5)" 5 "(7, Auth)" "[]"]
  by (simp add: WINDOW_def AUTH_MAX_def)

end
