(* ===== verification/Web_State.thy ===== *)
theory Web_State
  imports System Web_Edge
begin

text \<open>
  What every HTTP handler of the web client works on
  (\<^verbatim>\<open>adapter-web/src/state.rs\<close>, \<^verbatim>\<open>auth.rs\<close> and the helpers at the head of
  \<^verbatim>\<open>handlers.rs\<close> and \<^verbatim>\<open>social_handlers.rs\<close>): the wiring of the server, the state a
  request may change, the printed errors of the use cases (\<^verbatim>\<open>app/src/error\<close>), the
  guards that turn a cookie into an actor, and the routers of a federated node
  (\<^verbatim>\<open>democrachat/src/*_router.rs\<close>).
\<close>

section \<open>Printed errors\<close>

definition quoted :: "string \<Rightarrow> string" where
  "quoted s = [CHR 0x27] @ s @ [CHR 0x27]"

fun channel_error_text :: "channel_error \<Rightarrow> string" where
  "channel_error_text (Channel_NoSuchUser u) = ''no such user: '' @ quoted u"
| "channel_error_text (Channel_NoSuchServer s) = ''no such server: '' @ quoted s"
| "channel_error_text Channel_EmptyName = ''channel name must not be empty''"
| "channel_error_text (Channel_NameTaken n) =
     ''channel '' @ quoted (CHR ''#'' # n) @ '' already exists in this server''"
| "channel_error_text Channel_NotProvisionable =
     ''only the founder may create channels while the server is in Seed; a larger server must vote (not yet implemented)''"

fun channel_key_error_text :: "channel_key_error \<Rightarrow> string" where
  "channel_key_error_text (CK_NoSuchUser u) = ''no such user: '' @ quoted u"
| "channel_key_error_text (CK_NoSuchServer s) = ''no such server: '' @ quoted s"
| "channel_key_error_text (CK_NoSuchChannel c) = ''no such channel: '' @ quoted (CHR ''#'' # c)"
| "channel_key_error_text (CK_NotAMember u) = quoted u @ '' is not a member of this server''"
| "channel_key_error_text CK_NotACitizen = ''only a citizen of this server may do that''"
| "channel_key_error_text CK_NotEncrypted = ''this channel is not encrypted''"
| "channel_key_error_text CK_EmptySeal = ''the sealed key is empty''"

fun emoji_error_text :: "emoji_error \<Rightarrow> string" where
  "emoji_error_text (Emoji_NoSuchUser u) = ''no such user: '' @ quoted u"
| "emoji_error_text (Emoji_NoSuchServer s) = ''no such server: '' @ quoted s"
| "emoji_error_text Emoji_NotACitizen = ''only a citizen of this server may do that''"
| "emoji_error_text Emoji_BadName = ''an emoji name must be letters, numbers, - or _''"
| "emoji_error_text (Emoji_NameTaken n) =
     ''an emoji named '' @ quoted ('':'' @ n @ '':'') @ '' already exists here''"
| "emoji_error_text (Emoji_BadImage e) = ''the image is invalid: '' @ e"
| "emoji_error_text (Emoji_NoSuchEmoji i) = ''no such emoji: '' @ dec_u64 i"

fun enfranchise_error_text :: "enfranchise_error \<Rightarrow> string" where
  "enfranchise_error_text (Enf_NoSuchUser u) = ''no such user: '' @ quoted u"
| "enfranchise_error_text (Enf_NoSuchServer s) = ''no such server: '' @ quoted s"
| "enfranchise_error_text (Enf_NotAMember u) = quoted u @ '' is not a member of this server''"
| "enfranchise_error_text (Enf_AlreadyCitizen u) =
     quoted u @ '' is already a citizen of this server''"

fun found_error_text :: "found_error \<Rightarrow> string" where
  "found_error_text (Found_NoSuchUser u) = ''no such user: '' @ quoted u"
| "found_error_text (Found_SlugTaken s) = ''server slug '' @ quoted s @ '' is already taken''"
| "found_error_text Found_EmptyName = ''name/slug must not be empty''"
| "found_error_text Found_FounderBarred = ''a franchise-barred account may not found a server''"

fun invite_error_text :: "invite_error \<Rightarrow> string" where
  "invite_error_text (Invite_NoSuchUser u) = ''no such user: '' @ quoted u"
| "invite_error_text (Invite_NoSuchServer s) = ''no such server: '' @ quoted s"
| "invite_error_text (Invite_NotMember s) = ''not a member of '' @ quoted s"
| "invite_error_text (Invite_Closed s) = ''invites are closed for '' @ quoted s"
| "invite_error_text Invite_InvalidCode = ''invalid or revoked invite code''"
| "invite_error_text (Invite_AlreadyMember s) = ''already a member of '' @ quoted s"

fun join_error_text :: "join_error \<Rightarrow> string" where
  "join_error_text (Join_NoSuchUser u) = ''no such user: '' @ quoted u"
| "join_error_text (Join_NoSuchServer s) = ''no such server: '' @ quoted s"
| "join_error_text (Join_AlreadyMember s) = ''already a member of '' @ quoted s"

fun key_error_text :: "key_error \<Rightarrow> string" where
  "key_error_text (Key_NoSuchUser u) = ''no such user: '' @ quoted u"
| "key_error_text (Key_BadPublicKey e) = ''invalid public key: '' @ e"
| "key_error_text (Key_NotPublished u) = ''no keys published for '' @ quoted u"

fun media_error_text :: "media_error \<Rightarrow> string" where
  "media_error_text Media_Empty = ''empty upload''"
| "media_error_text Media_TooLarge = ''attachment too large''"
| "media_error_text (Media_UnsupportedType t) = ''unsupported media type: '' @ quoted t"
| "media_error_text Media_Io = ''media storage error''"

fun message_error_text :: "message_error \<Rightarrow> string" where
  "message_error_text (Msg_NoSuchUser u) = ''no such user: '' @ quoted u"
| "message_error_text (Msg_NoSuchServer s) = ''no such server: '' @ quoted s"
| "message_error_text (Msg_NoSuchChannel c) = ''no such channel: '' @ quoted (CHR ''#'' # c)"
| "message_error_text (Msg_NoSuchMessage i) = ''no such message: '' @ dec_u64 i"
| "message_error_text (Msg_NotAMember u) =
     quoted u @ '' is not a member of this server and cannot post''"
| "message_error_text (Msg_Sanctioned u) = quoted u @ '' is banned from this server''"
| "message_error_text Msg_NotTheAuthor = ''only the author may edit or delete their message''"
| "message_error_text Msg_EmptyBody = ''message body must not be empty''"
| "message_error_text Msg_CrossChannelReply = ''cannot reply to a message in a different channel''"
| "message_error_text Msg_ChannelEncrypted =
     ''this channel is encrypted; post a sealed message''"
| "message_error_text Msg_NotEncrypted = ''this channel is not encrypted''"

fun propose_error_text :: "propose_error \<Rightarrow> string" where
  "propose_error_text (Propose_NoSuchUser u) = ''no such user: '' @ quoted u"
| "propose_error_text (Propose_NoSuchServer s) = ''no such server: '' @ quoted s"
| "propose_error_text Propose_NotACitizen = ''only a citizen may open a proposal here''"
| "propose_error_text Propose_NotGoverned = ''this server does not put that to a vote''"
| "propose_error_text Propose_NotAllowedInPhase =
     ''that decision is not permitted in this server'' @ [CHR 0x27] @ ''s current phase''"
| "propose_error_text (Propose_Invalid e) = ''proposal is malformed: '' @ e"

fun reaction_error_text :: "reaction_error \<Rightarrow> string" where
  "reaction_error_text (React_NoSuchUser u) = ''no such user: '' @ quoted u"
| "reaction_error_text (React_NoSuchMessage i) = ''no such message: '' @ dec_u64 i"
| "reaction_error_text (React_NotAMember u) =
     quoted u @ '' is not a member of this server and cannot react''"
| "reaction_error_text React_EmptyEmoji = ''emoji must not be empty''"

fun register_error_text :: "register_error \<Rightarrow> string" where
  "register_error_text (Reg_HandleTaken h) = ''handle '' @ quoted h @ '' is already taken''"
| "register_error_text Reg_EmptyHandle = ''handle must not be empty''"
| "register_error_text (Reg_WeakPassword e) = e"
| "register_error_text (Reg_InvalidEmail e) = e"
| "register_error_text Reg_EmailTaken = ''email is already registered''"
| "register_error_text Reg_HashFailed = ''could not secure the password''"

text \<open>The multiplication sign is U+00D7.\<close>

fun emoji_image_error_text :: "emoji_image_error \<Rightarrow> string" where
  "emoji_image_error_text ImageEmpty = ''no image data''"
| "emoji_image_error_text (ImageTooLarge actual limit) =
     ''image is '' @ dec_nat actual @ '' bytes; the limit is '' @ dec_nat limit"
| "emoji_image_error_text UnsupportedFormat =
     ''unrecognized image format (only PNG and GIF are allowed)''"
| "emoji_image_error_text Truncated = ''image header is truncated''"
| "emoji_image_error_text EmptyDimensions = ''image has zero width or height''"
| "emoji_image_error_text (TooBig width height mx) =
     ''image is '' @ dec_nat (unat width) @ [CHR 0xC3, CHR 0x97] @ dec_nat (unat height) @
     ''; the limit is '' @ dec_nat (unat mx) @ [CHR 0xC3, CHR 0x97] @ dec_nat (unat mx)"

section \<open>The state of the server\<close>

text \<open>A live event, before its encoding as JSON: its type and its fields.\<close>

datatype web_event =
    Ev_server
  | Ev_channel string
  | Ev_message string string
  | Ev_reaction string string
  | Ev_proposal "string option"
  | Ev_emoji string
  | Ev_clock
  | Ev_social string string

record email =
  em_to :: string
  em_subject :: string
  em_body :: string

text \<open>What a request may change: the store, the clock behind \<^verbatim>\<open>Services\<close>, the dataset
  on disk, the events sent to the open sockets and the mail handed to the
  sender.\<close>

record web =
  w_store :: inner
  w_clock :: timestamp
  w_saved :: snapshot
  w_events :: "web_event list"
  w_mail :: "email list"

type_synonym http_error = "nat \<times> string"
type_synonym 'a handler = "web \<Rightarrow> (http_error + 'a) \<times> web"

text \<open>The routers: the answer of the owner, or the printed reason it refused.\<close>

record friend_router =
  fr_request :: "u64 \<Rightarrow> u64 \<Rightarrow> web \<Rightarrow> (string + unit) \<times> web"
  fr_accept :: "u64 \<Rightarrow> u64 \<Rightarrow> web \<Rightarrow> (string + unit) \<times> web"

text \<open>\<open>as_env\<close> is what \<^verbatim>\<open>Services\<close> was built with, its clock aside. Base64, hex and
  the check of a header value are library functions. \<open>as_has_sender\<close> says that
  an \<^verbatim>\<open>EmailSender\<close> is installed; a failed delivery is only logged.\<close>

record app_state =
  as_env :: env
  as_hmac :: hmac
  as_key :: string
  as_secure_cookies :: bool
  as_is_dev :: bool
  as_vote_router :: "(u64 \<Rightarrow> u64 \<Rightarrow> bool \<Rightarrow> web \<Rightarrow> (string + unit) \<times> web) option"
  as_dm_router :: "(u64 \<Rightarrow> u64 \<Rightarrow> string \<Rightarrow> string \<Rightarrow> web \<Rightarrow> (string + unit) \<times> web) option"
  as_block_router :: "(u64 \<Rightarrow> u64 \<Rightarrow> web \<Rightarrow> (string + unit) \<times> web) option"
  as_friend_router :: "friend_router option"
  as_has_sender :: bool
  as_site_address :: string
  as_base64 :: "string \<Rightarrow> u8 list option"
  as_hex :: "string \<Rightarrow> string + u8 list"
  as_header_value :: "string \<Rightarrow> bool"

definition at_clock :: "app_state \<Rightarrow> web \<Rightarrow> env" where
  "at_clock app w = (as_env app)\<lparr>env_now := w_clock w\<rparr>"

definition publish :: "web_event \<Rightarrow> web \<Rightarrow> web" where
  "publish ev w = w\<lparr>w_events := w_events w @ [ev]\<rparr>"

definition persist :: "web \<Rightarrow> web" where
  "persist w = w\<lparr>w_saved := to_snapshot (w_store w)\<rparr>"

text \<open>The closure of \<^verbatim>\<open>main.rs\<close> behind \<^verbatim>\<open>advance_days\<close>.\<close>

definition advance_days :: "int \<Rightarrow> web \<Rightarrow> web" where
  "advance_days days w = w\<lparr>w_clock := plus_days (w_clock w) days\<rparr>"

section \<open>Guards\<close>

definition bad :: "string \<Rightarrow> http_error" where
  "bad e = (400, e)"

definition not_found :: "string \<Rightarrow> http_error" where
  "not_found what = (404, what)"

definition web_actor :: "app_state \<Rightarrow> string option \<Rightarrow> web \<Rightarrow> string option" where
  "web_actor app cookies w =
     current_actor (as_hmac app) (as_key app) (at_clock app w) (w_store w) cookies"

definition require_actor :: "app_state \<Rightarrow> string option \<Rightarrow> web \<Rightarrow> http_error + string" where
  "require_actor app cookies w =
     (case web_actor app cookies w of
        None \<Rightarrow> Inl (401, ''err.not_signed_in'') | Some me \<Rightarrow> Inr me)"

definition require_self :: "app_state \<Rightarrow> string option \<Rightarrow> string \<Rightarrow> web \<Rightarrow> http_error + unit" where
  "require_self app cookies me w =
     (case require_actor app cookies w of
        Inl e \<Rightarrow> Inl e
      | Inr actor \<Rightarrow> if actor = me then Inr () else Inl (403, ''err.forbidden_not_self''))"

definition secure_suffix :: "app_state \<Rightarrow> string" where
  "secure_suffix app = (if as_secure_cookies app then ''; Secure'' else [])"

definition web_session_cookie :: "app_state \<Rightarrow> web \<Rightarrow> u64 \<Rightarrow> string" where
  "web_session_cookie app w uid =
     session_cookie (as_hmac app) (as_key app) (at_clock app w) (as_secure_cookies app) uid"

definition clear_session_cookie :: "app_state \<Rightarrow> string" where
  "clear_session_cookie app =
     SESSION_COOKIE @ ''=; Path=/; HttpOnly; SameSite=Lax; Max-Age=0'' @ secure_suffix app"

section \<open>The shape of a handler\<close>

text \<open>\<^verbatim>\<open>let me = require_actor(..)?; rest\<close>, \<^verbatim>\<open>require_self(..)?; rest\<close>, and a call of a use case,
  \<^verbatim>\<open>let a = services.f(..).map_err(bad)?; rest\<close>.\<close>

definition signed_in :: "app_state \<Rightarrow> string option \<Rightarrow> (string \<Rightarrow> 'a handler) \<Rightarrow> 'a handler" where
  "signed_in app cookies rest w =
     (case require_actor app cookies w of Inl e \<Rightarrow> (Inl e, w) | Inr me \<Rightarrow> rest me w)"

definition as_self :: "app_state \<Rightarrow> string option \<Rightarrow> string \<Rightarrow> 'a handler \<Rightarrow> 'a handler" where
  "as_self app cookies me rest w =
     (case require_self app cookies me w of Inl e \<Rightarrow> (Inl e, w) | Inr _ \<Rightarrow> rest w)"

definition calling ::
  "app_state \<Rightarrow> ('e \<Rightarrow> string) \<Rightarrow> (env \<Rightarrow> inner \<Rightarrow> ('e + 'b) \<times> inner) \<Rightarrow> ('b \<Rightarrow> 'a handler) \<Rightarrow> 'a handler" where
  "calling app txt f rest w =
     (case f (at_clock app w) (w_store w) of
        (Inl e, st) \<Rightarrow> (Inl (bad (txt e)), w\<lparr>w_store := st\<rparr>)
      | (Inr b, st) \<Rightarrow> rest b (w\<lparr>w_store := st\<rparr>))"

text \<open>The same for a use case that only reads.\<close>

definition reading :: "('e \<Rightarrow> string) \<Rightarrow> (inner \<Rightarrow> 'e + 'b) \<Rightarrow> ('b \<Rightarrow> 'a handler) \<Rightarrow> 'a handler" where
  "reading txt f rest w =
     (case f (w_store w) of Inl e \<Rightarrow> (Inl (bad (txt e)), w) | Inr b \<Rightarrow> rest b w)"

text \<open>A router's answer, \<^verbatim>\<open>router.f(..).await.map_err(bad)?; rest\<close>.\<close>

definition routing :: "(web \<Rightarrow> (string + unit) \<times> web) \<Rightarrow> 'a handler \<Rightarrow> 'a handler" where
  "routing f rest w =
     (case f w of (Inl e, w) \<Rightarrow> (Inl (bad e), w) | (Inr _, w) \<Rightarrow> rest w)"

text \<open>\<^verbatim>\<open>find_user(handle).ok_or((NOT_FOUND, "err.no_such_user"))?\<close>.\<close>

definition with_user :: "string \<Rightarrow> (user \<Rightarrow> 'a handler) \<Rightarrow> 'a handler" where
  "with_user hdl rest w =
     (case find_user hdl (w_store w) of
        None \<Rightarrow> (Inl (not_found ''err.no_such_user''), w) | Some u \<Rightarrow> rest u w)"

section \<open>The routers of a federated node\<close>

text \<open>\<open>sb\<close> is the write router of the node; \<open>executor\<close> is what it runs a command
  on this node with: the use case, and the dataset saved when it succeeds.\<close>

definition web_executor :: "app_state \<Rightarrow> fed_command \<Rightarrow> web \<Rightarrow> (forward_error + unit) \<times> web" where
  "web_executor app cmd w =
     (case service_execute (at_clock app w) cmd (w_store w) of
        (Inl e, st) \<Rightarrow> (Inl e, w\<lparr>w_store := st\<rparr>)
      | (Inr _, st) \<Rightarrow> (Inr (), persist (w\<lparr>w_store := st\<rparr>)))"

type_synonym submitter = "fed_command \<Rightarrow> web \<Rightarrow> (forward_error + unit) \<times> web"

definition submitted :: "submitter \<Rightarrow> fed_command \<Rightarrow> web \<Rightarrow> (string + unit) \<times> web" where
  "submitted sb cmd w = map_prod (map_sum forward_error_text id) id (sb cmd w)"

definition federated_vote_router :: "submitter \<Rightarrow> u64 \<Rightarrow> u64 \<Rightarrow> bool \<Rightarrow> web \<Rightarrow> (string + unit) \<times> web" where
  "federated_vote_router sb voter_id proposal_id is_aye =
     submitted sb (CastVote proposal_id voter_id is_aye)"

definition federated_dm_router ::
  "submitter \<Rightarrow> u64 \<Rightarrow> u64 \<Rightarrow> string \<Rightarrow> string \<Rightarrow> web \<Rightarrow> (string + unit) \<times> web" where
  "federated_dm_router sb from_id to_id for_recipient for_sender =
     submitted sb (SendDm from_id to_id for_recipient for_sender)"

definition federated_block_router :: "submitter \<Rightarrow> u64 \<Rightarrow> u64 \<Rightarrow> web \<Rightarrow> (string + unit) \<times> web" where
  "federated_block_router sb blocker_id blocked_id =
     submitted sb (BlockUser blocker_id blocked_id)"

definition federated_friend_router :: "submitter \<Rightarrow> friend_router" where
  "federated_friend_router sb =
     \<lparr> fr_request = (\<lambda>requester_id addressee_id. submitted sb (RequestFriend requester_id addressee_id)),
       fr_accept = (\<lambda>accepter_id requester_id. submitted sb (AcceptFriend accepter_id requester_id)) \<rparr>"

section \<open>What the helpers leave alone\<close>

lemma web_frames [simp]:
  "w_store (publish ev w) = w_store w" "w_clock (publish ev w) = w_clock w"
  "w_saved (publish ev w) = w_saved w" "w_mail (publish ev w) = w_mail w"
  "w_store (persist w) = w_store w" "w_clock (persist w) = w_clock w"
  "w_saved (persist w) = to_snapshot (w_store w)" "w_mail (persist w) = w_mail w"
  "w_events (persist w) = w_events w" "w_events (publish ev w) = w_events w @ [ev]"
  by (simp_all add: publish_def persist_def)

lemma at_clock_frames [simp]:
  "at_clock app (w\<lparr>w_store := st\<rparr>) = at_clock app w"
  "at_clock app (publish ev w) = at_clock app w" "at_clock app (persist w) = at_clock app w"
  "env_now (at_clock app w) = w_clock w"
  by (simp_all add: at_clock_def)

end
