(* ===== verification/Web_Views.thy ===== *)
theory Web_Views
  imports Web_State
begin

text \<open>
  The shapes the web client reads (\<^verbatim>\<open>adapter-web/src/dto.rs\<close>) and how the handlers
  build them from the store (\<^verbatim>\<open>handlers.rs\<close>): server summaries and details,
  messages with their quotes and mentions, proposals with a summary of what they
  would do, and the translation of a request for a proposal into its kind.
\<close>

section \<open>Text\<close>

fun split_ws :: "(nat \<times> string) list \<Rightarrow> string \<Rightarrow> string list" where
  "split_ws [] cur = [cur]"
| "split_ws ((cp, bs) # cs) cur =
     (if is_whitespace cp then cur # split_ws cs [] else split_ws cs (cur @ bs))"

definition split_whitespace :: "string \<Rightarrow> string list" where
  "split_whitespace s = filter (\<lambda>w. w \<noteq> []) (split_ws (utf8_chunks s) [])"

fun joined :: "string \<Rightarrow> string list \<Rightarrow> string" where
  "joined sep [] = []"
| "joined sep [x] = x"
| "joined sep (x # y # xs) = x @ sep @ joined sep (y # xs)"

text \<open>The ellipsis U+2026, the dash U+2014 and the quotation marks U+201C and U+201D.\<close>

abbreviation (input) ellipsis :: string where "ellipsis \<equiv> [CHR 0xE2, CHR 0x80, CHR 0xA6]"
abbreviation (input) em_dash :: string where "em_dash \<equiv> [CHR 0xE2, CHR 0x80, CHR 0x94]"
abbreviation (input) left_quote :: string where "left_quote \<equiv> [CHR 0xE2, CHR 0x80, CHR 0x9C]"
abbreviation (input) right_quote :: string where "right_quote \<equiv> [CHR 0xE2, CHR 0x80, CHR 0x9D]"

definition excerpt :: "string \<Rightarrow> string" where
  "excerpt body =
     (let flat = joined '' '' (split_whitespace body);
          s = concat (map snd (take 80 (utf8_chunks flat)))
      in if length (utf8_chunks flat) > 80 then s @ ellipsis else s)"

section \<open>Servers\<close>

record server_summary =
  ss_slug :: string
  ss_name :: string
  ss_phase :: string
  ss_citizens :: u64
  ss_is_private :: bool
  ss_are_invites_open :: bool

fun phase_debug :: "phase \<Rightarrow> string" where
  "phase_debug Seed = ''Seed''"
| "phase_debug Chartering = ''Chartering''"
| "phase_debug Sovereign = ''Sovereign''"

fun vote_weighting_debug :: "vote_weighting \<Rightarrow> string" where
  "vote_weighting_debug Equal = ''Equal''"
| "vote_weighting_debug ByContribution = ''ByContribution''"
| "vote_weighting_debug ByTenure = ''ByTenure''"
| "vote_weighting_debug ByRole = ''ByRole''"

fun weighting_scope_debug :: "weighting_scope \<Rightarrow> string" where
  "weighting_scope_debug Both = ''Both''"
| "weighting_scope_debug JuriesOnly = ''JuriesOnly''"
| "weighting_scope_debug BallotsOnly = ''BallotsOnly''"
| "weighting_scope_debug ScopeNone = ''None''"

definition summary_of_server :: "server \<times> phase \<times> u64 \<Rightarrow> server_summary" where
  "summary_of_server x =
     (case x of (g, phase, citizens) \<Rightarrow>
       \<lparr> ss_slug = s_slug g, ss_name = s_name g, ss_phase = phase_debug phase,
         ss_citizens = citizens, ss_is_private = s_is_private g,
         ss_are_invites_open = allows_member_invites g \<rparr>)"

record channel_dto =
  cd_name :: string
  cd_topic :: string
  cd_is_encrypted :: bool
  cd_history_mode :: string

definition dto_of_channel :: "channel \<Rightarrow> channel_dto" where
  "dto_of_channel c =
     \<lparr> cd_name = ch_name c, cd_topic = ch_topic c, cd_is_encrypted = ch_is_encrypted c,
       cd_history_mode = (case ch_history_mode c of
           HistoryOpen \<Rightarrow> ''open'' | Ephemeral \<Rightarrow> ''ephemeral'') \<rparr>"

record jury_sizing_dto =
  js_mode :: string
  js_post :: u32
  js_comment :: u32

record server_detail =
  sd_slug :: string
  sd_name :: string
  sd_phase :: string
  sd_citizens :: u64
  sd_founder :: string
  sd_min_account_age_days :: int
  sd_min_membership_days :: int
  sd_min_contribution :: int
  sd_surface :: "string list"
  sd_vote_weighting :: string
  sd_weighting_scope :: string
  sd_jury_sizing :: jury_sizing_dto
  sd_channels :: "channel_dto list"
  sd_is_private :: bool
  sd_are_invites_open :: bool

definition dto_of_jury_sizing :: "jury_sizing \<Rightarrow> jury_sizing_dto" where
  "dto_of_jury_sizing sz =
     (case sz of
        Sqrt p c \<Rightarrow> \<lparr> js_mode = ''Sqrt'', js_post = p, js_comment = c \<rparr>
      | Proportion p c \<Rightarrow> \<lparr> js_mode = ''Proportion'', js_post = p, js_comment = c \<rparr>
      | Fixed p c \<Rightarrow> \<lparr> js_mode = ''Fixed'', js_post = p, js_comment = c \<rparr>)"

definition or_empty :: "'a list option \<Rightarrow> 'a list" where
  "or_empty x = (case x of None \<Rightarrow> [] | Some s \<Rightarrow> s)"

definition view_server_detail :: "string \<Rightarrow> inner \<Rightarrow> server_detail option" where
  "view_server_detail slug st =
     (case server_snapshot slug st of
        None \<Rightarrow> None
      | Some (g, phase, citizens) \<Rightarrow>
          let founder = or_empty (handle_of_user (s_founder_id g) st);
              surface = sort (map ballot_kind_debug
                          (filter (\<lambda>k. k \<in> s_enabled_ballots g) all_ballot_kinds));
              channels = map dto_of_channel (or_empty (list_channels slug st))
          in Some
            \<lparr> sd_slug = s_slug g, sd_name = s_name g, sd_phase = phase_debug phase,
              sd_citizens = citizens, sd_founder = founder,
              sd_min_account_age_days = min_account_age_days (s_criteria g),
              sd_min_membership_days = min_membership_days (s_criteria g),
              sd_min_contribution = min_contribution (s_criteria g),
              sd_surface = surface,
              sd_vote_weighting = vote_weighting_debug (s_vote_weighting g),
              sd_weighting_scope = weighting_scope_debug (s_weighting_scope g),
              sd_jury_sizing = dto_of_jury_sizing (s_jury_sizing g),
              sd_channels = channels, sd_is_private = s_is_private g,
              sd_are_invites_open = allows_member_invites g \<rparr>)"

section \<open>Standing\<close>

record me_dto =
  me_tier :: string
  me_is_eligible :: bool
  me_unmet :: "string list"
  me_contribution :: int
  me_shares_history :: "bool option"

fun describe_unmet :: "unmet \<Rightarrow> string" where
  "describe_unmet (AccountTooYoung nd hv) =
     ''account age '' @ dec_int hv @ ''d / '' @ dec_int nd @ ''d''"
| "describe_unmet (MembershipTooShort nd hv) =
     ''membership '' @ dec_int hv @ ''d / '' @ dec_int nd @ ''d''"
| "describe_unmet (InsufficientContribution nd hv) =
     ''endorsed contribution '' @ dec_int hv @ '' / '' @ dec_int nd"
| "describe_unmet Sanctioned = ''under an active sanction''"
| "describe_unmet Barred = ''barred from the franchise''"

definition guest_dto :: "string \<Rightarrow> me_dto" where
  "guest_dto why =
     \<lparr> me_tier = ''guest'', me_is_eligible = False, me_unmet = [why], me_contribution = 0,
       me_shares_history = None \<rparr>"

fun tier_text :: "tier \<Rightarrow> string" where
  "tier_text Guest = ''guest''"
| "tier_text Member = ''member''"
| "tier_text Citizen = ''citizen''"

section \<open>Messages\<close>

record mention_dto =
  mn_token :: string
  mn_kind :: string

record reply_ref =
  rr_id :: u64
  rr_author :: string
  rr_excerpt :: string

record attachment_dto =
  ad_url :: string
  ad_content_type :: string
  ad_kind :: string
  ad_caption :: string
  ad_is_spoiler :: bool

record message_dto =
  md_id :: u64
  md_author :: string
  md_body :: string
  md_key_epoch :: "u32 option"
  md_ts :: int
  md_parent :: "u64 option"
  md_is_deleted :: bool
  md_edited :: bool
  md_reactions :: "(string \<times> u64) list"
  md_mentions :: "mention_dto list"
  md_mentions_me :: bool
  md_reply_to :: "reply_ref option"
  md_attachments :: "attachment_dto list"

definition author_text :: "user_id \<Rightarrow> inner \<Rightarrow> string" where
  "author_text uid st =
     (case handle_of_user uid st of None \<Rightarrow> ''user'' @ dec_u64 (user_id_val uid) | Some h \<Rightarrow> h)"

text \<open>The quote of a sealed message is a lock (U+1F512), not its ciphertext. \<open>by_id\<close>
  is the map of the messages listed.\<close>

definition reply_ref_of :: "message list \<Rightarrow> message \<Rightarrow> inner \<Rightarrow> reply_ref option" where
  "reply_ref_of by_id m st =
     map_option (\<lambda>p.
         \<lparr> rr_id = message_id_val (msg_id p), rr_author = author_text (msg_author p) st,
           rr_excerpt =
             (if msg_is_deleted p then ''[deleted]''
              else if msg_key_epoch p \<noteq> None
              then [CHR 0xF0, CHR 0x9F, CHR 0x94, CHR 0x92] @ '' encrypted''
              else excerpt (msg_body p)) \<rparr>)
       (Option.bind (msg_parent m) (\<lambda>pid. find (\<lambda>p. msg_id p = pid) (rev by_id)))"

definition build_message_dto ::
  "string \<Rightarrow> string \<Rightarrow> message list \<Rightarrow> inner \<Rightarrow> message \<Rightarrow> message_dto" where
  "build_message_dto slug viewer by_id st m =
     (let is_sealed = (msg_key_epoch m \<noteq> None);
          reply_to = reply_ref_of by_id m st;
          replies_to_viewer = (viewer \<noteq> [] \<and>
            (case reply_to of None \<Rightarrow> False | Some r \<Rightarrow> rr_author r = viewer));
          (mentions, mentions_me) =
            (if msg_is_deleted m \<or> is_sealed then ([], replies_to_viewer)
             else
               let rs = resolve_mentions slug (msg_body m) st
               in (map (\<lambda>r. \<lparr> mn_token = rm_token r, mn_kind = mention_kind_as_str (rm_kind r) \<rparr>)
                     (filter is_resolved rs),
                   replies_to_viewer \<or>
                   viewer \<noteq> [] \<and> list_ex (\<lambda>r. list_ex (\<lambda>h. h = viewer) (rm_handles r)) rs))
      in \<lparr> md_id = message_id_val (msg_id m), md_author = author_text (msg_author m) st,
           md_body = (if msg_is_deleted m then ''[deleted]'' else msg_body m),
           md_key_epoch = msg_key_epoch m, md_ts = seconds (msg_created_at m),
           md_parent = map_option message_id_val (msg_parent m),
           md_is_deleted = msg_is_deleted m, md_edited = (msg_edited_at m \<noteq> None),
           md_reactions = message_reactions (message_id_val (msg_id m)) st,
           md_mentions = mentions, md_mentions_me = mentions_me, md_reply_to = reply_to,
           md_attachments = map (\<lambda>a.
               \<lparr> ad_url = ''/media/'' @ a_key a, ad_content_type = a_content_type a,
                 ad_kind = media_kind_as_str (a_kind a), ad_caption = a_caption a,
                 ad_is_spoiler = a_is_spoiler a \<rparr>) (msg_attachments m) \<rparr>)"

section \<open>Proposals\<close>

datatype propose_kind_req =
    Req_AddRule string
  | Req_RemoveRule u64
  | Req_CreateChannel string string
  | Req_DeleteChannel string
  | Req_Ban string
  | Req_CreateRole string
  | Req_DeleteRole string
  | Req_AssignRole string string
  | Req_UnassignRole string string
  | Req_SetRehomingPolicy bool
  | Req_SetInvitePolicy bool
  | Req_AmendCriteria int int int
  | Req_SetVoteWeighting string
  | Req_SetWeightingScope string
  | Req_SetJurySizing string u32 u32
  | Req_SetGovernanceSurface "string list"

definition resolve_member :: "string \<Rightarrow> inner \<Rightarrow> string + user_id" where
  "resolve_member hdl st =
     (case find_user hdl st of None \<Rightarrow> Inl (''no such user: '' @ hdl) | Some u \<Rightarrow> Inr (u_id u))"

definition resolve_role :: "string \<Rightarrow> string \<Rightarrow> inner \<Rightarrow> string + role_id" where
  "resolve_role slug name st =
     (let norm = normalize_role_name name in
      case find (\<lambda>r. ro_name r = norm) (list_roles slug st) of
        None \<Rightarrow> Inl (''no such role: '' @ name) | Some r \<Rightarrow> Inr (ro_id r))"

text \<open>The fields of a kind are evaluated in order, so an unknown member is reported
  before an unknown role.\<close>

fun to_proposal_kind :: "string \<Rightarrow> inner \<Rightarrow> propose_kind_req \<Rightarrow> string + proposal_kind" where
  "to_proposal_kind slug st (Req_AddRule txt) = Inr (AddRule txt)"
| "to_proposal_kind slug st (Req_RemoveRule r) = Inr (RemoveRule (RuleId r))"
| "to_proposal_kind slug st (Req_CreateChannel name topic) = Inr (CreateChannel name topic)"
| "to_proposal_kind slug st (Req_DeleteChannel name) = Inr (DeleteChannel name)"
| "to_proposal_kind slug st (Req_Ban hdl) =
     (case find_user hdl st of None \<Rightarrow> Inl (''no such user: '' @ hdl) | Some u \<Rightarrow> Inr (Ban (u_id u)))"
| "to_proposal_kind slug st (Req_CreateRole name) = Inr (CreateRole name)"
| "to_proposal_kind slug st (Req_DeleteRole role) = map_sum id DeleteRole (resolve_role slug role st)"
| "to_proposal_kind slug st (Req_AssignRole hdl role) =
     (case resolve_member hdl st of
        Inl e \<Rightarrow> Inl e | Inr u \<Rightarrow> map_sum id (AssignRole u) (resolve_role slug role st))"
| "to_proposal_kind slug st (Req_UnassignRole hdl role) =
     (case resolve_member hdl st of
        Inl e \<Rightarrow> Inl e | Inr u \<Rightarrow> map_sum id (UnassignRole u) (resolve_role slug role st))"
| "to_proposal_kind slug st (Req_SetRehomingPolicy is_disabled) = Inr (SetRehomingPolicy is_disabled)"
| "to_proposal_kind slug st (Req_SetInvitePolicy opened) =
     Inr (SetInvitePolicy (if opened then InviteOpen else InviteClosed))"
| "to_proposal_kind slug st (Req_AmendCriteria age memb contrib) =
     Inr (AmendCriteria \<lparr> min_account_age_days = age, min_membership_days = memb,
            min_contribution = contrib \<rparr>)"
| "to_proposal_kind slug st (Req_SetVoteWeighting scheme) =
     (case vote_weighting_from_name scheme of
        None \<Rightarrow> Inl (''unknown vote weighting: '' @ scheme) | Some s \<Rightarrow> Inr (SetVoteWeighting s))"
| "to_proposal_kind slug st (Req_SetWeightingScope scope) =
     (case weighting_scope_from_name scope of
        None \<Rightarrow> Inl (''unknown weighting scope: '' @ scope) | Some s \<Rightarrow> Inr (SetWeightingScope s))"
| "to_proposal_kind slug st (Req_SetJurySizing mode p c) =
     (if mode = ''Sqrt'' then Inr (SetJurySizing (Sqrt p c))
      else if mode = ''Proportion'' then Inr (SetJurySizing (Proportion p c))
      else if mode = ''Fixed'' then Inr (SetJurySizing (Fixed p c))
      else Inl (''unknown jury sizing mode: '' @ mode))"
| "to_proposal_kind slug st (Req_SetGovernanceSurface kinds) =
     Inr (SetGovernanceSurface (set (List.map_filter ballot_kind_from_name kinds)))"

fun summarize_kind :: "inner \<Rightarrow> proposal_kind \<Rightarrow> string" where
  "summarize_kind st (AddRule txt) = ''Add rule: '' @ left_quote @ txt @ right_quote"
| "summarize_kind st (RemoveRule r) = ''Repeal rule #'' @ dec_u64 (rule_id_val r)"
| "summarize_kind st (CreateChannel name _) = ''Create channel #'' @ name"
| "summarize_kind st (DeleteChannel name) = ''Delete channel #'' @ name"
| "summarize_kind st (Ban u) = ''Ban @'' @ or_empty (handle_of_user u st)"
| "summarize_kind st (Timeout u _) = ''Time out @'' @ or_empty (handle_of_user u st)"
| "summarize_kind st (Recall leader) = ''Recall @'' @ or_empty (handle_of_user leader st)"
| "summarize_kind st (AmendCriteria _) = ''Amend franchise criteria''"
| "summarize_kind st (SetJurySizing _) = ''Change jury sizing''"
| "summarize_kind st (SetVoteWeighting _) = ''Change vote weighting''"
| "summarize_kind st (SetWeightingScope _) = ''Change weighting scope''"
| "summarize_kind st (GrantVoteWeight u weight) =
     ''Grant @'' @ or_empty (handle_of_user u st) @ '' vote weight '' @ dec_nat (unat weight)"
| "summarize_kind st (SetGovernanceSurface _) = ''Change what this server votes on''"
| "summarize_kind st (RemoveContent target) = ''Remove content '' @ target"
| "summarize_kind st (CreateRole name) = ''Create role @'' @ name"
| "summarize_kind st (DeleteRole r) = ''Delete role #'' @ dec_u64 (role_id_val r)"
| "summarize_kind st (AssignRole u r) =
     ''Add @'' @ or_empty (handle_of_user u st) @ '' to role #'' @ dec_u64 (role_id_val r)"
| "summarize_kind st (UnassignRole u r) =
     ''Remove @'' @ or_empty (handle_of_user u st) @ '' from role #'' @ dec_u64 (role_id_val r)"
| "summarize_kind st (SetRehomingPolicy is_disabled) =
     (if is_disabled then ''Disable server rehoming (pin to home node)'' else ''Enable server rehoming'')"
| "summarize_kind st (SetInvitePolicy policy) =
     (case policy of
        InviteOpen \<Rightarrow> ''Open invites (any member may invite)''
      | InviteClosed \<Rightarrow> ''Close invites (seal admission by link)'')"

record proposal_dto =
  pd_id :: u64
  pd_summary :: string
  pd_proposer :: string
  pd_status :: string
  pd_aye :: u64
  pd_nay :: u64
  pd_closes_in :: "int option"
  pd_my_vote :: "bool option"
  pd_is_applied :: bool

definition view_proposal :: "string \<Rightarrow> timestamp \<Rightarrow> inner \<Rightarrow> proposal \<Rightarrow> proposal_dto" where
  "view_proposal me now st p =
     (let (ay, ny) = proposal_head_counts (proposal_id_val (p_id p)) st;
          (status, closes_in, applied) =
            (case p_status p of
               Open \<Rightarrow> (''open'', Some (seconds (p_closes_at p) - seconds now), False)
             | Passed _ \<Rightarrow> (''passed'', None, p_is_applied p)
             | Failed \<Rightarrow> (''failed'', None, False))
      in \<lparr> pd_id = proposal_id_val (p_id p), pd_summary = summarize_kind st (p_kind p),
           pd_proposer = or_empty (handle_of_user (p_proposer p) st), pd_status = status,
           pd_aye = ay, pd_nay = ny, pd_closes_in = closes_in,
           pd_my_vote = my_vote (proposal_id_val (p_id p)) me st, pd_is_applied = applied \<rparr>)"

section \<open>Emoji, keys, roles and direct messages\<close>

record emoji_dto =
  ed_id :: u64
  ed_name :: string
  ed_url :: string
  ed_score :: int
  ed_standing :: string
  ed_is_active :: bool
  ed_my_vote :: "bool option"

definition dto_of_emoji :: "ranked_emoji \<Rightarrow> emoji_dto" where
  "dto_of_emoji e =
     \<lparr> ed_id = rk_id e, ed_name = rk_name e, ed_url = rk_url e, ed_score = rk_score e,
       ed_standing = (case rk_standing e of
           Active \<Rightarrow> ''active'' | Considered \<Rightarrow> ''considered'' | Archived \<Rightarrow> ''archived''),
       ed_is_active = is_active (rk_standing e), ed_my_vote = rk_my_vote e \<rparr>"

definition emoji_url :: "app_state \<Rightarrow> string \<Rightarrow> string option \<Rightarrow> string + string" where
  "emoji_url app url img =
     (case img of
        Some b64 \<Rightarrow>
          if trim b64 \<noteq> [] then
            (let b64 = trim b64 in
             case as_base64 app b64 of
               None \<Rightarrow> Inl ''err.emoji_image_not_base64''
             | Some bytes \<Rightarrow>
                 (case validate_emoji_image bytes of
                    Inl e \<Rightarrow> Inl (emoji_image_error_text e)
                  | Inr fmt \<Rightarrow> Inr (''data:'' @ emoji_image_mime fmt @ '';base64,'' @ b64)))
          else if trim url = [] then Inl ''err.emoji_image_required'' else Inr (trim url)
      | None \<Rightarrow> if trim url = [] then Inl ''err.emoji_image_required'' else Inr (trim url))"

record role_dto =
  rd_id :: u64
  rd_name :: string
  rd_holders :: "string list"

record dm_message_dto =
  dd_id :: u64
  dd_sender :: string
  dd_recipient :: string
  dd_sealed_for_me :: string
  dd_is_mine :: bool

definition view_dm :: "user \<Rightarrow> inner \<Rightarrow> dm_message \<Rightarrow> dm_message_dto" where
  "view_dm me_user st m =
     (let is_mine = (dm_sender m = u_id me_user);
          sealed_for_me = (if is_mine then dm_sealed_for_sender m else dm_sealed_for_recipient m)
      in \<lparr> dd_id = dm_id_val (dm_ident m),
           dd_sender = or_empty (handle_of_user (dm_sender m) st),
           dd_recipient = or_empty (handle_of_user (dm_recipient m) st),
           dd_sealed_for_me = sealed_for_me, dd_is_mine = is_mine \<rparr>)"

record dm_partner_dto =
  dp_handle :: string
  dp_is_friend :: bool
  dp_is_blocked :: bool
  dp_can_dm :: bool

record social_me_dto =
  sm_handle :: string
  sm_is_friends_only :: bool
  sm_partners :: "dm_partner_dto list"
  sm_friends :: "string list"
  sm_incoming_requests :: "string list"
  sm_blocked :: "string list"

definition view_social_me :: "string \<Rightarrow> inner \<Rightarrow> social_me_dto" where
  "view_social_me me st =
     (let friends = friends_of me st;
          partners = map (\<lambda>h.
             \<lparr> dp_handle = h, dp_is_friend = list_ex (\<lambda>f. f = h) friends,
               dp_is_blocked = is_blocked_between me h st, dp_can_dm = svc_can_dm me h st \<rparr>)
             (dm_partners me st)
      in \<lparr> sm_handle = me, sm_is_friends_only = (dm_policy_of me st = Some FriendsOnly),
           sm_partners = partners, sm_friends = friends,
           sm_incoming_requests = incoming_friend_requests me st,
           sm_blocked = blocked_users me st \<rparr>)"

section \<open>What a viewer is shown of a sealed message\<close>

text \<open>The client is never handed the other party's ciphertext, and a quote or a mention
  list never draws on a sealed body.\<close>

lemma dto_of_sealed:
  assumes "msg_key_epoch m \<noteq> None"
  shows "md_mentions (build_message_dto slug viewer by_id st m) = []"
  using assms by (simp add: build_message_dto_def Let_def)

lemma deleted_body_withheld:
  "msg_is_deleted m \<Longrightarrow> md_body (build_message_dto slug viewer by_id st m) = ''[deleted]''"
  by (simp add: build_message_dto_def Let_def split_beta)

end
