(* ===== verification/Web_Handlers.thy ===== *)
theory Web_Handlers
  imports Web_Views
begin

text \<open>
  The HTTP handlers of the web client (\<^verbatim>\<open>adapter-web/src/handlers.rs\<close> and
  \<^verbatim>\<open>social_handlers.rs\<close>), one definition per handler. \<open>cookies\<close> is the
  \<^verbatim>\<open>Cookie\<close> header of the request; the remaining arguments are what its path and
  its body carry. Values a call draws at random (verification tokens, invite
  codes, the instant a media key is made from) are arguments too.
\<close>

section \<open>Accounts\<close>

record config_reply =
  cf_is_dev :: bool
  cf_now :: int
  cf_me :: "string option"

definition config_handler :: "app_state \<Rightarrow> string option \<Rightarrow> config_reply handler" where
  "config_handler app cookies w =
     (Inr \<lparr> cf_is_dev = as_is_dev app, cf_now = seconds (w_clock w), cf_me = web_actor app cookies w \<rparr>, w)"

text \<open>The answers that may start a session.\<close>

datatype auth_reply =
    Logged_in (auth_cookie: string) (auth_handle: string)
  | Registered (auth_cookie: string) (auth_handle: string)
  | Verify_required (auth_handle: string)

definition login :: "app_state \<Rightarrow> string \<Rightarrow> string \<Rightarrow> auth_reply handler" where
  "login app hdl password w =
     (case authenticate (at_clock app w) hdl password (w_store w) of
        None \<Rightarrow> (Inl (401, ''err.invalid_credentials''), w)
      | Some u \<Rightarrow>
          if requires_verification (env_email_verification (at_clock app w)) \<and> \<not> u_email_verified u
          then (Inl (403, ''err.email_unverified''), w)
          else (Inr (Logged_in (web_session_cookie app w (user_id_val (u_id u))) (u_handle u)), w))"

definition trim_end_slashes :: "string \<Rightarrow> string" where
  "trim_end_slashes s = rev (dropWhile (\<lambda>c. c = CHR ''/'') (rev s))"

definition send_verification_email :: "app_state \<Rightarrow> string \<Rightarrow> string \<Rightarrow> web \<Rightarrow> web" where
  "send_verification_email app recipient token w =
     (if \<not> as_has_sender app then w
      else
        let base = trim_end_slashes (trim (as_site_address app));
            link = ''https://'' @ base @ ''/verify?token='' @ token;
            body = ''Welcome to democrachat!'' @ [newline, newline] @
              ''Confirm your email address to activate your account:'' @ [newline, newline] @
              link @ [newline, newline] @
              ''This link expires in 24 hours. If you didn'' @ [CHR 0x27] @
              ''t create an account, you can ignore this email.''
        in w\<lparr>w_mail := w_mail w @
              [\<lparr> em_to = recipient, em_subject = ''Confirm your democrachat email'', em_body = body \<rparr>]\<rparr>)"

definition register :: "app_state \<Rightarrow> string \<Rightarrow> string \<Rightarrow> string \<Rightarrow> string \<Rightarrow> auth_reply handler" where
  "register app raw hdl em password =
     calling app register_error_text (\<lambda>env. register_with_password env raw hdl em password)
       (\<lambda>reg w. let w = persist w in
          case reg_verification_token reg of
            Some token \<Rightarrow>
              (Inr (Verify_required (u_handle (reg_user reg))),
               send_verification_email app (trim em) token w)
          | None \<Rightarrow>
              (Inr (Registered (web_session_cookie app w (user_id_val (u_id (reg_user reg))))
                      (u_handle (reg_user reg))), w))"

text \<open>Where the browser is sent.\<close>

definition verify_handler :: "app_state \<Rightarrow> string \<Rightarrow> string handler" where
  "verify_handler app token w =
     (case verify_email (at_clock app w) token (w_store w) of
        (Some _, st) \<Rightarrow> (Inr ''/?verified=1'', persist (w\<lparr>w_store := st\<rparr>))
      | (None, st) \<Rightarrow> (Inr ''/?verify_error=1'', w\<lparr>w_store := st\<rparr>))"

definition resend :: "app_state \<Rightarrow> string \<Rightarrow> string \<Rightarrow> unit handler" where
  "resend app raw hdl w =
     (case issue_resend (at_clock app w) raw hdl (w_store w) of
        (Some target, st) \<Rightarrow>
          (Inr (), send_verification_email app (rt_email target) (rt_token target)
                     (persist (w\<lparr>w_store := st\<rparr>)))
      | (None, st) \<Rightarrow> (Inr (), w\<lparr>w_store := st\<rparr>))"

definition logout :: "app_state \<Rightarrow> string handler" where
  "logout app w = (Inr (clear_session_cookie app), w)"

section \<open>Servers\<close>

definition list_servers_handler :: "app_state \<Rightarrow> string option \<Rightarrow> server_summary list handler" where
  "list_servers_handler app cookies =
     signed_in app cookies (\<lambda>me w. (Inr (map summary_of_server (my_servers me (w_store w))), w))"

definition list_public_servers_handler :: "server_summary list handler" where
  "list_public_servers_handler w =
     (Inr (map summary_of_server (list_public_servers (w_store w))), w)"

definition found_server_handler ::
  "app_state \<Rightarrow> string option \<Rightarrow> string \<Rightarrow> bool \<Rightarrow> server_summary handler" where
  "found_server_handler app cookies name is_private =
     signed_in app cookies (\<lambda>me.
     calling app found_error_text
       (\<lambda>env. found_server_with_visibility env me name is_private) (\<lambda>g w.
       (Inr \<lparr> ss_slug = s_slug g, ss_name = s_name g, ss_phase = ''Seed'', ss_citizens = 1,
              ss_is_private = s_is_private g, ss_are_invites_open = allows_member_invites g \<rparr>,
        publish Ev_server (persist w))))"

definition create_invite_handler ::
  "app_state \<Rightarrow> string option \<Rightarrow> string \<Rightarrow> string \<Rightarrow> string handler" where
  "create_invite_handler app cookies code slug =
     signed_in app cookies (\<lambda>me.
     calling app invite_error_text (\<lambda>env. create_invite env code me slug) (\<lambda>code w.
       (Inr code, persist w)))"

record invite_dto =
  in_code_hash :: string
  in_created_at :: int

definition list_invites_handler ::
  "app_state \<Rightarrow> string option \<Rightarrow> string \<Rightarrow> invite_dto list handler" where
  "list_invites_handler app cookies slug =
     signed_in app cookies (\<lambda>me.
     reading invite_error_text (list_invites me slug) (\<lambda>invites w.
       (Inr (map (\<lambda>i. \<lparr> in_code_hash = i_code_hash i, in_created_at = seconds (i_created_at i) \<rparr>)
               invites), w)))"

definition revoke_invite_handler ::
  "app_state \<Rightarrow> string option \<Rightarrow> string \<Rightarrow> string \<Rightarrow> unit handler" where
  "revoke_invite_handler app cookies slug code_hash =
     signed_in app cookies (\<lambda>me.
     calling app invite_error_text (\<lambda>env. revoke_invite me slug code_hash) (\<lambda>_ w.
       (Inr (), persist w)))"

definition accept_invite_handler :: "app_state \<Rightarrow> string option \<Rightarrow> string \<Rightarrow> string handler" where
  "accept_invite_handler app cookies code =
     signed_in app cookies (\<lambda>me.
     calling app invite_error_text (\<lambda>env. accept_invite env me code) (\<lambda>m w.
       (Inr (or_empty (server_slug (m_server_id m) (w_store w))),
        publish Ev_server (persist w))))"

definition server_detail_handler :: "string \<Rightarrow> server_detail handler" where
  "server_detail_handler slug w =
     (case view_server_detail slug (w_store w) of
        None \<Rightarrow> (Inl (not_found ''err.no_such_server''), w) | Some d \<Rightarrow> (Inr d, w))"

definition join_server_handler :: "app_state \<Rightarrow> string option \<Rightarrow> string \<Rightarrow> unit handler" where
  "join_server_handler app cookies slug =
     signed_in app cookies (\<lambda>me.
     calling app join_error_text (\<lambda>env. join_server env me slug) (\<lambda>_ w.
       (Inr (), publish Ev_server (persist w))))"

definition create_channel_handler ::
  "app_state \<Rightarrow> string option \<Rightarrow> string \<Rightarrow> string \<Rightarrow> string \<Rightarrow> channel_dto handler" where
  "create_channel_handler app cookies slug name topic =
     signed_in app cookies (\<lambda>me.
     calling app channel_error_text (\<lambda>env. create_channel env me slug name topic) (\<lambda>c w.
       (Inr (dto_of_channel c), publish (Ev_channel slug) (persist w))))"

section \<open>Standing\<close>

definition enfranchise_message :: "string \<Rightarrow> string \<Rightarrow> enfranchise_outcome \<Rightarrow> string" where
  "enfranchise_message me slug outcome =
     (case outcome of
        Admitted \<Rightarrow> me @ '' is now a citizen of '' @ slug
      | NotEligible un \<Rightarrow> ''Not eligible yet: '' @ joined ''; '' (map describe_unmet un)
      | RateCapped _ \<Rightarrow>
          ''Qualified, but the enfranchisement rate cap is full this window '' @ em_dash @ '' queued.'')"

definition enfranchise_handler ::
  "app_state \<Rightarrow> string option \<Rightarrow> string \<Rightarrow> (bool \<times> string) handler" where
  "enfranchise_handler app cookies slug =
     signed_in app cookies (\<lambda>me.
     calling app enfranchise_error_text (\<lambda>env. try_enfranchise env me slug) (\<lambda>outcome w.
       let w = persist w;
           w = (if outcome = Admitted then publish Ev_server w else w)
       in (Inr (outcome = Admitted, enfranchise_message me slug outcome), w)))"

definition my_status :: "app_state \<Rightarrow> string option \<Rightarrow> string \<Rightarrow> me_dto handler" where
  "my_status app cookies slug w =
     (case web_actor app cookies w of
        None \<Rightarrow> (Inr (guest_dto ''sign in to participate''), w)
      | Some me \<Rightarrow>
      (case member_tier me slug (w_store w) of
        None \<Rightarrow> (Inr (guest_dto (''not a member '' @ em_dash @ '' join to start'')), w)
      | Some tr \<Rightarrow>
          reading enfranchise_error_text (eligibility_of (at_clock app w) me slug) (\<lambda>elig w.
            (Inr \<lparr> me_tier = tier_text tr, me_is_eligible = is_eligible elig,
                   me_unmet = map describe_unmet (unmet elig),
                   me_contribution = (case member_contribution me slug (w_store w) of
                       None \<Rightarrow> 0 | Some c \<Rightarrow> c),
                   me_shares_history = history_sharing me slug (w_store w) \<rparr>, w)) w))"

definition set_history_sharing_handler ::
  "app_state \<Rightarrow> string option \<Rightarrow> string \<Rightarrow> bool \<Rightarrow> unit handler" where
  "set_history_sharing_handler app cookies slug shares =
     signed_in app cookies (\<lambda>me.
     calling app message_error_text (\<lambda>env. set_history_sharing me slug shares) (\<lambda>_ w.
       (Inr (), persist w)))"

section \<open>Messages\<close>

definition list_messages ::
  "app_state \<Rightarrow> string option \<Rightarrow> string \<Rightarrow> string \<Rightarrow> message_dto list handler" where
  "list_messages app cookies slug channel w =
     (let viewer = or_empty (web_actor app cookies w) in
      reading message_error_text (channel_messages_for (at_clock app w) viewer slug channel) (\<lambda>messages w.
        (Inr (map (build_message_dto slug viewer messages (w_store w)) messages), w)) w)"

record attachment_req =
  ar_key :: string
  ar_content_type :: string
  ar_caption :: string
  ar_is_spoiler :: bool

text \<open>The base type decides the kind; what is no media type is dropped.\<close>

definition attachments_of :: "attachment_req list \<Rightarrow> attachment list" where
  "attachments_of =
     List.map_filter (\<lambda>a.
       let base = trim (before_first (CHR '';'') (ar_content_type a)) in
       map_option (\<lambda>k. attachment_new (ar_key a) base k (ar_caption a) (ar_is_spoiler a))
         (media_kind_from_content_type base))"

definition post_message_handler ::
  "app_state \<Rightarrow> string option \<Rightarrow> string \<Rightarrow> string \<Rightarrow> string \<Rightarrow> u64 option \<Rightarrow> attachment_req list \<Rightarrow>
   u64 handler" where
  "post_message_handler app cookies slug channel body parent reqs =
     signed_in app cookies (\<lambda>me.
     let attachments = attachments_of reqs in
     calling app message_error_text
       (\<lambda>env. case parent of
           Some pid \<Rightarrow> reply_message env me pid body
         | None \<Rightarrow>
             if attachments = [] then post_message env me slug channel body
             else post_message_with_attachments env me slug channel body attachments) (\<lambda>msg w.
       (Inr (message_id_val (msg_id msg)), publish (Ev_message slug channel) (persist w))))"

record media_reply =
  mr_key :: string
  mr_content_type :: string
  mr_kind :: string

definition upload_media ::
  "app_state \<Rightarrow> string option \<Rightarrow> nat \<Rightarrow> string option \<Rightarrow> u8 list \<Rightarrow> media_reply handler" where
  "upload_media app cookies nanos header body =
     signed_in app cookies (\<lambda>_.
     let content_type = (case header of None \<Rightarrow> ''application/octet-stream'' | Some ct \<Rightarrow> ct) in
     calling app media_error_text (\<lambda>env. store_media nanos content_type body) (\<lambda>(key, kind) w.
       (Inr \<lparr> mr_key = key, mr_content_type = trim (before_first (CHR '';'') content_type),
              mr_kind = media_kind_as_str kind \<rparr>, w)))"

definition serve_media :: "app_state \<Rightarrow> string \<Rightarrow> (string \<times> u8 list) handler" where
  "serve_media app key w =
     (case media_blob key (w_store w) of
        Some (content_type, bytes) \<Rightarrow>
          (Inr (if as_header_value app content_type then content_type
                else ''application/octet-stream'', bytes), w)
      | None \<Rightarrow> (Inl (not_found ''err.no_such_media''), w))"

definition post_sealed_message_handler ::
  "app_state \<Rightarrow> string option \<Rightarrow> string \<Rightarrow> string \<Rightarrow> string \<Rightarrow> u32 \<Rightarrow> u64 option \<Rightarrow> u64 handler" where
  "post_sealed_message_handler app cookies slug channel ciphertext key_epoch parent =
     signed_in app cookies (\<lambda>me.
     calling app message_error_text
       (\<lambda>env. post_sealed_message env me slug channel ciphertext key_epoch parent) (\<lambda>msg w.
       (Inr (message_id_val (msg_id msg)), publish (Ev_message slug channel) (persist w))))"

definition history_mode_of :: "string \<Rightarrow> history_mode" where
  "history_mode_of s = (if trim s = ''ephemeral'' then Ephemeral else HistoryOpen)"

definition enable_channel_encryption_handler ::
  "app_state \<Rightarrow> string option \<Rightarrow> string \<Rightarrow> string \<Rightarrow> string \<Rightarrow> unit handler" where
  "enable_channel_encryption_handler app cookies slug channel mode =
     signed_in app cookies (\<lambda>me.
     calling app channel_key_error_text
       (\<lambda>env. enable_channel_encryption me slug channel (history_mode_of mode)) (\<lambda>_ w.
       (Inr (), publish (Ev_channel slug) (persist w))))"

definition grant_channel_key_handler ::
  "app_state \<Rightarrow> string option \<Rightarrow> string \<Rightarrow> string \<Rightarrow> u32 \<Rightarrow> string \<Rightarrow> string \<Rightarrow> unit handler" where
  "grant_channel_key_handler app cookies slug channel epoch mem sealed_key =
     signed_in app cookies (\<lambda>me.
     calling app channel_key_error_text
       (\<lambda>env. grant_channel_key me slug channel epoch mem sealed_key) (\<lambda>_ w.
       (Inr (), persist w)))"

definition my_channel_grants_handler ::
  "app_state \<Rightarrow> string option \<Rightarrow> string \<Rightarrow> string \<Rightarrow> (u32 \<times> string) list handler" where
  "my_channel_grants_handler app cookies slug channel =
     signed_in app cookies (\<lambda>me.
     reading channel_key_error_text (my_channel_grants me slug channel) (\<lambda>grants w.
       (Inr (map (\<lambda>g. (g_epoch g, g_sealed_key g)) grants), w)))"

definition react_handler :: "app_state \<Rightarrow> string option \<Rightarrow> u64 \<Rightarrow> string \<Rightarrow> unit handler" where
  "react_handler app cookies mid emoji =
     signed_in app cookies (\<lambda>me.
     calling app reaction_error_text (\<lambda>env. react me mid emoji) (\<lambda>_ w.
       let w = persist w in
       (Inr (), case message_context mid (w_store w) of
                  None \<Rightarrow> w | Some (server, channel) \<Rightarrow> publish (Ev_reaction server channel) w)))"

section \<open>Governance\<close>

definition list_proposals_handler ::
  "app_state \<Rightarrow> string option \<Rightarrow> string \<Rightarrow> proposal_dto list handler" where
  "list_proposals_handler app cookies slug w =
     (let me = or_empty (web_actor app cookies w);
          (ps, st) = list_proposals (at_clock app w) slug (w_store w)
      in (Inr (map (view_proposal me (w_clock w) st) ps), w\<lparr>w_store := st\<rparr>))"

definition propose :: "app_state \<Rightarrow> string option \<Rightarrow> string \<Rightarrow> propose_kind_req \<Rightarrow> u64 handler" where
  "propose app cookies slug req =
     signed_in app cookies (\<lambda>me.
     reading id (\<lambda>st. to_proposal_kind slug st req) (\<lambda>kind.
     calling app propose_error_text (\<lambda>env. open_proposal env me slug kind) (\<lambda>p w.
       (Inr (proposal_id_val (p_id p)), publish (Ev_proposal (Some slug)) (persist w)))))"

definition vote_handler :: "app_state \<Rightarrow> string option \<Rightarrow> u64 \<Rightarrow> bool \<Rightarrow> unit handler" where
  "vote_handler app cookies pid is_aye =
     signed_in app cookies (\<lambda>me.
     let finish = (\<lambda>w. (Inr (), publish (Ev_proposal None) (persist w))) in
     case as_vote_router app of
       Some router \<Rightarrow> (\<lambda>w.
         case id_of_user me (w_store w) of
           None \<Rightarrow> (Inl (bad ''err.no_such_account''), w)
         | Some voter_id \<Rightarrow> routing (router voter_id pid is_aye) finish w)
     | None \<Rightarrow>
         calling app vote_error_text (\<lambda>env. cast_vote me pid is_aye) (\<lambda>_. finish))"

section \<open>Emoji, keys and roles\<close>

definition list_emojis_handler :: "app_state \<Rightarrow> string option \<Rightarrow> string \<Rightarrow> emoji_dto list handler" where
  "list_emojis_handler app cookies slug w =
     (let me = or_empty (web_actor app cookies w)
      in (Inr (map dto_of_emoji (ranked_emojis slug me (w_store w))), w))"

text \<open>The JSON object of the names: of two emoji with one name the later wins.\<close>

definition emoji_map_handler :: "string \<Rightarrow> (string, string) hashmap handler" where
  "emoji_map_handler slug w =
     (Inr (foldl (\<lambda>m (name, url). hm_insert name url m) [] (emoji_name_map slug (w_store w))), w)"

definition add_emoji_handler ::
  "app_state \<Rightarrow> string option \<Rightarrow> string \<Rightarrow> string \<Rightarrow> string \<Rightarrow> string option \<Rightarrow> (u64 \<times> string) handler" where
  "add_emoji_handler app cookies slug name url img =
     signed_in app cookies (\<lambda>me.
     reading id (\<lambda>_. emoji_url app url img) (\<lambda>url.
     calling app emoji_error_text (\<lambda>env. add_emoji env me slug name url) (\<lambda>e w.
       (Inr (emoji_id_val (e_id e), e_name e), publish (Ev_emoji slug) (persist w)))))"

definition vote_emoji_handler ::
  "app_state \<Rightarrow> string option \<Rightarrow> string \<Rightarrow> u64 \<Rightarrow> bool \<Rightarrow> unit handler" where
  "vote_emoji_handler app cookies slug eid up =
     signed_in app cookies (\<lambda>me.
     calling app emoji_error_text (\<lambda>env. vote_emoji me slug eid up) (\<lambda>_ w.
       (Inr (), publish (Ev_emoji slug) (persist w))))"

definition publish_keys_handler ::
  "app_state \<Rightarrow> string option \<Rightarrow> string \<Rightarrow> wrapped_key \<Rightarrow> unit handler" where
  "publish_keys_handler app cookies pk wrapped_secret =
     signed_in app cookies (\<lambda>me.
     calling app key_error_text (\<lambda>env. publish_keys (as_hex app) me pk wrapped_secret) (\<lambda>_ w.
       (Inr (), persist w)))"

definition my_keys_handler ::
  "app_state \<Rightarrow> string option \<Rightarrow> (string \<times> wrapped_key) handler" where
  "my_keys_handler app cookies =
     signed_in app cookies (\<lambda>me.
     reading key_error_text (my_keys me) (\<lambda>keys w.
       (Inr (k_public_key keys, k_wrapped_secret keys), w)))"

definition public_key_handler ::
  "app_state \<Rightarrow> string option \<Rightarrow> string \<Rightarrow> (string \<times> string) handler" where
  "public_key_handler app cookies hdl =
     signed_in app cookies (\<lambda>_.
     reading key_error_text (public_key_of hdl) (\<lambda>key w. (Inr (hdl, key), w)))"

definition list_roles_handler :: "string \<Rightarrow> role_dto list handler" where
  "list_roles_handler slug w =
     (Inr (map (\<lambda>r. \<lparr> rd_id = role_id_val (ro_id r), rd_name = ro_name r,
                      rd_holders = role_holders slug (ro_name r) (w_store w) \<rparr>)
             (list_roles slug (w_store w))), w)"

definition mentionable_handler :: "string \<Rightarrow> (string list \<times> string list) handler" where
  "mentionable_handler slug w =
     (Inr (member_handles slug (w_store w), mentionable_role_names slug (w_store w)), w)"

section \<open>Development\<close>

definition dev_endorse :: "app_state \<Rightarrow> string option \<Rightarrow> string \<Rightarrow> unit handler" where
  "dev_endorse app cookies slug w =
     (if \<not> as_is_dev app then (Inl (403, ''err.dev_disabled''), w)
      else signed_in app cookies (\<lambda>me w.
        let current = (case member_contribution me slug (w_store w) of None \<Rightarrow> 0 | Some c \<Rightarrow> c) in
        calling app enfranchise_error_text (\<lambda>env. set_contribution me slug (current + 5)) (\<lambda>_ w.
          (Inr (), publish Ev_server (persist w))) w) w)"

definition advance_clock :: "app_state \<Rightarrow> int \<Rightarrow> int handler" where
  "advance_clock app days w =
     (if \<not> as_is_dev app then (Inl (403, ''err.dev_disabled''), w)
      else let w = publish Ev_clock (advance_days days w) in (Inr (seconds (w_clock w)), w))"

section \<open>The social layer\<close>

definition social_me :: "app_state \<Rightarrow> string option \<Rightarrow> string \<Rightarrow> social_me_dto handler" where
  "social_me app cookies me =
     as_self app cookies me
       (with_user me (\<lambda>_ w. (Inr (view_social_me me (w_store w)), w)))"

definition conversation_handler ::
  "app_state \<Rightarrow> string option \<Rightarrow> string \<Rightarrow> string \<Rightarrow> dm_message_dto list handler" where
  "conversation_handler app cookies me other =
     as_self app cookies me
       (with_user me (\<lambda>me_user w.
          (Inr (map (view_dm me_user (w_store w)) (conversation me other (w_store w))), w)))"

text \<open>Sending answers with the id of the message when it was stored here, and with
  none when it was routed to its owner.\<close>

definition send_dm ::
  "app_state \<Rightarrow> string option \<Rightarrow> string \<Rightarrow> string \<Rightarrow> string \<Rightarrow> string \<Rightarrow> u64 option handler" where
  "send_dm app cookies me other for_recipient for_sender =
     as_self app cookies me
       (case as_dm_router app of
          Some router \<Rightarrow>
            with_user me (\<lambda>f. with_user other (\<lambda>t.
              routing (router (user_id_val (u_id f)) (user_id_val (u_id t)) for_recipient for_sender) (\<lambda>w.
                (Inr None, publish (Ev_social me other) w))))
        | None \<Rightarrow>
            calling app dm_error_text
              (\<lambda>env. send_sealed_dm env me other for_recipient for_sender) (\<lambda>m w.
              (Inr (Some (dm_id_val (dm_ident m))), publish (Ev_social me other) (persist w))))"

text \<open>Blocking, requesting and accepting share their shape: routed to both homes, or run
  here and saved.\<close>

definition two_party ::
  "app_state \<Rightarrow> (u64 \<Rightarrow> u64 \<Rightarrow> web \<Rightarrow> (string + unit) \<times> web) option \<Rightarrow>
   (env \<Rightarrow> inner \<Rightarrow> (social_error + unit) \<times> inner) \<Rightarrow> string \<Rightarrow> string \<Rightarrow> unit handler" where
  "two_party app router f me other =
     (case router of
        Some r \<Rightarrow>
          with_user me (\<lambda>a. with_user other (\<lambda>b.
            routing (r (user_id_val (u_id a)) (user_id_val (u_id b))) (\<lambda>w.
              (Inr (), publish (Ev_social me other) w))))
      | None \<Rightarrow>
          calling app social_error_text f (\<lambda>_ w.
            (Inr (), publish (Ev_social me other) (persist w))))"

definition block_handler :: "app_state \<Rightarrow> string option \<Rightarrow> string \<Rightarrow> string \<Rightarrow> unit handler" where
  "block_handler app cookies me other =
     as_self app cookies me
       (two_party app (as_block_router app) (\<lambda>env. block_user env me other) me other)"

definition request_friend_handler :: "app_state \<Rightarrow> string option \<Rightarrow> string \<Rightarrow> string \<Rightarrow> unit handler" where
  "request_friend_handler app cookies me other =
     as_self app cookies me
       (two_party app (map_option fr_request (as_friend_router app))
          (\<lambda>env. request_friend env me other) me other)"

definition accept_friend_handler :: "app_state \<Rightarrow> string option \<Rightarrow> string \<Rightarrow> string \<Rightarrow> unit handler" where
  "accept_friend_handler app cookies me other =
     as_self app cookies me
       (two_party app (map_option fr_accept (as_friend_router app))
          (\<lambda>env. accept_friend me other) me other)"

definition set_policy_handler :: "app_state \<Rightarrow> string option \<Rightarrow> string \<Rightarrow> bool \<Rightarrow> unit handler" where
  "set_policy_handler app cookies me is_friends_only =
     as_self app cookies me
       (calling app social_error_text
          (\<lambda>env. set_dm_policy me (if is_friends_only then FriendsOnly else Everyone)) (\<lambda>_ w.
          (Inr (), publish (Ev_social me me) (persist w))))"

end
