(* ===== verification/Web_Routes.thy ===== *)
theory Web_Routes
  imports Web_Handlers
begin

text \<open>
  The web server as a whole (\<^verbatim>\<open>adapter-web/src/lib.rs\<close>): one request constructor per
  route and method, the handler each runs, and the layers around them (rate
  limit, CSRF check, cap on the body). A request carries what its path and body
  decode to; a body that does not decode never reaches a handler.
\<close>

section \<open>Requests\<close>

datatype request =
    Get_config
  | Post_login string string
  | Post_register string string string string
  | Get_verify string
  | Post_resend string string
  | Post_logout
  | Get_servers
  | Post_found string bool
  | Get_public_servers
  | Post_accept_invite string
  | Get_server_detail string
  | Post_join string
  | Get_invites string
  | Post_create_invite string string
  | Delete_invite string string
  | Post_channel string string string
  | Post_enfranchise string
  | Get_status string
  | Post_history_sharing string bool
  | Get_messages string string
  | Post_message string string string "u64 option" "attachment_req list"
  | Post_media nat "string option" "u8 list"
  | Get_media string
  | Post_sealed string string string u32 "u64 option"
  | Post_encrypt string string string
  | Get_grants string string
  | Post_grant string string u32 string string
  | Post_react u64 string
  | Get_roles string
  | Get_mentionable string
  | Get_proposals string
  | Post_proposal string propose_kind_req
  | Post_vote u64 bool
  | Get_emojis string
  | Post_emoji string string string "string option"
  | Get_emoji_map string
  | Post_emoji_vote string u64 bool
  | Post_keys string wrapped_key
  | Get_my_keys
  | Get_public_key string
  | Post_endorse string
  | Post_advance int
  | Get_social string
  | Post_policy string bool
  | Get_conversation string string
  | Post_dm string string string string
  | Post_block string string
  | Post_friend string string
  | Post_accept string string

datatype reply =
    R_config config_reply
  | R_auth auth_reply
  | R_redirect string
  | R_ok
  | R_cookie string
  | R_servers "server_summary list"
  | R_server server_summary
  | R_text string
  | R_invites "invite_dto list"
  | R_detail server_detail
  | R_channel channel_dto
  | R_outcome "bool \<times> string"
  | R_status me_dto
  | R_messages "message_dto list"
  | R_id u64
  | R_upload media_reply
  | R_blob "string \<times> u8 list"
  | R_grants "(u32 \<times> string) list"
  | R_proposals "proposal_dto list"
  | R_emojis "emoji_dto list"
  | R_emoji_map "(string, string) hashmap"
  | R_emoji "u64 \<times> string"
  | R_keys "string \<times> wrapped_key"
  | R_public_key "string \<times> string"
  | R_roles "role_dto list"
  | R_mentionable "string list \<times> string list"
  | R_now int
  | R_social social_me_dto
  | R_conversation "dm_message_dto list"
  | R_dm "u64 option"

definition answered :: "('a \<Rightarrow> reply) \<Rightarrow> 'a handler \<Rightarrow> reply handler" where
  "answered f h w = (case h w of (r, w) \<Rightarrow> (map_sum id f r, w))"

abbreviation ok_reply :: "unit \<Rightarrow> reply" where
  "ok_reply \<equiv> \<lambda>_. R_ok"

text \<open>The routing table.\<close>

primrec respond :: "app_state \<Rightarrow> string option \<Rightarrow> request \<Rightarrow> reply handler" where
  "respond app ck Get_config = answered R_config (config_handler app ck)"
| "respond app ck (Post_login h pw) = answered R_auth (login app h pw)"
| "respond app ck (Post_register raw h em pw) = answered R_auth (register app raw h em pw)"
| "respond app ck (Get_verify tok) = answered R_redirect (verify_handler app tok)"
| "respond app ck (Post_resend raw h) = answered ok_reply (resend app raw h)"
| "respond app ck Post_logout = answered R_cookie (logout app)"
| "respond app ck Get_servers = answered R_servers (list_servers_handler app ck)"
| "respond app ck (Post_found name priv) = answered R_server (found_server_handler app ck name priv)"
| "respond app ck Get_public_servers = answered R_servers list_public_servers_handler"
| "respond app ck (Post_accept_invite code) = answered R_text (accept_invite_handler app ck code)"
| "respond app ck (Get_server_detail sl) = answered R_detail (server_detail_handler sl)"
| "respond app ck (Post_join sl) = answered ok_reply (join_server_handler app ck sl)"
| "respond app ck (Get_invites sl) = answered R_invites (list_invites_handler app ck sl)"
| "respond app ck (Post_create_invite code sl) = answered R_text (create_invite_handler app ck code sl)"
| "respond app ck (Delete_invite sl hs) = answered ok_reply (revoke_invite_handler app ck sl hs)"
| "respond app ck (Post_channel sl name topic) =
     answered R_channel (create_channel_handler app ck sl name topic)"
| "respond app ck (Post_enfranchise sl) = answered R_outcome (enfranchise_handler app ck sl)"
| "respond app ck (Get_status sl) = answered R_status (my_status app ck sl)"
| "respond app ck (Post_history_sharing sl b) =
     answered ok_reply (set_history_sharing_handler app ck sl b)"
| "respond app ck (Get_messages sl ch) = answered R_messages (list_messages app ck sl ch)"
| "respond app ck (Post_message sl ch body par atts) =
     answered R_id (post_message_handler app ck sl ch body par atts)"
| "respond app ck (Post_media ns ct bytes) = answered R_upload (upload_media app ck ns ct bytes)"
| "respond app ck (Get_media key) = answered R_blob (serve_media app key)"
| "respond app ck (Post_sealed sl ch ct ep par) =
     answered R_id (post_sealed_message_handler app ck sl ch ct ep par)"
| "respond app ck (Post_encrypt sl ch mode) =
     answered ok_reply (enable_channel_encryption_handler app ck sl ch mode)"
| "respond app ck (Get_grants sl ch) = answered R_grants (my_channel_grants_handler app ck sl ch)"
| "respond app ck (Post_grant sl ch ep mem key) =
     answered ok_reply (grant_channel_key_handler app ck sl ch ep mem key)"
| "respond app ck (Post_react mid em) = answered ok_reply (react_handler app ck mid em)"
| "respond app ck (Get_roles sl) = answered R_roles (list_roles_handler sl)"
| "respond app ck (Get_mentionable sl) = answered R_mentionable (mentionable_handler sl)"
| "respond app ck (Get_proposals sl) = answered R_proposals (list_proposals_handler app ck sl)"
| "respond app ck (Post_proposal sl rq) = answered R_id (propose app ck sl rq)"
| "respond app ck (Post_vote pid is_aye) = answered ok_reply (vote_handler app ck pid is_aye)"
| "respond app ck (Get_emojis sl) = answered R_emojis (list_emojis_handler app ck sl)"
| "respond app ck (Post_emoji sl name url img) =
     answered R_emoji (add_emoji_handler app ck sl name url img)"
| "respond app ck (Get_emoji_map sl) = answered R_emoji_map (emoji_map_handler sl)"
| "respond app ck (Post_emoji_vote sl eid up) = answered ok_reply (vote_emoji_handler app ck sl eid up)"
| "respond app ck (Post_keys pk ws) = answered ok_reply (publish_keys_handler app ck pk ws)"
| "respond app ck Get_my_keys = answered R_keys (my_keys_handler app ck)"
| "respond app ck (Get_public_key h) = answered R_public_key (public_key_handler app ck h)"
| "respond app ck (Post_endorse sl) = answered ok_reply (dev_endorse app ck sl)"
| "respond app ck (Post_advance days) = answered R_now (advance_clock app days)"
| "respond app ck (Get_social me) = answered R_social (social_me app ck me)"
| "respond app ck (Post_policy me b) = answered ok_reply (set_policy_handler app ck me b)"
| "respond app ck (Get_conversation me other) =
     answered R_conversation (conversation_handler app ck me other)"
| "respond app ck (Post_dm me other fr fs) = answered R_dm (send_dm app ck me other fr fs)"
| "respond app ck (Post_block me other) = answered ok_reply (block_handler app ck me other)"
| "respond app ck (Post_friend me other) = answered ok_reply (request_friend_handler app ck me other)"
| "respond app ck (Post_accept me other) = answered ok_reply (accept_friend_handler app ck me other)"

section \<open>Methods and paths\<close>

definition is_get :: "request \<Rightarrow> bool" where
  "is_get r =
     (case r of
        Get_config \<Rightarrow> True | Get_verify _ \<Rightarrow> True | Get_servers \<Rightarrow> True | Get_public_servers \<Rightarrow> True
      | Get_server_detail _ \<Rightarrow> True | Get_invites _ \<Rightarrow> True | Get_status _ \<Rightarrow> True
      | Get_messages _ _ \<Rightarrow> True | Get_media _ \<Rightarrow> True | Get_grants _ _ \<Rightarrow> True
      | Get_roles _ \<Rightarrow> True | Get_mentionable _ \<Rightarrow> True | Get_proposals _ \<Rightarrow> True
      | Get_emojis _ \<Rightarrow> True | Get_emoji_map _ \<Rightarrow> True | Get_my_keys \<Rightarrow> True
      | Get_public_key _ \<Rightarrow> True | Get_social _ \<Rightarrow> True | Get_conversation _ _ \<Rightarrow> True
      | _ \<Rightarrow> False)"

definition request_method :: "request \<Rightarrow> string" where
  "request_method r =
     (if is_get r then ''GET''
      else case r of Delete_invite _ _ \<Rightarrow> ''DELETE'' | _ \<Rightarrow> ''POST'')"

definition server_path :: "string \<Rightarrow> string \<Rightarrow> string" where
  "server_path sl rest = ''/api/servers/'' @ sl @ rest"

definition channel_path :: "string \<Rightarrow> string \<Rightarrow> string \<Rightarrow> string" where
  "channel_path sl ch rest = server_path sl (''/channels/'' @ ch @ rest)"

definition social_path :: "string \<Rightarrow> string \<Rightarrow> string" where
  "social_path me rest = ''/api/social/'' @ me @ rest"

primrec request_path :: "request \<Rightarrow> string" where
  "request_path Get_config = ''/api/config''"
| "request_path (Post_login _ _) = ''/api/login''"
| "request_path (Post_register _ _ _ _) = ''/api/register''"
| "request_path (Get_verify _) = ''/verify''"
| "request_path (Post_resend _ _) = ''/api/resend''"
| "request_path Post_logout = ''/api/logout''"
| "request_path Get_servers = ''/api/servers''"
| "request_path (Post_found _ _) = ''/api/servers''"
| "request_path Get_public_servers = ''/api/servers/public''"
| "request_path (Post_accept_invite _) = ''/api/invites/accept''"
| "request_path (Get_server_detail sl) = server_path sl []"
| "request_path (Post_join sl) = server_path sl ''/join''"
| "request_path (Get_invites sl) = server_path sl ''/invites''"
| "request_path (Post_create_invite _ sl) = server_path sl ''/invites''"
| "request_path (Delete_invite sl hs) = server_path sl (''/invites/'' @ hs)"
| "request_path (Post_channel sl _ _) = server_path sl ''/channels''"
| "request_path (Post_enfranchise sl) = server_path sl ''/enfranchise''"
| "request_path (Get_status sl) = server_path sl ''/me''"
| "request_path (Post_history_sharing sl _) = server_path sl ''/history-sharing''"
| "request_path (Get_messages sl ch) = channel_path sl ch ''/messages''"
| "request_path (Post_message sl ch _ _ _) = channel_path sl ch ''/messages''"
| "request_path (Post_media _ _ _) = ''/api/media''"
| "request_path (Get_media key) = ''/media/'' @ key"
| "request_path (Post_sealed sl ch _ _ _) = channel_path sl ch ''/sealed-messages''"
| "request_path (Post_encrypt sl ch _) = channel_path sl ch ''/encrypt''"
| "request_path (Get_grants sl ch) = channel_path sl ch ''/keys''"
| "request_path (Post_grant sl ch _ _ _) = channel_path sl ch ''/keys''"
| "request_path (Post_react mid _) = ''/api/messages/'' @ dec_u64 mid @ ''/react''"
| "request_path (Get_roles sl) = server_path sl ''/roles''"
| "request_path (Get_mentionable sl) = server_path sl ''/mentionable''"
| "request_path (Get_proposals sl) = server_path sl ''/proposals''"
| "request_path (Post_proposal sl _) = server_path sl ''/proposals''"
| "request_path (Post_vote pid _) = ''/api/proposals/'' @ dec_u64 pid @ ''/vote''"
| "request_path (Get_emojis sl) = server_path sl ''/emojis''"
| "request_path (Post_emoji sl _ _ _) = server_path sl ''/emojis''"
| "request_path (Get_emoji_map sl) = server_path sl ''/emojis/map''"
| "request_path (Post_emoji_vote sl eid _) = server_path sl (''/emojis/'' @ dec_u64 eid @ ''/vote'')"
| "request_path (Post_keys _ _) = ''/api/keys''"
| "request_path Get_my_keys = ''/api/keys/me''"
| "request_path (Get_public_key h) = ''/api/keys/'' @ h"
| "request_path (Post_endorse sl) = server_path sl ''/dev/endorse''"
| "request_path (Post_advance _) = ''/api/dev/advance''"
| "request_path (Get_social me) = social_path me []"
| "request_path (Post_policy me _) = social_path me ''/policy''"
| "request_path (Get_conversation me other) = social_path me (''/with/'' @ other)"
| "request_path (Post_dm me other _ _) = social_path me (''/dm/'' @ other)"
| "request_path (Post_block me other) = social_path me (''/block/'' @ other)"
| "request_path (Post_friend me other) = social_path me (''/friend/'' @ other)"
| "request_path (Post_accept me other) = social_path me (''/accept/'' @ other)"

text \<open>The handlers that read a body.\<close>

definition reads_body :: "request \<Rightarrow> bool" where
  "reads_body r \<longleftrightarrow> \<not> is_get r \<and>
     (case r of
        Post_logout \<Rightarrow> False | Post_join _ \<Rightarrow> False | Post_create_invite _ _ \<Rightarrow> False
      | Delete_invite _ _ \<Rightarrow> False | Post_enfranchise _ \<Rightarrow> False | Post_endorse _ \<Rightarrow> False
      | Post_block _ _ \<Rightarrow> False | Post_friend _ _ \<Rightarrow> False | Post_accept _ _ \<Rightarrow> False | _ \<Rightarrow> True)"

section \<open>The layers\<close>

definition MAX_BODY_BYTES :: nat where
  "MAX_BODY_BYTES = 64 * 1024"

definition MAX_MEDIA_UPLOAD_BYTES :: nat where
  "MAX_MEDIA_UPLOAD_BYTES = 26 * 1024 * 1024"

definition body_cap :: "request \<Rightarrow> nat" where
  "body_cap r = (case r of Post_media _ _ _ \<Rightarrow> MAX_MEDIA_UPLOAD_BYTES | _ \<Rightarrow> MAX_BODY_BYTES)"

text \<open>The rest of a request: the peer, when it came in (nanoseconds), its headers and
  the length of its body.\<close>

record 'ip http =
  ht_ip :: 'ip
  ht_at :: int
  ht_cookies :: "string option"
  ht_csrf :: "string option"
  ht_length :: nat

text \<open>The rate limiter runs before the CSRF check, which runs before the handler; the
  body is capped where the handler reads it. The text of 413 is the library's.\<close>

definition serve ::
  "app_state \<Rightarrow> 'ip http \<Rightarrow> request \<Rightarrow> web \<times> 'ip limiter \<Rightarrow> (http_error + reply) \<times> web \<times> 'ip limiter" where
  "serve app ht r s =
     (case s of (w, limiter) \<Rightarrow>
      (case rate_limit (request_method r) (request_path r) (ht_ip ht) (ht_at ht) limiter of
         (Some retry, limiter) \<Rightarrow>
           (Inl (429, ''rate limit exceeded '' @ em_dash @ '' slow down''), w, limiter)
       | (None, limiter) \<Rightarrow>
           if \<not> csrf_passes (request_method r) (ht_cookies ht) (ht_csrf ht)
             then (Inl (403, ''CSRF check failed''), w, limiter)
           else if reads_body r \<and> ht_length ht > body_cap r
             then (Inl (413, []), w, limiter)
           else (case respond app (ht_cookies ht) r w of (res, w) \<Rightarrow> (res, w, limiter))))"

text \<open>A run of the server: the requests in the order they are served.\<close>

fun serve_all :: "app_state \<Rightarrow> ('ip http \<times> request) list \<Rightarrow> web \<times> 'ip limiter \<Rightarrow> web \<times> 'ip limiter" where
  "serve_all app [] s = s"
| "serve_all app ((ht, r) # rs) s = serve_all app rs (snd (serve app ht r s))"

end
