(* ===== verification/Web_Requests.thy ===== *)
theory Web_Requests
  imports Web_Routes
begin

text \<open>
  What a request does to the node: the use cases it runs and for whom, what an
  error leaves behind, and what an unauthenticated request can change. The
  laws are stated for a server without routers, where every write runs on this
  node; the guards hold with routers too.
\<close>

section \<open>A use case that fails changes nothing\<close>

definition all_or_nothing :: "(inner \<Rightarrow> ('e + 'a) \<times> inner) \<Rightarrow> bool" where
  "all_or_nothing f \<longleftrightarrow> (\<forall>st e st'. f st = (Inl e, st') \<longrightarrow> st' = st)"

lemma all_or_nothing_accounts:
  "all_or_nothing (register_with_password env raw h em pw)"
  "all_or_nothing (found_server_with_visibility env h name priv)"
  "all_or_nothing (create_invite env code h sl)"
  "all_or_nothing (accept_invite env h code)"
  "all_or_nothing (revoke_invite h sl hs)"
  "all_or_nothing (join_server env h sl)"
  "all_or_nothing (try_enfranchise env h sl)"
  "all_or_nothing (set_contribution h sl c)"
  by (auto simp: all_or_nothing_def register_with_password_def found_server_with_visibility_def
      create_invite_def accept_invite_def revoke_invite_def join_server_def try_enfranchise_def
      set_contribution_def Let_def split_beta split: option.splits if_splits sum.splits)

lemma all_or_nothing_chat:
  "all_or_nothing (create_channel env h sl name topic)"
  "all_or_nothing (post_message env h sl ch b)"
  "all_or_nothing (post_message_with_attachments env h sl ch b atts)"
  "all_or_nothing (reply_message env h pid b)"
  "all_or_nothing (store_media ns ct bytes)"
  "all_or_nothing (post_sealed_message env h sl ch ct ep par)"
  "all_or_nothing (set_history_sharing h sl shares)"
  "all_or_nothing (react h mid em)"
  by (auto simp: all_or_nothing_def create_channel_def post_message_def post_message_with_attachments_def
      reply_message_def insert_message_def store_media_def post_sealed_message_def
      set_history_sharing_def react_def Let_def split_beta split: option.splits if_splits sum.splits)

lemma all_or_nothing_governance:
  "all_or_nothing (open_proposal env h sl k)" "all_or_nothing (cast_vote h pid is_aye)"
  by (auto simp: all_or_nothing_def open_proposal_def cast_vote_def cast_vote_as_def Let_def split_beta
      split: option.splits if_splits sum.splits)

lemma all_or_nothing_social:
  "all_or_nothing (send_sealed_dm env a b fr fs)" "all_or_nothing (set_dm_policy a pol)"
  "all_or_nothing (block_user env a b)" "all_or_nothing (request_friend env a b)"
  "all_or_nothing (accept_friend a b)"
  by (auto simp: all_or_nothing_def send_sealed_dm_def send_sealed_dm_core_def set_dm_policy_def
      block_user_def block_between_def request_friend_def request_friend_between_def
      accept_friend_def accept_friend_between_def Let_def split_beta
      split: option.splits if_splits)

lemma all_or_nothing_content:
  "all_or_nothing (add_emoji env h sl name url)" "all_or_nothing (vote_emoji h sl eid up)"
  "all_or_nothing (publish_keys dec h pk ws)"
  "all_or_nothing (enable_channel_encryption h sl ch mode)"
  "all_or_nothing (grant_channel_key h sl ch ep mem key)"
  by (auto simp: all_or_nothing_def add_emoji_def vote_emoji_def publish_keys_def
      enable_channel_encryption_def grant_channel_key_def Let_def split_beta
      split: option.splits if_splits sum.splits)

lemmas all_or_nothing_calls = all_or_nothing_accounts all_or_nothing_chat all_or_nothing_governance
  all_or_nothing_social all_or_nothing_content

section \<open>The commands behind a request\<close>

definition unrouted :: "app_state \<Rightarrow> bool" where
  "unrouted app \<longleftrightarrow> as_vote_router app = None \<and> as_dm_router app = None \<and>
     as_block_router app = None \<and> as_friend_router app = None"

definition for_actor :: "string option \<Rightarrow> (string \<Rightarrow> command list) \<Rightarrow> command list" where
  "for_actor actor f = (case actor of None \<Rightarrow> [] | Some me \<Rightarrow> f me)"

definition if_self :: "string option \<Rightarrow> string \<Rightarrow> command \<Rightarrow> command list" where
  "if_self actor me cmd = (if actor = Some me then [cmd] else [])"

definition request_commands :: "app_state \<Rightarrow> string option \<Rightarrow> inner \<Rightarrow> request \<Rightarrow> command list" where
  "request_commands app actor st r =
     (case r of
        Post_register raw h em pw \<Rightarrow> [Cmd_register_with_password raw h em pw]
      | Get_verify tok \<Rightarrow> [Cmd_verify_email tok]
      | Post_resend raw h \<Rightarrow> [Cmd_issue_resend raw h]
      | Get_proposals sl \<Rightarrow> [Cmd_resolve_due sl]
      | Post_found name priv \<Rightarrow> for_actor actor (\<lambda>me. [Cmd_found_server me name priv])
      | Post_accept_invite code \<Rightarrow> for_actor actor (\<lambda>me. [Cmd_accept_invite me code])
      | Post_join sl \<Rightarrow> for_actor actor (\<lambda>me. [Cmd_join_server me sl])
      | Post_create_invite code sl \<Rightarrow> for_actor actor (\<lambda>me. [Cmd_create_invite code me sl])
      | Delete_invite sl hs \<Rightarrow> for_actor actor (\<lambda>me. [Cmd_revoke_invite me sl hs])
      | Post_channel sl name topic \<Rightarrow> for_actor actor (\<lambda>me. [Cmd_create_channel me sl name topic])
      | Post_enfranchise sl \<Rightarrow> for_actor actor (\<lambda>me. [Cmd_try_enfranchise me sl])
      | Post_history_sharing sl b \<Rightarrow> for_actor actor (\<lambda>me. [Cmd_set_history_sharing me sl b])
      | Post_message sl ch b par atts \<Rightarrow> for_actor actor (\<lambda>me.
          case par of
            Some pid \<Rightarrow> [Cmd_reply_message me pid b]
          | None \<Rightarrow> [Cmd_post_message me sl ch b (attachments_of atts)])
      | Post_media ns ct bytes \<Rightarrow> for_actor actor (\<lambda>_.
          [Cmd_store_media ns (case ct of None \<Rightarrow> ''application/octet-stream'' | Some t \<Rightarrow> t) bytes])
      | Post_sealed sl ch ct ep par \<Rightarrow> for_actor actor (\<lambda>me. [Cmd_post_sealed_message me sl ch ct ep par])
      | Post_encrypt sl ch mode \<Rightarrow> for_actor actor (\<lambda>me.
          [Cmd_enable_channel_encryption me sl ch (history_mode_of mode)])
      | Post_grant sl ch ep mem key \<Rightarrow> for_actor actor (\<lambda>me. [Cmd_grant_channel_key me sl ch ep mem key])
      | Post_react mid em \<Rightarrow> for_actor actor (\<lambda>me. [Cmd_react me mid em])
      | Post_proposal sl rq \<Rightarrow> for_actor actor (\<lambda>me.
          case to_proposal_kind sl st rq of Inl _ \<Rightarrow> [] | Inr k \<Rightarrow> [Cmd_open_proposal me sl k])
      | Post_vote pid is_aye \<Rightarrow> for_actor actor (\<lambda>me. [Cmd_cast_vote me pid is_aye])
      | Post_emoji sl name url img \<Rightarrow> for_actor actor (\<lambda>me.
          case emoji_url app url img of Inl _ \<Rightarrow> [] | Inr u \<Rightarrow> [Cmd_add_emoji me sl name u])
      | Post_emoji_vote sl eid up \<Rightarrow> for_actor actor (\<lambda>me. [Cmd_vote_emoji me sl eid up])
      | Post_keys pk ws \<Rightarrow> for_actor actor (\<lambda>me. [Cmd_publish_keys (as_hex app) me pk ws])
      | Post_endorse sl \<Rightarrow> if as_is_dev app then for_actor actor (\<lambda>me.
          [Cmd_set_contribution me sl
             ((case member_contribution me sl st of None \<Rightarrow> 0 | Some c \<Rightarrow> c) + 5)]) else []
      | Post_policy me b \<Rightarrow> if_self actor me (Cmd_set_dm_policy me (if b then FriendsOnly else Everyone))
      | Post_dm me other fr fs \<Rightarrow> if_self actor me (Cmd_send_sealed_dm me other fr fs)
      | Post_block me other \<Rightarrow> if_self actor me (Cmd_block_user me other)
      | Post_friend me other \<Rightarrow> if_self actor me (Cmd_request_friend me other)
      | Post_accept me other \<Rightarrow> if_self actor me (Cmd_accept_friend me other)
      | _ \<Rightarrow> [])"

text \<open>The handle a command acts for.\<close>

definition acts_as :: "command \<Rightarrow> string option" where
  "acts_as cmd =
     (case cmd of
        Cmd_found_server me _ _ \<Rightarrow> Some me | Cmd_accept_invite me _ \<Rightarrow> Some me
      | Cmd_join_server me _ \<Rightarrow> Some me | Cmd_create_invite _ me _ \<Rightarrow> Some me
      | Cmd_revoke_invite me _ _ \<Rightarrow> Some me | Cmd_create_channel me _ _ _ \<Rightarrow> Some me
      | Cmd_try_enfranchise me _ \<Rightarrow> Some me | Cmd_set_history_sharing me _ _ \<Rightarrow> Some me
      | Cmd_reply_message me _ _ \<Rightarrow> Some me | Cmd_post_message me _ _ _ _ \<Rightarrow> Some me
      | Cmd_post_sealed_message me _ _ _ _ _ \<Rightarrow> Some me
      | Cmd_edit_message me _ _ \<Rightarrow> Some me | Cmd_delete_message me _ \<Rightarrow> Some me
      | Cmd_enable_channel_encryption me _ _ _ \<Rightarrow> Some me
      | Cmd_grant_channel_key me _ _ _ _ _ \<Rightarrow> Some me | Cmd_react me _ _ \<Rightarrow> Some me
      | Cmd_unreact me _ _ \<Rightarrow> Some me
      | Cmd_open_proposal me _ _ \<Rightarrow> Some me | Cmd_cast_vote me _ _ \<Rightarrow> Some me
      | Cmd_add_emoji me _ _ _ \<Rightarrow> Some me | Cmd_vote_emoji me _ _ _ \<Rightarrow> Some me
      | Cmd_publish_keys _ me _ _ \<Rightarrow> Some me | Cmd_set_contribution me _ _ \<Rightarrow> Some me
      | Cmd_set_dm_policy me _ \<Rightarrow> Some me | Cmd_send_sealed_dm me _ _ _ \<Rightarrow> Some me
      | Cmd_block_user me _ \<Rightarrow> Some me | Cmd_request_friend me _ \<Rightarrow> Some me
      | Cmd_accept_friend me _ \<Rightarrow> Some me | _ \<Rightarrow> None)"

lemma signed_in_cases:
  "signed_in app ck k w =
     (case web_actor app ck w of None \<Rightarrow> (Inl (401, ''err.not_signed_in''), w) | Some me \<Rightarrow> k me w)"
  by (simp add: signed_in_def require_actor_def split: option.split)

lemma as_self_cases:
  "as_self app ck me k w =
     (if web_actor app ck w = Some me then k w
      else (Inl (if web_actor app ck w = None then (401, ''err.not_signed_in'')
                 else (403, ''err.forbidden_not_self'')), w))"
  by (simp add: as_self_def require_self_def require_actor_def split: option.split)

lemma calling_store:
  assumes "\<And>b w'. w_store (snd (rest b w')) = w_store w'"
  shows "w_store (snd (calling app txt f rest w)) = snd (f (at_clock app w) (w_store w))"
  using assms by (simp add: calling_def split: prod.split sum.split)

lemma reading_store:
  "w_store (snd (reading txt f rest w)) =
     (case f (w_store w) of Inl e \<Rightarrow> w_store w | Inr b \<Rightarrow> w_store (snd (rest b w)))"
  by (simp add: reading_def split: sum.split)

lemma answered_snd [simp]: "snd (answered f h w) = snd (h w)"
  by (simp add: answered_def split_beta)

lemma answered_Inl [simp]: "answered f h w = (Inl e, w') \<longleftrightarrow> h w = (Inl e, w')"
  by (cases "h w") (auto simp: answered_def map_sum_def split: sum.splits)

lemma send_mail_frames [simp]:
  "w_store (send_verification_email app t k w) = w_store w"
  "w_saved (send_verification_email app t k w) = w_saved w"
  "w_clock (send_verification_email app t k w) = w_clock w"
  by (simp_all add: send_verification_email_def Let_def)

lemma post_message_plain: "post_message env h sl ch b = post_message_with_attachments env h sl ch b []"
  by (simp add: fun_eq_iff post_message_def post_message_with_attachments_def)

lemmas handler_defs = config_handler_def login_def register_def verify_handler_def resend_def logout_def
  list_servers_handler_def list_public_servers_handler_def found_server_handler_def
  create_invite_handler_def list_invites_handler_def revoke_invite_handler_def
  accept_invite_handler_def server_detail_handler_def join_server_handler_def
  create_channel_handler_def enfranchise_handler_def my_status_def
  set_history_sharing_handler_def list_messages_def post_message_handler_def upload_media_def
  serve_media_def post_sealed_message_handler_def enable_channel_encryption_handler_def
  grant_channel_key_handler_def my_channel_grants_handler_def react_handler_def
  list_proposals_handler_def propose_def vote_handler_def list_emojis_handler_def
  emoji_map_handler_def add_emoji_handler_def vote_emoji_handler_def publish_keys_handler_def
  my_keys_handler_def public_key_handler_def list_roles_handler_def mentionable_handler_def
  dev_endorse_def advance_clock_def social_me_def conversation_handler_def send_dm_def
  two_party_def block_handler_def request_friend_handler_def accept_friend_handler_def
  set_policy_handler_def

lemma list_proposals_resolves [simp]: "snd (list_proposals env sl st) = resolve_due env sl st"
  by (simp add: list_proposals_def Let_def split: option.split)

lemma request_store:
  assumes "unrouted app"
  shows "w_store (snd (respond app ck r w)) =
    run (map (Pair (at_clock app w)) (request_commands app (web_actor app ck w) (w_store w) r)) (w_store w)"
  using assms
  by (cases r)
     (simp_all add: unrouted_def request_commands_def handler_defs signed_in_cases as_self_cases
       calling_store reading_store for_actor_def if_self_def with_user_def Let_def split_beta
       post_message_plain advance_days_def
       split: option.split sum.split)

text \<open>Every command of a request acts for the session's own user, or is one of the five
  that act for nobody.\<close>

lemma request_commands_actor:
  assumes "cmd \<in> set (request_commands app actor st r)"
  shows "acts_as cmd = actor \<and> actor \<noteq> None \<or>
    (acts_as cmd = None \<and>
      ((\<exists>raw h em pw. cmd = Cmd_register_with_password raw h em pw) \<or> (\<exists>tok. cmd = Cmd_verify_email tok) \<or>
       (\<exists>raw h. cmd = Cmd_issue_resend raw h) \<or> (\<exists>sl. cmd = Cmd_resolve_due sl) \<or>
       (\<exists>ns ct bytes. cmd = Cmd_store_media ns ct bytes)))"
  using assms
  by (cases r)
     (auto simp: request_commands_def for_actor_def if_self_def acts_as_def
       split: option.splits sum.splits if_splits)

lemma request_commands_length: "length (request_commands app actor st r) \<le> 1"
  by (simp add: request_commands_def for_actor_def if_self_def
      split: request.split option.split sum.split)

section \<open>Errors\<close>

lemma calling_Inl:
  assumes "all_or_nothing (f (at_clock app w))" "\<And>b w e' w'. rest b w \<noteq> (Inl e', w')"
  shows "calling app txt f rest w = (Inl e, w') \<longleftrightarrow>
    (\<exists>e0. fst (f (at_clock app w) (w_store w)) = Inl e0 \<and> e = bad (txt e0) \<and> w' = w)"
  using assms by (auto simp: calling_def all_or_nothing_def split: prod.splits sum.splits)

lemma reading_Inl:
  "reading txt f rest w = (Inl e, w') \<longleftrightarrow>
     (\<exists>e0. f (w_store w) = Inl e0 \<and> e = bad (txt e0) \<and> w' = w) \<or>
     (\<exists>b. f (w_store w) = Inr b \<and> rest b w = (Inl e, w'))"
  by (auto simp: reading_def split: sum.splits)

lemma all_or_nothing_post [simp]:
  "all_or_nothing (case par of
       Some pid \<Rightarrow> reply_message env me pid body
     | None \<Rightarrow> if atts = [] then post_message env me sl ch body
               else post_message_with_attachments env me sl ch body atts)"
  by (simp add: all_or_nothing_chat split: option.split)

lemma respond_error:
  assumes "unrouted app" "respond app ck r w = (Inl e, w')"
  shows "w' = w"
  using assms
  by (cases r)
     (auto simp: unrouted_def handler_defs signed_in_cases as_self_cases calling_Inl reading_Inl
       all_or_nothing_calls with_user_def Let_def split_beta
       split: option.splits if_splits sum.splits)

section \<open>The dataset on disk\<close>

definition synced :: "web \<Rightarrow> bool" where
  "synced w \<longleftrightarrow> w_saved w = to_snapshot (w_store w)"

lemma synced_frames [simp]:
  "synced (publish ev w) = synced w" "synced (persist w)"
  "synced (send_verification_email app t k w) = synced w"
  "synced (advance_days d w) = synced w"
  by (simp_all add: synced_def advance_days_def)

lemma calling_synced:
  assumes "all_or_nothing (f (at_clock app w))" "\<And>b w. synced (snd (rest b w))" "synced w"
  shows "synced (snd (calling app txt f rest w))"
proof -
  obtain res st where f: "f (at_clock app w) (w_store w) = (res, st)" by (cases "f (at_clock app w) (w_store w)")
  then have "res = Inl e \<Longrightarrow> st = w_store w" for e using assms(1) unfolding all_or_nothing_def by blast
  then show ?thesis using assms(2,3) f by (simp add: calling_def split: sum.split)
qed

lemma reading_synced:
  "synced w \<Longrightarrow> (\<And>b. synced (snd (rest b w))) \<Longrightarrow> synced (snd (reading txt f rest w))"
  by (simp add: reading_def split: sum.split)

lemma media_not_in_snapshot: "to_snapshot (snd (store_media ns ct bytes st)) = to_snapshot st"
  by (simp add: store_media_def put_media_def to_snapshot_def Let_def split: option.split)

lemma issue_resend_none: "issue_resend env raw h st = (None, st') \<Longrightarrow> st' = st"
  by (auto simp: issue_resend_def Let_def split: option.splits if_splits)

lemma upload_synced: "synced w \<Longrightarrow> synced (snd (upload_media app ck ns ct bytes w))"
  using media_not_in_snapshot [of ns _ bytes "w_store w"]
  by (simp add: upload_media_def signed_in_cases calling_def synced_def Let_def case_prod_unfold
      split: option.split sum.split)

lemma resend_synced: "synced w \<Longrightarrow> synced (snd (resend app raw h w))"
  using issue_resend_none [of "at_clock app w" raw h "w_store w"]
  by (auto simp: resend_def split: option.split prod.split)

definition saves :: "request \<Rightarrow> bool" where
  "saves r = (case r of Get_proposals _ \<Rightarrow> False | Get_verify _ \<Rightarrow> False | _ \<Rightarrow> True)"

lemma respond_synced:
  assumes "unrouted app" "synced w" "saves r"
  shows "synced (snd (respond app ck r w))"
proof (cases "(\<exists>ns ct bytes. r = Post_media ns ct bytes) \<or> (\<exists>raw h. r = Post_resend raw h)")
  case True
  then show ?thesis using assms(2) upload_synced resend_synced by auto
next
  case False
  then show ?thesis
    using assms
    by (cases r)
       (auto simp: saves_def unrouted_def handler_defs signed_in_cases as_self_cases with_user_def
         Let_def split_beta all_or_nothing_calls intro!: calling_synced reading_synced
         split: option.split sum.split)
qed

section \<open>The clock\<close>

lemma calling_clock:
  "(\<And>b w. w_clock (snd (rest b w)) = w_clock w) \<Longrightarrow> w_clock (snd (calling app txt f rest w)) = w_clock w"
  by (simp add: calling_def split: prod.split sum.split)

lemma reading_clock:
  "(\<And>b w. w_clock (snd (rest b w)) = w_clock w) \<Longrightarrow> w_clock (snd (reading txt f rest w)) = w_clock w"
  by (simp add: reading_def split: sum.split)

lemma respond_clock:
  assumes "unrouted app" "\<not> as_is_dev app"
  shows "w_clock (snd (respond app ck r w)) = w_clock w"
  using assms
  by (cases r)
     (simp_all add: unrouted_def handler_defs signed_in_cases as_self_cases with_user_def Let_def
       split_beta calling_clock reading_clock split: option.split sum.split)

section \<open>Without a session\<close>

definition needs_session :: "request \<Rightarrow> bool" where
  "needs_session r =
     (case r of
        Get_config \<Rightarrow> False | Post_login _ _ \<Rightarrow> False | Post_register _ _ _ _ \<Rightarrow> False
      | Get_verify _ \<Rightarrow> False | Post_resend _ _ \<Rightarrow> False | Post_logout \<Rightarrow> False
      | Get_public_servers \<Rightarrow> False | Get_server_detail _ \<Rightarrow> False | Get_status _ \<Rightarrow> False
      | Get_messages _ _ \<Rightarrow> False | Get_media _ \<Rightarrow> False | Get_roles _ \<Rightarrow> False
      | Get_mentionable _ \<Rightarrow> False | Get_proposals _ \<Rightarrow> False | Get_emojis _ \<Rightarrow> False
      | Get_emoji_map _ \<Rightarrow> False | Post_advance _ \<Rightarrow> False | _ \<Rightarrow> True)"

lemma respond_unsigned:
  assumes "web_actor app ck w = None" "needs_session r"
  shows "respond app ck r w = (Inl (401, ''err.not_signed_in''), w) \<or>
    \<not> as_is_dev app \<and> (\<exists>sl. r = Post_endorse sl) \<and>
      respond app ck r w = (Inl (403, ''err.dev_disabled''), w)"
  using assms
  by (cases r) (auto simp: needs_session_def handler_defs signed_in_cases as_self_cases)

end
