(* ===== verification/Web_Runs.thy ===== *)
theory Web_Runs
  imports Web_Requests Charter Web_Laws
begin

text \<open>
  Runs of the web server: the layers in front of a handler, the store after any
  number of requests, the clock of a server without the development switch and
  what it means for ballots, and how a login becomes a session.
\<close>

section \<open>One request through the layers\<close>

lemma serve_cases:
  obtains (throttled) retry lim where "fst (rate_limit (request_method r) (request_path r) (ht_ip ht) (ht_at ht) l) = Some retry"
      "serve app ht r (w, l) = (Inl (429, ''rate limit exceeded '' @ em_dash @ '' slow down''), w, lim)"
  | (forged) lim where "\<not> csrf_passes (request_method r) (ht_cookies ht) (ht_csrf ht)"
      "serve app ht r (w, l) = (Inl (403, ''CSRF check failed''), w, lim)"
  | (oversized) lim where "reads_body r" "ht_length ht > body_cap r"
      "serve app ht r (w, l) = (Inl (413, []), w, lim)"
  | (handled) lim where "fst (rate_limit (request_method r) (request_path r) (ht_ip ht) (ht_at ht) l) = None"
      "csrf_passes (request_method r) (ht_cookies ht) (ht_csrf ht)"
      "\<not> (reads_body r \<and> ht_length ht > body_cap r)"
      "serve app ht r (w, l) =
        (fst (respond app (ht_cookies ht) r w), snd (respond app (ht_cookies ht) r w), lim)"
proof -
  obtain ro lim where rl: "rate_limit (request_method r) (request_path r) (ht_ip ht) (ht_at ht) l = (ro, lim)"
    by fastforce
  show thesis
  proof (cases ro)
    case (Some retry)
    then show ?thesis using rl by (intro throttled) (simp_all add: serve_def)
  next
    case None
    then show ?thesis
      using rl forged oversized handled
      by (cases "csrf_passes (request_method r) (ht_cookies ht) (ht_csrf ht)";
          cases "reads_body r \<and> ht_length ht > body_cap r")
         (auto simp: serve_def split_beta)
  qed
qed

lemma csrf_double_submit:
  assumes "csrf_passes (request_method r) cookies header" "\<not> is_get r"
  shows "\<exists>c. c \<noteq> [] \<and> cookie_value cookies CSRF_COOKIE = Some c \<and> header = Some c"
  using assms
  by (auto simp: csrf_passes_def request_method_def split: option.splits request.splits)

lemma respond_changes_nothing:
  assumes "web_actor app ck w = None"
    "\<not> (\<exists>raw h em pw. r = Post_register raw h em pw)" "\<not> (\<exists>tok. r = Get_verify tok)"
    "\<not> (\<exists>raw h. r = Post_resend raw h)" "\<not> (\<exists>sl. r = Get_proposals sl)"
    "\<not> (\<exists>d. r = Post_advance d \<and> as_is_dev app)"
  shows "snd (respond app ck r w) = w"
proof (cases "needs_session r")
  case True
  then show ?thesis using respond_unsigned [OF assms(1)] by fastforce
next
  case False
  then show ?thesis
    using assms
    by (cases r)
       (simp_all add: needs_session_def handler_defs reading_def Let_def split: option.split sum.split)
qed

section \<open>Runs\<close>

lemma serve_store:
  assumes "unrouted app"
  shows "\<exists>cmds. w_store (fst (snd (serve app ht r (w, l)))) = run (map (Pair (at_clock app w)) cmds) (w_store w)"
proof (cases rule: serve_cases [of r ht l app w])
  case (handled lim)
  then show ?thesis using request_store [OF assms] by auto
qed (auto intro: exI [of _ "[]"])

lemma serve_all_invariant:
  assumes "P w"
    and "\<And>w ht r l. P w \<Longrightarrow> (ht, r) \<in> set rs \<Longrightarrow> P (fst (snd (serve app ht r (w, l))))"
  shows "P (fst (serve_all app rs (w, l)))"
  using assms
proof (induction app rs "(w, l)" arbitrary: w l rule: serve_all.induct)
  case (2 app ht r rs)
  obtain res w' l' where s: "serve app ht r (w, l) = (res, w', l')" by (metis surj_pair)
  have "P w'" using "2.prems"(2) [OF "2.prems"(1), of ht r l] s by simp
  then have "P (fst (serve_all app rs (w', l')))"
    using "2.prems"(2) by (intro "2.hyps") (auto simp: s)
  then show ?case by (simp add: s)
qed simp

lemma serve_clock:
  assumes "unrouted app" "\<not> as_is_dev app"
  shows "w_clock (fst (snd (serve app ht r (w, l)))) = w_clock w"
  by (cases rule: serve_cases [of r ht l app w]) (simp_all add: respond_clock [OF assms])

lemma store_ok_run_at: "store_ok st \<Longrightarrow> store_ok (run (map (Pair env) cmds) st)"
  by (induction cmds arbitrary: st) (simp_all add: exec_store_ok)

section \<open>Ballots under one clock reading\<close>

text \<open>A statement about every ballot on file that resolution and proposing keep is kept
  by every command.\<close>

lemma exec_each_ballot:
  assumes "store_ok st" "\<And>pid p. get_proposal st pid = Some p \<Longrightarrow> P pid p"
    and resolved: "\<And>pid p t n ph. P pid p \<Longrightarrow> P pid (resolved t n ph (env_now env) p)"
    and proposed: "\<And>pid sid u k. P pid (proposal_new pid sid u k (env_now env)
      (plus_days (env_now env) VOTING_WINDOW_DAYS))"
    and "get_proposal (exec env cmd st) pid = Some p'"
  shows "P pid p'"
proof (cases "touches_trunk cmd")
  case False
  then show ?thesis
    using trunk_get(3) [OF exec_trunk [OF store_ok_tables [OF assms(1)] False]] assms(2,5) by simp
next
  case True
  show ?thesis
  proof (cases "\<exists>sl. cmd = Cmd_resolve_due sl")
    case True
    then obtain sl where p': "get_proposal (resolve_due env sl st) pid = Some p'" using assms(5) by auto
    then obtain p where p: "get_proposal st pid = Some p"
      using resolve_due_no_new_ballot [OF assms(1), of pid env sl] by (cases "get_proposal st pid") auto
    show ?thesis
    proof (cases "\<exists>s. find_by_slug st (trim sl) = Some s \<and> p_server_id p = s_id s")
      case True
      then obtain t c ph where "p' = resolved t c ph (env_now env) p"
        using resolve_due_ballot [OF assms(1) _ p, of sl _ env] p' by auto
      then show ?thesis using resolved assms(2) [OF p] by simp
    next
      case False
      then have "get_proposal (resolve_due env sl st) pid = Some p"
        by (intro resolve_due_other_ballot [OF assms(1) p]) simp
      then show ?thesis using assms(2) [OF p] p' by simp
    qed
  next
    case False
    then show ?thesis
      using \<open>touches_trunk cmd\<close> assms(2,5) proposed
      by (cases cmd)
         (auto simp: open_proposal_def Let_def split_beta get_proposal_insert proposal_new_def
           split: option.splits if_splits)
  qed
qed

lemma run_each_ballot:
  assumes "store_ok st" "\<And>pid p. get_proposal st pid = Some p \<Longrightarrow> P pid p"
    and "\<And>pid p t n ph. P pid p \<Longrightarrow> P pid (resolved t n ph (env_now env) p)"
    and "\<And>pid sid u k. P pid (proposal_new pid sid u k (env_now env)
      (plus_days (env_now env) VOTING_WINDOW_DAYS))"
    and "get_proposal (run (map (Pair env) cmds) st) pid = Some p'"
  shows "P pid p'"
  using assms(1,2,5)
proof (induction cmds arbitrary: st)
  case (Cons cmd cmds)
  have "store_ok (exec env cmd st)" using Cons.prems(1) by (rule exec_store_ok)
  moreover have "P pid p" if "get_proposal (exec env cmd st) pid = Some p" for pid p
    by (rule exec_each_ballot [where P = P, OF Cons.prems(1,2) assms(3,4) that])
  ultimately show ?case using Cons.IH Cons.prems(3) by simp
qed simp

text \<open>\<open>st0\<close> is the store the server started from, \<open>c\<close> its clock.\<close>

definition still_open :: "inner \<Rightarrow> timestamp \<Rightarrow> proposal_id \<Rightarrow> proposal \<Rightarrow> bool" where
  "still_open st0 c pid p \<longleftrightarrow>
     (c < p_closes_at p \<longrightarrow> p_status p = Open) \<and> (get_proposal st0 pid = None \<longrightarrow> c < p_closes_at p)"

lemma still_open_resolved: "still_open st0 c pid p \<Longrightarrow> still_open st0 c pid (resolved t n ph c p)"
proof -
  assume p: "still_open st0 c pid p"
  have closes: "p_closes_at (resolved t n ph c p) = p_closes_at p"
    using same_ballot_resolved by (simp add: same_ballot_def)
  show ?thesis
  proof (cases "c < p_closes_at p")
    case True
    then have "p_status p = Open" using p by (simp add: still_open_def)
    then have "resolved t n ph c p = p" using True by (simp add: resolved_def due_def matured_def)
    then show ?thesis using p by simp
  next
    case False
    then show ?thesis using p closes by (simp add: still_open_def)
  qed
qed

lemma still_open_new:
  "still_open st0 c pid (proposal_new pid sid u k c (plus_days c VOTING_WINDOW_DAYS))"
  by (simp add: still_open_def proposal_new_def plus_days_def VOTING_WINDOW_DAYS_def
      SECONDS_PER_DAY_def less_timestamp_def)

section \<open>Cookies\<close>

lemma split_on_single: "c \<notin> set s \<Longrightarrow> split_on c s = [s]"
  by (induction s) auto

lemma hex_chars: "c \<in> set (to_hex bs) \<Longrightarrow> byte c < 128 \<and> \<not> is_whitespace (byte c) \<and> c \<noteq> CHR '';''"
proof -
  assume "c \<in> set (to_hex bs)"
  then obtain b where "c \<in> set (hex_pair b)" by (auto simp: to_hex_def)
  moreover have "unat (drop_bit 4 b) < length HEX" "unat (b AND 15) < length HEX"
    using nibbles [of b] by (simp_all add: HEX_def)
  ultimately have "c \<in> set HEX" by (auto simp: hex_pair_def)
  then show ?thesis by (auto simp: HEX_def is_whitespace_def)
qed

lemma token_chars:
  assumes "c \<in> set (session_sign hm key uid e)"
  shows "byte c < 128 \<and> \<not> is_whitespace (byte c) \<and> c \<noteq> CHR '';''"
proof -
  have digit: "byte c < 128 \<and> \<not> is_whitespace (byte c) \<and> c \<noteq> CHR '';''" if "c \<in> set (dec_nat n)" for n
    using dec_nat_digits [OF that] by (auto simp: is_whitespace_def)
  have "c = CHR ''.'' \<or> c = CHR ''-'' \<or> (\<exists>n. c \<in> set (dec_nat n)) \<or> (\<exists>bs. c \<in> set (to_hex bs))"
    using assms by (auto simp: session_sign_def dec_u64_def dec_int_def split: if_splits)
  then show ?thesis using digit hex_chars by (auto simp: is_whitespace_def)
qed

lemma no_semicolon [simp]: "CHR '';'' \<notin> set (session_sign hm key uid e)"
  using token_chars by blast

lemma cookie_of_token:
  "cookie_value (Some (SESSION_COOKIE @ ''='' @ session_sign hm key uid e)) SESSION_COOKIE =
     Some (session_sign hm key uid e)"
proof -
  let ?t = "session_sign hm key uid e"
  have t: "trim ?t = ?t"
    using token_chars by (intro trim_ascii_id) (auto simp: ascii_string_def)
  have s: "trim ''sid'' = ''sid''" by (rule trim_ascii_id) (simp_all add: is_whitespace_def)
  have "split_on CHR '';'' (''sid='' @ ?t) = [''sid='' @ ?t]"
    by (intro split_on_single) (simp add: no_semicolon)
  moreover have "split_once CHR ''='' (''sid='' @ ?t) = Some (''sid'', ?t)"
    using split_once_Some [of "CHR ''=''" "''sid='' @ ?t" "''sid''" ?t] by simp
  ultimately show ?thesis using t s by (simp add: cookie_value_def SESSION_COOKIE_def map_filter_simps)
qed

lemma sent_back:
  "before_first CHR '';'' (web_session_cookie app w uid) =
     SESSION_COOKIE @ ''='' @ session_sign (as_hmac app) (as_key app) uid
       (seconds (w_clock w) + SESSION_TTL_SECONDS)"
proof -
  let ?t = "session_sign (as_hmac app) (as_key app) uid (seconds (w_clock w) + SESSION_TTL_SECONDS)"
  have "takeWhile (\<lambda>x. x \<noteq> CHR '';'') (?t @ CHR '';'' # rest) = ?t" for rest
    using token_chars by (subst takeWhile_append2) auto
  then show ?thesis
    by (simp add: web_session_cookie_def session_cookie_def before_first_def SESSION_COOKIE_def)
qed

lemma session_is_current:
  assumes "0 \<le> seconds (w_clock w)" "seconds (w_clock w) < 2 ^ 62"
  shows "web_actor app (Some (before_first CHR '';'' (web_session_cookie app w uid))) v =
    (if seconds (w_clock w) + SESSION_TTL_SECONDS < seconds (w_clock v) then None
     else map_option u_handle (get_user (w_store v) (UserId uid)))"
proof -
  have "session_verify (as_hmac app) (as_key app)
      (session_sign (as_hmac app) (as_key app) uid (seconds (w_clock w) + SESSION_TTL_SECONDS)) =
      Some (uid, seconds (w_clock w) + SESSION_TTL_SECONDS)"
    using assms by (intro session_round) (simp_all add: SESSION_TTL_SECONDS_def)
  then show ?thesis
    by (simp add: web_actor_def current_actor_def sent_back cookie_of_token
        del: append.simps append_Cons)
qed

end
