(* ===== verification/Startup.thy ===== *)
theory Startup
  imports Web_Runs
begin

text \<open>
  How a node starts (\<^verbatim>\<open>democrachat/src/main.rs\<close> and the configuration in
  \<^verbatim>\<open>federation.rs\<close>): its identity, keys and email policy from the environment, the
  dataset read from disk and written back, the key sessions are signed with, and
  the demonstration data of an empty node. An environment variable is an
  optional string; a start that gives up has the status the process exits with.
\<close>

section \<open>The environment\<close>

datatype 'a startup = Started 'a | Exits nat

definition node_id_from_env :: "string option \<Rightarrow> node_id startup" where
  "node_id_from_env var =
     (case var of
        None \<Rightarrow> Started (NodeId 0)
      | Some raw \<Rightarrow>
      (case parse_unsigned 16 (trim raw) of
        None \<Rightarrow> Exits 2
      | Some i \<Rightarrow> Started (NodeId (of_nat i))))"

definition vault_key_from_hex :: "string \<Rightarrow> vault_key option" where
  "vault_key_from_hex s =
     (case hex_decode (trim s) of
        None \<Rightarrow> None
      | Some bytes \<Rightarrow> if length bytes = 32 then Some (VaultKey bytes) else None)"

definition data_key_from_env :: "string option \<Rightarrow> vault_key option startup" where
  "data_key_from_env var =
     (case var of
        None \<Rightarrow> Started None
      | Some raw \<Rightarrow>
          if trim raw = [] then Started None
          else (case vault_key_from_hex raw of None \<Rightarrow> Exits 2 | Some k \<Rightarrow> Started (Some k)))"

definition non_empty_env :: "string option \<Rightarrow> string option" where
  "non_empty_env var =
     (case var of None \<Rightarrow> None | Some raw \<Rightarrow> if trim raw = [] then None else Some (trim raw))"

definition email_verification_from_env :: "string option \<Rightarrow> email_verification_mode startup" where
  "email_verification_from_env var =
     (case non_empty_env var of
        None \<Rightarrow> Started Hard
      | Some raw \<Rightarrow>
          (case email_verification_mode_parse raw of None \<Rightarrow> Exits 2 | Some m \<Rightarrow> Started m))"

definition email_key_from_env :: "string option \<Rightarrow> vault_key option startup" where
  "email_key_from_env var =
     (case non_empty_env var of
        None \<Rightarrow> Started None
      | Some raw \<Rightarrow>
          (case vault_key_from_hex raw of None \<Rightarrow> Exits 2 | Some k \<Rightarrow> Started (Some k)))"

record smtp_config =
  smtp_host :: string
  smtp_port :: u16
  smtp_username :: string
  smtp_password :: string
  smtp_from :: string
  smtp_accept_invalid_certs :: bool

record smtp_env =
  ev_host :: "string option"
  ev_user :: "string option"
  ev_pass :: "string option"
  ev_from :: "string option"
  ev_port :: "string option"
  ev_insecure_tls :: bool

text \<open>\<open>builds\<close> says which settings the mail library accepts.\<close>

definition smtp_sender_from_env :: "(smtp_config \<Rightarrow> bool) \<Rightarrow> smtp_env \<Rightarrow> smtp_config option startup" where
  "smtp_sender_from_env builds ev =
     (case (non_empty_env (ev_host ev), non_empty_env (ev_user ev), non_empty_env (ev_pass ev),
            non_empty_env (ev_from ev)) of
        (Some h, Some u, Some p, Some f) \<Rightarrow>
          let port = (case Option.bind (non_empty_env (ev_port ev)) (parse_unsigned 16) of
                        None \<Rightarrow> 587 | Some n \<Rightarrow> of_nat n);
              cfg = \<lparr> smtp_host = h, smtp_port = port, smtp_username = u, smtp_password = p,
                      smtp_from = f, smtp_accept_invalid_certs = ev_insecure_tls ev \<rparr>
          in if builds cfg then Started (Some cfg) else Exits 2
      | _ \<Rightarrow> Started None)"

record email_wiring =
  ew_mode :: email_verification_mode
  ew_key :: "vault_key option"
  ew_sender :: "smtp_config option"
  ew_site_address :: string

fun and_then :: "'a startup \<Rightarrow> ('a \<Rightarrow> 'b startup) \<Rightarrow> 'b startup" where
  "and_then (Started a) f = f a"
| "and_then (Exits n) f = Exits n"

definition configure_email ::
  "bool \<Rightarrow> bool \<Rightarrow> (smtp_config \<Rightarrow> bool) \<Rightarrow> string option \<Rightarrow> string option \<Rightarrow> smtp_env \<Rightarrow> string option \<Rightarrow>
   email_wiring startup" where
  "configure_email is_serve is_dev builds mode_var key_var smtp site_var =
     and_then (email_verification_from_env mode_var) (\<lambda>mode.
     and_then (email_key_from_env key_var) (\<lambda>key.
     and_then (smtp_sender_from_env builds smtp) (\<lambda>sender.
       let site = or_empty (non_empty_env site_var);
           wiring = (\<lambda>m. \<lparr> ew_mode = m, ew_key = key, ew_sender = sender, ew_site_address = site \<rparr>);
           ready = (key \<noteq> None \<and> sender \<noteq> None \<and> site \<noteq> [])
       in if is_serve \<and> requires_verification mode \<and> \<not> ready then
            (if is_dev then Started (wiring Off) else Exits 2)
          else Started (wiring mode))))"

section \<open>The dataset on disk\<close>

text \<open>Sealing, the envelope's JSON, the check of UTF-8 and the JSON of a snapshot are
  library code. A file is its text.\<close>

record 'sealed vault =
  va_seal :: "vault_key \<Rightarrow> string \<Rightarrow> 'sealed"
  va_open :: "vault_key \<Rightarrow> 'sealed \<Rightarrow> u8 list option"
  va_envelope :: "'sealed \<Rightarrow> string"
  va_from_envelope :: "string \<Rightarrow> 'sealed option"
  va_utf8 :: "u8 list \<Rightarrow> string option"
  va_to_json :: "snapshot \<Rightarrow> string option"
  va_from_json :: "string \<Rightarrow> snapshot option"

definition load_dataset :: "'sealed vault \<Rightarrow> string option \<Rightarrow> vault_key option \<Rightarrow> string option startup" where
  "load_dataset va file key =
     (case file of
        None \<Rightarrow> Started None
      | Some raw \<Rightarrow>
      (case (key, va_from_envelope va raw) of
        (Some k, Some envelope) \<Rightarrow>
          (case va_open va k envelope of
             None \<Rightarrow> Exits 2
           | Some bytes \<Rightarrow>
               (case va_utf8 va bytes of None \<Rightarrow> Exits 2 | Some txt \<Rightarrow> Started (Some txt)))
      | (Some _, None) \<Rightarrow> Started (Some raw)
      | (None, Some _) \<Rightarrow> Exits 2
      | (None, None) \<Rightarrow> Started (Some raw)))"

text \<open>What the file holds after a save that could write it.\<close>

definition save_dataset :: "'sealed vault \<Rightarrow> vault_key option \<Rightarrow> inner \<Rightarrow> string option \<Rightarrow> string option" where
  "save_dataset va key st file =
     (case va_to_json va (to_snapshot st) of
        None \<Rightarrow> file
      | Some json \<Rightarrow>
          Some (case key of Some k \<Rightarrow> va_envelope va (va_seal va k json) | None \<Rightarrow> json))"

text \<open>The store a node starts from.\<close>

definition boot_store :: "'sealed vault \<Rightarrow> string option \<Rightarrow> vault_key option \<Rightarrow> node_id \<Rightarrow> inner startup" where
  "boot_store va file key nd =
     and_then (load_dataset va file key) (\<lambda>data.
       case data of
         None \<Rightarrow> Started (with_node nd empty_store)
       | Some json \<Rightarrow>
           (case va_from_json va json of
              None \<Rightarrow> Exits 2 | Some snap \<Rightarrow> Started (with_node nd (from_snapshot snap))))"

section \<open>The session key\<close>

datatype signer = Ephemeral | From_secret string

definition session_signer_from_env :: "bool \<Rightarrow> string option \<Rightarrow> signer startup" where
  "session_signer_from_env is_loopback var =
     (case var of
        Some secret \<Rightarrow>
          if starts_with secret ''CHANGE_ME'' \<or> length secret < 16
          then (if is_loopback then Started Ephemeral else Exits 2)
          else Started (From_secret secret)
      | None \<Rightarrow> if \<not> is_loopback then Exits 2 else Started Ephemeral)"

section \<open>Federation\<close>

record fed_config =
  fc_node :: node_id
  fc_seed_hex :: string
  fc_etcd :: "string list"
  fc_feed_addr :: string
  fc_token :: "string option"
  fc_peers :: "(node_id \<times> string) list"
  fc_poll :: u64

record fed_env =
  fe_etcd :: "string option"
  fe_seed :: "string option"
  fe_addr :: "string option"
  fe_token :: "string option"
  fe_peers :: "string option"
  fe_poll :: "string option"

definition fed_config_from_env :: "node_id \<Rightarrow> fed_env \<Rightarrow> fed_config option" where
  "fed_config_from_env nd ev =
     (if nd = NodeId 0 then None
      else case non_empty_env (fe_etcd ev) of
        None \<Rightarrow> None
      | Some eps \<Rightarrow>
          let etcd = filter (\<lambda>s. s \<noteq> []) (map trim (split_on CHR '','' eps));
              poll = (case Option.bind (non_empty_env (fe_poll ev)) parse_u64 of None \<Rightarrow> 5 | Some n \<Rightarrow> n)
          in if etcd = [] then None
             else case (non_empty_env (fe_seed ev), non_empty_env (fe_addr ev)) of
               (Some seed, Some addr) \<Rightarrow>
                 Some \<lparr> fc_node = nd, fc_seed_hex = seed, fc_etcd = etcd, fc_feed_addr = addr,
                        fc_token = non_empty_env (fe_token ev),
                        fc_peers = parse_peers (or_empty (non_empty_env (fe_peers ev))),
                        fc_poll = poll \<rparr>
             | _ \<Rightarrow> None)"

section \<open>The first data\<close>

text \<open>\<open>glyph\<close> wraps a character in an SVG data URI.\<close>

definition glyph :: "string \<Rightarrow> string" where
  "glyph g =
     ''data:image/svg+xml;utf8,<svg xmlns='' @ quoted ''http://www.w3.org/2000/svg'' @ '' width='' @
     quoted ''64'' @ '' height='' @ quoted ''64'' @ ''><text x='' @ quoted ''6'' @ '' y='' @ quoted ''52'' @
     '' font-size='' @ quoted ''52'' @ ''>'' @ g @ ''</text></svg>''"

definition seed_commands :: "command list" where
  "seed_commands =
     [Cmd_create_channel ''ada'' ''founders-lounge'' ''general'' ''say hello'',
      Cmd_create_channel ''ada'' ''founders-lounge'' ''governance'' ''how we govern ourselves'',
      Cmd_post_message ''ada'' ''founders-lounge'' ''general''
        (''Welcome to democrachat '' @ em_dash @ '' a chat that governs itself. No owner, no mods: citizens vote.'') [],
      Cmd_post_message ''ada'' ''founders-lounge'' ''general''
        ''You start as a guest. Join, chat, and once citizens endorse your messages you can earn the vote.'' [],
      Cmd_add_emoji ''ada'' ''founders-lounge'' ''party'' (glyph [CHR 0xF0, CHR 0x9F, CHR 0x8E, CHR 0x89]),
      Cmd_add_emoji ''ada'' ''founders-lounge'' ''vote''
        (glyph [CHR 0xF0, CHR 0x9F, CHR 0x97, CHR 0xB3, CHR 0xEF, CHR 0xB8, CHR 0x8F])]"

definition seed_if_empty :: "env \<Rightarrow> inner \<Rightarrow> inner" where
  "seed_if_empty env st =
     (if list_servers st \<noteq> [] then st
      else
        let st = exec env (Cmd_register_account ''ada'') st;
            (founded, st) = found_server env ''ada'' ''Founders Lounge'' st;
            st = (case founded of Inl _ \<Rightarrow> st | Inr _ \<Rightarrow> run (map (Pair env) seed_commands) st)
        in run (map (Pair env)
             [Cmd_register_account ''grace'', Cmd_join_server ''grace'' ''founders-lounge'',
              Cmd_post_message ''grace'' ''founders-lounge'' ''general'' ''Hi! I just joined as a member.'' []]) st)"

definition DEV_SEED_PASSWORD :: string where
  "DEV_SEED_PASSWORD = ''democrachat-demo!''"

text \<open>The state the web server starts in: the clock is read once, here.\<close>

definition boot_web :: "env \<Rightarrow> timestamp \<Rightarrow> bool \<Rightarrow> inner \<Rightarrow> web" where
  "boot_web env now is_dev st =
     (let env = env\<lparr>env_now := now\<rparr>;
          st = seed_if_empty env st;
          st = (if is_dev then run (map (Pair env)
                  [Cmd_set_password ''ada'' DEV_SEED_PASSWORD, Cmd_set_password ''grace'' DEV_SEED_PASSWORD]) st
                else st)
      in \<lparr> w_store = st, w_clock = now, w_saved = to_snapshot st, w_events = [], w_mail = [] \<rparr>)"

section \<open>Laws\<close>

lemma and_then_Started: "and_then s f = Started b \<longleftrightarrow> (\<exists>a. s = Started a \<and> f a = Started b)"
  by (cases s) auto

text \<open>A node that serves never runs a hard email gate it cannot operate.\<close>

lemma configure_email_ready:
  assumes "configure_email True is_dev builds mode_var key_var smtp site_var = Started ew"
    "requires_verification (ew_mode ew)"
  shows "ew_key ew \<noteq> None \<and> ew_sender ew \<noteq> None \<and> ew_site_address ew \<noteq> []"
  using assms
  by (auto simp: configure_email_def and_then_Started Let_def requires_verification_def split: if_splits)

lemma seed_is_run: "\<exists>cmds. seed_if_empty env st = run (map (Pair env) cmds) st"
proof (cases "list_servers st = []")
  case True
  let ?reg = "Cmd_register_account ''ada''"
  let ?found = "Cmd_found_server ''ada'' ''Founders Lounge'' False"
  let ?rest = "[Cmd_register_account ''grace'', Cmd_join_server ''grace'' ''founders-lounge'',
    Cmd_post_message ''grace'' ''founders-lounge'' ''general'' ''Hi! I just joined as a member.'' []]"
  have "seed_if_empty env st = run (map (Pair env) ([?reg, ?found] @ ?rest)) st \<or>
      seed_if_empty env st = run (map (Pair env) ([?reg, ?found] @ seed_commands @ ?rest)) st"
    using True
    by (simp add: seed_if_empty_def found_server_def Let_def split_beta run_append del: exec.simps(1)
        split: sum.split)
  then show ?thesis by blast
next
  case False
  then show ?thesis by (intro exI [of _ "[]"]) (simp add: seed_if_empty_def)
qed

lemma boot_web_is_run:
  "\<exists>cmds. w_store (boot_web env now is_dev st) = run (map (Pair (env\<lparr>env_now := now\<rparr>)) cmds) st"
proof -
  obtain cmds where "seed_if_empty (env\<lparr>env_now := now\<rparr>) st = run (map (Pair (env\<lparr>env_now := now\<rparr>)) cmds) st"
    using seed_is_run by blast
  then have "w_store (boot_web env now is_dev st) = run (map (Pair (env\<lparr>env_now := now\<rparr>)) (cmds @
      (if is_dev then [Cmd_set_password ''ada'' DEV_SEED_PASSWORD, Cmd_set_password ''grace'' DEV_SEED_PASSWORD]
       else []))) st"
    by (simp add: boot_web_def Let_def run_append)
  then show ?thesis by blast
qed

lemma boot_web_synced: "synced (boot_web env now is_dev st)"
  by (simp add: boot_web_def synced_def Let_def)

end
