(* ===== verification/Web_Properties.thy ===== *)
theory Web_Properties
  imports Startup Demo
begin

text \<open>
  The properties of the web server and of a node's start, each evaluated on the
  demonstration state: Ann's and Bob's town, with Ann's password set.
\<close>

section \<open>A server to evaluate them on\<close>

definition demo_app :: "bool \<Rightarrow> app_state" where
  "demo_app is_dev =
     \<lparr> as_env = demo_env 0, as_hmac = (\<lambda>k m. map of_char k @ m), as_key = ''secret'',
       as_secure_cookies = False, as_is_dev = is_dev, as_vote_router = None, as_dm_router = None,
       as_block_router = None, as_friend_router = None, as_has_sender = False,
       as_site_address = [], as_base64 = (\<lambda>_. None), as_hex = (\<lambda>_. Inl []),
       as_header_value = (\<lambda>_. True) \<rparr>"

definition web_of :: "inner \<Rightarrow> timestamp \<Rightarrow> web" where
  "web_of st now =
     \<lparr> w_store = st, w_clock = now, w_saved = to_snapshot st, w_events = [], w_mail = [] \<rparr>"

lemma demo_app_simps [simp]:
  "unrouted (demo_app b)" "as_is_dev (demo_app b) = b" "as_env (demo_app b) = demo_env 0"
  by (simp_all add: demo_app_def unrouted_def)

lemma web_of_simps [simp]:
  "w_store (web_of st now) = st" "w_clock (web_of st now) = now" "synced (web_of st now)"
  by (simp_all add: web_of_def synced_def)

text \<open>The cookie of user 1, signed at the demonstration's start.\<close>

definition ann_cookie :: "string option" where
  "ann_cookie = Some (before_first CHR '';'' (web_session_cookie (demo_app False) (web_of demo8 (Timestamp 0)) 1))"

lemma ann_signed_in:
  "seconds now \<le> SESSION_TTL_SECONDS \<Longrightarrow> users st = [(UserId 1, ann), (UserId 2, bob)] \<Longrightarrow>
   web_actor (demo_app False) ann_cookie (web_of st now) = Some ''ann''"
  by (simp add: ann_cookie_def session_is_current get_user_def hm_get_def not_less)

definition demo_http :: "string option \<Rightarrow> string option \<Rightarrow> nat http" where
  "demo_http cookies header =
     \<lparr> ht_ip = 1, ht_at = 0, ht_cookies = cookies, ht_csrf = header, ht_length = 0 \<rparr>"

lemma csrf_cookie: "cookie_value (Some ''dc_csrf=x'') CSRF_COOKIE = Some ''x''"
proof -
  have "trim ''dc_csrf'' = ''dc_csrf''" "trim ''x'' = ''x''"
    by (rule trim_ascii_id; simp add: is_whitespace_def)+
  then show ?thesis by (simp add: cookie_value_def CSRF_COOKIE_def split_once_def map_filter_simps)
qed

lemma first_request_admitted: "fst (rate_limit m p ip now ([] :: 'ip limiter)) = None"
  using bucket_limit_pos [of "bucket_for p"]
  by (simp add: rate_limit_def check_def Let_def WINDOW_def split: prod.split sum.split)

section \<open>Who may change what\<close>



text \<open>C8. The web server refines the node's state machine. A request runs at most one use
  case at the server's clock, and that use case acts for the user of the
  session's cookie, whatever handles the request names; only registering,
  verifying, re-sending, resolving due ballots and storing a blob act for nobody.\<close>

theorem requests_act_as_the_session:
  assumes "unrouted app"
  shows "\<exists>cmds. length cmds \<le> 1 \<and>
    w_store (snd (respond app ck r w)) = run (map (Pair (at_clock app w)) cmds) (w_store w) \<and>
    (\<forall>cmd\<in>set cmds. acts_as cmd = web_actor app ck w \<and> web_actor app ck w \<noteq> None \<or>
      (acts_as cmd = None \<and>
        ((\<exists>raw h em pw. cmd = Cmd_register_with_password raw h em pw) \<or> (\<exists>tok. cmd = Cmd_verify_email tok) \<or>
         (\<exists>raw h. cmd = Cmd_issue_resend raw h) \<or> (\<exists>sl. cmd = Cmd_resolve_due sl) \<or>
         (\<exists>ns ct bytes. cmd = Cmd_store_media ns ct bytes))))"
proof -
  let ?cmds = "request_commands app (web_actor app ck w) (w_store w) r"
  have "length ?cmds \<le> 1" by (rule request_commands_length)
  moreover have "w_store (snd (respond app ck r w)) = run (map (Pair (at_clock app w)) ?cmds) (w_store w)"
    by (rule request_store [OF assms])
  ultimately show ?thesis using request_commands_actor by (intro exI [of _ ?cmds]) blast
qed

theorem requests_act_as_the_session_witness:
  "\<exists>cmds. length cmds \<le> 1 \<and>
     w_store (snd (respond (demo_app False) ann_cookie (Post_vote 1 True) (web_of demo8 (Timestamp 0)))) =
     run (map (Pair (at_clock (demo_app False) (web_of demo8 (Timestamp 0)))) cmds) demo8 \<and>
     (\<forall>cmd\<in>set cmds. acts_as cmd = Some ''ann'' \<or> acts_as cmd = None)"
  using requests_act_as_the_session [of "demo_app False" ann_cookie "Post_vote 1 True" "web_of demo8 (Timestamp 0)"]
    ann_signed_in [of "Timestamp 0" demo8]
  by (simp add: SESSION_TTL_SECONDS_def) metis



section \<open>The social layer\<close>

definition social_owner :: "request \<Rightarrow> string option" where
  "social_owner r =
     (case r of
        Get_social me \<Rightarrow> Some me | Post_policy me _ \<Rightarrow> Some me | Get_conversation me _ \<Rightarrow> Some me
      | Post_dm me _ _ _ \<Rightarrow> Some me | Post_block me _ \<Rightarrow> Some me | Post_friend me _ \<Rightarrow> Some me
      | Post_accept me _ \<Rightarrow> Some me | _ \<Rightarrow> None)"

lemma forbidden_to_others:
  assumes "social_owner r = Some me" "web_actor app ck w \<noteq> Some me"
  shows "respond app ck r w =
    (Inl (if web_actor app ck w = None then (401, ''err.not_signed_in'')
          else (403, ''err.forbidden_not_self'')), w)"
  using assms by (cases r) (auto simp: social_owner_def handler_defs as_self_cases answered_def)

lemma conversation_between:
  assumes "find_user me st = Some u" "m \<in> set (conversation me other st)"
  shows "m \<in> set (dms st) \<and> (dm_sender m = u_id u \<or> dm_recipient m = u_id u)"
  using assms
  by (auto simp: conversation_def find_user_def store_conversation_def dm_is_between_def split: option.splits)

text \<open>C10. The social layer is private to its owner. A request on the direct messages,
  blocks, friendships or policy of a user that does not carry that user's own
  session is refused and does nothing; and a conversation hands its viewer, for
  each message they sent or received, only the ciphertext sealed for them.\<close>

theorem social_is_private:
  assumes "social_owner r = Some me"
  shows "(web_actor app ck w \<noteq> Some me \<longrightarrow>
      snd (respond app ck r w) = w \<and>
      (fst (respond app ck r w) = Inl (401, ''err.not_signed_in'') \<or>
       fst (respond app ck r w) = Inl (403, ''err.forbidden_not_self''))) \<and>
    (\<forall>ds. fst (respond app ck r w) = Inr (R_conversation ds) \<longrightarrow>
      (\<exists>u. find_user me (w_store w) = Some u \<and>
        (\<forall>d\<in>set ds. \<exists>m\<in>set (dms (w_store w)). dd_id d = dm_id_val (dm_ident m) \<and>
          (dm_sender m = u_id u \<and> dd_sealed_for_me d = dm_sealed_for_sender m \<or>
           dm_recipient m = u_id u \<and> dd_sealed_for_me d = dm_sealed_for_recipient m))))"
proof (intro conjI impI allI)
  assume "web_actor app ck w \<noteq> Some me"
  from forbidden_to_others [OF assms this] show "snd (respond app ck r w) = w"
    "fst (respond app ck r w) = Inl (401, ''err.not_signed_in'') \<or>
     fst (respond app ck r w) = Inl (403, ''err.forbidden_not_self'')" by auto
next
  fix ds assume ds: "fst (respond app ck r w) = Inr (R_conversation ds)"
  then have self: "web_actor app ck w = Some me" using forbidden_to_others [OF assms] by fastforce
  obtain other where r: "r = Get_conversation me other"
    using ds assms by (cases r) (auto simp: social_owner_def answered_def split_beta map_sum_def split: sum.splits)
  then obtain u where u: "find_user me (w_store w) = Some u"
      "ds = map (view_dm u (w_store w)) (conversation me other (w_store w))"
    using ds self
    by (auto simp: answered_def conversation_handler_def as_self_cases with_user_def split: option.splits)
  have "\<exists>m\<in>set (dms (w_store w)). dd_id d = dm_id_val (dm_ident m) \<and>
      (dm_sender m = u_id u \<and> dd_sealed_for_me d = dm_sealed_for_sender m \<or>
       dm_recipient m = u_id u \<and> dd_sealed_for_me d = dm_sealed_for_recipient m)" if "d \<in> set ds" for d
  proof -
    from that u(2) obtain m where "m \<in> set (conversation me other (w_store w))" "d = view_dm u (w_store w) m"
      by auto
    then show ?thesis
      using conversation_between [OF u(1)] by (intro bexI [of _ m]) (auto simp: view_dm_def Let_def)
  qed
  then show "\<exists>u. find_user me (w_store w) = Some u \<and>
      (\<forall>d\<in>set ds. \<exists>m\<in>set (dms (w_store w)). dd_id d = dm_id_val (dm_ident m) \<and>
        (dm_sender m = u_id u \<and> dd_sealed_for_me d = dm_sealed_for_sender m \<or>
         dm_recipient m = u_id u \<and> dd_sealed_for_me d = dm_sealed_for_recipient m))"
    using u(1) by blast
qed

theorem social_is_private_witness:
  "snd (respond (demo_app False) ann_cookie (Get_conversation ''bob'' ''ann'') (web_of demo8 (Timestamp 0))) =
     web_of demo8 (Timestamp 0) \<and>
   fst (respond (demo_app False) ann_cookie (Get_conversation ''bob'' ''ann'') (web_of demo8 (Timestamp 0))) \<noteq>
     Inr (R_conversation [])"
proof -
  let ?w = "web_of demo8 (Timestamp 0)"
  have "web_actor (demo_app False) ann_cookie ?w \<noteq> Some ''bob''"
    using ann_signed_in [of "Timestamp 0" demo8] by (simp add: SESSION_TTL_SECONDS_def)
  then show ?thesis
    using social_is_private [of "Get_conversation ''bob'' ''ann''" "''bob''" "demo_app False" ann_cookie ?w]
    by (auto simp: social_owner_def)
qed

end
