(* ===== verification/Web_Routing.thy ===== *)
theory Web_Routing
  imports Web_Runs
begin

text \<open>
  The web server of a federated node that owns what it writes: its routers hand
  every vote, direct message, block and friendship to the executor of the node
  itself. It is compared with the server of a single node, which calls the use
  cases by handle.
\<close>

definition local_routers :: "app_state \<Rightarrow> app_state" where
  "local_routers app =
     app\<lparr>as_vote_router := Some (federated_vote_router (web_executor app)),
         as_dm_router := Some (federated_dm_router (web_executor app)),
         as_block_router := Some (federated_block_router (web_executor app)),
         as_friend_router := Some (federated_friend_router (web_executor app))\<rparr>"

lemma local_routers_fields [simp]:
  "as_env (local_routers app) = as_env app" "as_hmac (local_routers app) = as_hmac app"
  "as_key (local_routers app) = as_key app" "as_secure_cookies (local_routers app) = as_secure_cookies app"
  "as_is_dev (local_routers app) = as_is_dev app" "as_has_sender (local_routers app) = as_has_sender app"
  "as_site_address (local_routers app) = as_site_address app"
  "as_base64 (local_routers app) = as_base64 app" "as_hex (local_routers app) = as_hex app"
  "as_header_value (local_routers app) = as_header_value app"
  "as_vote_router (local_routers app) = Some (federated_vote_router (web_executor app))"
  "as_dm_router (local_routers app) = Some (federated_dm_router (web_executor app))"
  "as_block_router (local_routers app) = Some (federated_block_router (web_executor app))"
  "as_friend_router (local_routers app) = Some (federated_friend_router (web_executor app))"
  by (simp_all add: local_routers_def)

lemma local_routers_simps [simp]:
  "at_clock (local_routers app) = at_clock app" "web_actor (local_routers app) = web_actor app"
  "emoji_url (local_routers app) = emoji_url app"
  "web_session_cookie (local_routers app) = web_session_cookie app"
  "clear_session_cookie (local_routers app) = clear_session_cookie app"
  "send_verification_email (local_routers app) = send_verification_email app"
proof -
  show clock: "at_clock (local_routers app) = at_clock app" by (simp add: fun_eq_iff at_clock_def)
  show "web_actor (local_routers app) = web_actor app"
    by (simp add: fun_eq_iff web_actor_def clock)
  show "emoji_url (local_routers app) = emoji_url app"
    unfolding fun_eq_iff emoji_url_def local_routers_fields by simp
  show "web_session_cookie (local_routers app) = web_session_cookie app"
    by (simp add: fun_eq_iff web_session_cookie_def clock)
  show "clear_session_cookie (local_routers app) = clear_session_cookie app"
    by (simp add: clear_session_cookie_def secure_suffix_def)
  show "send_verification_email (local_routers app) = send_verification_email app"
    by (simp add: fun_eq_iff send_verification_email_def)
qed

lemma guards_local_routers [simp]:
  "signed_in (local_routers app) = (signed_in app :: string option \<Rightarrow> (string \<Rightarrow> 'a handler) \<Rightarrow> 'a handler)"
  "as_self (local_routers app) = (as_self app :: string option \<Rightarrow> string \<Rightarrow> 'a handler \<Rightarrow> 'a handler)"
  "calling (local_routers app) = (calling app :: ('e \<Rightarrow> string) \<Rightarrow> (env \<Rightarrow> inner \<Rightarrow> ('e + 'b) \<times> inner) \<Rightarrow> ('b \<Rightarrow> 'a handler) \<Rightarrow> 'a handler)"
  by (simp_all add: fun_eq_iff signed_in_cases as_self_cases calling_def)

lemma user_by_id:
  assumes "store_ok st" "find_user h st = Some u"
  shows "get_user st (UserId (user_id_val (u_id u))) = Some u"
  using assms store_ok_tables [OF assms(1)]
  by (auto simp: find_user_def find_by_handle_def get_user_def tables_ok_def find_Some_iff
      hm_keyed_values [symmetric] in_set_conv_nth)

text \<open>The by-id entry points run the use case of the by-handle ones.\<close>

lemma by_id_is_by_handle:
  assumes "store_ok st" "find_user a st = Some u" "find_user b st = Some v"
  shows "send_sealed_dm_by_id env (user_id_val (u_id u)) (user_id_val (u_id v)) fr fs st =
      send_sealed_dm env a b fr fs st"
    "block_user_by_id env (user_id_val (u_id u)) (user_id_val (u_id v)) st = block_user env a b st"
    "request_friend_by_id env (user_id_val (u_id u)) (user_id_val (u_id v)) st = request_friend env a b st"
    "accept_friend_by_id (user_id_val (u_id u)) (user_id_val (u_id v)) st = accept_friend a b st"
    "cast_vote_by_id (user_id_val (u_id u)) pid is_aye st = cast_vote a pid is_aye st"
  using assms(2,3) user_by_id [OF assms(1,2)] user_by_id [OF assms(1,3)]
  by (simp_all add: find_user_def send_sealed_dm_by_id_def send_sealed_dm_def block_user_by_id_def
      block_user_def request_friend_by_id_def request_friend_def accept_friend_by_id_def
      accept_friend_def cast_vote_by_id_def cast_vote_def)

text \<open>A use case called by the handler, and the same one run by the executor, when it is all
  or nothing.\<close>

lemma routed_call:
  assumes "all_or_nothing (f (at_clock app w))"
    and "service_execute (at_clock app w) cmd (w_store w) = ran err (f (at_clock app w) (w_store w))"
  shows "snd (routing (submitted (web_executor app) cmd) (\<lambda>w. (Inr c, publish ev w)) w) =
      snd (calling app errs f (\<lambda>b w. (Inr (r b), publish ev (persist w))) w)"
    "snd (routing (submitted (web_executor app) cmd) (\<lambda>w. (Inr c, publish ev (persist w))) w) =
      snd (calling app errs f (\<lambda>b w. (Inr (r b), publish ev (persist w))) w)"
proof -
  obtain res st where f: "f (at_clock app w) (w_store w) = (res, st)" by (cases "f (at_clock app w) (w_store w)")
  then have "res = Inl e \<Longrightarrow> st = w_store w" for e using assms(1) unfolding all_or_nothing_def by blast
  moreover have "persist (persist v) = persist v" for v by (simp add: persist_def)
  ultimately show "snd (routing (submitted (web_executor app) cmd) (\<lambda>w. (Inr c, publish ev w)) w) =
      snd (calling app errs f (\<lambda>b w. (Inr (r b), publish ev (persist w))) w)"
    "snd (routing (submitted (web_executor app) cmd) (\<lambda>w. (Inr c, publish ev (persist w))) w) =
      snd (calling app errs f (\<lambda>b w. (Inr (r b), publish ev (persist w))) w)"
    using assms(2) f
    by (cases res; simp add: routing_def submitted_def web_executor_def calling_def ran_def)+
qed

lemma missing_party:
  assumes "find_user a st = None \<or> find_user b st = None"
  shows "\<exists>e. send_sealed_dm env a b fr fs st = (Inl e, st)" "\<exists>e. block_user env a b st = (Inl e, st)"
    "\<exists>e. request_friend env a b st = (Inl e, st)" "\<exists>e. accept_friend a b st = (Inl e, st)"
  using assms
  by (auto simp: find_user_def send_sealed_dm_def block_user_def request_friend_def accept_friend_def
      split: option.split)

lemma two_party_routed:
  assumes ok: "store_ok (w_store w)" and all: "all_or_nothing (f (at_clock app w))"
    and missing: "find_user me (w_store w) = None \<or> find_user other (w_store w) = None \<Longrightarrow>
      \<exists>e. f (at_clock app w) (w_store w) = (Inl e, w_store w)"
    and run: "\<And>u v. find_user me (w_store w) = Some u \<Longrightarrow> find_user other (w_store w) = Some v \<Longrightarrow>
      service_execute (at_clock app w) (cmd (user_id_val (u_id u)) (user_id_val (u_id v))) (w_store w) =
      ran social_error_text (f (at_clock app w) (w_store w))"
  shows "snd (two_party app' (Some (\<lambda>i j. submitted (web_executor app) (cmd i j))) f' me other w) =
    snd (two_party app None f me other w)"
proof (cases "\<exists>u v. find_user me (w_store w) = Some u \<and> find_user other (w_store w) = Some v")
  case True
  then obtain u v where uv: "find_user me (w_store w) = Some u" "find_user other (w_store w) = Some v" by blast
  show ?thesis
    using routed_call(1) [where f = f, OF all run [OF uv], of "()" "Ev_social me other" social_error_text] uv
    by (simp add: two_party_def with_user_def)
next
  case False
  then have none: "find_user me (w_store w) = None \<or> find_user other (w_store w) = None"
    by (cases "find_user me (w_store w)"; cases "find_user other (w_store w)") auto
  from missing [OF none] show ?thesis
    using none by (auto simp: two_party_def with_user_def calling_def split: option.split)
qed

lemma routed_votes:
  assumes "store_ok (w_store w)" "unrouted app"
  shows "snd (vote_handler (local_routers app) ck pid is_aye w) = snd (vote_handler app ck pid is_aye w)"
proof (cases "web_actor app ck w")
  case (Some me)
  show ?thesis
  proof (cases "find_user me (w_store w)")
    case None
    then show ?thesis
      using Some assms(2)
      by (simp add: vote_handler_def signed_in_cases unrouted_def calling_def id_of_user_def find_user_def
          cast_vote_def)
  next
    case user: (Some u)
    let ?cmd = "CastVote pid (user_id_val (u_id u)) is_aye"
    have "service_execute (at_clock app w) ?cmd (w_store w) =
        ran vote_error_text (cast_vote me pid is_aye (w_store w))"
      by (simp add: by_id_is_by_handle(5) [OF assms(1) user user])
    from routed_call(2) [where f = "\<lambda>env. cast_vote me pid is_aye" and c = "()" and ev = "Ev_proposal None"
        and errs = vote_error_text and r = "\<lambda>_. ()", OF all_or_nothing_governance(2) this]
    show ?thesis
      using Some user assms(2)
      by (simp add: vote_handler_def signed_in_cases unrouted_def id_of_user_def find_user_def
          federated_vote_router_def)
  qed
qed (simp add: vote_handler_def signed_in_cases)

lemma routed_dm:
  assumes "store_ok (w_store w)" "unrouted app"
  shows "snd (send_dm (local_routers app) ck me other fr fs w) = snd (send_dm app ck me other fr fs w)"
proof (cases "\<exists>u v. find_user me (w_store w) = Some u \<and> find_user other (w_store w) = Some v")
  case True
  then obtain u v where uv: "find_user me (w_store w) = Some u" "find_user other (w_store w) = Some v" by blast
  let ?cmd = "SendDm (user_id_val (u_id u)) (user_id_val (u_id v)) fr fs"
  have "service_execute (at_clock app w) ?cmd (w_store w) =
      ran dm_error_text (send_sealed_dm (at_clock app w) me other fr fs (w_store w))"
    by (simp add: by_id_is_by_handle(1) [OF assms(1) uv])
  from routed_call(1) [where f = "\<lambda>env. send_sealed_dm env me other fr fs" and c = "None :: u64 option" and ev = "Ev_social me other"
      and errs = dm_error_text and r = "\<lambda>m. Some (dm_id_val (dm_ident m))", OF all_or_nothing_social(1) this]
  show ?thesis
    using uv assms(2)
    by (simp add: send_dm_def as_self_cases unrouted_def with_user_def federated_dm_router_def)
next
  case False
  then have none: "find_user me (w_store w) = None \<or> find_user other (w_store w) = None"
    by (cases "find_user me (w_store w)"; cases "find_user other (w_store w)") auto
  from missing_party(1) [OF none, of "at_clock app w" fr fs] show ?thesis
    using none assms(2)
    by (auto simp: send_dm_def as_self_cases unrouted_def with_user_def calling_def split: option.split)
qed

lemma routed_social:
  assumes "store_ok (w_store w)" "unrouted app"
  shows "snd (block_handler (local_routers app) ck me other w) = snd (block_handler app ck me other w)"
    "snd (request_friend_handler (local_routers app) ck me other w) = snd (request_friend_handler app ck me other w)"
    "snd (accept_friend_handler (local_routers app) ck me other w) = snd (accept_friend_handler app ck me other w)"
proof -
  have "snd (two_party (local_routers app) (Some (federated_block_router (web_executor app)))
      (\<lambda>env. block_user env me other) me other w) = snd (two_party app None (\<lambda>env. block_user env me other) me other w)"
    unfolding federated_block_router_def
    by (rule two_party_routed [OF assms(1)])
       (simp_all add: all_or_nothing_social missing_party by_id_is_by_handle [OF assms(1)])
  then show "snd (block_handler (local_routers app) ck me other w) = snd (block_handler app ck me other w)"
    using assms(2) by (simp add: block_handler_def as_self_cases unrouted_def)
  have "snd (two_party (local_routers app) (Some (fr_request (federated_friend_router (web_executor app))))
      (\<lambda>env. request_friend env me other) me other w) = snd (two_party app None (\<lambda>env. request_friend env me other) me other w)"
    unfolding federated_friend_router_def friend_router.simps
    by (rule two_party_routed [OF assms(1)])
       (simp_all add: all_or_nothing_social missing_party by_id_is_by_handle [OF assms(1)])
  then show "snd (request_friend_handler (local_routers app) ck me other w) = snd (request_friend_handler app ck me other w)"
    using assms(2) by (simp add: request_friend_handler_def as_self_cases unrouted_def)
  have "snd (two_party (local_routers app) (Some (fr_accept (federated_friend_router (web_executor app))))
      (\<lambda>env. accept_friend me other) me other w) = snd (two_party app None (\<lambda>env. accept_friend me other) me other w)"
    unfolding federated_friend_router_def friend_router.simps
    by (rule two_party_routed [OF assms(1)])
       (simp_all add: all_or_nothing_social missing_party by_id_is_by_handle [OF assms(1)])
  then show "snd (accept_friend_handler (local_routers app) ck me other w) = snd (accept_friend_handler app ck me other w)"
    using assms(2) by (simp add: accept_friend_handler_def as_self_cases unrouted_def)
qed

lemma routed_respond:
  assumes "store_ok (w_store w)" "unrouted app"
  shows "snd (respond (local_routers app) ck r w) = snd (respond app ck r w)"
proof (cases "(\<exists>pid b. r = Post_vote pid b) \<or> (\<exists>me other fr fs. r = Post_dm me other fr fs) \<or>
    (\<exists>me other. r = Post_block me other \<or> r = Post_friend me other \<or> r = Post_accept me other)")
  case True
  then show ?thesis
    using routed_votes [OF assms] routed_dm [OF assms] routed_social [OF assms] by auto
next
  case False
  then show ?thesis by (cases r) (simp_all add: handler_defs calling_def Let_def
      split: option.split sum.split prod.split)
qed

text \<open>The layers in front of the handlers do not look at the routers, so runs agree as well.\<close>

lemma routed_serve:
  assumes "store_ok (w_store w)" "unrouted app"
  shows "snd (serve (local_routers app) ht r (w, l)) = snd (serve app ht r (w, l))"
  using routed_respond [OF assms, of "ht_cookies ht" r]
  by (auto simp: serve_def split_beta split: option.split)

lemma serve_store_ok:
  assumes "store_ok (w_store w)" "unrouted app"
  shows "store_ok (w_store (fst (snd (serve app ht r (w, l)))))"
proof -
  obtain cmds where
    "w_store (fst (snd (serve app ht r (w, l)))) = run (map (Pair (at_clock app w)) cmds) (w_store w)"
    using serve_store [OF assms(2)] by blast
  then show ?thesis using store_ok_run_at [OF assms(1)] by simp
qed

end
