(* ===== verification/Cli.thy ===== *)
theory Cli
  imports Startup
begin

text \<open>
  The command-line front end (\<^verbatim>\<open>adapter-cli/src/lib.rs\<close>): one call of a use case
  per process, its reply printed, around it the dataset loaded and saved
  (\<^verbatim>\<open>main\<close> of \<^verbatim>\<open>democrachat/src/main.rs\<close>). The arguments arrive parsed.
\<close>

section \<open>Commands\<close>

datatype cli_command =
    Cli_register string
  | Cli_found string string
  | Cli_join string string
  | Cli_enfranchise string string
  | Cli_status string string
  | Cli_show string
  | Cli_set_contribution string string int
  | Cli_create_channel string string string string
  | Cli_channels string
  | Cli_post string string string string
  | Cli_reply string u64 string
  | Cli_edit string u64 string
  | Cli_delete string u64
  | Cli_react string u64 string
  | Cli_unreact string u64 string
  | Cli_thread string string

section \<open>Replies\<close>

fun cli_describe_unmet :: "unmet \<Rightarrow> string" where
  "cli_describe_unmet (AccountTooYoung nd hv) =
     ''account too young: need '' @ dec_int nd @ ''d, have '' @ dec_int hv @ ''d''"
| "cli_describe_unmet (MembershipTooShort nd hv) =
     ''membership too short: need '' @ dec_int nd @ ''d, have '' @ dec_int hv @ ''d''"
| "cli_describe_unmet (InsufficientContribution nd hv) =
     ''not enough endorsed contribution: need '' @ dec_int nd @ '', have '' @ dec_int hv"
| "cli_describe_unmet Sanctioned = ''under an active sanction''"
| "cli_describe_unmet Barred = ''permanently barred from the franchise''"

definition unmet_lines :: "unmet list \<Rightarrow> string" where
  "unmet_lines us = concat (map (\<lambda>u. newline # ''    - '' @ cli_describe_unmet u) us)"

text \<open>The signs U+2713, U+2717, U+23F3 and U+2265.\<close>

definition outcome_text :: "string \<Rightarrow> string \<Rightarrow> enfranchise_outcome \<Rightarrow> string" where
  "outcome_text hdl server outcome =
     (case outcome of
        Admitted \<Rightarrow> [CHR 0xE2, CHR 0x9C, CHR 0x93, CHR '' ''] @ hdl @ '' is now a CITIZEN of g/'' @ server @
          '' '' @ em_dash @ '' earned by meeting the criteria''
      | NotEligible us \<Rightarrow> [CHR 0xE2, CHR 0x9C, CHR 0x97, CHR '' ''] @ hdl @ '' is NOT eligible in g/'' @ server @
          '':'' @ unmet_lines us
      | RateCapped n \<Rightarrow> [CHR 0xE2, CHR 0x8F, CHR 0xB3, CHR '' ''] @ hdl @ '' qualifies but g/'' @ server @
          [CHR 0x27] @ ''s enfranchisement rate cap is full ('' @ dec_u64 n @
          '' admitted in the last 30 days). Not denied '' @ em_dash @ '' queued.'')"

definition status_text :: "string \<Rightarrow> string \<Rightarrow> eligibility \<Rightarrow> string" where
  "status_text hdl server e =
     (if is_eligible e
      then hdl @ '' meets every franchise criterion in g/'' @ server @ '' (run `enfranchise`)''
      else hdl @ '' does not yet qualify in g/'' @ server @ '':'' @ unmet_lines (unmet e))"

definition at_least :: string where
  "at_least = [CHR 0xE2, CHR 0x89, CHR 0xA5]"

definition show_text :: "server \<times> phase \<times> u64 \<Rightarrow> string" where
  "show_text x =
     (case x of (g, phase, citizens) \<Rightarrow>
       let surface = sort (map ballot_kind_debug
                       (filter (\<lambda>k. k \<in> s_enabled_ballots g) all_ballot_kinds))
       in ''g/'' @ s_slug g @ '' ('' @ s_name g @ '')'' @ newline # ''  phase: '' @ phase_debug phase @
          '' ('' @ dec_u64 citizens @ '' citizen(s))'' @ newline # ''  franchise: account'' @ at_least @
          dec_int (min_account_age_days (s_criteria g)) @ ''d, member'' @ at_least @
          dec_int (min_membership_days (s_criteria g)) @ ''d, contribution'' @ at_least @
          dec_int (min_contribution (s_criteria g)) @ newline # ''  votes on: '' @ joined '', '' surface)"

definition channels_text :: "string \<Rightarrow> channel list \<Rightarrow> string" where
  "channels_text server cs =
     (if cs = [] then ''g/'' @ server @ '' has no channels yet''
      else ''g/'' @ server @ '' channels:'' @
        concat (map (\<lambda>c. newline # ''  #'' @ ch_name c @
          (if ch_topic c = [] then [] else '' '' @ em_dash @ '' '' @ ch_topic c)) cs))"

fun render_node :: "inner \<Rightarrow> nat \<Rightarrow> message_node \<Rightarrow> string" where
  "render_node st depth (MessageNode m children) =
     (let reactions = message_reactions (message_id_val (msg_id m)) st
      in newline # concat (replicate (depth + 1) ''  '') @
         ''['' @ dec_u64 (message_id_val (msg_id m)) @ ''] '' @ author_text (msg_author m) st @ '': '' @
         (if msg_is_deleted m then ''[deleted]'' else msg_body m) @
         (if msg_edited_at m \<noteq> None then '' (edited)'' else []) @
         (if reactions = [] then []
          else ''   ['' @ joined '' '' (map (\<lambda>(e, n). e @ dec_u64 n) reactions) @ '']'') @
         concat (map (render_node st (depth + 1)) children))"

text \<open>None is a tree that never ends.\<close>

definition thread_text :: "string \<Rightarrow> string \<Rightarrow> inner \<Rightarrow> message list \<Rightarrow> string option" where
  "thread_text server channel st ms =
     (if ms = [] then Some (CHR ''#'' # channel @ '' is empty'')
      else map_option (\<lambda>tree. CHR ''#'' # channel @ '' in g/'' @ server @ '':'' @
             concat (map (render_node st 0) tree)) (build_message_tree ms))"

section \<open>Running a command\<close>

text \<open>A use case, its error printed or its result told; and one that only reads.\<close>

definition told ::
  "('e \<Rightarrow> string) \<Rightarrow> ('a \<Rightarrow> string) \<Rightarrow> (inner \<Rightarrow> ('e + 'a) \<times> inner) \<Rightarrow> inner \<Rightarrow>
   ((string + string) \<times> inner) option" where
  "told err say f st = Some (map_prod (map_sum err say) id (f st))"

definition no_such_server :: "string \<Rightarrow> string" where
  "no_such_server server = ''no such server: '' @ quoted server"

primrec dispatch :: "env \<Rightarrow> cli_command \<Rightarrow> inner \<Rightarrow> ((string + string) \<times> inner) option" where
  "dispatch env (Cli_register hdl) =
     told register_error_text
       (\<lambda>u. ''registered '' @ u_handle u @ '' (id '' @ dec_u64 (user_id_val (u_id u)) @ '')'')
       (register_account env hdl)"
| "dispatch env (Cli_found founder name) =
     told found_error_text
       (\<lambda>s. ''founded g/'' @ s_slug s @ '' ('' @ s_name s @ '') '' @ em_dash @ '' '' @ founder @ '' is citizen #1'')
       (found_server env founder name)"
| "dispatch env (Cli_join hdl server) =
     told join_error_text (\<lambda>_. hdl @ '' joined g/'' @ server @ '' as a member (no vote yet)'')
       (join_server env hdl server)"
| "dispatch env (Cli_enfranchise hdl server) =
     told enfranchise_error_text (outcome_text hdl server) (try_enfranchise env hdl server)"
| "dispatch env (Cli_status hdl server) =
     told enfranchise_error_text (status_text hdl server)
       (\<lambda>st. (eligibility_of env hdl server st, st))"
| "dispatch env (Cli_show server) =
     told id show_text
       (\<lambda>st. (case server_snapshot server st of
                None \<Rightarrow> Inl (no_such_server server) | Some x \<Rightarrow> Inr x, st))"
| "dispatch env (Cli_set_contribution hdl server amount) =
     told enfranchise_error_text
       (\<lambda>_. ''set '' @ hdl @ [CHR 0x27] @ ''s contribution in g/'' @ server @ '' to '' @ dec_int amount)
       (set_contribution hdl server amount)"
| "dispatch env (Cli_create_channel founder server name topic) =
     told channel_error_text (\<lambda>c. ''created #'' @ ch_name c @ '' in g/'' @ server)
       (create_channel env founder server name topic)"
| "dispatch env (Cli_channels server) =
     told id (channels_text server)
       (\<lambda>st. (case list_channels server st of
                None \<Rightarrow> Inl (no_such_server server) | Some cs \<Rightarrow> Inr cs, st))"
| "dispatch env (Cli_post hdl server channel body) =
     told message_error_text
       (\<lambda>m. ''posted message '' @ dec_u64 (message_id_val (msg_id m)) @ '' to #'' @ channel)
       (post_message env hdl server channel body)"
| "dispatch env (Cli_reply hdl parent body) =
     told message_error_text
       (\<lambda>m. ''posted reply '' @ dec_u64 (message_id_val (msg_id m)) @ '' under message '' @ dec_u64 parent)
       (reply_message env hdl parent body)"
| "dispatch env (Cli_edit hdl mid body) =
     told message_error_text (\<lambda>_. ''edited message '' @ dec_u64 mid) (edit_message env hdl mid body)"
| "dispatch env (Cli_delete hdl mid) =
     told message_error_text (\<lambda>_. ''deleted message '' @ dec_u64 mid) (delete_message hdl mid)"
| "dispatch env (Cli_react hdl mid emoji) =
     told reaction_error_text (\<lambda>_. hdl @ '' reacted '' @ emoji @ '' to message '' @ dec_u64 mid)
       (react hdl mid emoji)"
| "dispatch env (Cli_unreact hdl mid emoji) =
     told reaction_error_text (\<lambda>_. hdl @ '' removed '' @ emoji @ '' from message '' @ dec_u64 mid)
       (unreact hdl mid emoji)"
| "dispatch env (Cli_thread server channel) =
     (\<lambda>st. case channel_messages server channel st of
        Inl e \<Rightarrow> Some (Inl (message_error_text e), st)
      | Inr ms \<Rightarrow> map_option (\<lambda>out. (Inr out, st)) (thread_text server channel st ms))"

text \<open>The exit status, the line printed, and the store. \<open>now\<close> is the \<^verbatim>\<open>--now\<close> of the command.\<close>

definition cli_clock :: "env \<Rightarrow> int option \<Rightarrow> env" where
  "cli_clock env now = (case now of Some secs \<Rightarrow> env\<lparr>env_now := Timestamp secs\<rparr> | None \<Rightarrow> env)"

definition cli_run :: "env \<Rightarrow> int option \<Rightarrow> cli_command \<Rightarrow> inner \<Rightarrow> (nat \<times> string \<times> inner) option" where
  "cli_run env now cmd st =
     map_option (\<lambda>(r, st).
         case r of Inr msg \<Rightarrow> (0, msg, st) | Inl msg \<Rightarrow> (1, ''error: '' @ msg, st))
       (dispatch (cli_clock env now) cmd st)"

text \<open>One process: the dataset loaded, the command run, the dataset saved; with what is
  on file afterwards.\<close>

definition cli_main ::
  "'sealed vault \<Rightarrow> vault_key option \<Rightarrow> node_id \<Rightarrow> env \<Rightarrow> int option \<Rightarrow> cli_command \<Rightarrow> string option \<Rightarrow>
   (nat \<times> string option) option" where
  "cli_main va key nd env now cmd file =
     (case boot_store va file key nd of
        Exits n \<Rightarrow> Some (n, file)
      | Started st \<Rightarrow>
          map_option (\<lambda>(code, _, st'). (code, save_dataset va key st' file)) (cli_run env now cmd st))"

section \<open>Laws\<close>

definition cli_calls :: "cli_command \<Rightarrow> command list" where
  "cli_calls cmd =
     (case cmd of
        Cli_register h \<Rightarrow> [Cmd_register_account h]
      | Cli_found h nm \<Rightarrow> [Cmd_found_server h nm False]
      | Cli_join h sl \<Rightarrow> [Cmd_join_server h sl]
      | Cli_enfranchise h sl \<Rightarrow> [Cmd_try_enfranchise h sl]
      | Cli_set_contribution h sl n \<Rightarrow> [Cmd_set_contribution h sl n]
      | Cli_create_channel h sl nm tp \<Rightarrow> [Cmd_create_channel h sl nm tp]
      | Cli_post h sl ch b \<Rightarrow> [Cmd_post_message h sl ch b []]
      | Cli_reply h mid b \<Rightarrow> [Cmd_reply_message h mid b]
      | Cli_edit h mid b \<Rightarrow> [Cmd_edit_message h mid b]
      | Cli_delete h mid \<Rightarrow> [Cmd_delete_message h mid]
      | Cli_react h mid e \<Rightarrow> [Cmd_react h mid e]
      | Cli_unreact h mid e \<Rightarrow> [Cmd_unreact h mid e]
      | _ \<Rightarrow> [])"

lemma told_simps [simp]:
  "told err say f st = Some (r, st') \<longleftrightarrow> r = map_sum err say (fst (f st)) \<and> st' = snd (f st)"
  by (auto simp: told_def map_prod_def split: prod.split)

lemma dispatch_calls:
  assumes "dispatch env cmd st = Some (r, st')"
  shows "st' = run (map (Pair env) (cli_calls cmd)) st"
  using assms
  by (cases cmd) (auto simp: cli_calls_def found_server_def post_message_plain split: sum.splits)

lemma all_or_nothing_cli:
  "all_or_nothing (register_account env h)" "all_or_nothing (found_server env h nm)"
  "all_or_nothing (edit_message env h mid b)" "all_or_nothing (delete_message h mid)"
  "all_or_nothing (unreact h mid e)" "all_or_nothing (\<lambda>st. (g st, st))"
  using all_or_nothing_accounts(2)
  by (auto simp: all_or_nothing_def register_account_def found_server_def edit_message_def
      delete_message_def unreact_def Let_def split_beta split: option.splits if_splits sum.splits)

lemma told_failed:
  assumes "told err say f st = Some (Inl e, st')" "all_or_nothing f"
  shows "st' = st"
  using assms by (cases "f st"; cases "fst (f st)") (auto simp: all_or_nothing_def)

lemma dispatch_failed:
  assumes "dispatch env cmd st = Some (Inl e, st')"
  shows "st' = st"
  using assms
proof (induction cmd)
  case (Cli_thread sl ch)
  then show ?case by (auto split: sum.splits)
qed (unfold dispatch.simps, (erule told_failed, simp add: all_or_nothing_calls all_or_nothing_cli)+)

lemma dispatch_returns:
  assumes "store_ok st"
  shows "\<exists>r st'. dispatch env cmd st = Some (r, st')"
proof (cases cmd)
  case (Cli_thread sl ch)
  show ?thesis
  proof (cases "channel_messages sl ch st")
    case (Inr ms)
    have "unique_by msg_id (hm_values (messages st))"
      using store_ok_tables [OF assms] by (auto simp: tables_ok_def intro: hm_keyed_unique)
    then have "unique_by msg_id ms"
      using Inr by (auto simp: channel_messages_def list_for_channel_def unique_by_def distinct_map
          inj_on_def split: option.splits)
    then show ?thesis
      using Cli_thread Inr build_message_tree_returns [of ms] by (auto simp: thread_text_def)
  qed (use Cli_thread in simp)
qed (simp_all add: told_def)

lemma cli_calls_length: "length (cli_calls cmd) \<le> 1"
  by (cases cmd) (simp_all add: cli_calls_def)

lemma cli_run_returns:
  assumes "store_ok st"
  obtains code out st' where "cli_run env now cmd st = Some (code, out, st')"
    "code = 0 \<or> code = 1 \<and> st' = st"
    "st' = run (map (Pair (cli_clock env now)) (cli_calls cmd)) st"
proof -
  obtain r st' where d: "dispatch (cli_clock env now) cmd st = Some (r, st')"
    using dispatch_returns [OF assms] by blast
  show ?thesis
  proof (cases r)
    case (Inl e)
    show ?thesis
      using that [of 1 "''error: '' @ e" st'] d dispatch_failed dispatch_calls [OF d]
      by (simp add: cli_run_def Inl)
  next
    case (Inr msg)
    show ?thesis using that [of 0 msg st'] d dispatch_calls [OF d] by (simp add: cli_run_def Inr)
  qed
qed

end
