(* ===== verification/Startup_Properties.thy ===== *)
theory Startup_Properties
  imports Web_Properties Web_Routing Cli
begin

text \<open>
  The properties of the web server over time: what is on disk after a request,
  how long a login lasts, what a clock that is read once does to ballots; and
  of a node's start: the email gate and the dataset on disk.
\<close>

section \<open>What is on disk\<close>



lemma to_snapshot_proposals: "sn_proposals (to_snapshot st) = hm_values (proposals st)"
  by (simp add: to_snapshot_def)

text \<open>C24. Reading the proposals is a write that is not saved. When a ballot of the server
  is due, listing the proposals closes it in memory, and the dataset on disk no
  longer is the snapshot of the store: a crash forgets the outcome the client
  has been shown.\<close>

theorem proposals_read_is_not_saved:
  assumes "store_ok (w_store w)" "synced w" "find_by_slug (w_store w) (trim sl) = Some s"
    "get_proposal (w_store w) pid = Some p" "p_server_id p = s_id s" "due (w_clock w) p"
  shows "\<not> synced (snd (respond app ck (Get_proposals sl) w))"
proof
  let ?env = "at_clock app w"
  let ?st = "w_store w"
  note tables = store_ok_tables [OF assms(1)]
  assume "synced (snd (respond app ck (Get_proposals sl) w))"
  then have "to_snapshot (resolve_due ?env sl ?st) = to_snapshot ?st"
    using assms(2) by (simp add: synced_def list_proposals_handler_def Let_def split_beta)
  then have "hm_values (proposals (resolve_due ?env sl ?st)) = hm_values (proposals ?st)"
    by (metis to_snapshot_proposals)
  moreover have "tables_ok (resolve_due ?env sl ?st)"
    using exec_store_ok [OF assms(1), of ?env "Cmd_resolve_due sl"] store_ok_tables by simp
  moreover obtain t n ph where
    q: "get_proposal (resolve_due ?env sl ?st) pid = Some (resolved t n ph (env_now ?env) p)"
    using resolve_due_ballot [OF assms(1,3,4,5)] by blast
  moreover have "p_id (resolved t n ph (env_now ?env) p) = pid"
    using same_ballot_resolved [of p t n ph "env_now ?env"] get_ids(6) [OF tables assms(4)]
    by (simp add: same_ballot_def)
  ultimately have "get_proposal ?st pid = Some (resolved t n ph (env_now ?env) p)"
    using tables hm_keyed_values [of p_id "proposals ?st"]
      hm_keyed_values [of p_id "proposals (resolve_due ?env sl ?st)"]
    unfolding get_proposal_def tables_ok_def by metis
  then have "resolved t n ph (w_clock w) p = p" using assms(4) by simp
  then show False using assms(6) settled_resolved [of "w_clock w" t n ph p] by (simp add: settled_def)
qed

theorem proposals_read_is_not_saved_witness:
  "\<not> synced (snd (respond (demo_app False) None (Get_proposals ''town'') (web_of demo8 (Timestamp 2851200))))"
proof -
  have "find_by_slug demo8 (trim ''town'') = Some town" by (simp add: find_by_slug_def hm_values_def)
  moreover have "get_proposal demo8 (ProposalId 1) = Some kind_rule" by (simp add: get_proposal_def hm_get_def)
  moreover have "due (Timestamp 2851200) kind_rule" by (simp add: due_def)
  ultimately show ?thesis
    using proposals_read_is_not_saved [of "web_of demo8 (Timestamp 2851200)" "''town''" town "ProposalId 1"
        kind_rule "demo_app False" None] demo_store_ok(8)
    by simp
qed

section \<open>The clock\<close>

text \<open>C11. Time stands still in a running server. The clock is read once, when the server
  starts; without the development switch no run of requests moves it. So no
  ballot whose window ends after the start is ever closed by the running
  server, and every ballot opened while it runs is still open, however long it
  runs and however often the proposals are read.\<close>

theorem the_clock_stands_still:
  assumes "unrouted app" "\<not> as_is_dev app" "store_ok (w_store w)"
    "\<And>pid p. get_proposal (w_store w) pid = Some p \<Longrightarrow> w_clock w < p_closes_at p \<Longrightarrow> p_status p = Open"
    "get_proposal (w_store (fst (serve_all app rs (w, l)))) pid = Some p"
  shows "w_clock (fst (serve_all app rs (w, l))) = w_clock w \<and>
    (w_clock w < p_closes_at p \<longrightarrow> p_status p = Open) \<and>
    (get_proposal (w_store w) pid = None \<longrightarrow> p_status p = Open)"
proof -
  let ?P = "\<lambda>v :: web. store_ok (w_store v) \<and> w_clock v = w_clock w \<and>
    (\<forall>pid p. get_proposal (w_store v) pid = Some p \<longrightarrow> still_open (w_store w) (w_clock w) pid p)"
  have "?P (fst (serve_all app rs (w, l)))"
  proof (rule serve_all_invariant [where P = ?P])
    show "?P w" using assms(3,4) by (auto simp: still_open_def)
  next
    fix v :: web and ht r l assume v: "?P v"
    obtain cmds where c: "w_store (fst (snd (serve app ht r (v, l)))) = run (map (Pair (at_clock app v)) cmds) (w_store v)"
      using serve_store [OF assms(1)] by blast
    have "store_ok (w_store (fst (snd (serve app ht r (v, l)))))"
      using v store_ok_run_at unfolding c by blast
    moreover have "still_open (w_store w) (w_clock w) pid p"
      if "get_proposal (w_store (fst (snd (serve app ht r (v, l))))) pid = Some p" for pid p
      by (rule run_each_ballot [where P = "still_open (w_store w) (w_clock w)" and env = "at_clock app v"
            and cmds = cmds and st = "w_store v"])
         (use v that in \<open>simp_all add: c still_open_resolved still_open_new\<close>)
    ultimately show "?P (fst (snd (serve app ht r (v, l))))"
      using v by (simp add: serve_clock [OF assms(1,2)])
  qed
  then show ?thesis using assms(5) unfolding still_open_def by blast
qed

lemma proposals_are_served:
  "w_store (fst (serve_all app [(demo_http None None, Get_proposals sl)] (w, []))) =
     resolve_due (at_clock app w) sl (w_store w)"
  by (simp add: serve_def demo_http_def rate_limit_def request_method_def is_get_def csrf_passes_def
      reads_body_def answered_def list_proposals_handler_def Let_def split_beta)

theorem the_clock_stands_still_witness:
  "\<exists>p. get_proposal (w_store (fst (serve_all (demo_app False) [(demo_http None None, Get_proposals ''town'')]
       (web_of demo8 (Timestamp 2592000), [])))) (ProposalId 1) = Some p \<and> p_status p = Open"
proof -
  let ?w = "web_of demo8 (Timestamp 2592000)"
  let ?rs = "[(demo_http None None, Get_proposals ''town'')]"
  have open_now: "get_proposal (w_store ?w) pid = Some q \<Longrightarrow> p_status q = Open" for pid q
    by (auto simp: get_proposal_def hm_get_def split: if_splits)
  have "find_by_slug demo8 (trim ''town'') = Some town" by (simp add: find_by_slug_def hm_values_def)
  moreover have rule: "get_proposal demo8 (ProposalId 1) = Some kind_rule" by (simp add: get_proposal_def hm_get_def)
  ultimately obtain t n ph where
    "get_proposal (resolve_due (at_clock (demo_app False) ?w) ''town'' demo8) (ProposalId 1) =
      Some (resolved t n ph (env_now (at_clock (demo_app False) ?w)) kind_rule)" (is "_ = Some ?p")
    using resolve_due_ballot [OF demo_store_ok(8), of "''town''" town "ProposalId 1" kind_rule
        "at_clock (demo_app False) ?w"]
    by (auto simp del: at_clock_frames)
  then have p: "get_proposal (w_store (fst (serve_all (demo_app False) ?rs (?w, [])))) (ProposalId 1) = Some ?p"
    unfolding proposals_are_served by simp
  have "p_closes_at ?p = p_closes_at kind_rule"
    using same_ballot_resolved [of kind_rule t n ph] by (simp add: same_ballot_def)
  then have "w_clock ?w < p_closes_at ?p" by (simp add: less_timestamp_def)
  then have "p_status ?p = Open"
    using the_clock_stands_still [of "demo_app False" ?w ?rs "[]" "ProposalId 1" ?p] p open_now
      demo_store_ok(8)
    by simp
  with p show ?thesis by blast
qed

section \<open>Sessions\<close>

text \<open>C27. A login is a session for thirty days. When a login answers with a cookie, the
  handle named a user and the password verified; and on any later request the
  browser's copy of the cookie is that user's session, as long as the account
  is on file, until the server's clock has passed thirty days, and nobody's
  from then on.\<close>

theorem login_starts_a_session:
  assumes "respond app ck (Post_login h pw) w = (Inr (R_auth (Logged_in cookie hdl)), w')"
    "0 \<le> seconds (w_clock w)" "seconds (w_clock w) < 2 ^ 62"
  shows "\<exists>u. find_user h (w_store w) = Some u \<and> u_handle u = hdl \<and>
    env_verify_password (as_env app) pw (u_password_hash u) \<and>
    web_actor app (Some (before_first CHR '';'' cookie)) v =
      (if seconds (w_clock w) + 30 * 24 * 60 * 60 < seconds (w_clock v) then None
       else map_option u_handle (get_user (w_store v) (u_id u)))"
proof -
  obtain u where u: "authenticate (at_clock app w) h pw (w_store w) = Some u"
      "cookie = web_session_cookie app w (user_id_val (u_id u))" "u_handle u = hdl"
    using assms(1) by (auto simp: answered_def login_def split: option.splits if_splits)
  have "find_user h (w_store w) = Some u \<and> env_verify_password (as_env app) pw (u_password_hash u)"
    using u(1) by (auto simp: authenticate_def find_user_def at_clock_def split: option.splits if_splits)
  moreover have "web_actor app (Some (before_first CHR '';'' cookie)) v =
      (if seconds (w_clock w) + 30 * 24 * 60 * 60 < seconds (w_clock v) then None
       else map_option u_handle (get_user (w_store v) (u_id u)))"
    unfolding u(2) using session_is_current [OF assms(2,3)] by (simp add: SESSION_TTL_SECONDS_def)
  ultimately show ?thesis using u(3) by blast
qed

definition demo_login :: inner where
  "demo_login = demo2\<lparr>users := [(UserId 1, ann\<lparr>u_password_hash := ''h:pw''\<rparr>)]\<rparr>"

lemma ann_authenticates:
  "env_verify_password env = (\<lambda>p h. h = ''h:'' @ p) \<Longrightarrow>
   authenticate env ''ann'' ''pw'' demo_login = Some (ann\<lparr>u_password_hash := ''h:pw''\<rparr>)"
  by (simp add: authenticate_def demo_login_def find_by_handle_def hm_values_def has_password_def)

definition demo_login_cookie :: string where
  "demo_login_cookie = web_session_cookie (demo_app False) (web_of demo_login (Timestamp 0)) 1"

lemma demo_login_reply:
  "respond (demo_app False) None (Post_login ''ann'' ''pw'') (web_of demo_login (Timestamp 0)) =
     (Inr (R_auth (Logged_in demo_login_cookie ''ann'')), web_of demo_login (Timestamp 0))"
proof -
  let ?w = "web_of demo_login (Timestamp 0)"
  have "env_verify_password (at_clock (demo_app False) ?w) = (\<lambda>p h. h = ''h:'' @ p)"
    by (simp add: at_clock_def demo_env_def)
  note auth = ann_authenticates [OF this]
  have mode: "\<not> requires_verification (env_email_verification (at_clock (demo_app False) ?w))"
    by (simp add: requires_verification_def at_clock_def demo_env_def)
  show ?thesis
    using mode by (simp add: answered_def login_def auth demo_login_cookie_def)
qed

theorem login_starts_a_session_witness:
  "web_actor (demo_app False) (Some (before_first CHR '';'' demo_login_cookie)) (web_of demo8 (Timestamp 2592000)) =
     Some ''ann''"
proof -
  let ?v = "web_of demo8 (Timestamp 2592000)"
  obtain u where u: "find_user ''ann'' demo_login = Some u"
      "web_actor (demo_app False) (Some (before_first CHR '';'' demo_login_cookie)) ?v =
        map_option u_handle (get_user demo8 (u_id u))"
    using login_starts_a_session [OF demo_login_reply, of ?v] by auto
  have "u_id u = UserId 1"
    using u(1) by (auto simp: find_user_def find_by_handle_def demo_login_def hm_values_def)
  then have "map_option u_handle (get_user demo8 (u_id u)) = Some ''ann''"
    by (simp add: get_user_def hm_get_def)
  with u(2) show ?thesis by (rule trans)
qed

text \<open>C22. No session without a verified address. On a node that started its server with
  email verification on, a request that answers with credentials either asks
  for the address to be confirmed first, or logs in a user whose address is
  verified: registering alone never starts a session.\<close>

theorem sessions_need_a_verified_email:
  assumes "configure_email True is_dev builds mode_var key_var smtp site_var = Started ew"
    "requires_verification (ew_mode ew)"
    "env_email_verification (as_env app) = ew_mode ew" "env_email_key (as_env app) = ew_key ew"
    "respond app ck r w = (Inr (R_auth a), w')"
  shows "(\<exists>hdl. a = Verify_required hdl) \<or>
    (\<exists>u\<in>set (list_all_users (w_store w)). u_email_verified u \<and>
       a = Logged_in (web_session_cookie app w (user_id_val (u_id u))) (u_handle u))"
proof -
  have key: "env_email_key (at_clock app w) \<noteq> None" and
    mode: "requires_verification (env_email_verification (at_clock app w))"
    using configure_email_ready [OF assms(1,2)] assms(2,3,4) by (simp_all add: at_clock_def)
  show ?thesis
  proof (cases "\<exists>h pw. r = Post_login h pw")
    case True
    then obtain h pw where "login app h pw w = (Inr a, w')"
      using assms(5) by (auto simp: answered_def split_beta map_sum_def prod_eq_iff split: sum.splits)
    then obtain u where "authenticate (at_clock app w) h pw (w_store w) = Some u" "u_email_verified u"
        "a = Logged_in (web_session_cookie app w (user_id_val (u_id u))) (u_handle u)"
      using mode by (auto simp: login_def split: option.splits if_splits)
    then show ?thesis
      by (auto simp: authenticate_def find_by_handle_def list_all_users_def find_Some_iff nth_mem
          split: option.splits if_splits)
  next
    case False
    then obtain raw h em pw where "register app raw h em pw w = (Inr a, w')"
      using assms(5) by (cases r) (auto simp: answered_def split_beta map_sum_def prod_eq_iff split: sum.splits)
    then obtain reg st where reg: "register_with_password (at_clock app w) raw h em pw (w_store w) = (Inr reg, st)"
        "reg_verification_token reg = None \<or> (\<exists>hdl. a = Verify_required hdl)"
      by (auto simp: register_def calling_def Let_def split: prod.splits sum.splits option.splits)
    then have "reg_verification_token reg \<noteq> None"
      using key mode
      by (auto simp: register_with_password_def Let_def split_beta split: if_splits sum.splits option.splits)
    then show ?thesis using reg(2) by auto
  qed
qed

text \<open>A deployment with verification on: every variable is set.\<close>

definition zero_key :: string where
  "zero_key = to_hex (List.replicate 32 0)"

definition full_smtp :: smtp_env where
  "full_smtp = \<lparr> ev_host = Some ''x'', ev_user = Some ''x'', ev_pass = Some ''x'', ev_from = Some ''x'',
     ev_port = None, ev_insecure_tls = False \<rparr>"

definition full_wiring :: email_wiring where
  "full_wiring =
     \<lparr> ew_mode = Hard, ew_key = Some (VaultKey (List.replicate 32 0)),
       ew_sender = Some \<lparr> smtp_host = ''x'', smtp_port = 587, smtp_username = ''x'', smtp_password = ''x'',
         smtp_from = ''x'', smtp_accept_invalid_certs = False \<rparr>,
       ew_site_address = ''x'' \<rparr>"

lemma full_deployment:
  "configure_email True False (\<lambda>_. True) None (Some zero_key) full_smtp (Some ''x'') = Started full_wiring"
proof -
  have "trim ''x'' = ''x''" by (rule trim_ascii_id) (simp_all add: is_whitespace_def)
  moreover have "trim zero_key = zero_key"
    using hex_chars by (intro trim_ascii_id) (auto simp: zero_key_def ascii_string_def)
  moreover have "zero_key \<noteq> []" by (simp add: zero_key_def flip: length_0_conv)
  moreover have "hex_decode zero_key = Some (List.replicate 32 0)" by (simp add: zero_key_def)
  ultimately show ?thesis
    by (simp add: configure_email_def email_verification_from_env_def non_empty_env_def
        email_key_from_env_def vault_key_from_hex_def smtp_sender_from_env_def full_smtp_def
        full_wiring_def requires_verification_def or_empty_def Let_def)
qed

definition hard_app :: app_state where
  "hard_app = (demo_app False)\<lparr>as_env := (demo_env 0)\<lparr>env_email_verification := ew_mode full_wiring,
     env_email_key := ew_key full_wiring\<rparr>\<rparr>"

lemma hard_login_reply:
  "\<exists>cookie. respond hard_app None (Post_login ''ann'' ''pw'') (web_of demo_login (Timestamp 0)) =
     (Inr (R_auth (Logged_in cookie ''ann'')), web_of demo_login (Timestamp 0))"
proof -
  have "env_verify_password (at_clock hard_app (web_of demo_login (Timestamp 0))) = (\<lambda>p h. h = ''h:'' @ p)"
    by (simp add: at_clock_def hard_app_def demo_env_def)
  note auth = ann_authenticates [OF this]
  have "u_email_verified ann" by (simp add: ann_def)
  then show ?thesis by (simp add: answered_def login_def auth)
qed

theorem sessions_need_a_verified_email_witness:
  "\<exists>u\<in>set (list_all_users demo_login). u_email_verified u \<and> u_handle u = ''ann''"
proof -
  obtain cookie where "respond hard_app None (Post_login ''ann'' ''pw'') (web_of demo_login (Timestamp 0)) =
      (Inr (R_auth (Logged_in cookie ''ann'')), web_of demo_login (Timestamp 0))"
    using hard_login_reply by blast
  moreover have "requires_verification (ew_mode full_wiring)"
    by (simp add: requires_verification_def full_wiring_def)
  ultimately show ?thesis
    using sessions_need_a_verified_email [OF full_deployment, of hard_app None "Post_login ''ann'' ''pw''"
        "web_of demo_login (Timestamp 0)" "Logged_in cookie ''ann''"]
    by (auto simp: hard_app_def)
qed

section \<open>The dataset on disk\<close>

text \<open>What the code relies on of the vault and of JSON: a sealed text opens to itself under
  its key, an envelope and a snapshot survive being printed, and the JSON of a
  snapshot is no envelope.\<close>

definition vault_documented :: "'sealed vault \<Rightarrow> bool" where
  "vault_documented va \<longleftrightarrow>
     (\<forall>k txt. \<exists>bytes. va_open va k (va_seal va k txt) = Some bytes \<and> va_utf8 va bytes = Some txt) \<and>
     (\<forall>e. va_from_envelope va (va_envelope va e) = Some e) \<and>
     (\<forall>snap json. va_to_json va snap = Some json \<longrightarrow>
        va_from_json va json = Some snap \<and> va_from_envelope va json = None)"

text \<open>The store without what is not in the dataset, under the identity of the node.\<close>

abbreviation (input) on_file :: "node_id \<Rightarrow> inner \<Rightarrow> inner" where
  "on_file nd st \<equiv>
     st\<lparr>media := [], media_seq := 0, node := nd, outbox := [], next_outbox := 0, cursors := []\<rparr>"

lemma vault_reads:
  assumes "vault_documented va" "va_to_json va snap = Some json"
  shows "va_from_json va json = Some snap" "va_from_envelope va json = None"
    "va_from_envelope va (va_envelope va e) = Some e"
    "\<exists>bytes. va_open va k (va_seal va k json) = Some bytes \<and> va_utf8 va bytes = Some json"
  using assms unfolding vault_documented_def by blast+

lemma saved_store_loads:
  assumes "vault_documented va" "store_ok st" "va_to_json va (to_snapshot st) = Some json"
  shows "boot_store va (save_dataset va key st file) key nd = Started (on_file nd st)"
    "boot_store va (save_dataset va None st file) key nd = Started (on_file nd st)"
    "key \<noteq> None \<Longrightarrow> boot_store va (save_dataset va key st file) None nd = Exits 2"
proof -
  note reads = vault_reads [OF assms(1,3)]
  have store: "with_node nd (from_snapshot (to_snapshot st)) = on_file nd st"
    by (simp add: snapshot_roundtrip [OF store_ok_tables [OF assms(2)]] with_node_def)
  show plain: "boot_store va (save_dataset va None st file) key nd = Started (on_file nd st)"
    by (cases key) (simp_all add: boot_store_def load_dataset_def save_dataset_def assms(3) reads store)
  show "boot_store va (save_dataset va key st file) key nd = Started (on_file nd st)"
  proof (cases key)
    case (Some k)
    obtain bytes where "va_open va k (va_seal va k json) = Some bytes" "va_utf8 va bytes = Some json"
      using reads(4) by blast
    then show ?thesis
      using Some by (simp add: boot_store_def load_dataset_def save_dataset_def assms(3) reads store)
  qed (use plain in simp)
  show "key \<noteq> None \<Longrightarrow> boot_store va (save_dataset va key st file) None nd = Exits 2"
    by (auto simp: boot_store_def load_dataset_def save_dataset_def assms(3) reads)
qed


definition toy_vault :: "string vault" where
  "toy_vault =
     \<lparr> va_seal = (\<lambda>k txt. txt), va_open = (\<lambda>k e. Some (map of_char e)),
       va_envelope = (\<lambda>e. CHR ''v'' # e),
       va_from_envelope = (\<lambda>s. case s of c # e \<Rightarrow> if c = CHR ''v'' then Some e else None | [] \<Rightarrow> None),
       va_utf8 = (\<lambda>bs. Some (map (\<lambda>b. char_of (unat b)) bs)),
       va_to_json = (\<lambda>snap. if snap = to_snapshot demo8 then Some ''{}'' else None),
       va_from_json = (\<lambda>json. if json = ''{}'' then Some (to_snapshot demo8) else None) \<rparr>"

lemma char_of_byte: "char_of (unat (of_char c :: u8)) = c"
proof -
  have "unat (of_nat (of_char c) :: u8) = of_char c"
    using nat_of_char_less_256 [of c] by (simp add: unat_of_nat)
  then show ?thesis by (simp add: of_nat_of_char)
qed

lemma toy_vault_documented: "vault_documented toy_vault"
  by (simp add: vault_documented_def toy_vault_def comp_def char_of_byte)


text \<open>C99. The command line is a sequence of processes over one file. On a well-formed
  dataset every command ends: with status 0, or with status 1 and the store as
  it was. It runs at most one use case, and the next process loads exactly the
  store this one left, unless it could not be written as JSON, when the file
  stays.\<close>

theorem commands_compose_through_the_file:
  assumes "vault_documented va" "boot_store va file key nd = Started st" "store_ok st"
  shows "\<exists>code file' st' calls. cli_main va key nd env now cmd file = Some (code, file') \<and>
    (code = 0 \<or> code = 1 \<and> st' = st) \<and>
    length calls \<le> 1 \<and> st' = run (map (Pair (cli_clock env now)) calls) st \<and>
    (va_to_json va (to_snapshot st') = None \<and> file' = file \<or>
     boot_store va file' key nd =
       Started (st'\<lparr>media := [], media_seq := 0, node := nd, outbox := [], next_outbox := 0, cursors := []\<rparr>))"
proof -
  obtain code out st' where r: "cli_run env now cmd st = Some (code, out, st')"
    "code = 0 \<or> code = 1 \<and> st' = st" "st' = run (map (Pair (cli_clock env now)) (cli_calls cmd)) st"
    by (rule cli_run_returns [OF assms(3)])
  let ?file = "save_dataset va key st' file"
  have "store_ok st'" using r(3) store_ok_run_at [OF assms(3)] by simp
  then have "va_to_json va (to_snapshot st') = None \<and> ?file = file \<or>
      boot_store va ?file key nd = Started (on_file nd st')"
    using saved_store_loads(1) [OF assms(1)]
    by (cases "va_to_json va (to_snapshot st')") (auto simp: save_dataset_def)
  moreover have "cli_main va key nd env now cmd file = Some (code, ?file)"
    by (simp add: cli_main_def assms(2) r(1))
  ultimately show ?thesis using r(2,3) cli_calls_length by blast
qed

theorem commands_compose_through_the_file_witness:
  "\<exists>code file'. cli_main toy_vault None (NodeId 0) (demo_env 40) None (Cli_join ''bob'' ''town'') (Some ''{}'') =
     Some (code, file') \<and> (code = 0 \<or> code = 1)"
proof -
  have "boot_store toy_vault (Some ''{}'') None (NodeId 0) = Started (with_node (NodeId 0) (from_snapshot (to_snapshot demo8)))"
    by (simp add: boot_store_def load_dataset_def toy_vault_def)
  then show ?thesis
    using commands_compose_through_the_file [OF toy_vault_documented, of "Some ''{}''" None "NodeId 0" _
        "demo_env 40" None "Cli_join ''bob'' ''town''"] store_ok_restart [OF demo_store_ok(8)]
    by blast
qed

text \<open>The session key is never weak in public. Bound to a public address a node
  starts only with a configured secret of at least sixteen bytes that is no
  placeholder; the keys a loopback start falls back to are fresh ones.\<close>

theorem public_session_keys:
  "(\<exists>s. session_signer_from_env False var = Started s) \<longleftrightarrow>
     (\<exists>secret. var = Some secret \<and> 16 \<le> length secret \<and> take 9 secret \<noteq> ''CHANGE_ME'' \<and>
        session_signer_from_env False var = Started (From_secret secret))"
  by (auto simp: session_signer_from_env_def starts_with_def eval_nat_numeral split: option.splits if_splits)

section \<open>A node that owns what it writes\<close>



end
