(* ===== verification/Spec2Isabelle.thy ===== *)
theory Spec2Isabelle
  imports Domain_Properties Service_Properties Federation_Properties Etcd_Properties Replication_Properties
    Edge_Properties Startup_Properties
begin

text \<open>
  Democrachat is a chat platform whose servers govern themselves: members earn
  the vote, ballots change the rules, and several nodes host the servers between
  them. This development models the Rust workspace under \<^verbatim>\<open>src/crates\<close> as
  executable functions on explicit states and proves what makes it correct.

  \<^bold>\<open>The program.\<close> \<^verbatim>\<open>domain\<close> holds entities and pure rules; \<^verbatim>\<open>app\<close> holds the use
  cases (\<^verbatim>\<open>Services\<close>), written against repository ports;
  \<^verbatim>\<open>adapter-store-memory\<close> implements every port on one in-memory state and
  records each change in an outbox. \<^verbatim>\<open>federation\<close> signs the outbox into a feed
  that other nodes pull, decides from the payload of a row which scope (a server,
  or the home of a user) it belongs to, and lets it in only when it is signed by
  the node the ownership registry names, with the current fencing epoch.
  \<^verbatim>\<open>adapter-federation\<close> pulls feeds, and forwards a write to the owner of its
  scope as a signed command. \<^verbatim>\<open>adapter-control-etcd\<close> keeps the registry in etcd.
  \<^verbatim>\<open>adapter-web\<close> is the HTTP server over the use cases, and
  \<^verbatim>\<open>democrachat/src/main.rs\<close> reads the environment and the dataset and starts it.

  \<^bold>\<open>Theories and sources.\<close>
  \<^item> \<open>Prelude\<close>: the machine integers of the code, saturating and clamping
    operations, hash maps as association lists with distinct keys, and shared
    facts. \<open>Ids_Time\<close>: \<^verbatim>\<open>domain/src/time\<close>, \<^verbatim>\<open>ids\<close>, \<^verbatim>\<open>node\<close>.
  \<^item> The domain: \<open>Utf8_Text\<close> (the operations of \<^verbatim>\<open>str\<close>), \<open>Names_Credentials\<close>,
    \<open>Mentions_Credentials\<close> (\<^verbatim>\<open>slugify\<close>, the normalised names, \<^verbatim>\<open>parse_mentions\<close>,
    policies, image validation), \<open>Chat_Model\<close>, \<open>Franchise\<close>, \<open>Social_Model\<close>,
    \<open>Governance\<close>, \<open>Jury\<close>: one group of definitions per directory of
    \<^verbatim>\<open>domain/src\<close>. Their contracts are in \<open>Domain_Properties\<close>.
  \<^item> The store: \<open>Store\<close> and \<open>Store_Ops\<close> (\<^verbatim>\<open>adapter-store-memory/src/lib.rs\<close>): the
    record \<open>inner\<close> has the fields of \<^verbatim>\<open>Inner\<close>, one definition per repository
    method. \<open>Store_Laws\<close> states tables and secondary keys as the locales
    \<open>keyed_table\<close> and \<open>secondary_key\<close>, interprets them for every table and derives
    the invariant \<open>tables_ok\<close>.
  \<^item> The services: \<open>Accounts\<close> (\<^verbatim>\<open>app/src/services.rs\<close>), \<open>Chat_Service\<close>,
    \<open>Governance_Service\<close>, \<open>Social_Service\<close>, \<open>Content_Service\<close>: a use case is a
    function of an environment (clock, keys, hashing, mail policy), its arguments
    and the store, returning the error or result and the new store, with every
    early return of the source.
  \<^item> The node as a state machine: \<open>System\<close> (a \<open>command\<close> is one call of
    \<^verbatim>\<open>Services\<close>; \<open>exec\<close> runs it; \<open>step\<close>, \<open>live\<close> and \<open>evolves\<close> are the
    transition, the reachable states and the later states), with its invariants
    in \<open>Service_Invariant\<close>, \<open>Integrity\<close>, \<open>Refs\<close>, \<open>Standing\<close>, \<open>Ballots\<close>,
    \<open>Ballot_Life\<close>, \<open>Charter\<close>, \<open>Runs\<close>; \<open>Service_Properties\<close> states the
    contracts and \<open>Demo\<close> is the run the witnesses evaluate.
  \<^item> Federation: \<open>Node_Identity\<close>, \<open>Ownership\<close> (the \<^verbatim>\<open>OwnershipRegistry\<close> trait as
    a record of operations, its laws as the locale \<open>ownership_registry\<close>,
    \<^verbatim>\<open>InMemoryRegistry\<close> as its instance), \<open>Etcd_Registry\<close> and \<open>Etcd_Laws\<close> (the same trait over a
    key-value cluster), \<open>Feed\<close> and \<open>Feed_Laws\<close> (events, scopes, authorisation),
    \<open>Replication\<close>, \<open>Replica\<close>, \<open>Replicator\<close> (the consumer), \<open>Command_Path\<close> and
    \<open>Command_Laws\<close> (forwarded writes), \<open>Rehome\<close> and \<open>Fleet\<close> (failover and the loops of
    \<^verbatim>\<open>democrachat/src/federation.rs\<close>).
  \<^item> The web server: \<open>Web_Edge\<close>, \<open>Web_Laws\<close> (sessions, limiter, guards, \<^verbatim>\<open>middleware\<close>,
    \<^verbatim>\<open>auth.rs\<close>); \<open>Web_State\<close> (\<^verbatim>\<open>state.rs\<close>: the record \<open>web\<close> is what a request may change, the
    store, the clock, the dataset on disk, the events and the mail); \<open>Web_Views\<close>
    (\<^verbatim>\<open>dto.rs\<close>), \<open>Web_Handlers\<close> (\<^verbatim>\<open>handlers.rs\<close>, \<^verbatim>\<open>social_handlers.rs\<close>: one definition per
    handler), \<open>Web_Routes\<close> (\<^verbatim>\<open>lib.rs\<close>: a constructor of \<open>request\<close> per route, \<open>respond\<close> the
    routing table, \<open>serve\<close> the layers around it). \<open>Web_Requests\<close> gives the command a
    request runs and what it may change, \<open>Web_Runs\<close> the runs of a server,
    \<open>Web_Routing\<close> the server of a federated node; \<open>Web_Properties\<close> and
    \<open>Startup_Properties\<close> state the contracts.
  \<^item> Start: \<open>Startup\<close> (\<^verbatim>\<open>democrachat/src/main.rs\<close> and the settings of \<^verbatim>\<open>federation.rs\<close>): an
    environment variable is an optional string, a start that gives up has its
    exit status.

  \<^bold>\<open>What the lemmas show.\<close> Of a node: the store invariant holds in every
  reachable state, references resolve, ids and standing are permanent; nobody is
  a citizen who was not a founder or admitted by the criteria and the rate cap;
  a charter moves only by a matured constitutional ballot; a vote is counted
  once, at the weight of its caster, and a ballot closes once and for good. Of a
  fleet: an event enters a replica exactly when the owner of the scope its
  payload derives signed it in the current epoch; a change of owner fences the
  previous one; applying the feed of an owner keeps the replica in sync with it;
  a forwarded command is run only where it belongs, by a known signer, and
  once within its freshness window. Of the web server: a request runs at most one use case,
  for the user of its session and nobody else, an error changes nothing, what a
  request writes is on disk when it is answered, but for the ballots a read
  resolves; a login lasts thirty days of the server's clock, which stands still
  without the development switch; and a dataset saved is the dataset loaded.

  \<^bold>\<open>Bounds and fuel.\<close> Identifiers are 64-bit words: 16 bits of node prefix above
  48 bits of counter; \<open>capacity\<close> bounds each counter below \<open>2 ^ 48\<close>, which a node
  that mints a million ids a second reaches in nine years. Sizes and weights
  keep their width where the code computes with them (saturating rate cap, u64
  tallies, wrapping jury weights). Clock instants are unbounded integers: an
  i64 of seconds. The reply tree recurses on the messages not yet placed and needs
  no more fuel than there are messages. The registry loops are bounded by the code
  itself (eight attempts of a compare-and-swap).

  \<^bold>\<open>Parameters.\<close> Code outside the repository is an argument of the definitions
  that use it: Ed25519 (hypothesis: a signature verifies under the key it was
  made with; unforgeability is never assumed, theorems speak of signatures that verify), the JSON text of a
  part or row (hypothesis: it parses back), HMAC-SHA256 and SHA-256, password
  hashing and sealing, the etcd client, the clock and random bytes. \<open>Fleet_Demo\<close> has an instance of
  each hypothesis, used by the witnesses.

  \<^bold>\<open>Reading the statements.\<close> A service call of the model happens at one node and
  between two calls: the store is one mutex in the code; a request
  of the web server is handled as a whole, though the code lets go of the
  mutex between a use case and the save. The registry is constant
  during one pull or one command of the model; the interleaving of several nodes at the
  registry is modelled where the code defends against it. The theorem on replicas is about the rows one owner emits
  between two pulls, in the order of its outbox.

  \<^bold>\<open>Not modelled.\<close> Sockets, timers and task spawning (axum, reqwest, tokio); the
  decoding and printing of JSON (serde), so a request arrives decoded; the
  websocket fan-out, the static assets and the constant security headers; media
  files on disk, whose blobs the model keeps in the store; the
  cryptographic constructions themselves (Argon2, AES-GCM, X25519, HKDF), whose
  results enter as parameters; the WebAssembly bindings, the SMTP client and the
  command-line front end, which only call third-party code or print. The trait
  declarations of \<^verbatim>\<open>app/src/ports\<close> are modelled by the store that implements them.
\<close>

section \<open>The franchise\<close>

lemma enfranchise_standing:
  assumes "tables_ok st" "get_membership (snd (try_enfranchise env h sl st)) uid sid = Some m'"
    "is_citizen m'" "\<And>m. get_membership st uid sid = Some m \<Longrightarrow> \<not> is_citizen m"
  shows "\<exists>u s m. find_by_handle st (trim h) = Some u \<and> u_id u = uid \<and>
    find_by_slug st (trim sl) = Some s \<and> s_id s = sid \<and> get_membership st uid sid = Some m \<and>
    meets_criteria u m (s_criteria s) (env_now env) \<and>
    enfranchisement_slots (citizen_count st sid)
      (admitted_since st sid (window_start (env_now env))) \<noteq> 0"
  using assms(2-4) get_ids(3) [OF assms(1)]
  by (auto simp: try_enfranchise_def Let_def get_membership_upsert is_eligible_iff
      split: option.splits if_splits)

lemma found_standing:
  assumes "store_ok st" "ids_ok st" "capacity st"
    "get_membership (snd (found_server_with_visibility env h nm priv st)) uid sid = Some m'"
    "is_citizen m'" "\<And>m. get_membership st uid sid = Some m \<Longrightarrow> \<not> is_citizen m"
  shows "\<exists>u s. find_by_handle st (trim h) = Some u \<and> u_id u = uid \<and> \<not> u_is_franchise_barred u \<and>
    get_server st sid = None \<and>
    get_server (snd (found_server_with_visibility env h nm priv st)) sid = Some s \<and>
    s_founder_id s = uid"
  using assms(4-6) fresh_server [OF assms(1-3)]
  by (auto simp: found_server_with_visibility_def Let_def split_beta get_membership_upsert
      get_server_insert split: option.splits if_splits)
     (auto simp: get_membership_def)

text \<open>C1. Citizenship is earned. A member becomes a citizen in one of two ways only: by
  founding a server nobody had before, or by an enfranchisement call that finds
  every criterion of the server met at that moment and a slot of the rate cap
  left. No other call makes a citizen.\<close>

theorem citizenship_is_earned:
  assumes "live st" "capacity st"
    and "get_membership (exec env cmd st) uid sid = Some m'" "is_citizen m'"
    and "\<And>m. get_membership st uid sid = Some m \<Longrightarrow> \<not> is_citizen m"
  shows "(\<exists>h nm priv u s. cmd = Cmd_found_server h nm priv \<and>
      find_by_handle st (trim h) = Some u \<and> u_id u = uid \<and> \<not> u_is_franchise_barred u \<and>
      get_server st sid = None \<and> get_server (exec env cmd st) sid = Some s \<and> s_founder_id s = uid) \<or>
    (\<exists>h sl u s m. cmd = Cmd_try_enfranchise h sl \<and>
      find_by_handle st (trim h) = Some u \<and> u_id u = uid \<and>
      find_by_slug st (trim sl) = Some s \<and> s_id s = sid \<and> get_membership st uid sid = Some m \<and>
      meets_criteria u m (s_criteria s) (env_now env) \<and>
      enfranchisement_slots (citizen_count st sid)
        (admitted_since st sid (window_start (env_now env))) \<noteq> 0)"
proof -
  note ok = live_ok [OF assms(1), THEN conjunct1] live_ok [OF assms(1), THEN conjunct2]
  consider (found) h nm priv where "cmd = Cmd_found_server h nm priv"
    | (enf) h sl where "cmd = Cmd_try_enfranchise h sl"
    | (other) "\<nexists>h nm priv. cmd = Cmd_found_server h nm priv" "\<nexists>h sl. cmd = Cmd_try_enfranchise h sl"
    by blast
  then show ?thesis
  proof cases
    case found
    then show ?thesis using found_standing [OF ok assms(2)] assms(3-5) by auto
  next
    case enf
    then show ?thesis using enfranchise_standing [OF store_ok_tables [OF ok(1)]] assms(3-5) by auto
  next
    case other
    then have kept: "standing_kept st (exec env cmd st)" by (rule exec_standing [OF ok(1)])
    show ?thesis
    proof (cases "get_membership st uid sid")
      case None
      then show ?thesis using standing_kept_new [OF kept None assms(3)] assms(4) by simp
    next
      case (Some m)
      then show ?thesis
        using standing_keptD [OF kept Some] assms(3-5)
        by (auto simp: same_standing_def is_citizen_def)
    qed
  qed
qed

theorem citizenship_is_earned_witness:
  "get_membership demo6 (UserId 2) (ServerId 1) = Some bob_citizen \<and>
   meets_criteria bob bob_in_town (s_criteria town) (Timestamp 2592000)"
proof -
  have m: "get_membership demo6 (UserId 2) (ServerId 1) = Some bob_citizen"
      "get_membership demo5 (UserId 2) (ServerId 1) = Some bob_in_town"
    by (simp_all add: get_membership_def hm_get_def)
  have f: "find_by_handle demo5 (trim ''bob'') = Some bob" "find_by_slug demo5 (trim ''town'') = Some town"
    by (simp_all add: find_by_handle_def find_by_slug_def hm_values_def)
  from citizenship_is_earned [OF demo_live(5) demo_capacity(2) m(1) [unfolded demo6_def]] m f
  show ?thesis by (auto simp: is_citizen_def)
qed


text \<open>C7. Standing is permanent. Over any run of calls a membership is never removed,
  a citizen stays a citizen, the day of joining stays, and a sanction is never
  lifted.\<close>

theorem standing_is_permanent:
  assumes "live st" "evolves st st'" "get_membership st uid sid = Some m"
  shows "\<exists>m'. get_membership st' uid sid = Some m' \<and> m_joined_at m' = m_joined_at m \<and>
    (is_citizen m \<longrightarrow> is_citizen m') \<and> (m_is_sanctioned m \<longrightarrow> m_is_sanctioned m')"
  using evolves_standing [OF assms(2,1,3)] by (simp add: standing_le_def)

theorem standing_is_permanent_witness:
  "\<exists>m'. get_membership demo5 (UserId 1) (ServerId 1) = Some m' \<and> is_citizen m'"
proof -
  have "evolves demo4 demo5"
    unfolding demo5_def by (rule evolves_call [OF evolves_refl demo_capacity(1)])
  moreover have "get_membership demo4 (UserId 1) (ServerId 1) = Some ann_in_town"
    by (simp add: get_membership_def hm_get_def)
  ultimately show ?thesis
    using standing_is_permanent [OF demo_live(4)] by (fastforce simp: is_citizen_def)
qed

section \<open>The store\<close>





text \<open>Accounts keep their identity. Over any run an account keeps its id, handle,
  creation date and franchise bar, and a server its id, slug, name, founder and
  visibility: no call overwrites or renames either.\<close>

theorem identities_are_kept:
  assumes "live st" "evolves st st'"
  shows "(\<forall>uid u. get_user st uid = Some u \<longrightarrow>
      (\<exists>u'. get_user st' uid = Some u' \<and> u_id u' = u_id u \<and> u_handle u' = u_handle u \<and>
        u_created_at u' = u_created_at u \<and> u_is_franchise_barred u' = u_is_franchise_barred u)) \<and>
    (\<forall>sid s. get_server st sid = Some s \<longrightarrow>
      (\<exists>s'. get_server st' sid = Some s' \<and> s_id s' = s_id s \<and> s_slug s' = s_slug s \<and>
        s_name s' = s_name s \<and> s_founder_id s' = s_founder_id s \<and> s_is_private s' = s_is_private s))"
proof
  show "\<forall>uid u. get_user st uid = Some u \<longrightarrow>
      (\<exists>u'. get_user st' uid = Some u' \<and> u_id u' = u_id u \<and> u_handle u' = u_handle u \<and>
        u_created_at u' = u_created_at u \<and> u_is_franchise_barred u' = u_is_franchise_barred u)"
    using evolves_kept(1) [OF assms(2,1)] unfolding accounts_kept_def same_account_def .
  show "\<forall>sid s. get_server st sid = Some s \<longrightarrow>
      (\<exists>s'. get_server st' sid = Some s' \<and> s_id s' = s_id s \<and> s_slug s' = s_slug s \<and>
        s_name s' = s_name s \<and> s_founder_id s' = s_founder_id s \<and> s_is_private s' = s_is_private s)"
    using evolves_kept(2) [OF assms(2,1)] unfolding servers_kept_def same_server_def by blast
qed

theorem identities_are_kept_witness:
  "\<exists>u'. get_user demo5 (UserId 2) = Some u' \<and> u_handle u' = ''bob''"
proof -
  have ev: "evolves demo4 demo5"
    unfolding demo5_def by (rule evolves_call [OF evolves_refl demo_capacity(1)])
  have "get_user demo4 (UserId 2) = Some bob" by (simp add: get_user_def hm_get_def)
  with identities_are_kept [OF demo_live(4) ev] show ?thesis by fastforce
qed

section \<open>Ballots\<close>



end
